(* ===== verification/Punch_Prelude.thy ===== *)
theory Punch_Prelude
  imports Main "HOL-Library.Word" "HOL-Library.AList"
begin

text \<open>
  The vocabulary the component theories share: Go errors as values, byte slices, Go maps as
  association lists with distinct keys, the little-endian 16-bit codec of
  \<^verbatim>\<open>encoding/binary\<close>, and the functions of Go's \<^verbatim>\<open>strings\<close> and \<^verbatim>\<open>strconv\<close> packages that
  the sources call.  Everything here is standard-library behaviour or a generic lemma; the
  definitions that translate the repository live in the component theories.
\<close>

section \<open>Collections of rewrite rules\<close>

named_theorems go_slice \<open>bounds and contents of slice expressions\<close>
named_theorems go_map \<open>lookups in updated Go maps\<close>

section \<open>Errors as values\<close>

text \<open>
  A Go \<^verbatim>\<open>error\<close> is either one of the sentinels of the \<^verbatim>\<open>io\<close> package, a message made by
  \<^verbatim>\<open>fmt.Errorf\<close> or \<^verbatim>\<open>errors.New\<close>, a message wrapping another error, an error that came
  out of the environment (an operating system call, a third-party library), or a run-time
  panic of the goroutine.
\<close>

datatype error =
    ErrClosedPipe
  | ErrShortBuffer
  | EOF
  | Errorf string
  | Wrapf string error
  | EnvErr string
  | Panic string

text \<open>The range of \<^verbatim>\<open>int\<close> and \<^verbatim>\<open>int64\<close> on a 64-bit machine.\<close>

definition int64 :: "int \<Rightarrow> bool" where "int64 v \<longleftrightarrow> - (2 ^ 63) \<le> v \<and> v < 2 ^ 63"

text \<open>Wrapping an error; a panic passes through.\<close>

definition annotate :: "(error \<Rightarrow> error) \<Rightarrow> error \<Rightarrow> error" where
  "annotate f err = (case err of Panic m \<Rightarrow> Panic m | _ \<Rightarrow> f err)"

section \<open>Bytes and slices\<close>

type_synonym byte = "8 word"
type_synonym bytes = "byte list"
type_synonym u16 = "16 word"
type_synonym u32 = "32 word"

text \<open>Conversions between Go's \<^verbatim>\<open>string\<close> and \<^verbatim>\<open>[]byte\<close>.\<close>

definition byte_of_char :: "char \<Rightarrow> byte" where
  "byte_of_char c = word_of_nat (of_char c)"

definition char_of_byte :: "byte \<Rightarrow> char" where
  "char_of_byte b = char_of (unat b)"

definition to_bytes :: "string \<Rightarrow> bytes" where
  "to_bytes s = map byte_of_char s"

definition of_bytes :: "bytes \<Rightarrow> string" where
  "of_bytes bs = map char_of_byte bs"

lemma char_of_byte_of_char [simp]: "char_of_byte (byte_of_char c) = c"
proof -
  have "(of_char c :: nat) < 256" by simp
  then show ?thesis
    by (simp add: char_of_byte_def byte_of_char_def unat_of_nat take_bit_eq_mod)
qed

lemma of_bytes_to_bytes [simp]: "of_bytes (to_bytes s) = s"
  by (simp add: of_bytes_def to_bytes_def comp_def)

lemma length_to_bytes [simp]: "length (to_bytes s) = length s"
  by (simp add: to_bytes_def)

lemma length_of_bytes [simp]: "length (of_bytes s) = length s"
  by (simp add: of_bytes_def)

text \<open>
  \<^verbatim>\<open>copy(buf[off:], src)\<close> into a buffer that is long enough: the bytes of \<open>src\<close> replace
  those at \<open>off\<close>, and everything else (the stale content of a pooled buffer) stays.
  \<^verbatim>\<open>subslice lo hi buf\<close> is \<^verbatim>\<open>buf[lo:hi]\<close>.
\<close>

definition copy_at :: "nat \<Rightarrow> 'a list \<Rightarrow> 'a list \<Rightarrow> 'a list" where
  "copy_at off src buf =
     (let k = min (length src) (length buf - off)
      in take off buf @ take k src @ drop (off + k) buf)"

definition subslice :: "nat \<Rightarrow> nat \<Rightarrow> 'a list \<Rightarrow> 'a list" where
  "subslice lo hi buf = take (hi - lo) (drop lo buf)"

lemma length_copy_at [simp, go_slice]:
  "off \<le> length buf \<Longrightarrow> length (copy_at off src buf) = length buf"
  by (auto simp: copy_at_def Let_def)

lemma length_subslice [simp, go_slice]:
  "hi \<le> length buf \<Longrightarrow> lo \<le> hi \<Longrightarrow> length (subslice lo hi buf) = hi - lo"
  by (simp add: subslice_def)

lemma copy_at_fits:
  "off + length src \<le> length buf \<Longrightarrow>
   copy_at off src buf = take off buf @ src @ drop (off + length src) buf"
  by (simp add: copy_at_def Let_def)

lemma take_copy_at_end [go_slice]:
  "off + length src \<le> length buf \<Longrightarrow>
   take (off + length src) (copy_at off src buf) = take off buf @ src"
  by (simp add: copy_at_fits)

lemma subslice_copy_at_same [simp, go_slice]:
  "off + length src \<le> length buf \<Longrightarrow> n = off + length src \<Longrightarrow>
   subslice off n (copy_at off src buf) = src"
  by (simp add: copy_at_fits subslice_def)

lemma take_copy_at_before [go_slice]:
  "n \<le> off \<Longrightarrow> off \<le> length buf \<Longrightarrow> take n (copy_at off src buf) = take n buf"
  by (simp add: copy_at_def Let_def)

lemma subslice_copy_at_before [simp, go_slice]:
  assumes "hi \<le> off" and "off \<le> length buf"
  shows "subslice lo hi (copy_at off src buf) = subslice lo hi buf"
proof -
  have "take hi (copy_at off src buf) = take hi buf"
    using assms by (rule take_copy_at_before)
  then show ?thesis
    by (metis drop_take subslice_def)
qed

section \<open>Little-endian 16-bit integers\<close>

definition PutUint16 :: "u16 \<Rightarrow> bytes" where
  "PutUint16 v = [ucast v, ucast (drop_bit 8 v)]"

definition Uint16 :: "bytes \<Rightarrow> u16" where
  "Uint16 bs = ucast (bs ! 0) + push_bit 8 (ucast (bs ! 1))"

lemma length_PutUint16 [simp]: "length (PutUint16 v) = 2"
  by (simp add: PutUint16_def)

lemma Uint16_PutUint16 [simp]: "Uint16 (PutUint16 v) = v"
proof -
  have "ucast (ucast v :: byte) + push_bit 8 (ucast (ucast (drop_bit 8 v) :: byte)) =
        or (ucast (ucast v :: byte)) (push_bit 8 (ucast (ucast (drop_bit 8 v) :: byte)) :: u16)"
    by (rule disjunctive_add) (auto simp: bit_simps)
  also have "\<dots> = v"
    by (rule bit_word_eqI) (auto simp: bit_simps)
  finally show ?thesis by (simp add: Uint16_def PutUint16_def)
qed

lemma Uint16_append [simp]: "length h = 2 \<Longrightarrow> Uint16 (h @ t) = Uint16 h"
  by (simp add: Uint16_def nth_append)

section \<open>Go maps\<close>

text \<open>
  A Go map is an association list whose keys are distinct: the iteration order of a Go map is
  unspecified, so no theorem may depend on the order of the list, and \<^verbatim>\<open>len(m)\<close> is the
  length of the list.
\<close>

type_synonym ('k, 'v) gomap = "('k \<times> 'v) list"

definition gm_wf :: "('k, 'v) gomap \<Rightarrow> bool" where
  "gm_wf m \<longleftrightarrow> distinct (map fst m)"

abbreviation gm_get :: "('k, 'v) gomap \<Rightarrow> 'k \<Rightarrow> 'v option" where
  "gm_get m k \<equiv> map_of m k"

abbreviation gm_put :: "'k \<Rightarrow> 'v \<Rightarrow> ('k, 'v) gomap \<Rightarrow> ('k, 'v) gomap" where
  "gm_put k v m \<equiv> AList.update k v m"

abbreviation gm_del :: "'k \<Rightarrow> ('k, 'v) gomap \<Rightarrow> ('k, 'v) gomap" where
  "gm_del k m \<equiv> AList.delete k m"

abbreviation gm_vals :: "('k, 'v) gomap \<Rightarrow> 'v list" where
  "gm_vals m \<equiv> map snd m"

lemma gm_get_put [simp, go_map]: "gm_get (gm_put k v m) k' = (if k' = k then Some v else gm_get m k')"
  by (simp add: update_conv')

lemma gm_get_del [simp, go_map]: "gm_get (gm_del k m) k' = (if k' = k then None else gm_get m k')"
  by (simp add: delete_conv')

lemma gm_wf_empty [simp]: "gm_wf []"
  by (simp add: gm_wf_def)

lemma gm_wf_put [simp]: "gm_wf m \<Longrightarrow> gm_wf (gm_put k v m)"
  by (simp add: gm_wf_def distinct_update)

lemma gm_wf_del [simp]: "gm_wf m \<Longrightarrow> gm_wf (gm_del k m)"
  by (simp add: gm_wf_def distinct_delete)

lemma gm_get_vals: "gm_get m k = Some v \<Longrightarrow> v \<in> set (gm_vals m)"
  by (force dest: map_of_SomeD)

lemma gm_vals_get: "gm_wf m \<Longrightarrow> v \<in> set (gm_vals m) \<Longrightarrow> \<exists>k. gm_get m k = Some v"
  by (auto simp: gm_wf_def intro: map_of_is_SomeI)

lemma gm_len_put_fresh: "gm_get m k = None \<Longrightarrow> length (gm_put k v m) = Suc (length m)"
  by (induction m) auto

lemma gm_keys_put: "fst ` set (gm_put k v m) = insert k (fst ` set m)"
  by (simp add: dom_update)

lemma gm_keys_del: "fst ` set (gm_del k m) = fst ` set m - {k}"
  by (metis delete_keys list.set_map set_removeAll)

section \<open>Go strings\<close>

abbreviation NL :: char where "NL \<equiv> CHR 0x0A"
abbreviation space_chars :: "char list" where
  "space_chars \<equiv> [CHR 0x09, CHR 0x0A, CHR 0x0B, CHR 0x0C, CHR 0x0D, CHR 0x20]"

fun HasPrefix :: "string \<Rightarrow> string \<Rightarrow> bool" where
  "HasPrefix s [] = True"
| "HasPrefix [] (p # ps) = False"
| "HasPrefix (c # cs) (p # ps) = (c = p \<and> HasPrefix cs ps)"

definition TrimPrefix :: "string \<Rightarrow> string \<Rightarrow> string" where
  "TrimPrefix s p = (if HasPrefix s p then drop (length p) s else s)"

text \<open>\<^verbatim>\<open>strings.TrimSpace\<close> on ASCII text.\<close>

definition TrimSpace :: "string \<Rightarrow> string" where
  "TrimSpace s = rev (dropWhile (\<lambda>c. c \<in> set space_chars) (rev (dropWhile (\<lambda>c. c \<in> set space_chars) s)))"

text \<open>\<^verbatim>\<open>strings.Split\<close> with a one-byte separator: always at least one piece.\<close>

fun Split :: "char \<Rightarrow> string \<Rightarrow> string list" where
  "Split sep [] = [[]]"
| "Split sep (c # cs) =
     (if c = sep then [] # Split sep cs
      else (case Split sep cs of [] \<Rightarrow> [[c]] | w # ws \<Rightarrow> (c # w) # ws))"

text \<open>\<^verbatim>\<open>strings.TrimSuffix\<close>, \<^verbatim>\<open>strings.Fields\<close> and \<^verbatim>\<open>strings.Contains\<close>.\<close>

definition TrimSuffix :: "string \<Rightarrow> string \<Rightarrow> string" where
  "TrimSuffix s x =
     (if length x \<le> length s \<and> drop (length s - length x) s = x then take (length s - length x) s else s)"

definition is_space :: "char \<Rightarrow> bool" where "is_space c \<longleftrightarrow> c \<in> set space_chars"

fun fields_loop :: "string \<Rightarrow> string \<Rightarrow> string list" where
  "fields_loop w [] = (if w = [] then [] else [w])"
| "fields_loop w (c # cs) =
     (if is_space c then (if w = [] then fields_loop [] cs else w # fields_loop [] cs)
      else fields_loop (w @ [c]) cs)"

definition Fields :: "string \<Rightarrow> string list" where "Fields s = fields_loop [] s"

fun Contains :: "string \<Rightarrow> string \<Rightarrow> bool" where
  "Contains [] sub = (sub = [])"
| "Contains (c # cs) sub = (HasPrefix (c # cs) sub \<or> Contains cs sub)"

fun Join :: "string \<Rightarrow> string list \<Rightarrow> string" where
  "Join sep [] = []"
| "Join sep [w] = w"
| "Join sep (w # ws) = w @ sep @ Join sep ws"

lemma Join_Cons [simp]: "ws \<noteq> [] \<Longrightarrow> Join sep (w # ws) = w @ sep @ Join sep ws"
  by (cases ws) auto

lemma HasPrefix_iff: "HasPrefix s p \<longleftrightarrow> (\<exists>t. s = p @ t)"
  by (induction s p rule: HasPrefix.induct) auto

lemma HasPrefix_append [simp]: "HasPrefix (p @ s) p"
  by (auto simp: HasPrefix_iff)

lemma TrimPrefix_append [simp]: "TrimPrefix (p @ s) p = s"
  by (simp add: TrimPrefix_def)

lemma TrimSuffix_append [simp]: "TrimSuffix (p @ x) x = p"
  by (simp add: TrimSuffix_def)

lemma fields_loop_word: "\<forall>c\<in>set s. \<not> is_space c \<Longrightarrow> fields_loop w s = (if w @ s = [] then [] else [w @ s])"
  by (induction w s rule: fields_loop.induct) auto

lemma Fields_word: "\<forall>c\<in>set s. \<not> is_space c \<Longrightarrow> s \<noteq> [] \<Longrightarrow> Fields s = [s]"
  by (simp add: Fields_def fields_loop_word)

lemma Split_nonempty [simp]: "Split sep s \<noteq> []"
  by (induction s) (auto split: list.splits)

lemma Split_no_sep: "sep \<notin> set s \<Longrightarrow> Split sep s = [s]"
  by (induction s) auto

lemma Split_append_sep: "sep \<notin> set s \<Longrightarrow> Split sep (s @ sep # t) = s # Split sep t"
  by (induction s) auto

lemma Split_pieces: "w \<in> set (Split sep s) \<Longrightarrow> sep \<notin> set w"
  by (induction s arbitrary: w) (auto split: if_splits list.splits)

lemma Split_Join: "ws \<noteq> [] \<Longrightarrow> \<forall>w\<in>set ws. sep \<notin> set w \<Longrightarrow> Split sep (Join [sep] ws) = ws"
  by (induction "[sep]" ws rule: Join.induct) (auto simp: Split_no_sep Split_append_sep)

section \<open>Decimal and hexadecimal text\<close>

definition digit_char :: "nat \<Rightarrow> char" where
  "digit_char d = (if d < 10 then char_of (48 + d) else char_of (87 + d))"

definition char_digit :: "char \<Rightarrow> nat" where
  "char_digit c = of_char c - 48"

abbreviation is_digit :: "char \<Rightarrow> bool" where
  "is_digit c \<equiv> 48 \<le> (of_char c :: nat) \<and> (of_char c :: nat) \<le> 57"

fun decimal :: "nat \<Rightarrow> string" where
  "decimal n = (if n < 10 then [digit_char n] else decimal (n div 10) @ [digit_char (n mod 10)])"

declare decimal.simps [simp del]

definition Itoa :: "int \<Rightarrow> string" where
  "Itoa i = (if i < 0 then ''-'' @ decimal (nat (- i)) else decimal (nat i))"

text \<open>\<^verbatim>\<open>encoding/hex.EncodeToString\<close>: two lower-case digits per byte.\<close>

definition hex_byte :: "byte \<Rightarrow> string" where
  "hex_byte b = [digit_char (unat b div 16), digit_char (unat b mod 16)]"

definition EncodeToString :: "bytes \<Rightarrow> string" where
  "EncodeToString bs = concat (map hex_byte bs)"

lemma digit_char_digit [simp]: "d < 10 \<Longrightarrow> is_digit (digit_char d) \<and> char_digit (digit_char d) = d"
  by (auto simp: digit_char_def char_digit_def)

lemma of_char_digit_char: "d < 16 \<Longrightarrow> of_char (digit_char d) = (if d < 10 then 48 + d else 87 + d)"
  by (auto simp: digit_char_def)

lemma digit_char_inj:
  assumes "d < 16" and "e < 16" and "digit_char d = digit_char e"
  shows "d = e"
proof -
  have "(if d < 10 then 48 + d else 87 + d) = (if e < 10 then 48 + e else 87 + e)"
    using assms(3) of_char_digit_char [OF assms(1)] of_char_digit_char [OF assms(2)] by metis
  with assms(1,2) show ?thesis by (simp split: if_splits)
qed

lemma decimal_nonempty [simp]: "decimal n \<noteq> []"
  by (subst decimal.simps) simp

lemma decimal_digits: "\<forall>c\<in>set (decimal n). is_digit c"
proof (induction n rule: decimal.induct)
  case (1 n)
  then show ?case
    by (cases "n < 10") (auto simp: decimal.simps [of n])
qed

lemma hex_byte_inj: "hex_byte a = hex_byte b \<Longrightarrow> a = b"
proof -
  assume h: "hex_byte a = hex_byte b"
  have lt: "unat x div 16 < 16" for x :: byte
    using unsigned_less [of x, where ?'a = nat] by simp
  from h have "unat a div 16 = unat b div 16" and "unat a mod 16 = unat b mod 16"
    by (auto simp: hex_byte_def intro: digit_char_inj lt)
  then have "unat a = unat b"
    by (metis div_mult_mod_eq)
  then show ?thesis by (simp add: word_unat_eq_iff)
qed

lemma EncodeToString_inj:
  "length xs = length ys \<Longrightarrow> EncodeToString xs = EncodeToString ys \<Longrightarrow> xs = ys"
proof (induction xs ys rule: list_induct2)
  case Nil
  then show ?case by simp
next
  case (Cons x xs y ys)
  then have "hex_byte x = hex_byte y" and "EncodeToString xs = EncodeToString ys"
    by (auto simp: EncodeToString_def hex_byte_def)
  with Cons.IH show ?case by (simp add: hex_byte_inj)
qed

end
