(* ===== verification/Net_Addr.thy ===== *)
theory Net_Addr
  imports Punch_Prelude
begin

text \<open>
  The part of Go's \<^verbatim>\<open>net\<close> package the sources rely on: IP addresses as byte slices, the
  classification predicates, the textual form (\<^verbatim>\<open>IP.String\<close>, \<^verbatim>\<open>ParseIP\<close>), UDP addresses,
  and \<^verbatim>\<open>SplitHostPort\<close>/\<^verbatim>\<open>JoinHostPort\<close>.  The theory ends with the round trip of the
  textual form for every IPv4 and IPv6 address, which the packet codec of the muxed
  connection needs.
\<close>

unbundle bit_operations_syntax

section \<open>IP addresses\<close>

text \<open>A \<^verbatim>\<open>net.IP\<close> is a byte slice; \<^verbatim>\<open>nil\<close> is the empty one.\<close>

type_synonym IP = bytes

definition v4InV6Prefix :: bytes where
  "v4InV6Prefix = [0, 0, 0, 0, 0, 0, 0, 0, 0, 0, 0xff, 0xff]"

definition To4 :: "IP \<Rightarrow> IP option" where
  "To4 ip = (if length ip = 4 then Some ip
             else if length ip = 16 \<and> take 12 ip = v4InV6Prefix then Some (drop 12 ip)
             else None)"

definition To16 :: "IP \<Rightarrow> IP option" where
  "To16 ip = (if length ip = 4 then Some (v4InV6Prefix @ ip)
              else if length ip = 16 then Some ip else None)"

definition IPv4zero :: IP where "IPv4zero = v4InV6Prefix @ [0, 0, 0, 0]"
definition IPv6unspecified :: IP where "IPv6unspecified = replicate 16 0"
definition IPv6loopback :: IP where "IPv6loopback = replicate 15 0 @ [1]"

definition IP_Equal :: "IP \<Rightarrow> IP \<Rightarrow> bool" where
  "IP_Equal a b \<longleftrightarrow> a = b
     \<or> (length a = 4 \<and> length b = 16 \<and> b = v4InV6Prefix @ a)
     \<or> (length a = 16 \<and> length b = 4 \<and> a = v4InV6Prefix @ b)"

definition IsUnspecified :: "IP \<Rightarrow> bool" where
  "IsUnspecified ip \<longleftrightarrow> IP_Equal ip IPv4zero \<or> IP_Equal ip IPv6unspecified"

definition IsLoopback :: "IP \<Rightarrow> bool" where
  "IsLoopback ip = (case To4 ip of Some ip4 \<Rightarrow> ip4 ! 0 = 127 | None \<Rightarrow> IP_Equal ip IPv6loopback)"

definition IsLinkLocalUnicast :: "IP \<Rightarrow> bool" where
  "IsLinkLocalUnicast ip =
     (case To4 ip of
        Some ip4 \<Rightarrow> ip4 ! 0 = 169 \<and> ip4 ! 1 = 254
      | None \<Rightarrow> length ip = 16 \<and> ip ! 0 = 0xfe \<and> ip ! 1 AND 0xc0 = 0x80)"

definition IsLinkLocalMulticast :: "IP \<Rightarrow> bool" where
  "IsLinkLocalMulticast ip =
     (case To4 ip of
        Some ip4 \<Rightarrow> ip4 ! 0 = 224 \<and> ip4 ! 1 = 0 \<and> ip4 ! 2 = 0
      | None \<Rightarrow> length ip = 16 \<and> ip ! 0 = 0xff \<and> ip ! 1 AND 0x0f = 0x02)"

section \<open>Textual form\<close>

definition dotted :: "IP \<Rightarrow> string" where
  "dotted ip = Join ''.'' (map (\<lambda>b. decimal (unat b)) ip)"

fun v6groups :: "IP \<Rightarrow> nat list" where
  "v6groups (a # b # r) = (unat a * 256 + unat b) # v6groups r"
| "v6groups _ = []"

fun hexnum :: "nat \<Rightarrow> string" where
  "hexnum n = (if n < 16 then [digit_char n] else hexnum (n div 16) @ [digit_char (n mod 16)])"

declare hexnum.simps [simp del]

definition zero_run :: "nat list \<Rightarrow> nat \<Rightarrow> nat" where
  "zero_run gs i = length (takeWhile (\<lambda>g. g = 0) (drop i gs))"

definition better_run :: "nat list \<Rightarrow> nat \<Rightarrow> (nat \<times> nat) option \<Rightarrow> (nat \<times> nat) option" where
  "better_run gs i best =
     (let l = zero_run gs i
      in if 2 \<le> l \<and> (case best of None \<Rightarrow> True | Some (s, e) \<Rightarrow> e - s < l)
         then Some (i, i + l) else best)"

definition zero_range :: "nat list \<Rightarrow> (nat \<times> nat) option" where
  "zero_range gs = fold (better_run gs) [0..<8] None"

abbreviation colon_hex :: "nat list \<Rightarrow> string" where
  "colon_hex gs \<equiv> Join '':'' (map hexnum gs)"

definition v6string :: "IP \<Rightarrow> string" where
  "v6string ip =
     (let gs = v6groups ip
      in case zero_range gs of
           None \<Rightarrow> colon_hex gs
         | Some (s, e) \<Rightarrow> colon_hex (take s gs) @ ''::'' @ colon_hex (drop e gs))"

definition IP_String :: "IP \<Rightarrow> string" where
  "IP_String ip =
     (if ip = [] then ''<nil>''
      else if length ip \<noteq> 4 \<and> length ip \<noteq> 16 then ''?'' @ EncodeToString ip
      else case To4 ip of Some ip4 \<Rightarrow> dotted ip4 | None \<Rightarrow> v6string ip)"

definition IP_MarshalText :: "IP \<Rightarrow> error + string" where
  "IP_MarshalText ip =
     (if ip = [] then Inr ''''
      else if length ip \<noteq> 4 \<and> length ip \<noteq> 16 then Inl (Errorf ''invalid IP address'')
      else Inr (IP_String ip))"

section \<open>Parsing\<close>

definition dec_val :: "string \<Rightarrow> nat" where
  "dec_val w = foldl (\<lambda>a c. a * 10 + char_digit c) 0 w"

definition parse_octet :: "string \<Rightarrow> byte option" where
  "parse_octet w =
     (if w = [] \<or> \<not> list_all is_digit w \<or> (1 < length w \<and> hd w = CHR ''0'') then None
      else let v = dec_val w in if v \<le> 255 then Some (word_of_nat v) else None)"

fun all_some :: "'a option list \<Rightarrow> 'a list option" where
  "all_some [] = Some []"
| "all_some (None # _) = None"
| "all_some (Some x # xs) = map_option ((#) x) (all_some xs)"

definition parseIPv4 :: "string \<Rightarrow> IP option" where
  "parseIPv4 s =
     (let ws = Split (CHR ''.'') s
      in if length ws = 4 then all_some (map parse_octet ws) else None)"

text \<open>\<^verbatim>\<open>strconv.Atoi\<close> on a 64-bit machine.\<close>

definition Atoi :: "string \<Rightarrow> error + int" where
  "Atoi s =
     (let (neg, ds) = (case s of c # r \<Rightarrow> if c = CHR ''-'' then (True, r) else if c = CHR ''+'' then (False, r)
                                          else (False, s) | [] \<Rightarrow> (False, s))
      in if ds = [] \<or> \<not> list_all is_digit ds then Inl (Errorf (''strconv.Atoi: parsing '' @ s))
         else let v = (if neg then - int (dec_val ds) else int (dec_val ds))
              in if - (2 ^ 63) \<le> v \<and> v < 2 ^ 63 then Inr v
                 else Inl (Errorf (''strconv.Atoi: parsing '' @ s @ '': value out of range'')))"

definition hex_digit :: "char \<Rightarrow> nat option" where
  "hex_digit c =
     (let n = of_char c :: nat
      in if 48 \<le> n \<and> n \<le> 57 then Some (n - 48)
         else if 97 \<le> n \<and> n \<le> 102 then Some (n - 87)
         else if 65 \<le> n \<and> n \<le> 70 then Some (n - 55)
         else None)"

definition is_hex :: "char \<Rightarrow> bool" where
  "is_hex c \<longleftrightarrow> hex_digit c \<noteq> None"

definition hex_val :: "string \<Rightarrow> nat" where
  "hex_val w = foldl (\<lambda>a c. a * 16 + the (hex_digit c)) 0 w"

definition groups_of :: "IP \<Rightarrow> nat list" where
  "groups_of ip4 = v6groups ip4"

text \<open>
  The loop of \<^verbatim>\<open>netip.parseIPv6\<close>: the groups read so far and the position of the ellipsis,
  with \<open>k\<close> the number of 16-bit groups still free.
\<close>

fun parseIPv6_loop ::
  "nat \<Rightarrow> string \<Rightarrow> nat list \<Rightarrow> nat option \<Rightarrow> (nat list \<times> nat option \<times> string) option" where
  "parseIPv6_loop 0 s gs el = Some (gs, el, s)"
| "parseIPv6_loop (Suc k) s gs el =
     (let ds = takeWhile is_hex s; rest = dropWhile is_hex s
      in if ds = [] \<or> 4 < length ds then None
         else if rest \<noteq> [] \<and> hd rest = CHR ''.''
         then (if (el = None \<and> length gs \<noteq> 6) \<or> k = 0 then None
               else case parseIPv4 s of
                      None \<Rightarrow> None
                    | Some ip4 \<Rightarrow> Some (gs @ groups_of ip4, el, []))
         else let gs' = gs @ [hex_val ds]
              in case rest of
                   [] \<Rightarrow> Some (gs', el, [])
                 | c # r \<Rightarrow>
                     (if c \<noteq> CHR '':'' \<or> r = [] then None
                      else if hd r = CHR '':''
                      then (if el \<noteq> None then None
                            else if tl r = [] then Some (gs', Some (length gs'), [])
                            else parseIPv6_loop k (tl r) gs' (Some (length gs')))
                      else parseIPv6_loop k r gs' el))"

definition group_bytes :: "nat \<Rightarrow> bytes" where
  "group_bytes g = [word_of_nat (g div 256), word_of_nat (g mod 256)]"

definition groups_bytes :: "nat list \<Rightarrow> IP" where
  "groups_bytes gs = concat (map group_bytes gs)"

definition expand_ellipsis :: "nat list \<times> nat option \<times> string \<Rightarrow> IP option" where
  "expand_ellipsis = (\<lambda>(gs, el, s).
     if s \<noteq> [] then None
     else if length gs < 8
     then (case el of
             None \<Rightarrow> None
           | Some e \<Rightarrow> Some (groups_bytes (take e gs @ replicate (8 - length gs) 0 @ drop e gs)))
     else if el \<noteq> None then None
     else Some (groups_bytes gs))"

definition parseIPv6 :: "string \<Rightarrow> IP option" where
  "parseIPv6 s =
     (if HasPrefix s ''::''
      then (if drop 2 s = [] then Some (replicate 16 0)
            else Option.bind (parseIPv6_loop 8 (drop 2 s) [] (Some 0)) expand_ellipsis)
      else Option.bind (parseIPv6_loop 8 s [] None) expand_ellipsis)"

text \<open>
  \<^verbatim>\<open>netip.ParseAddr\<close> dispatches on the first of the characters \<^verbatim>\<open>.\<close>, \<^verbatim>\<open>:\<close>, \<^verbatim>\<open>%\<close>;
  \<^verbatim>\<open>net.ParseIP\<close> refuses an address with a zone and always returns the 16-byte form.
\<close>

definition ParseIP :: "string \<Rightarrow> IP option" where
  "ParseIP s =
     (if CHR ''%'' \<in> set s then None
      else case dropWhile (\<lambda>c. c \<noteq> CHR ''.'' \<and> c \<noteq> CHR '':'') s of
             [] \<Rightarrow> None
           | c # _ \<Rightarrow> (if c = CHR ''.'' then Option.bind (parseIPv4 s) To16 else parseIPv6 s))"

definition IP_UnmarshalText :: "string \<Rightarrow> error + IP" where
  "IP_UnmarshalText s =
     (if s = [] then Inr []
      else case ParseIP s of None \<Rightarrow> Inl (Errorf ''invalid IP address'') | Some ip \<Rightarrow> Inr ip)"

text \<open>\<^verbatim>\<open>netip.ParseAddr\<close>: like \<^verbatim>\<open>ParseIP\<close>, but an IPv6 address may carry a zone.\<close>

datatype netipAddr = Addr4 bytes | Addr6 bytes string

definition netip_ParseAddr :: "string \<Rightarrow> error + netipAddr" where
  "netip_ParseAddr s =
     (case dropWhile (\<lambda>c. c \<noteq> CHR ''.'' \<and> c \<noteq> CHR '':'' \<and> c \<noteq> CHR ''%'') s of
        [] \<Rightarrow> Inl (Errorf ''unable to parse IP'')
      | c # _ \<Rightarrow>
          if c = CHR ''.''
          then (case parseIPv4 s of None \<Rightarrow> Inl (Errorf ''invalid IPv4'') | Some b \<Rightarrow> Inr (Addr4 b))
          else if c = CHR '':''
          then (let h = takeWhile (\<lambda>x. x \<noteq> CHR ''%'') s; z = dropWhile (\<lambda>x. x \<noteq> CHR ''%'') s
                in if z \<noteq> [] \<and> tl z = [] then Inl (Errorf ''zone must be a non-empty string'')
                   else case parseIPv6 h of
                          None \<Rightarrow> Inl (Errorf ''invalid IPv6'')
                        | Some b \<Rightarrow> Inr (Addr6 b (tl z)))
          else Inl (Errorf ''missing IPv6 address''))"

section \<open>UDP addresses\<close>

record UDPAddr =
  IP :: IP
  Port :: int
  Zone :: string

text \<open>
  A \<^verbatim>\<open>net.Addr\<close> is an interface value; the sources distinguish the dynamic type
  \<^verbatim>\<open>*net.UDPAddr\<close> from every other one, of which they use only the \<^verbatim>\<open>String\<close> method.
\<close>

datatype Addr = UDP UDPAddr | OtherAddr string

definition JoinHostPort :: "string \<Rightarrow> string \<Rightarrow> string" where
  "JoinHostPort host port =
     (if CHR '':'' \<in> set host then ''['' @ host @ '']:'' @ port else host @ '':'' @ port)"

definition UDPAddr_String :: "UDPAddr \<Rightarrow> string" where
  "UDPAddr_String a =
     (let ip = (if IP a = [] then '''' else IP_String (IP a))
      in if Zone a \<noteq> '''' then JoinHostPort (ip @ ''%'' @ Zone a) (Itoa (Port a))
         else JoinHostPort ip (Itoa (Port a)))"

fun Addr_String :: "Addr \<Rightarrow> string" where
  "Addr_String (UDP a) = UDPAddr_String a"
| "Addr_String (OtherAddr s) = s"

definition addr_isIPv6 :: "Addr \<Rightarrow> bool" where
  "addr_isIPv6 a = (case a of UDP u \<Rightarrow> To4 (IP u) = None | OtherAddr _ \<Rightarrow> False)"

text \<open>\<^verbatim>\<open>net.SplitHostPort\<close>: the port starts after the last colon.\<close>

definition after_last :: "char \<Rightarrow> string \<Rightarrow> string" where
  "after_last c s = rev (takeWhile (\<lambda>x. x \<noteq> c) (rev s))"

definition SplitHostPort :: "string \<Rightarrow> error + (string \<times> string)" where
  "SplitHostPort hp =
     (if CHR '':'' \<notin> set hp then Inl (Errorf ''missing port in address'')
      else
        let port = after_last (CHR '':'') hp;
            i = length hp - length port - 1
        in if hd hp = CHR ''[''
           then (if CHR '']'' \<notin> set hp then Inl (Errorf ''missing ] in address'')
                 else
                   let e = length (takeWhile (\<lambda>x. x \<noteq> CHR '']'') hp)
                   in if e + 1 = length hp then Inl (Errorf ''missing port in address'')
                      else if e + 1 \<noteq> i
                      then (if hp ! (e + 1) = CHR '':''
                            then Inl (Errorf ''too many colons in address'')
                            else Inl (Errorf ''missing port in address''))
                      else if CHR ''['' \<in> set (drop 1 hp)
                      then Inl (Errorf ''unexpected [ in address'')
                      else if CHR '']'' \<in> set (drop (e + 1) hp)
                      then Inl (Errorf ''unexpected ] in address'')
                      else Inr (take (e - 1) (drop 1 hp), port))
           else
             (if CHR '':'' \<in> set (take i hp) then Inl (Errorf ''too many colons in address'')
              else if CHR ''['' \<in> set hp then Inl (Errorf ''unexpected [ in address'')
              else if CHR '']'' \<in> set hp then Inl (Errorf ''unexpected ] in address'')
              else Inr (take i hp, port)))"

section \<open>The textual form is faithful\<close>


lemma dec_val_snoc [simp]: "dec_val (w @ [c]) = dec_val w * 10 + char_digit c"
  by (simp add: dec_val_def)

lemma dec_val_decimal [simp]: "dec_val (decimal n) = n"
proof (induction n rule: decimal.induct)
  case (1 n)
  then show ?case
    by (cases "n < 10") (auto simp: decimal.simps [of n] dec_val_def)
qed

lemma hd_decimal: "n \<noteq> 0 \<Longrightarrow> hd (decimal n) \<noteq> CHR ''0''"
proof (induction n rule: decimal.induct)
  case (1 n)
  show ?case
  proof (cases "n < 10")
    case True
    have "char_digit (digit_char n) = n" using True by simp
    then show ?thesis using True 1(2) by (auto simp: decimal.simps [of n] char_digit_def)
  next
    case False
    then show ?thesis using 1 by (simp add: decimal.simps [of n])
  qed
qed

lemma decimal_0: "decimal 0 = ''0''"
  by (simp add: decimal.simps digit_char_def char_of_eq_iff)

lemma parse_octet_decimal [simp]: "parse_octet (decimal (unat b)) = Some b"
proof -
  have le: "unat b \<le> 255"
    using unsigned_less [of b, where ?'a = nat] by simp
  have digs: "list_all is_digit (decimal (unat b))"
    using decimal_digits by (auto simp: list_all_iff)
  have lead: "\<not> (1 < length (decimal (unat b)) \<and> hd (decimal (unat b)) = CHR ''0'')"
    using hd_decimal [of "unat b"] by (cases "unat b = 0") (auto simp: decimal_0)
  show ?thesis
    unfolding parse_octet_def using le digs lead by (simp add: Let_def)
qed

lemma all_some_map_Some [simp]: "all_some (map Some xs) = Some xs"
  by (induction xs) auto

lemma decimal_no_dot: "CHR ''.'' \<notin> set (decimal n)" "CHR '':'' \<notin> set (decimal n)" "CHR ''%'' \<notin> set (decimal n)"
  using decimal_digits [of n] by force+

lemma Split_dotted:
  "ip \<noteq> [] \<Longrightarrow> Split (CHR ''.'') (dotted ip) = map (\<lambda>b. decimal (unat b)) ip"
  unfolding dotted_def by (rule Split_Join) (auto simp: decimal_no_dot)

lemma parseIPv4_dotted [simp]:
  assumes "length ip = 4"
  shows "parseIPv4 (dotted ip) = Some ip"
proof -
  have "ip \<noteq> []" using assms by auto
  then show ?thesis
    using assms by (simp add: parseIPv4_def Split_dotted comp_def)
qed

subsection \<open>Hexadecimal groups\<close>

lemma hex_digit_digit_char [simp]: "d < 16 \<Longrightarrow> hex_digit (digit_char d) = Some d"
  by (simp add: hex_digit_def of_char_digit_char Let_def)

lemma is_hex_digit_char [simp]: "d < 16 \<Longrightarrow> is_hex (digit_char d)"
  by (simp add: is_hex_def)

lemma hex_val_snoc [simp]: "hex_val (w @ [c]) = hex_val w * 16 + the (hex_digit c)"
  by (simp add: hex_val_def)

lemma hexnum_facts: "hexnum n \<noteq> [] \<and> (\<forall>c\<in>set (hexnum n). is_hex c) \<and> hex_val (hexnum n) = n"
proof (induction n rule: hexnum.induct)
  case (1 n)
  then show ?case
    by (cases "n < 16") (auto simp: hexnum.simps [of n] hex_val_def)
qed

lemma length_hexnum: "n < 16 ^ Suc k \<Longrightarrow> length (hexnum n) \<le> Suc k"
proof (induction k arbitrary: n)
  case 0
  then show ?case by (simp add: hexnum.simps)
next
  case (Suc k)
  then have "n div 16 < 16 ^ Suc k" by (simp add: less_mult_imp_div_less mult.commute)
  then show ?case using Suc.IH by (simp add: hexnum.simps [of n])
qed

lemma not_hex: "\<not> is_hex (CHR '':'')" "\<not> is_hex (CHR ''.'')" "\<not> is_hex (CHR ''%'')"
  by (simp_all add: is_hex_def hex_digit_def)

lemma takeWhile_hexnum [simp]:
  "takeWhile is_hex (hexnum n @ t) = hexnum n @ takeWhile is_hex t"
  "dropWhile is_hex (hexnum n @ t) = dropWhile is_hex t"
  using hexnum_facts [of n] by (auto intro: takeWhile_append2 dropWhile_append2)

lemma takeWhile_hexnum_only [simp]:
  "takeWhile is_hex (hexnum n) = hexnum n" "dropWhile is_hex (hexnum n) = []"
  using takeWhile_hexnum [of n "[]"] by simp_all

lemma hd_hexnum: "is_hex (hd (hexnum n @ t))"
  using hexnum_facts [of n] by (cases "hexnum n") auto

lemma parse_group_end:
  "g < 65536 \<Longrightarrow> parseIPv6_loop (Suc k) (hexnum g) gs el = Some (gs @ [g], el, [])"
  using hexnum_facts [of g] length_hexnum [of g 3] by simp

lemma parse_group_colon:
  assumes "g < 65536" and "is_hex (hd t)" and "t \<noteq> []"
  shows "parseIPv6_loop (Suc k) (hexnum g @ CHR '':'' # t) gs el = parseIPv6_loop k t (gs @ [g]) el"
proof -
  have "hd t \<noteq> CHR '':''" using assms(2) not_hex by metis
  then show ?thesis
    using assms(1,3) hexnum_facts [of g] length_hexnum [of g 3] by (simp add: not_hex)
qed

lemma parse_group_ellipsis:
  assumes "g < 65536"
  shows "parseIPv6_loop (Suc k) (hexnum g @ CHR '':'' # CHR '':'' # t) gs None =
     (if t = [] then Some (gs @ [g], Some (Suc (length gs)), [])
      else parseIPv6_loop k t (gs @ [g]) (Some (Suc (length gs))))"
  using assms hexnum_facts [of g] length_hexnum [of g 3] by (simp add: not_hex)

declare parseIPv6_loop.simps(2) [simp del]

lemma hd_colon_hex: "gs \<noteq> [] \<Longrightarrow> colon_hex gs @ t \<noteq> [] \<and> is_hex (hd (colon_hex gs @ t))"
proof (cases gs)
  case (Cons g gs')
  then show ?thesis
    using hexnum_facts [of g] hd_hexnum [of g] by (cases gs') auto
qed simp

lemma parse_groups:
  "gs \<noteq> [] \<Longrightarrow> length gs \<le> k \<Longrightarrow> \<forall>g\<in>set gs. g < 65536 \<Longrightarrow>
   parseIPv6_loop k (colon_hex gs) acc el = Some (acc @ gs, el, [])"
proof (induction gs arbitrary: k acc)
  case (Cons g gs)
  obtain k' where k: "k = Suc k'" using Cons.prems(2) by (cases k) auto
  show ?case
  proof (cases "gs = []")
    case True
    then show ?thesis using k Cons.prems parse_group_end by simp
  next
    case False
    have "parseIPv6_loop k (colon_hex (g # gs)) acc el =
        parseIPv6_loop k' (colon_hex gs) (acc @ [g]) el"
      using False k Cons.prems(3) hd_colon_hex [OF False, of "[]"]
      by (simp add: parse_group_colon)
    then show ?thesis
      using Cons.IH [of k' "acc @ [g]"] Cons.prems False k by simp
  qed
qed simp

lemma parse_groups_ellipsis:
  "gs \<noteq> [] \<Longrightarrow> length gs \<le> k \<Longrightarrow> \<forall>g\<in>set gs. g < 65536 \<Longrightarrow>
   parseIPv6_loop k (colon_hex gs @ CHR '':'' # CHR '':'' # t) acc None =
     (if t = [] then Some (acc @ gs, Some (length acc + length gs), [])
      else parseIPv6_loop (k - length gs) t (acc @ gs) (Some (length acc + length gs)))"
proof (induction gs arbitrary: k acc)
  case (Cons g gs)
  obtain k' where k: "k = Suc k'" using Cons.prems(2) by (cases k) auto
  show ?case
  proof (cases "gs = []")
    case True
    then show ?thesis using k Cons.prems by (simp add: parse_group_ellipsis)
  next
    case False
    have "parseIPv6_loop k (colon_hex (g # gs) @ CHR '':'' # CHR '':'' # t) acc None =
        parseIPv6_loop k' (colon_hex gs @ CHR '':'' # CHR '':'' # t) (acc @ [g]) None"
      using False k Cons.prems(3) hd_colon_hex [OF False]
      by (simp add: parse_group_colon)
    then show ?thesis
      using Cons.IH [of k' "acc @ [g]"] Cons.prems False k by simp
  qed
qed simp


subsection \<open>The compressed run of zeros\<close>

definition zero_range_ok :: "nat list \<Rightarrow> (nat \<times> nat) option \<Rightarrow> bool" where
  "zero_range_ok gs r \<longleftrightarrow>
     (case r of None \<Rightarrow> True
      | Some (s, e) \<Rightarrow> s < e \<and> e \<le> length gs \<and> drop s gs = replicate (e - s) 0 @ drop e gs)"

lemma zero_run_split:
  "drop i gs = replicate (zero_run gs i) 0 @ drop (i + zero_run gs i) gs"
proof -
  let ?z = "takeWhile (\<lambda>g. g = 0) (drop i gs)"
  have "?z = replicate (length ?z) 0"
    by (metis (full_types) replicate_length_same set_takeWhileD)
  moreover have "drop i gs = ?z @ dropWhile (\<lambda>g. g = 0) (drop i gs)"
    by simp
  moreover have "dropWhile (\<lambda>g. g = 0) (drop i gs) = drop (length ?z) (drop i gs)"
    by (simp add: dropWhile_eq_drop)
  ultimately show ?thesis
    by (metis add.commute drop_drop zero_run_def)
qed

lemma zero_run_le: "0 < zero_run gs i \<Longrightarrow> i + zero_run gs i \<le> length gs"
proof -
  assume "0 < zero_run gs i"
  moreover have "zero_run gs i \<le> length gs - i"
    unfolding zero_run_def using length_takeWhile_le [of _ "drop i gs"] by simp
  ultimately show ?thesis by simp
qed

lemma better_run_ok: "zero_range_ok gs r \<Longrightarrow> zero_range_ok gs (better_run gs i r)"
  using zero_run_split [of i gs] zero_run_le [of gs i]
  by (auto simp: zero_range_ok_def better_run_def Let_def)

lemma zero_range_ok: "zero_range_ok gs (zero_range gs)"
proof -
  have "zero_range_ok gs r \<Longrightarrow> zero_range_ok gs (fold (better_run gs) is r)" for "is" r
    by (induction "is" arbitrary: r) (auto intro: better_run_ok)
  then show ?thesis by (simp add: zero_range_def zero_range_ok_def)
qed

subsection \<open>Round trip\<close>

lemma v6groups_facts:
  "even (length ip) \<Longrightarrow>
     length (v6groups ip) = length ip div 2 \<and> (\<forall>g\<in>set (v6groups ip). g < 65536)
     \<and> groups_bytes (v6groups ip) = ip"
proof (induction ip rule: v6groups.induct)
  case (1 a b r)
  have lt: "unat a < 256" "unat b < 256"
    using unsigned_less [of a, where ?'a = nat] unsigned_less [of b, where ?'a = nat] by simp_all
  then have "unat a * 256 + unat b < 65536" by linarith
  moreover have "group_bytes (unat a * 256 + unat b) = [a, b]"
    using lt by (simp add: group_bytes_def)
  ultimately show ?case using 1 by (simp add: groups_bytes_def)
qed (simp_all add: groups_bytes_def)

lemma colon_hex_chars: "c \<in> set (colon_hex gs) \<Longrightarrow> c = CHR '':'' \<or> is_hex c"
proof (induction gs)
  case (Cons g gs)
  then show ?case
    using hexnum_facts [of g] by (cases "gs = []") auto
qed simp

lemma v6string_chars: "c \<in> set (v6string ip) \<Longrightarrow> c = CHR '':'' \<or> is_hex c"
  by (auto simp: v6string_def Let_def dest: colon_hex_chars split: option.splits prod.splits)

lemma colon_hex_colon: "2 \<le> length gs \<Longrightarrow> CHR '':'' \<in> set (colon_hex gs)"
proof (cases gs)
  case (Cons g gs')
  moreover assume "2 \<le> length gs"
  ultimately have "gs' \<noteq> []" by auto
  then show ?thesis using Cons by simp
qed simp

lemma v6string_colon: "length ip = 16 \<Longrightarrow> CHR '':'' \<in> set (v6string ip)"
  using v6groups_facts [of ip] colon_hex_colon [of "v6groups ip"]
  by (auto simp: v6string_def Let_def split: option.splits)

lemma not_prefix_colons: "gs \<noteq> [] \<Longrightarrow> \<not> HasPrefix (colon_hex gs @ t) ''::''"
proof
  assume "gs \<noteq> []" and p: "HasPrefix (colon_hex gs @ t) ''::''"
  then have "is_hex (hd (colon_hex gs @ t))" using hd_colon_hex by blast
  moreover have "hd (colon_hex gs @ t) = CHR '':''" using p by (auto simp: HasPrefix_iff)
  ultimately show False using not_hex by simp
qed

lemma parseIPv6_plain:
  assumes "length gs = 8" and "\<forall>g\<in>set gs. g < 65536"
  shows "parseIPv6 (colon_hex gs) = Some (groups_bytes gs)"
proof -
  have ne: "gs \<noteq> []" using assms(1) by auto
  have "parseIPv6_loop 8 (colon_hex gs) [] None = Some (gs, None, [])"
    using parse_groups [OF ne, of 8 "[]" None] assms by simp
  moreover have "\<not> HasPrefix (colon_hex gs) ''::''"
    using not_prefix_colons [OF ne, of "[]"] by simp
  ultimately show ?thesis
    using assms(1) by (simp add: parseIPv6_def expand_ellipsis_def)
qed

lemma groups_bytes_zeros: "groups_bytes (replicate n 0) = replicate (2 * n) 0"
  by (induction n) (simp_all add: groups_bytes_def group_bytes_def)

lemma expand_ellipsis_run:
  assumes "length gs = 8" and "s < e" and "e \<le> 8" and "drop s gs = replicate (e - s) 0 @ drop e gs"
  shows "expand_ellipsis (take s gs @ drop e gs, Some s, []) = Some (groups_bytes gs)"
proof -
  have "take s gs @ replicate (e - s) 0 @ drop e gs = gs"
    using assms(4) by (metis append_take_drop_id)
  moreover have "8 - length (take s gs @ drop e gs) = e - s"
    using assms(1-3) by simp
  ultimately show ?thesis
    using assms(1-3) by (simp add: expand_ellipsis_def)
qed

lemma parseIPv6_leading_run:
  assumes "length gs = 8" and "\<forall>g\<in>set gs. g < 65536"
    and "0 < e" and "e \<le> 8" and "drop 0 gs = replicate (e - 0) 0 @ drop e gs"
  shows "parseIPv6 (CHR '':'' # CHR '':'' # colon_hex (drop e gs)) = Some (groups_bytes gs)"
proof (cases "drop e gs = []")
  case True
  then have "gs = replicate 8 0" using assms(1,4,5) by simp
  then show ?thesis using True by (simp add: parseIPv6_def groups_bytes_zeros)
next
  case False
  have "\<forall>g\<in>set (drop e gs). g < 65536" using assms(2) by (blast dest: in_set_dropD)
  then have "parseIPv6_loop 8 (colon_hex (drop e gs)) [] (Some 0) = Some (drop e gs, Some 0, [])"
    using parse_groups [OF False, of 8 "[]" "Some 0"] assms(1) by simp
  moreover have "colon_hex (drop e gs) \<noteq> []"
    using hd_colon_hex [OF False, of "[]"] by simp
  ultimately show ?thesis
    using expand_ellipsis_run [OF assms(1,3-5)] by (simp add: parseIPv6_def)
qed

lemma parseIPv6_inner_run:
  assumes "length gs = 8" and bnd: "\<forall>g\<in>set gs. g < 65536"
    and "s < e" and "e \<le> 8" and "drop s gs = replicate (e - s) 0 @ drop e gs" and "0 < s"
  shows "parseIPv6 (colon_hex (take s gs) @ CHR '':'' # CHR '':'' # colon_hex (drop e gs)) =
     Some (groups_bytes gs)"
proof -
  let ?pre = "take s gs" and ?post = "drop e gs"
  have ne: "?pre \<noteq> []" using assms(1,6) by auto
  have bnd_post: "\<forall>g\<in>set ?post. g < 65536" and bnd_pre: "\<forall>g\<in>set ?pre. g < 65536"
    using bnd by (blast dest: in_set_dropD in_set_takeD)+
  have "parseIPv6_loop 8 (colon_hex ?pre @ CHR '':'' # CHR '':'' # colon_hex ?post) [] None =
      (if colon_hex ?post = [] then Some (?pre, Some s, [])
       else parseIPv6_loop (8 - s) (colon_hex ?post) ?pre (Some s))"
    using parse_groups_ellipsis [OF ne, of 8 "colon_hex ?post" "[]"] bnd_pre assms(1,3,4) by simp
  also have "\<dots> = Some (?pre @ ?post, Some s, [])"
  proof (cases "?post = []")
    case False
    then show ?thesis
      using parse_groups [OF False, of "8 - s" ?pre "Some s"] hd_colon_hex [OF False, of "[]"]
        bnd_post assms(1,3,4) by simp
  qed simp
  finally show ?thesis
    using not_prefix_colons [OF ne] expand_ellipsis_run [OF assms(1,3-5)]
    by (simp add: parseIPv6_def)
qed

lemma parseIPv6_v6string:
  assumes "length ip = 16"
  shows "parseIPv6 (v6string ip) = Some ip"
proof -
  let ?gs = "v6groups ip"
  have gs: "length ?gs = 8" "\<forall>g\<in>set ?gs. g < 65536" and ip: "groups_bytes ?gs = ip"
    using v6groups_facts [of ip] assms by auto
  show ?thesis
  proof (cases "zero_range ?gs")
    case None
    then show ?thesis using parseIPv6_plain [OF gs] ip by (simp add: v6string_def)
  next
    case (Some r)
    obtain s e where r: "r = (s, e)" by (cases r)
    have ok: "s < e" "e \<le> 8" "drop s ?gs = replicate (e - s) 0 @ drop e ?gs"
      using zero_range_ok [of ?gs] Some r gs(1) by (auto simp: zero_range_ok_def)
    have str: "v6string ip = colon_hex (take s ?gs) @ CHR '':'' # CHR '':'' # colon_hex (drop e ?gs)"
      using Some r by (simp add: v6string_def Let_def)
    show ?thesis
    proof (cases "s = 0")
      case True
      then show ?thesis
        using parseIPv6_leading_run [OF gs, of e] ok str ip by simp
    next
      case False
      then show ?thesis
        using parseIPv6_inner_run [OF gs ok] str ip by simp
    qed
  qed
qed

lemma ParseIP_v6string:
  assumes "length ip = 16"
  shows "ParseIP (v6string ip) = Some ip"
proof -
  let ?P = "\<lambda>c. c \<noteq> CHR ''.'' \<and> c \<noteq> CHR '':''"
  have no: "CHR ''%'' \<notin> set (v6string ip)" "CHR ''.'' \<notin> set (v6string ip)"
    using v6string_chars not_hex by fastforce+
  obtain c r where dw: "dropWhile ?P (v6string ip) = c # r"
    using v6string_colon [OF assms] by (cases "dropWhile ?P (v6string ip)") auto
  have "c \<in> set (v6string ip)" using dw by (metis list.set_intros(1) set_dropWhileD)
  then have "c \<noteq> CHR ''.''" using no(2) by auto
  then show ?thesis
    using no(1) dw parseIPv6_v6string [OF assms] by (simp add: ParseIP_def)
qed


lemma ParseIP_dotted:
  assumes "length ip = 4"
  shows "ParseIP (dotted ip) = To16 ip"
proof -
  obtain a b c d where ip: "ip = [a, b, c, d]"
    using assms by (auto simp: length_Suc_conv numeral_eq_Suc)
  let ?P = "\<lambda>c. c \<noteq> CHR ''.'' \<and> c \<noteq> CHR '':''"
  have "dropWhile ?P (dotted ip) = dropWhile ?P (CHR ''.'' # dotted [b, c, d])"
    unfolding ip dotted_def using decimal_no_dot(1,2) [of "unat a"]
    by (simp, subst dropWhile_append2) auto
  moreover have "CHR ''%'' \<notin> set (dotted ip)"
    unfolding ip dotted_def using decimal_no_dot(3) by simp
  ultimately show ?thesis
    using assms by (simp add: ParseIP_def)
qed

text \<open>
  The textual form of an address determines it: \<^verbatim>\<open>UnmarshalText\<close> gives back the address that
  \<^verbatim>\<open>MarshalText\<close> printed, in its 16-byte form.
\<close>

definition ip_canonical :: "IP \<Rightarrow> IP" where
  "ip_canonical ip = (case To16 ip of Some ip16 \<Rightarrow> ip16 | None \<Rightarrow> [])"

lemma To4_mapped:
  assumes "length ip = 16" and "To4 ip = Some ip4"
  shows "length ip4 = 4" and "To16 ip4 = Some ip"
proof -
  have ip4: "ip4 = drop 12 ip" and pre: "take 12 ip = v4InV6Prefix"
    using assms by (auto simp: To4_def split: if_splits)
  then show "length ip4 = 4" using assms(1) by simp
  then show "To16 ip4 = Some ip"
    using ip4 pre append_take_drop_id [of 12 ip] by (simp add: To16_def)
qed

lemma dotted_nonempty: "length ip = 4 \<Longrightarrow> dotted ip \<noteq> []"
  by (auto simp: dotted_def length_Suc_conv numeral_eq_Suc)

lemma IP_text_roundtrip:
  assumes "IP_MarshalText ip = Inr s"
  shows "IP_UnmarshalText s = Inr (ip_canonical ip)"
proof -
  consider (nil) "ip = []" "s = ''''" | (four) "length ip = 4" "s = dotted ip"
    | (mapped) ip4 where "length ip = 16" "To4 ip = Some ip4" "s = dotted ip4"
    | (six) "length ip = 16" "s = v6string ip"
    using assms
    by (auto simp: IP_MarshalText_def IP_String_def To4_def split: if_splits)
  then show ?thesis
  proof cases
    case nil
    then show ?thesis by (simp add: IP_UnmarshalText_def ip_canonical_def To16_def)
  next
    case four
    then show ?thesis
      using ParseIP_dotted [of ip] dotted_nonempty [of ip]
      by (simp add: IP_UnmarshalText_def ip_canonical_def To16_def)
  next
    case mapped
    then show ?thesis
      using ParseIP_dotted [of ip4] dotted_nonempty [of ip4] To4_mapped [of ip ip4]
      by (simp add: IP_UnmarshalText_def ip_canonical_def To16_def)
  next
    case six
    then show ?thesis
      using ParseIP_v6string [of ip] v6string_colon [of ip]
      by (auto simp: IP_UnmarshalText_def ip_canonical_def To16_def)
  qed
qed

subsection \<open>Length of the textual form\<close>

lemma length_decimal_byte: "n < 1000 \<Longrightarrow> length (decimal n) \<le> 3"
  by (simp add: decimal.simps [of n] decimal.simps [of "n div 10"] decimal.simps [of "n div 10 div 10"])

lemma length_Join: "\<forall>w\<in>set ws. length w \<le> k \<Longrightarrow> length (Join [c] ws) \<le> Suc k * length ws"
proof (induction ws)
  case (Cons w ws)
  then show ?case by (cases "ws = []") auto
qed simp

lemma length_dotted: "length ip = 4 \<Longrightarrow> length (dotted ip) \<le> 16"
proof -
  assume l: "length ip = 4"
  have "unat b < 1000" for b :: byte
    using unsigned_less [of b, where ?'a = nat] by simp
  then have "\<forall>w\<in>set (map (\<lambda>b. decimal (unat b)) ip). length w \<le> 3"
    by (auto intro!: length_decimal_byte)
  from length_Join [OF this, of "CHR ''.''"] l show ?thesis by (simp add: dotted_def)
qed

lemma length_colon_hex: "\<forall>g\<in>set gs. g < 65536 \<Longrightarrow> length (colon_hex gs) \<le> 5 * length gs"
proof -
  assume "\<forall>g\<in>set gs. g < 65536"
  then have "\<forall>w\<in>set (map hexnum gs). length w \<le> 4"
    using length_hexnum [of _ 3] by auto
  from length_Join [OF this, of "CHR '':''"] show ?thesis by simp
qed

lemma length_v6string:
  assumes "length ip = 16"
  shows "length (v6string ip) \<le> 42"
proof -
  let ?gs = "v6groups ip"
  have len: "length ?gs = 8" and bnd: "\<forall>g\<in>set ?gs. g < 65536"
    using v6groups_facts [of ip] assms by auto
  show ?thesis
  proof (cases "zero_range ?gs")
    case None
    then show ?thesis using length_colon_hex [OF bnd] len by (simp add: v6string_def)
  next
    case (Some r)
    obtain s e where r: "r = (s, e)" by (cases r)
    have "s < e" "e \<le> 8" using zero_range_ok [of ?gs] Some r len by (auto simp: zero_range_ok_def)
    moreover have "length (colon_hex (take s ?gs)) \<le> 5 * length (take s ?gs)"
      using bnd by (intro length_colon_hex) (blast dest: in_set_takeD)
    moreover have "length (colon_hex (drop e ?gs)) \<le> 5 * length (drop e ?gs)"
      using bnd by (intro length_colon_hex) (blast dest: in_set_dropD)
    ultimately show ?thesis using Some r len by (simp add: v6string_def Let_def)
  qed
qed

lemma length_IP_MarshalText: "IP_MarshalText ip = Inr s \<Longrightarrow> length s \<le> 42"
  using length_dotted [of ip] length_v6string [of ip] length_dotted [of "drop 12 ip"]
  by (auto simp: IP_MarshalText_def IP_String_def To4_def split: if_splits)

end
