(* ===== verification/Muxed_Conn.thy ===== *)
theory Muxed_Conn
  imports Net_Addr
begin

text \<open>
  The logical connections of the UDP mux (\<^verbatim>\<open>iface/bind/udp_muxed_conn.go\<close>): the codec that
  packs a datagram and its sender into one buffer entry, the reader and the writer around it,
  and the connection's own state.  The queue between writer and reader is pion's
  \<^verbatim>\<open>packetio.Buffer\<close>, which is not part of the repository: it is the argument \<open>P\<close> of the
  definitions, and what the code relies on is the locale \<open>packet_buffer\<close>.  The operations
  that call back into the mux (\<^verbatim>\<open>WriteTo\<close>, \<^verbatim>\<open>addAddress\<close>) are in \<open>Udp_Mux\<close>.
\<close>

section \<open>The packet queue interface\<close>

record 'b packetio =
  NewBuffer :: 'b
  buf_Write :: "bytes \<Rightarrow> 'b \<Rightarrow> error option \<times> 'b"
  buf_Read :: "nat \<Rightarrow> 'b \<Rightarrow> ((error + bytes) \<times> 'b) option"
  buf_Close :: "'b \<Rightarrow> error option \<times> 'b"

text \<open>
  \<^verbatim>\<open>packetio.Buffer\<close> keeps packet boundaries and order; a read blocks (\<^term>\<open>None\<close>) on an
  empty open buffer, reports \<^const>\<open>EOF\<close> on an empty closed one, and a write on a closed
  buffer fails.  A write may also fail because the buffer is full, and then changes nothing.
\<close>

locale packet_buffer =
  fixes P :: "'b packetio"
    and queue :: "'b \<Rightarrow> bytes list"
    and closed :: "'b \<Rightarrow> bool"
  assumes queue_new: "queue (NewBuffer P) = []"
    and closed_new: "\<not> closed (NewBuffer P)"
    and write_ok: "buf_Write P p b = (None, b') \<Longrightarrow> queue b' = queue b @ [p] \<and> closed b' = closed b"
    and write_err: "buf_Write P p b = (Some e, b') \<Longrightarrow> b' = b"
    and write_closed: "closed b \<Longrightarrow> fst (buf_Write P p b) \<noteq> None"
    and read_packet: "queue b = p # q \<Longrightarrow> length p \<le> n \<Longrightarrow>
          \<exists>b'. buf_Read P n b = Some (Inr p, b') \<and> queue b' = q \<and> closed b' = closed b"
    and read_blocks: "queue b = [] \<Longrightarrow> \<not> closed b \<Longrightarrow> buf_Read P n b = None"
    and read_eof: "queue b = [] \<Longrightarrow> closed b \<Longrightarrow> buf_Read P n b = Some (Inl EOF, b)"
    and close_ok: "fst (buf_Close P b) = None"
    and close_state: "closed (snd (buf_Close P b)) \<and> queue (snd (buf_Close P b)) = queue b"

section \<open>Connection state\<close>

definition receiveMTU :: nat where "receiveMTU = 8192"
definition maxAddrSize :: nat where "maxAddrSize = 512"

record 'b udpMuxedConn =
  Key :: string
  LocalAddr :: Addr
  addresses :: "string list"
  conn_buf :: 'b
  closedChan :: bool

definition newUDPMuxedConn :: "'b packetio \<Rightarrow> string \<Rightarrow> Addr \<Rightarrow> 'b udpMuxedConn" where
  "newUDPMuxedConn P key laddr =
     \<lparr>Key = key, LocalAddr = laddr, addresses = [], conn_buf = NewBuffer P, closedChan = False\<rparr>"

text \<open>The deadlines of a connection are accepted and ignored.\<close>

definition muxed_LocalAddr :: "'b udpMuxedConn \<Rightarrow> Addr" where
  "muxed_LocalAddr c = LocalAddr c"

definition muxed_SetDeadline :: "int \<Rightarrow> 'b udpMuxedConn \<Rightarrow> error option \<times> 'b udpMuxedConn" where
  "muxed_SetDeadline tm c = (None, c)"

definition muxed_SetReadDeadline :: "int \<Rightarrow> 'b udpMuxedConn \<Rightarrow> error option \<times> 'b udpMuxedConn" where
  "muxed_SetReadDeadline tm c = (None, c)"

definition muxed_SetWriteDeadline :: "int \<Rightarrow> 'b udpMuxedConn \<Rightarrow> error option \<times> 'b udpMuxedConn" where
  "muxed_SetWriteDeadline tm c = (None, c)"

definition isClosed :: "'b udpMuxedConn \<Rightarrow> bool" where
  "isClosed c = closedChan c"

definition getAddresses :: "'b udpMuxedConn \<Rightarrow> string list" where
  "getAddresses c = addresses c"

fun contains_addr :: "string list \<Rightarrow> string \<Rightarrow> bool" where
  "contains_addr [] addr = False"
| "contains_addr (a # as) addr = (if addr = a then True else contains_addr as addr)"

definition containsAddress :: "'b udpMuxedConn \<Rightarrow> string \<Rightarrow> bool" where
  "containsAddress c addr = contains_addr (addresses c) addr"

text \<open>\<^verbatim>\<open>closeOnce\<close>: only the first \<^verbatim>\<open>Close\<close> closes the buffer and the channel.\<close>

definition conn_Close :: "'b packetio \<Rightarrow> 'b udpMuxedConn \<Rightarrow> error option \<times> 'b udpMuxedConn" where
  "conn_Close P c =
     (if closedChan c then (None, c)
      else let (err, b) = buf_Close P (conn_buf c)
           in (err, c\<lparr>conn_buf := b, closedChan := True\<rparr>))"

section \<open>The address codec\<close>

text \<open>
  \<^verbatim>\<open>encodeUDPAddr\<close> writes \<open>| ip len | ip text | port | zone |\<close> into the slice it is given and
  returns the number of bytes written; the rest of the slice keeps its content.
\<close>

definition encodeUDPAddr :: "UDPAddr \<Rightarrow> bytes \<Rightarrow> error + nat \<times> bytes" where
  "encodeUDPAddr addr buf =
     (case IP_MarshalText (IP addr) of
        Inl err \<Rightarrow> Inl err
      | Inr ipData \<Rightarrow>
          let total = 2 + length ipData + 2 + length (Zone addr)
          in if length buf < total then Inl ErrShortBuffer
             else let buf = copy_at 0 (PutUint16 (word_of_nat (length ipData))) buf;
                      offset = 2;
                      buf = copy_at offset (to_bytes ipData) buf;
                      offset = offset + length ipData;
                      buf = copy_at offset (PutUint16 (word_of_int (Port addr))) buf;
                      offset = offset + 2;
                      buf = copy_at offset (to_bytes (Zone addr)) buf
                  in Inr (total, buf))"

text \<open>
  \<^verbatim>\<open>decodeUDPAddr\<close> on a slice \<open>buf\<close> whose backing array continues with the bytes \<open>spare\<close>:
  Go allows a slice expression to reach into the spare capacity, so only an access beyond it,
  or the final \<^verbatim>\<open>buf[offset:]\<close> beyond the length, panics.
\<close>

definition decodeUDPAddr :: "bytes \<Rightarrow> bytes \<Rightarrow> error + UDPAddr" where
  "decodeUDPAddr buf spare =
     (let arr = buf @ spare
      in if length arr < 2 then Inl (Panic ''slice bounds out of range'')
         else let ipLen = unat (Uint16 (take 2 arr)); offset = 2
              in if length buf < ipLen + offset then Inl ErrShortBuffer
                 else case IP_UnmarshalText (of_bytes (subslice offset (offset + ipLen) buf)) of
                        Inl err \<Rightarrow> Inl err
                      | Inr ip \<Rightarrow>
                          let offset = offset + ipLen
                          in if length arr < offset + 2 then Inl (Panic ''slice bounds out of range'')
                             else let port = Uint16 (subslice offset (offset + 2) arr);
                                      offset = offset + 2
                                  in if length buf < offset
                                     then Inl (Panic ''slice bounds out of range'')
                                     else Inr \<lparr>IP = ip, Port = int (unat port),
                                               Zone = of_bytes (drop offset buf)\<rparr>)"

section \<open>Writing and reading packets\<close>

text \<open>
  \<^verbatim>\<open>writePacket\<close> formats \<open>| data len | data | addr len | addr |\<close> into a pooled buffer \<open>buf\<close>
  (whose previous content is arbitrary) and queues the used prefix.
\<close>

definition format_packet :: "bytes \<Rightarrow> bytes \<Rightarrow> UDPAddr \<Rightarrow> error + bytes" where
  "format_packet buf data addr =
     (if length buf < length data + maxAddrSize then Inl ErrShortBuffer
      else let buf = copy_at 0 (PutUint16 (word_of_nat (length data))) buf;
               offset = 2;
               buf = copy_at offset data buf;
               offset = offset + length data
           in case encodeUDPAddr addr (drop (offset + 2) buf) of
                Inl err \<Rightarrow> Inl err
              | Inr (n, sub) \<Rightarrow>
                  let buf = take (offset + 2) buf @ sub;
                      total = offset + n + 2;
                      buf = copy_at offset (PutUint16 (word_of_nat n)) buf
                  in Inr (take total buf))"

definition writePacket ::
  "'b packetio \<Rightarrow> bytes \<Rightarrow> 'b udpMuxedConn \<Rightarrow> bytes \<Rightarrow> UDPAddr \<Rightarrow> error option \<times> 'b udpMuxedConn" where
  "writePacket P buf c data addr =
     (case format_packet buf data addr of
        Inl err \<Rightarrow> (Some err, c)
      | Inr pkt \<Rightarrow>
          let (err, b) = buf_Write P pkt (conn_buf c) in (err, c\<lparr>conn_buf := b\<rparr>))"

text \<open>
  \<^verbatim>\<open>ReadFrom\<close>: the queue entry is read into a pooled buffer, then unpacked into the caller's
  slice of length \<open>blen\<close>.  The result is the data copied to the caller and the sender;
  \<^term>\<open>None\<close> means the call blocks.
\<close>

definition unpack_packet :: "bytes \<Rightarrow> nat \<Rightarrow> nat \<Rightarrow> error + bytes \<times> UDPAddr" where
  "unpack_packet buf n blen =
     (let dataLen = unat (Uint16 (take 2 buf))
      in if n < dataLen \<or> blen < dataLen then Inl ErrShortBuffer
         else if length buf < 2 + dataLen + 2 then Inl (Panic ''slice bounds out of range'')
         else let data = subslice 2 (2 + dataLen) buf;
                  offset = 2 + dataLen;
                  addrLen = unat (Uint16 (subslice offset (offset + 2) buf));
                  offset = offset + 2
              in if length buf < offset + addrLen then Inl (Panic ''slice bounds out of range'')
                 else case decodeUDPAddr (subslice offset (offset + addrLen) buf)
                             (drop (offset + addrLen) buf) of
                        Inl err \<Rightarrow> Inl err
                      | Inr rAddr \<Rightarrow> Inr (data, rAddr))"

definition ReadFrom ::
  "'b packetio \<Rightarrow> bytes \<Rightarrow> 'b udpMuxedConn \<Rightarrow> nat
     \<Rightarrow> ((error + bytes \<times> UDPAddr) \<times> 'b udpMuxedConn) option" where
  "ReadFrom P buf c blen =
     (case buf_Read P (length buf) (conn_buf c) of
        None \<Rightarrow> None
      | Some (Inl err, b) \<Rightarrow> Some (Inl err, c\<lparr>conn_buf := b\<rparr>)
      | Some (Inr pkt, b) \<Rightarrow>
          Some (unpack_packet (copy_at 0 pkt buf) (length pkt) blen, c\<lparr>conn_buf := b\<rparr>))"

section \<open>Layout of a packet\<close>

definition addr_bytes :: "string \<Rightarrow> UDPAddr \<Rightarrow> bytes" where
  "addr_bytes ipData a =
     PutUint16 (word_of_nat (length ipData)) @ to_bytes ipData
       @ PutUint16 (word_of_int (Port a)) @ to_bytes (Zone a)"

definition packet_bytes :: "bytes \<Rightarrow> string \<Rightarrow> UDPAddr \<Rightarrow> bytes" where
  "packet_bytes data ipData a =
     PutUint16 (word_of_nat (length data)) @ data
       @ PutUint16 (word_of_nat (length (addr_bytes ipData a))) @ addr_bytes ipData a"

lemma length_addr_bytes [simp]: "length (addr_bytes s a) = 2 + length s + 2 + length (Zone a)"
  by (simp add: addr_bytes_def)

lemma length_packet_bytes [simp]:
  "length (packet_bytes data s a) = 8 + length data + length s + length (Zone a)"
  by (simp add: packet_bytes_def)

lemma copy_at_append:
  "off = length pre \<Longrightarrow> length src \<le> length rest \<Longrightarrow>
   copy_at off src (pre @ rest) = (pre @ src) @ drop (length src) rest"
  by (simp add: copy_at_fits)

lemma encodeUDPAddr_layout:
  assumes "IP_MarshalText (IP a) = Inr s" and "length (addr_bytes s a) \<le> length buf"
  shows "encodeUDPAddr a buf =
     Inr (length (addr_bytes s a), addr_bytes s a @ drop (length (addr_bytes s a)) buf)"
proof -
  let ?l = "PutUint16 (word_of_nat (length s))" and ?p = "PutUint16 (word_of_int (Port a))"
  have "copy_at 0 ?l buf = ?l @ drop 2 buf"
    using assms(2) copy_at_append [of 0 "[]" ?l buf] by simp
  moreover have "copy_at 2 (to_bytes s) (?l @ drop 2 buf) = (?l @ to_bytes s) @ drop (2 + length s) buf"
    using assms(2) copy_at_append [of 2 ?l "to_bytes s" "drop 2 buf"] by (simp add: add.commute)
  moreover have "copy_at (2 + length s) ?p ((?l @ to_bytes s) @ drop (2 + length s) buf) =
      (?l @ to_bytes s @ ?p) @ drop (2 + length s + 2) buf"
    using assms(2) copy_at_append [of "2 + length s" "?l @ to_bytes s" ?p "drop (2 + length s) buf"]
    by (simp add: add.commute)
  moreover have "copy_at (2 + length s + 2) (to_bytes (Zone a))
        ((?l @ to_bytes s @ ?p) @ drop (2 + length s + 2) buf) =
      addr_bytes s a @ drop (length (addr_bytes s a)) buf"
    using assms(2) copy_at_append [of "2 + length s + 2" "?l @ to_bytes s @ ?p" "to_bytes (Zone a)"
        "drop (2 + length s + 2) buf"]
    by (simp add: add.commute addr_bytes_def)
  ultimately show ?thesis
    using assms by (simp add: encodeUDPAddr_def Let_def)
qed

lemma format_packet_layout:
  assumes "IP_MarshalText (IP a) = Inr s"
    and "length data + maxAddrSize \<le> length buf"
    and "length s + length (Zone a) \<le> 504"
  shows "format_packet buf data a = Inr (packet_bytes data s a)"
proof -
  let ?d = "PutUint16 (word_of_nat (length data))"
  let ?n = "length (addr_bytes s a)"
  let ?b = "?d @ data @ drop (2 + length data) buf"
  have len: "length data + 512 \<le> length buf" using assms(2) by (simp add: maxAddrSize_def)
  have "copy_at 0 ?d buf = ?d @ drop 2 buf"
    using len copy_at_append [of 0 "[]" ?d buf] by simp
  moreover have "copy_at 2 data (?d @ drop 2 buf) = ?b"
    using len copy_at_append [of 2 ?d data "drop 2 buf"] by (simp add: add.commute)
  ultimately have b: "copy_at 2 data (copy_at 0 ?d buf) = ?b" by simp
  have enc: "encodeUDPAddr a (drop (2 + length data + 2) ?b) =
      Inr (?n, addr_bytes s a @ drop ?n (drop (2 + length data + 2) ?b))"
    using assms(1,3) len by (intro encodeUDPAddr_layout) simp_all
  have hd_b: "take (2 + length data + 2) ?b = (?d @ data) @ take 2 (drop (2 + length data) buf)"
    by simp
  let ?r = "drop ?n (drop (2 + length data + 2) ?b)"
  have "copy_at (2 + length data) (PutUint16 (word_of_nat ?n))
        (((?d @ data) @ take 2 (drop (2 + length data) buf)) @ addr_bytes s a @ ?r) =
      ((?d @ data) @ PutUint16 (word_of_nat ?n)) @ addr_bytes s a @ ?r"
    using len copy_at_append [of "2 + length data" "?d @ data" "PutUint16 (word_of_nat ?n)"
        "take 2 (drop (2 + length data) buf) @ addr_bytes s a @ ?r"] by simp
  then show ?thesis
    using assms(2) b enc hd_b
    by (simp add: format_packet_def Let_def packet_bytes_def)
qed

definition canonical_addr :: "UDPAddr \<Rightarrow> UDPAddr" where
  "canonical_addr a = a\<lparr>IP := ip_canonical (IP a)\<rparr>"

lemma subslice_middle [simp]:
  "lo = length pre \<Longrightarrow> hi = lo + length mid \<Longrightarrow> subslice lo hi (pre @ mid @ post) = mid"
  by (simp add: subslice_def)

lemma port_roundtrip: "0 \<le> p \<Longrightarrow> p < 65536 \<Longrightarrow> int (unat (word_of_int p :: u16)) = p"
  by (simp add: unsigned_of_int take_bit_int_eq_self)

lemma len16_roundtrip: "n < 65536 \<Longrightarrow> unat (word_of_nat n :: u16) = n"
  by (simp add: unat_of_nat)

lemma decodeUDPAddr_layout:
  assumes "IP_MarshalText (IP a) = Inr s" and "0 \<le> Port a" and "Port a < 65536"
  shows "decodeUDPAddr (addr_bytes s a) spare = Inr (canonical_addr a)"
proof -
  let ?l = "PutUint16 (word_of_nat (length s))" and ?p = "PutUint16 (word_of_int (Port a))"
  have s: "length s < 65536" using length_IP_MarshalText [OF assms(1)] by simp
  have iptext: "subslice 2 (2 + length s) (addr_bytes s a) = to_bytes s"
    using subslice_middle [of 2 ?l "2 + length s" "to_bytes s" "?p @ to_bytes (Zone a)"]
    by (simp add: addr_bytes_def)
  have port: "subslice (2 + length s) (2 + length s + 2) (addr_bytes s a @ spare) = ?p"
    using subslice_middle [of "2 + length s" "?l @ to_bytes s" "2 + length s + 2" ?p
        "to_bytes (Zone a) @ spare"]
    by (simp add: addr_bytes_def)
  have zone: "drop (2 + length s + 2) (addr_bytes s a) = to_bytes (Zone a)"
    by (simp add: addr_bytes_def)
  have len: "unat (Uint16 (take 2 (addr_bytes s a @ spare))) = length s"
    using s by (simp add: addr_bytes_def len16_roundtrip)
  show ?thesis
    using iptext port zone len IP_text_roundtrip [OF assms(1)] port_roundtrip [OF assms(2,3)]
    by (simp add: decodeUDPAddr_def Let_def canonical_addr_def)
qed

lemma unpack_packet_layout:
  assumes "IP_MarshalText (IP a) = Inr s" and "0 \<le> Port a" and "Port a < 65536"
    and "length data < 65536" and "length s + length (Zone a) < 65532" and "length data \<le> blen"
  shows "unpack_packet (packet_bytes data s a @ rest) (length (packet_bytes data s a)) blen =
     Inr (data, canonical_addr a)"
proof -
  let ?d = "PutUint16 (word_of_nat (length data))"
  let ?n = "PutUint16 (word_of_nat (length (addr_bytes s a)))"
  let ?buf = "packet_bytes data s a @ rest" and ?o = "2 + length data"
  have dlen: "unat (Uint16 (take 2 ?buf)) = length data"
    using assms(4) by (simp add: packet_bytes_def len16_roundtrip)
  have dat: "subslice 2 ?o ?buf = data"
    using subslice_middle [of 2 ?d ?o data "?n @ addr_bytes s a @ rest"]
    by (simp add: packet_bytes_def)
  have alen: "unat (Uint16 (subslice ?o (?o + 2) ?buf)) = length (addr_bytes s a)"
  proof -
    have "subslice ?o (?o + 2) ?buf = ?n"
      using subslice_middle [of ?o "?d @ data" "?o + 2" ?n "addr_bytes s a @ rest"]
      by (simp add: packet_bytes_def del: length_addr_bytes)
    moreover have "unat (word_of_nat (length (addr_bytes s a)) :: u16) = length (addr_bytes s a)"
      using assms(5) by (intro len16_roundtrip) simp
    ultimately show ?thesis by (simp only: Uint16_PutUint16)
  qed
  have adr: "subslice (?o + 2) (?o + 2 + length (addr_bytes s a)) ?buf = addr_bytes s a"
    using subslice_middle [of "?o + 2" "?d @ data @ ?n" _ "addr_bytes s a" rest]
    by (simp add: packet_bytes_def)
  show ?thesis
    using dlen dat alen adr assms(6) decodeUDPAddr_layout [OF assms(1-3)]
    by (simp add: unpack_packet_def Let_def)
qed

section \<open>What the connection promises\<close>

text \<open>
  A packet that \<^const>\<open>writePacket\<close> accepted comes out of \<^const>\<open>ReadFrom\<close> unchanged, with its
  sender, whatever the pooled buffers held before and after the packets queued earlier.
\<close>

context packet_buffer
begin

lemma writePacket_queues:
  assumes "writePacket P buf c data a = (None, c')"
  shows "\<exists>pkt. format_packet buf data a = Inr pkt \<and> queue (conn_buf c') = queue (conn_buf c) @ [pkt]
     \<and> closed (conn_buf c') = closed (conn_buf c)"
  using assms write_ok [of _ "conn_buf c"]
  by (auto simp: writePacket_def split: sum.splits prod.splits)

lemma ReadFrom_head:
  assumes "queue (conn_buf c) = packet_bytes data s a # q"
    and "IP_MarshalText (IP a) = Inr s" and "0 \<le> Port a" and "Port a < 65536"
    and "length (packet_bytes data s a) \<le> length buf" and "length (packet_bytes data s a) < 65536"
    and "length data \<le> blen"
  shows "\<exists>c'. ReadFrom P buf c blen = Some (Inr (data, canonical_addr a), c') \<and> queue (conn_buf c') = q"
proof -
  obtain b where rd: "buf_Read P (length buf) (conn_buf c) = Some (Inr (packet_bytes data s a), b)"
    and q: "queue b = q"
    using read_packet [OF assms(1,5)] by blast
  have "copy_at 0 (packet_bytes data s a) buf =
      packet_bytes data s a @ drop (length (packet_bytes data s a)) buf"
    using assms(5) copy_at_append [of 0 "[]" "packet_bytes data s a" buf] by simp
  then show ?thesis
    using rd q assms(6,7) unpack_packet_layout [OF assms(2-4)] by (simp add: ReadFrom_def)
qed

lemma write_then_read:
  assumes "queue (conn_buf c) = []"
    and "writePacket P wbuf c data a = (None, c')"
    and "IP_MarshalText (IP a) = Inr s" and "0 \<le> Port a" and "Port a < 65536"
    and "length wbuf = receiveMTU + maxAddrSize" and "length rbuf = receiveMTU + maxAddrSize"
    and "length (Zone a) \<le> 460" and "length data \<le> blen"
  shows "\<exists>c''. ReadFrom P rbuf c' blen = Some (Inr (data, canonical_addr a), c'')
     \<and> queue (conn_buf c'') = []"
proof -
  have s: "length s \<le> 42" using length_IP_MarshalText [OF assms(3)] .
  obtain pkt where fmt: "format_packet wbuf data a = Inr pkt"
    and q: "queue (conn_buf c') = [pkt]"
    using writePacket_queues [OF assms(2)] assms(1) by auto
  have len: "length data + maxAddrSize \<le> length wbuf"
    using fmt by (auto simp: format_packet_def split: if_splits)
  then have "pkt = packet_bytes data s a"
    using fmt format_packet_layout [OF assms(3), of data wbuf] s assms(8) by simp
  then show ?thesis
    using q ReadFrom_head [OF _ assms(3-5)] s len assms(6-9)
    by (simp add: receiveMTU_def maxAddrSize_def)
qed

lemma writePacket_closed: "closed (conn_buf c) \<Longrightarrow> fst (writePacket P buf c data a) \<noteq> None"
  using write_closed [of "conn_buf c"]
  by (auto simp: writePacket_def split: sum.splits prod.splits) (metis fst_conv option.exhaust)

lemma writePacket_err_queue:
  assumes "writePacket P buf c data a = (Some e, c')"
  shows "c' = c"
  using assms write_err [of _ "conn_buf c"]
  by (auto simp: writePacket_def split: sum.splits prod.splits)

end

section \<open>A reference buffer\<close>

text \<open>
  An unbounded queue satisfies the interface, so the facts proved from it are not vacuous.
\<close>

record fifo =
  fifo_queue :: "bytes list"
  fifo_closed :: bool

definition fifo_io :: "fifo packetio" where
  "fifo_io =
     \<lparr>NewBuffer = \<lparr>fifo_queue = [], fifo_closed = False\<rparr>,
      buf_Write = (\<lambda>p b. if fifo_closed b then (Some ErrClosedPipe, b)
                         else (None, b\<lparr>fifo_queue := fifo_queue b @ [p]\<rparr>)),
      buf_Read = (\<lambda>n b. case fifo_queue b of
                     [] \<Rightarrow> (if fifo_closed b then Some (Inl EOF, b) else None)
                   | p # q \<Rightarrow> Some (if length p \<le> n then Inr p else Inl ErrShortBuffer,
                                    b\<lparr>fifo_queue := q\<rparr>)),
      buf_Close = (\<lambda>b. (None, b\<lparr>fifo_closed := True\<rparr>))\<rparr>"

interpretation fifo: packet_buffer fifo_io fifo_queue fifo_closed
  by unfold_locales (auto simp: fifo_io_def split: if_splits)

section \<open>Properties\<close>

text \<open>C1. A packet accepted by \<^const>\<open>writePacket\<close> on a drained connection is returned by
  the next \<^const>\<open>ReadFrom\<close> byte for byte, together with the sender's address in its 16-byte
  form, port and zone, and leaves the queue empty; the stale contents of the two pooled buffers
  do not matter.  The hypotheses are the contract of \<^verbatim>\<open>packetio.Buffer\<close>, a sender with a
  valid IP and port, the pool's buffer size, and a caller's slice that is long enough.\<close>

theorem muxed_conn_roundtrip:
  assumes "packet_buffer P queue closed"
    and "queue (conn_buf c) = []"
    and "fst (writePacket P wbuf c data a) = None"
    and "IP_MarshalText (IP a) = Inr s" and "0 \<le> Port a" and "Port a < 65536"
    and "length wbuf = receiveMTU + maxAddrSize" and "length rbuf = receiveMTU + maxAddrSize"
    and "length (Zone a) \<le> 460" and "length data \<le> blen"
  shows "\<exists>c''. ReadFrom P rbuf (snd (writePacket P wbuf c data a)) blen =
            Some (Inr (data, a\<lparr>IP := ip_canonical (IP a)\<rparr>), c'')
         \<and> queue (conn_buf c'') = []"
proof -
  have "writePacket P wbuf c data a = (None, snd (writePacket P wbuf c data a))"
    using assms(3) by (metis prod.collapse)
  from packet_buffer.write_then_read [OF assms(1,2) this assms(4-10)]
  show ?thesis by (simp add: canonical_addr_def)
qed

theorem muxed_conn_roundtrip_witness:
  "\<exists>c''. ReadFrom fifo_io (replicate 8704 0)
      (snd (writePacket fifo_io (replicate 8704 1) (newUDPMuxedConn fifo_io ''ufrag'' (OtherAddr ''lo''))
              [1, 2, 3] \<lparr>IP = [10, 0, 0, 1], Port = 51820, Zone = ''''\<rparr>)) 1500 =
    Some (Inr ([1, 2, 3], \<lparr>IP = v4InV6Prefix @ [10, 0, 0, 1], Port = 51820, Zone = ''''\<rparr>), c'')
    \<and> fifo_queue (conn_buf c'') = []"
proof -
  let ?a = "\<lparr>IP = [10, 0, 0, 1], Port = 51820, Zone = ''''\<rparr> :: UDPAddr"
  let ?c = "newUDPMuxedConn fifo_io ''ufrag'' (OtherAddr ''lo'')"
  have ip: "IP_MarshalText (IP ?a) = Inr (dotted [10, 0, 0, 1])"
    by (simp add: IP_MarshalText_def IP_String_def To4_def)
  have "format_packet (replicate 8704 1) [1, 2, 3] ?a =
      Inr (packet_bytes [1, 2, 3] (dotted [10, 0, 0, 1]) ?a)"
    using length_dotted [of "[10, 0, 0, 1]"]
    by (intro format_packet_layout ip) (simp_all add: maxAddrSize_def)
  then have ok: "fst (writePacket fifo_io (replicate 8704 1) ?c [1, 2, 3] ?a) = None"
    by (simp add: writePacket_def newUDPMuxedConn_def fifo_io_def)
  have "packet_buffer fifo_io fifo_queue fifo_closed"
    by (rule fifo.packet_buffer_axioms)
  moreover have "fifo_queue (conn_buf ?c) = []"
    by (simp add: newUDPMuxedConn_def fifo_io_def)
  ultimately show ?thesis
    using muxed_conn_roundtrip [of fifo_io fifo_queue fifo_closed ?c "replicate 8704 1" "[1, 2, 3]" ?a
        "dotted [10, 0, 0, 1]" "replicate 8704 0" 1500] ok ip
    by (simp add: receiveMTU_def maxAddrSize_def ip_canonical_def To16_def)
qed

text \<open>C40. With a pooled buffer, \<^const>\<open>format_packet\<close> (the part of \<^const>\<open>writePacket\<close> before
  the queue) accepts exactly the payloads of at most \<^const>\<open>receiveMTU\<close> bytes when the sender's
  IP has a textual form and its zone is short; a longer payload is refused with
  \<^const>\<open>ErrShortBuffer\<close> and never truncated.\<close>

theorem format_packet_accepts:
  assumes "length buf = receiveMTU + maxAddrSize" and "IP_MarshalText (IP a) = Inr s"
    and "length (Zone a) \<le> 460"
  shows "format_packet buf data a =
     (if length data \<le> receiveMTU then Inr (packet_bytes data s a) else Inl ErrShortBuffer)"
  using assms length_IP_MarshalText [OF assms(2)] format_packet_layout [OF assms(2), of data buf]
  by (simp add: format_packet_def receiveMTU_def maxAddrSize_def)

theorem format_packet_accepts_witness:
  "format_packet (replicate 8704 0) (replicate 9000 7) \<lparr>IP = [], Port = 1, Zone = ''''\<rparr> =
     Inl ErrShortBuffer"
  using format_packet_accepts [of "replicate 8704 0" "\<lparr>IP = [], Port = 1, Zone = ''''\<rparr>" "[]"
      "replicate 9000 7"]
  by (simp add: receiveMTU_def maxAddrSize_def IP_MarshalText_def)

end
