(* ===== verification/Udp_Mux.thy ===== *)
theory Udp_Mux
  imports Muxed_Conn
begin

text \<open>
  The UDP mux (\<^verbatim>\<open>iface/bind/udp_mux.go\<close>): one UDP socket shared by many logical connections,
  keyed by ICE ufrag and by remote address.  The connections are objects shared between three
  maps, so they live in an explicit store and the maps hold references.  The socket under the
  mux is a \<^verbatim>\<open>net.PacketConn\<close>, a Go interface: the record \<open>PacketConn\<close>.  STUN messages are
  pion's: the record \<open>stun\<close>.
\<close>

unbundle bit_operations_syntax

section \<open>Interfaces the mux is built on\<close>

record 's PacketConn =
  pc_LocalAddr :: "'s \<Rightarrow> Addr"
  pc_WriteTo :: "bytes \<Rightarrow> Addr \<Rightarrow> 's \<Rightarrow> (error + nat) \<times> 's"
  pc_Close :: "'s \<Rightarrow> error option \<times> 's"

record 'm stun =
  stun_IsMessage :: "bytes \<Rightarrow> bool"
  stun_Decode :: "bytes \<Rightarrow> error + 'm"
  msg_Raw :: "'m \<Rightarrow> bytes"
  AttrUsername :: "'m \<Rightarrow> string option"
  AttrXORMappedAddress :: "'m \<Rightarrow> bytes option"
  XORMappedAddress_GetFrom :: "'m \<Rightarrow> error + UDPAddr"
  Build_BindingRequest :: "nat \<Rightarrow> error + bytes"

section \<open>Local addresses\<close>

datatype NetworkType = NetworkTypeUDP4 | NetworkTypeUDP6

datatype IfaceAddr = IPNet IP | IPAddr IP | OtherIfaceAddr

record Interface =
  Name :: string
  Flags :: "64 word"
  Addrs :: "error + IfaceAddr list"

definition FlagUp :: "64 word" where "FlagUp = 1"
definition FlagLoopback :: "64 word" where "FlagLoopback = 4"

fun isZeros :: "bytes \<Rightarrow> bool" where
  "isZeros [] = True"
| "isZeros (b # bs) = (if b \<noteq> 0 then False else isZeros bs)"

definition isSupportedIPv6 :: "IP \<Rightarrow> bool" where
  "isSupportedIPv6 ip =
     (if length ip \<noteq> 16
         \<or> isZeros (take 12 ip)
         \<or> (ip ! 0 = 0xfe \<and> ip ! 1 AND 0xc0 = 0xc0)
         \<or> IsLinkLocalUnicast ip
         \<or> IsLinkLocalMulticast ip
      then False else True)"

definition addr_ip :: "IfaceAddr \<Rightarrow> IP" where
  "addr_ip a = (case a of IPNet ip \<Rightarrow> ip | IPAddr ip \<Rightarrow> ip | OtherIfaceAddr \<Rightarrow> [])"

definition keep_ip :: "(IP \<Rightarrow> bool) option \<Rightarrow> bool \<Rightarrow> bool \<Rightarrow> bool \<Rightarrow> IP \<Rightarrow> bool" where
  "keep_ip ipFilter IPv4Requested IPv6Requested includeLoopback ip =
     (if ip = [] \<or> (IsLoopback ip \<and> \<not> includeLoopback) then False
      else if To4 ip = None \<and> \<not> IPv6Requested then False
      else if To4 ip = None \<and> \<not> isSupportedIPv6 ip then False
      else if To4 ip \<noteq> None \<and> \<not> IPv4Requested then False
      else case ipFilter of None \<Rightarrow> True | Some f \<Rightarrow> f ip)"

fun iface_loop ::
  "(string \<Rightarrow> bool) option \<Rightarrow> (IP \<Rightarrow> bool) \<Rightarrow> bool \<Rightarrow> Interface list \<Rightarrow> IP list \<Rightarrow> IP list" where
  "iface_loop interfaceFilter keep includeLoopback [] ips = ips"
| "iface_loop interfaceFilter keep includeLoopback (ifc # rest) ips =
     iface_loop interfaceFilter keep includeLoopback rest
       (if Flags ifc AND FlagUp = 0 then ips
        else if Flags ifc AND FlagLoopback \<noteq> 0 \<and> \<not> includeLoopback then ips
        else if (case interfaceFilter of None \<Rightarrow> False | Some f \<Rightarrow> \<not> f (Name ifc)) then ips
        else case Addrs ifc of
               Inl _ \<Rightarrow> ips
             | Inr addrs \<Rightarrow> ips @ filter keep (map addr_ip addrs))"

definition localInterfaces ::
  "(error + Interface list) \<Rightarrow> (string \<Rightarrow> bool) option \<Rightarrow> (IP \<Rightarrow> bool) option \<Rightarrow> NetworkType list
     \<Rightarrow> bool \<Rightarrow> error + IP list" where
  "localInterfaces ifaces interfaceFilter ipFilter networkTypes includeLoopback =
     (case ifaces of
        Inl err \<Rightarrow> Inl err
      | Inr ifs \<Rightarrow>
          let IPv4Requested = NetworkTypeUDP4 \<in> set networkTypes;
              IPv6Requested = NetworkTypeUDP6 \<in> set networkTypes
          in Inr (iface_loop interfaceFilter
                    (keep_ip ipFilter IPv4Requested IPv6Requested includeLoopback)
                    includeLoopback ifs []))"

section \<open>State\<close>

record ('b, 's) UDPMuxDefault =
  UDPConn :: 's
  connsIPv4 :: "(string, nat) gomap"
  connsIPv6 :: "(string, nat) gomap"
  addressMap :: "(string, nat list) gomap"
  localAddrsForUnspecified :: "Addr list"
  mux_closed :: bool
  store :: "nat \<rightharpoonup> 'b udpMuxedConn"
  next_ref :: nat
  watchers :: "(nat \<times> string) list"

text \<open>
  \<open>watchers\<close> are the goroutines \<^verbatim>\<open>GetConn\<close> starts: each waits for one connection's close
  channel and then removes the ufrag it was started with.
\<close>

text \<open>
  \<open>ifaces\<close> is what \<^verbatim>\<open>Interfaces()\<close> of the transport network returns (the one passed in the
  parameters or the one created when none was passed).
\<close>

definition NewUDPMuxDefault ::
  "'s PacketConn \<Rightarrow> 's \<Rightarrow> (error + Interface list) \<Rightarrow> (string \<Rightarrow> bool) option
     \<Rightarrow> ('b, 's) UDPMuxDefault" where
  "NewUDPMuxDefault C conn ifaces interfaceFilter =
     (let locals =
        (case pc_LocalAddr C conn of
           OtherAddr _ \<Rightarrow> []
         | UDP addr \<Rightarrow>
             if \<not> IsUnspecified (IP addr) then []
             else let networks =
                        (if To4 (IP addr) \<noteq> None then [NetworkTypeUDP4]
                         else if To16 (IP addr) \<noteq> None then [NetworkTypeUDP4, NetworkTypeUDP6]
                         else [])
                  in if networks = [] then []
                     else case localInterfaces ifaces interfaceFilter None networks True of
                            Inl _ \<Rightarrow> []
                          | Inr ips \<Rightarrow> map (\<lambda>ip. UDP \<lparr>IP = ip, Port = Port addr, Zone = ''''\<rparr>) ips)
      in \<lparr>UDPConn = conn, connsIPv4 = [], connsIPv6 = [], addressMap = [],
          localAddrsForUnspecified = locals, mux_closed = False,
          store = Map.empty, next_ref = 0, watchers = []\<rparr>)"

section \<open>Operations\<close>

definition mux_LocalAddr :: "'s PacketConn \<Rightarrow> ('b, 's) UDPMuxDefault \<Rightarrow> Addr" where
  "mux_LocalAddr C m = pc_LocalAddr C (UDPConn m)"

definition GetListenAddresses :: "'s PacketConn \<Rightarrow> ('b, 's) UDPMuxDefault \<Rightarrow> Addr list" where
  "GetListenAddresses C m =
     (if 0 < length (localAddrsForUnspecified m) then localAddrsForUnspecified m
      else [mux_LocalAddr C m])"

definition IsClosed :: "('b, 's) UDPMuxDefault \<Rightarrow> bool" where
  "IsClosed m = mux_closed m"

definition getConn :: "('b, 's) UDPMuxDefault \<Rightarrow> string \<Rightarrow> bool \<Rightarrow> nat option" where
  "getConn m ufrag isIPv6 =
     (if isIPv6 then gm_get (connsIPv6 m) ufrag else gm_get (connsIPv4 m) ufrag)"

definition createMuxedConn ::
  "'b packetio \<Rightarrow> 's PacketConn \<Rightarrow> ('b, 's) UDPMuxDefault \<Rightarrow> string
     \<Rightarrow> nat \<times> ('b, 's) UDPMuxDefault" where
  "createMuxedConn P C m key =
     (let r = next_ref m; c = newUDPMuxedConn P key (mux_LocalAddr C m)
      in (r, m\<lparr>store := (store m)(r \<mapsto> c), next_ref := Suc r\<rparr>))"

definition GetConn ::
  "'b packetio \<Rightarrow> 's PacketConn \<Rightarrow> ('b, 's) UDPMuxDefault \<Rightarrow> string \<Rightarrow> Addr
     \<Rightarrow> (error + nat) \<times> ('b, 's) UDPMuxDefault" where
  "GetConn P C m ufrag addr =
     (if length (localAddrsForUnspecified m) = 0
         \<and> Addr_String (pc_LocalAddr C (UDPConn m)) \<noteq> Addr_String addr
      then (Inl (Errorf (''invalid address '' @ Addr_String addr)), m)
      else let isIPv6 = addr_isIPv6 addr
           in if IsClosed m then (Inl ErrClosedPipe, m)
              else case getConn m ufrag isIPv6 of
                     Some conn \<Rightarrow> (Inr conn, m)
                   | None \<Rightarrow>
                       let (c, m) = createMuxedConn P C m ufrag;
                           m = m\<lparr>watchers := watchers m @ [(c, ufrag)]\<rparr>
                       in if isIPv6
                          then (Inr c, m\<lparr>connsIPv6 := gm_put ufrag c (connsIPv6 m)\<rparr>)
                          else (Inr c, m\<lparr>connsIPv4 := gm_put ufrag c (connsIPv4 m)\<rparr>))"

definition conn_at :: "('b, 's) UDPMuxDefault \<Rightarrow> nat \<Rightarrow> 'b udpMuxedConn" where
  "conn_at m r = the (store m r)"

definition RemoveConnByUfrag ::
  "('b, 's) UDPMuxDefault \<Rightarrow> string \<Rightarrow> ('b, 's) UDPMuxDefault" where
  "RemoveConnByUfrag m ufrag =
     (let (removed4, m) =
        (case gm_get (connsIPv4 m) ufrag of
           Some c \<Rightarrow> ([c], m\<lparr>connsIPv4 := gm_del ufrag (connsIPv4 m)\<rparr>) | None \<Rightarrow> ([], m));
          (removed6, m) =
        (case gm_get (connsIPv6 m) ufrag of
           Some c \<Rightarrow> ([c], m\<lparr>connsIPv6 := gm_del ufrag (connsIPv6 m)\<rparr>) | None \<Rightarrow> ([], m));
          removedConns = removed4 @ removed6
      in if length removedConns = 0 then m
         else m\<lparr>addressMap :=
                  fold (\<lambda>c am. fold gm_del (getAddresses (conn_at m c)) am)
                    removedConns (addressMap m)\<rparr>)"

definition close_ref ::
  "'b packetio \<Rightarrow> nat \<Rightarrow> ('b, 's) UDPMuxDefault \<Rightarrow> ('b, 's) UDPMuxDefault" where
  "close_ref P r m = m\<lparr>store := (store m)(r \<mapsto> snd (conn_Close P (conn_at m r)))\<rparr>"

definition mux_Close ::
  "'b packetio \<Rightarrow> 's PacketConn \<Rightarrow> ('b, 's) UDPMuxDefault \<Rightarrow> error option \<times> ('b, 's) UDPMuxDefault" where
  "mux_Close P C m =
     (if mux_closed m then (None, m)
      else let m = fold (close_ref P) (gm_vals (connsIPv4 m)) m;
               m = fold (close_ref P) (gm_vals (connsIPv6 m)) m
           in (None, m\<lparr>connsIPv4 := [], connsIPv6 := [], mux_closed := True,
                       UDPConn := snd (pc_Close C (UDPConn m))\<rparr>))"

definition writeTo ::
  "'s PacketConn \<Rightarrow> ('b, 's) UDPMuxDefault \<Rightarrow> bytes \<Rightarrow> Addr
     \<Rightarrow> (error + nat) \<times> ('b, 's) UDPMuxDefault" where
  "writeTo C m buf rAddr =
     (let (res, s) = pc_WriteTo C buf rAddr (UDPConn m) in (res, m\<lparr>UDPConn := s\<rparr>))"

definition registerConnForAddress ::
  "('b, 's) UDPMuxDefault \<Rightarrow> nat \<Rightarrow> string \<Rightarrow> ('b, 's) UDPMuxDefault" where
  "registerConnForAddress m conn addr =
     (if IsClosed m then m
      else let existing = (case gm_get (addressMap m) addr of Some l \<Rightarrow> l | None \<Rightarrow> [])
           in m\<lparr>addressMap := gm_put addr (existing @ [conn]) (addressMap m)\<rparr>)"

text \<open>The operations of the muxed connection that call into the mux.\<close>

definition addAddress ::
  "('b, 's) UDPMuxDefault \<Rightarrow> nat \<Rightarrow> string \<Rightarrow> ('b, 's) UDPMuxDefault" where
  "addAddress m r addr =
     (let c = conn_at m r;
          m = m\<lparr>store := (store m)(r \<mapsto> c\<lparr>addresses := addresses c @ [addr]\<rparr>)\<rparr>
      in registerConnForAddress m r addr)"

definition conn_WriteTo ::
  "'s PacketConn \<Rightarrow> ('b, 's) UDPMuxDefault \<Rightarrow> nat \<Rightarrow> bytes \<Rightarrow> Addr
     \<Rightarrow> (error + nat) \<times> ('b, 's) UDPMuxDefault" where
  "conn_WriteTo C m r buf rAddr =
     (if isClosed (conn_at m r) then (Inl ErrClosedPipe, m)
      else let addr = Addr_String rAddr;
               m = (if \<not> containsAddress (conn_at m r) addr then addAddress m r addr else m)
           in writeTo C m buf rAddr)"

text \<open>
  \<^verbatim>\<open>HandleSTUNMessage\<close>: the connections registered for the sender's address, and the
  connection of the ufrag in the message's username unless one with the same key is already
  among them, each get a copy of the raw message.  \<open>pool i\<close> is the content of the \<open>i\<close>-th
  pooled buffer taken.
\<close>

definition destinations ::
  "'m stun \<Rightarrow> ('b, 's) UDPMuxDefault \<Rightarrow> 'm \<Rightarrow> Addr \<Rightarrow> nat list" where
  "destinations S m msg addr =
     (let destinationConnList =
            (case gm_get (addressMap m) (Addr_String addr) of Some l \<Rightarrow> l | None \<Rightarrow> [])
      in case AttrUsername S msg of
           None \<Rightarrow> destinationConnList
         | Some attr \<Rightarrow>
             let ufrag = hd (Split (CHR '':'') attr)
             in case getConn m ufrag (addr_isIPv6 addr) of
                  None \<Rightarrow> destinationConnList
                | Some d \<Rightarrow>
                    if \<exists>conn \<in> set destinationConnList. Key (conn_at m conn) = Key (conn_at m d)
                    then destinationConnList
                    else destinationConnList @ [d])"

fun forward ::
  "'b packetio \<Rightarrow> (nat \<Rightarrow> bytes) \<Rightarrow> bytes \<Rightarrow> UDPAddr \<Rightarrow> nat list
     \<Rightarrow> ('b, 's) UDPMuxDefault \<Rightarrow> ('b, 's) UDPMuxDefault" where
  "forward P pool raw a [] m = m"
| "forward P pool raw a (r # rs) m =
     forward P (\<lambda>i. pool (Suc i)) raw a rs
       (m\<lparr>store := (store m)(r \<mapsto> snd (writePacket P (pool 0) (conn_at m r) raw a))\<rparr>)"

definition HandleSTUNMessage ::
  "'b packetio \<Rightarrow> 'm stun \<Rightarrow> (nat \<Rightarrow> bytes) \<Rightarrow> ('b, 's) UDPMuxDefault \<Rightarrow> 'm \<Rightarrow> Addr
     \<Rightarrow> error option \<times> ('b, 's) UDPMuxDefault" where
  "HandleSTUNMessage P S pool m msg addr =
     (case addr of
        OtherAddr _ \<Rightarrow> (Some (Errorf ''underlying PacketConn did not return a UDPAddr''), m)
      | UDP remoteAddr \<Rightarrow> (None, forward P pool (msg_Raw S msg) remoteAddr (destinations S m msg addr) m))"

text \<open>A watcher goroutine whose connection has been closed.\<close>

definition run_watcher :: "('b, 's) UDPMuxDefault \<Rightarrow> nat \<times> string \<Rightarrow> ('b, 's) UDPMuxDefault" where
  "run_watcher m w = RemoveConnByUfrag (m\<lparr>watchers := removeAll w (watchers m)\<rparr>) (snd w)"

section \<open>Steps\<close>

text \<open>
  One step is one call of the mux, of one of its connections, or one watcher goroutine running.
  Every call is atomic here: the code's lock sections are merged into the call they belong to.
\<close>

inductive mux_step ::
  "'b packetio \<Rightarrow> 's PacketConn \<Rightarrow> 'm stun \<Rightarrow> ('b, 's) UDPMuxDefault \<Rightarrow> ('b, 's) UDPMuxDefault \<Rightarrow> bool"
  for P C S where
  step_GetConn: "mux_step P C S m (snd (GetConn P C m ufrag addr))"
| step_WriteTo: "store m r \<noteq> None \<Longrightarrow> mux_step P C S m (snd (conn_WriteTo C m r buf rAddr))"
| step_STUN: "mux_step P C S m (snd (HandleSTUNMessage P S pool m msg addr))"
| step_ReadFrom: "store m r = Some c \<Longrightarrow> ReadFrom P buf c blen = Some (res, c') \<Longrightarrow>
     mux_step P C S m (m\<lparr>store := (store m)(r \<mapsto> c')\<rparr>)"
| step_conn_Close: "store m r \<noteq> None \<Longrightarrow> mux_step P C S m (close_ref P r m)"
| step_watcher: "w \<in> set (watchers m) \<Longrightarrow> isClosed (conn_at m (fst w)) \<Longrightarrow>
     mux_step P C S m (run_watcher m w)"
| step_Close: "mux_step P C S m (snd (mux_Close P C m))"

inductive mux_reachable ::
  "'b packetio \<Rightarrow> 's PacketConn \<Rightarrow> 'm stun \<Rightarrow> ('b, 's) UDPMuxDefault \<Rightarrow> bool"
  for P C S where
  mux_start: "mux_reachable P C S (NewUDPMuxDefault C conn ifaces f)"
| mux_next: "mux_reachable P C S m \<Longrightarrow> mux_step P C S m m' \<Longrightarrow> mux_reachable P C S m'"

section \<open>Invariant\<close>

definition conns_ok ::
  "(nat \<rightharpoonup> 'b udpMuxedConn) \<Rightarrow> (nat \<times> string) set \<Rightarrow> (string, nat) gomap \<Rightarrow> bool" where
  "conns_ok st W cm \<longleftrightarrow> gm_wf cm
     \<and> (\<forall>u r. gm_get cm u = Some r \<longrightarrow> (\<exists>c. st r = Some c \<and> Key c = u) \<and> (r, u) \<in> W)"

definition addrs_ok :: "(nat \<rightharpoonup> 'b udpMuxedConn) \<Rightarrow> (string, nat list) gomap \<Rightarrow> bool" where
  "addrs_ok st am \<longleftrightarrow> gm_wf am
     \<and> (\<forall>a rs. gm_get am a = Some rs \<longrightarrow>
          distinct rs \<and> (\<forall>r\<in>set rs. \<exists>c. st r = Some c \<and> a \<in> set (addresses c)))"

definition mux_inv :: "('b, 's) UDPMuxDefault \<Rightarrow> bool" where
  "mux_inv m \<longleftrightarrow>
     conns_ok (store m) (set (watchers m)) (connsIPv4 m)
   \<and> conns_ok (store m) (set (watchers m)) (connsIPv6 m)
   \<and> addrs_ok (store m) (addressMap m)
   \<and> (\<forall>r u. (r, u) \<in> set (watchers m) \<longrightarrow> (\<exists>c. store m r = Some c \<and> Key c = u))
   \<and> (\<forall>r c. store m r = Some c \<longrightarrow> r < next_ref m \<and> distinct (addresses c))
   \<and> (mux_closed m \<longrightarrow> connsIPv4 m = [] \<and> connsIPv6 m = [])"

text \<open>
  Almost every operation only grows the store: the connections keep their key and their
  addresses.  That alone carries the invariant over.
\<close>

definition store_ext :: "(nat \<rightharpoonup> 'b udpMuxedConn) \<Rightarrow> (nat \<rightharpoonup> 'b udpMuxedConn) \<Rightarrow> bool" where
  "store_ext st st' \<longleftrightarrow>
     (\<forall>r c. st r = Some c \<longrightarrow>
        (\<exists>c'. st' r = Some c' \<and> Key c' = Key c \<and> set (addresses c) \<subseteq> set (addresses c')))"

lemma store_ext_refl [simp]: "store_ext st st"
  by (simp add: store_ext_def)

lemma conns_ok_Nil [simp]: "conns_ok st W []"
  by (simp add: conns_ok_def)

lemma conns_ok_ext: "conns_ok st W cm \<Longrightarrow> store_ext st st' \<Longrightarrow> W \<subseteq> W' \<Longrightarrow> conns_ok st' W' cm"
  unfolding conns_ok_def store_ext_def by (metis subsetD)

lemma addrs_ok_ext:
  assumes "addrs_ok st am" and "store_ext st st'"
  shows "addrs_ok st' am"
  unfolding addrs_ok_def
proof (intro conjI allI impI ballI)
  show "gm_wf am" using assms(1) by (simp add: addrs_ok_def)
next
  fix a rs assume get: "gm_get am a = Some rs"
  show "distinct rs" using assms(1) get by (auto simp: addrs_ok_def)
  fix r assume "r \<in> set rs"
  then obtain c where "st r = Some c" "a \<in> set (addresses c)"
    using assms(1) get unfolding addrs_ok_def by blast
  then show "\<exists>c. st' r = Some c \<and> a \<in> set (addresses c)"
    using assms(2) unfolding store_ext_def by blast
qed

lemma conns_ok_del: "conns_ok st W cm \<Longrightarrow> conns_ok st (W - {w}) (gm_del (snd w) cm)"
  by (auto simp: conns_ok_def)

lemma addrs_ok_del: "addrs_ok st am \<Longrightarrow> addrs_ok st (gm_del a am)"
  by (auto simp: addrs_ok_def)

lemma addrs_ok_dels: "addrs_ok st am \<Longrightarrow> addrs_ok st (fold gm_del as am)"
  by (induction "as" arbitrary: am) (auto intro: addrs_ok_del)

lemma addrs_ok_removed:
  "addrs_ok st am \<Longrightarrow> addrs_ok st (fold (\<lambda>c am. fold gm_del (f c) am) rs am)"
  by (induction rs arbitrary: am) (auto intro: addrs_ok_dels)

text \<open>A step that rewrites connections in place keeps the invariant.\<close>

definition conn_id :: "'b udpMuxedConn \<Rightarrow> string \<times> string list" where
  "conn_id c = (Key c, addresses c)"

definition same_conns :: "(nat \<rightharpoonup> 'b udpMuxedConn) \<Rightarrow> (nat \<rightharpoonup> 'b udpMuxedConn) \<Rightarrow> bool" where
  "same_conns st st' \<longleftrightarrow> (\<forall>r. map_option conn_id (st' r) = map_option conn_id (st r))"

lemma same_conns_refl [simp]: "same_conns st st"
  by (simp add: same_conns_def)

lemma same_conns_trans: "same_conns a b \<Longrightarrow> same_conns b c \<Longrightarrow> same_conns a c"
  by (simp add: same_conns_def)

lemma same_conns_update:
  "st r = Some c \<Longrightarrow> Key c' = Key c \<Longrightarrow> addresses c' = addresses c \<Longrightarrow> same_conns st (st(r \<mapsto> c'))"
  by (simp add: same_conns_def conn_id_def)

lemma same_connsD:
  assumes "same_conns st st'" and "st r = Some c"
  obtains c' where "st' r = Some c'" and "Key c' = Key c" and "addresses c' = addresses c"
proof -
  have "map_option conn_id (st' r) = Some (conn_id c)"
    using assms by (simp add: same_conns_def)
  with that show thesis by (auto simp: conn_id_def)
qed

lemma same_conns_sym: "same_conns st st' \<Longrightarrow> same_conns st' st"
  by (simp add: same_conns_def)

lemma same_conns_ext: "same_conns st st' \<Longrightarrow> store_ext st st'"
  unfolding store_ext_def by (intro allI impI, erule (1) same_connsD) auto

lemma mux_inv_same_conns:
  assumes inv: "mux_inv m" and same: "same_conns (store m) (store m')"
    and rest: "connsIPv4 m' = connsIPv4 m" "connsIPv6 m' = connsIPv6 m" "addressMap m' = addressMap m"
      "watchers m' = watchers m" "next_ref m' = next_ref m" "mux_closed m' = mux_closed m"
  shows "mux_inv m'"
proof -
  have ext: "store_ext (store m) (store m')" using same by (rule same_conns_ext)
  have fresh: "r < next_ref m \<and> distinct (addresses c')" if "store m' r = Some c'" for r c'
  proof -
    obtain c where "store m r = Some c" and "addresses c = addresses c'"
      using same_connsD [OF same_conns_sym [OF same] \<open>store m' r = Some c'\<close>] by blast
    then show ?thesis using inv unfolding mux_inv_def by force
  qed
  have watch: "\<exists>c. store m' r = Some c \<and> Key c = u" if "(r, u) \<in> set (watchers m)" for r u
  proof -
    obtain c where "store m r = Some c" and "Key c = u"
      using inv \<open>(r, u) \<in> set (watchers m)\<close> unfolding mux_inv_def by blast
    then show ?thesis using same_connsD [OF same \<open>store m r = Some c\<close>] by metis
  qed
  show ?thesis
    using inv ext fresh watch rest unfolding mux_inv_def
    by (auto intro: conns_ok_ext addrs_ok_ext)
qed

section \<open>Every operation keeps the invariant\<close>

lemma conn_Close_fields [simp]:
  "Key (snd (conn_Close P c)) = Key c" "addresses (snd (conn_Close P c)) = addresses c"
  by (simp_all add: conn_Close_def Let_def split: prod.splits)

lemma writePacket_fields [simp]:
  "Key (snd (writePacket P buf c data a)) = Key c"
  "addresses (snd (writePacket P buf c data a)) = addresses c"
  by (simp_all add: writePacket_def Let_def split: prod.splits sum.splits)

lemma ReadFrom_fields:
  "ReadFrom P buf c blen = Some (res, c') \<Longrightarrow> Key c' = Key c \<and> addresses c' = addresses c"
  by (auto simp: ReadFrom_def split: option.splits prod.splits sum.splits)

lemma NewUDPMuxDefault_inv: "mux_inv (NewUDPMuxDefault C conn ifaces f)"
  by (simp add: NewUDPMuxDefault_def Let_def mux_inv_def conns_ok_def addrs_ok_def)

lemma close_ref_same:
  "store m r \<noteq> None \<Longrightarrow> same_conns (store m) (store (close_ref P r m))"
  by (auto simp: close_ref_def conn_at_def intro: same_conns_update)

lemma close_ref_fields [simp]:
  "connsIPv4 (close_ref P r m) = connsIPv4 m" "connsIPv6 (close_ref P r m) = connsIPv6 m"
  "addressMap (close_ref P r m) = addressMap m" "watchers (close_ref P r m) = watchers m"
  "next_ref (close_ref P r m) = next_ref m" "mux_closed (close_ref P r m) = mux_closed m"
  "UDPConn (close_ref P r m) = UDPConn m"
  "localAddrsForUnspecified (close_ref P r m) = localAddrsForUnspecified m"
  by (simp_all add: close_ref_def)

lemma close_ref_inv: "mux_inv m \<Longrightarrow> store m r \<noteq> None \<Longrightarrow> mux_inv (close_ref P r m)"
  by (rule mux_inv_same_conns [OF _ close_ref_same]) auto

lemma fold_close_ref:
  assumes "mux_inv m" and "\<forall>r\<in>set rs. store m r \<noteq> None"
  shows "mux_inv (fold (close_ref P) rs m) \<and> same_conns (store m) (store (fold (close_ref P) rs m))"
  using assms
proof (induction rs arbitrary: m)
  case (Cons r rs)
  have st: "same_conns (store m) (store (close_ref P r m))"
    using Cons.prems by (intro close_ref_same) simp
  have "\<forall>r'\<in>set rs. store (close_ref P r m) r' \<noteq> None"
    using Cons.prems(2) by (simp add: close_ref_def)
  then show ?case
    using Cons.IH [of "close_ref P r m"] Cons.prems st
    by (auto simp: close_ref_inv intro: same_conns_trans)
qed simp

lemma fold_close_ref_fields [simp]:
  "connsIPv4 (fold (close_ref P) rs m) = connsIPv4 m"
  "connsIPv6 (fold (close_ref P) rs m) = connsIPv6 m"
  "addressMap (fold (close_ref P) rs m) = addressMap m"
  "watchers (fold (close_ref P) rs m) = watchers m"
  "next_ref (fold (close_ref P) rs m) = next_ref m"
  "mux_closed (fold (close_ref P) rs m) = mux_closed m"
  "UDPConn (fold (close_ref P) rs m) = UDPConn m"
  by (induction rs arbitrary: m) auto

lemma conns_ok_vals:
  assumes "conns_ok st W cm" and "r \<in> set (gm_vals cm)"
  shows "st r \<noteq> None"
proof -
  obtain u where "gm_get cm u = Some r"
    using assms gm_vals_get [of cm r] unfolding conns_ok_def by blast
  then show ?thesis using assms(1) unfolding conns_ok_def by force
qed

lemma mux_inv_vals:
  assumes "mux_inv m" and "r \<in> set (gm_vals (connsIPv4 m)) \<union> set (gm_vals (connsIPv6 m))"
  shows "store m r \<noteq> None"
  using assms conns_ok_vals unfolding mux_inv_def by blast

lemma mux_Close_inv: "mux_inv m \<Longrightarrow> mux_inv (snd (mux_Close P C m))"
proof (cases "mux_closed m")
  case False
  assume inv: "mux_inv m"
  let ?m4 = "fold (close_ref P) (gm_vals (connsIPv4 m)) m"
  let ?m6 = "fold (close_ref P) (gm_vals (connsIPv6 ?m4)) ?m4"
  have i4: "mux_inv ?m4"
    using fold_close_ref [OF inv, of "gm_vals (connsIPv4 m)"] mux_inv_vals [OF inv] by blast
  then have i6: "mux_inv ?m6"
    using fold_close_ref [OF i4, of "gm_vals (connsIPv6 ?m4)"] mux_inv_vals [OF i4] by blast
  then have "mux_inv (?m6\<lparr>connsIPv4 := [], connsIPv6 := [], mux_closed := True,
      UDPConn := snd (pc_Close C (UDPConn ?m6))\<rparr>)"
    by (simp add: mux_inv_def conns_ok_def)
  then show ?thesis using False by (simp add: mux_Close_def Let_def)
qed (simp add: mux_Close_def)

lemma conns_ok_put:
  assumes "conns_ok st W cm" and "store_ext st st'" and "W \<subseteq> W'"
    and "st' r = Some c" and "Key c = u" and "(r, u) \<in> W'"
  shows "conns_ok st' W' (gm_put u r cm)"
  using conns_ok_ext [OF assms(1-3)] assms(4-6) by (simp add: conns_ok_def)

lemma store_ext_fresh: "st r = None \<Longrightarrow> store_ext st (st(r \<mapsto> c))"
  by (auto simp: store_ext_def)

lemma GetConn_inv:
  assumes inv: "mux_inv m"
  shows "mux_inv (snd (GetConn P C m ufrag addr))"
proof -
  let ?r = "next_ref m" and ?c = "newUDPMuxedConn P ufrag (mux_LocalAddr C m)"
  let ?st = "(store m)(?r \<mapsto> ?c)" and ?W = "watchers m @ [(?r, ufrag)]"
  let ?m = "m\<lparr>store := ?st, next_ref := Suc ?r, watchers := ?W\<rparr>"
  have "store m ?r = None"
    using inv unfolding mux_inv_def by (meson less_irrefl not_None_eq)
  then have ext: "store_ext (store m) ?st" by (rule store_ext_fresh)
  have c: "?st ?r = Some ?c" "Key ?c = ufrag" "addresses ?c = []"
    by (simp_all add: newUDPMuxedConn_def)
  have watch: "\<forall>r u. (r, u) \<in> set ?W \<longrightarrow> (\<exists>c. ?st r = Some c \<and> Key c = u)"
    using inv ext c unfolding mux_inv_def store_ext_def by force
  have fresh: "\<forall>r c. ?st r = Some c \<longrightarrow> r < Suc ?r \<and> distinct (addresses c)"
    using inv c unfolding mux_inv_def by (auto intro: less_SucI)
  have keep: "conns_ok ?st (set ?W) cm" "conns_ok ?st (set ?W) (gm_put ufrag ?r cm)"
    if "conns_ok (store m) (set (watchers m)) cm" for cm
    using conns_ok_ext [OF that ext, of "set ?W"] conns_ok_put [OF that ext, of "set ?W" ?r ?c ufrag] c
    by auto
  have addrs: "addrs_ok ?st (addressMap m)"
    using inv ext addrs_ok_ext unfolding mux_inv_def by blast
  have put4: "mux_inv (?m\<lparr>connsIPv4 := gm_put ufrag ?r (connsIPv4 m)\<rparr>)"
    and put6: "mux_inv (?m\<lparr>connsIPv6 := gm_put ufrag ?r (connsIPv6 m)\<rparr>)"
    if "\<not> mux_closed m"
    using that inv watch fresh keep addrs unfolding mux_inv_def by simp_all
  show ?thesis
    using inv put4 put6
    by (auto simp: GetConn_def createMuxedConn_def IsClosed_def Let_def split: option.splits)
qed

lemma contains_addr_iff: "contains_addr as a \<longleftrightarrow> a \<in> set as"
  by (induction "as") auto

lemma mux_inv_conn:
  assumes "mux_inv m" and "getConn m u v6 = Some d"
  shows "\<exists>c. store m d = Some c \<and> Key c = u"
  using assms unfolding mux_inv_def conns_ok_def getConn_def by (cases v6) simp_all

lemma mux_inv_addr:
  assumes "mux_inv m" and "gm_get (addressMap m) a = Some l"
  shows "distinct l" and "d \<in> set l \<Longrightarrow> \<exists>c. store m d = Some c \<and> a \<in> set (addresses c)"
  using assms unfolding mux_inv_def addrs_ok_def by simp_all

lemma mux_inv_store:
  assumes "mux_inv m" and "store m r = Some c"
  shows "r < next_ref m" and "distinct (addresses c)"
  using assms unfolding mux_inv_def by simp_all

lemma mux_inv_watcher:
  assumes "mux_inv m" and "(r, u) \<in> set (watchers m)"
  shows "\<exists>c. store m r = Some c \<and> Key c = u"
  using assms unfolding mux_inv_def by simp

lemma addAddress_inv:
  assumes inv: "mux_inv m" and st: "store m r = Some c" and new: "a \<notin> set (addresses c)"
  shows "mux_inv (addAddress m r a)"
proof -
  let ?c = "c\<lparr>addresses := addresses c @ [a]\<rparr>"
  let ?st = "(store m)(r \<mapsto> ?c)"
  have ext: "store_ext (store m) ?st" using st by (auto simp: store_ext_def)
  have keep: "conns_ok ?st (set (watchers m)) cm" if "conns_ok (store m) (set (watchers m)) cm" for cm
    using conns_ok_ext [OF that ext] by blast
  have addrs: "addrs_ok ?st (addressMap m)"
    using inv ext addrs_ok_ext unfolding mux_inv_def by blast
  define l where "l = (case gm_get (addressMap m) a of Some l \<Rightarrow> l | None \<Rightarrow> [])"
  have "r \<notin> set l \<and> distinct l \<and> (\<forall>r'\<in>set l. \<exists>c. ?st r' = Some c \<and> a \<in> set (addresses c))"
  proof (cases "gm_get (addressMap m) a")
    case (Some rs)
    have "r \<notin> set rs"
      using mux_inv_addr(2) [OF inv Some, of r] st new by auto
    then show ?thesis using Some addrs unfolding addrs_ok_def l_def by simp
  qed (simp add: l_def)
  then have put: "addrs_ok ?st (gm_put a (l @ [r]) (addressMap m))"
    using addrs unfolding addrs_ok_def by simp
  have watch: "\<exists>c. ?st r' = Some c \<and> Key c = u" if "(r', u) \<in> set (watchers m)" for r' u
    using mux_inv_watcher [OF inv that] st by auto
  have fresh: "r' < next_ref m \<and> distinct (addresses c')" if "?st r' = Some c'" for r' c'
    using mux_inv_store [OF inv, of r'] mux_inv_store [OF inv st] new that by (auto split: if_splits)
  show ?thesis
    using inv st keep addrs put watch fresh
    unfolding mux_inv_def addAddress_def registerConnForAddress_def l_def
    by (simp add: conn_at_def IsClosed_def Let_def)
qed

lemma writeTo_inv: "mux_inv m \<Longrightarrow> mux_inv (snd (writeTo C m buf a))"
  by (rule mux_inv_same_conns [where m = m]) (auto simp: writeTo_def split: prod.splits)

lemma conn_WriteTo_inv:
  assumes "mux_inv m" and "store m r \<noteq> None"
  shows "mux_inv (snd (conn_WriteTo C m r buf a))"
proof -
  obtain c where c: "store m r = Some c" using assms(2) by blast
  let ?s = "Addr_String a"
  have "mux_inv (if \<not> containsAddress (conn_at m r) ?s then addAddress m r ?s else m)"
    using assms(1) addAddress_inv [OF assms(1) c]
    by (simp add: containsAddress_def contains_addr_iff conn_at_def c)
  then show ?thesis
    using assms(1) by (simp add: conn_WriteTo_def Let_def writeTo_inv del: if_split)
qed

lemma forward_inv:
  "mux_inv m \<Longrightarrow> \<forall>r\<in>set rs. store m r \<noteq> None \<Longrightarrow> mux_inv (forward P pool raw a rs m)"
proof (induction rs arbitrary: m pool)
  case (Cons r rs)
  let ?m = "m\<lparr>store := (store m)(r \<mapsto> snd (writePacket P (pool 0) (conn_at m r) raw a))\<rparr>"
  have "same_conns (store m) (store ?m)"
    using Cons.prems(2) by (auto simp: conn_at_def intro: same_conns_update)
  then have "mux_inv ?m" by (rule mux_inv_same_conns [OF Cons.prems(1)]) simp_all
  moreover have "\<forall>r'\<in>set rs. store ?m r' \<noteq> None" using Cons.prems(2) by simp
  ultimately show ?case using Cons.IH [of ?m] by simp
qed simp

lemma destinations_cases:
  assumes "r \<in> set (destinations S m msg addr)"
  obtains (addr) l where "gm_get (addressMap m) (Addr_String addr) = Some l" and "r \<in> set l"
  | (ufrag) attr where "AttrUsername S msg = Some attr"
      and "getConn m (hd (Split (CHR '':'') attr)) (addr_isIPv6 addr) = Some r"
  using assms
  by (cases "gm_get (addressMap m) (Addr_String addr)"; cases "AttrUsername S msg")
    (auto simp: destinations_def Let_def split: option.splits if_splits)

lemma destinations_alloc:
  assumes inv: "mux_inv m" and r: "r \<in> set (destinations S m msg addr)"
  shows "store m r \<noteq> None"
  using r
proof (cases rule: destinations_cases)
  case (addr l)
  then show ?thesis using mux_inv_addr(2) [OF inv] by blast
next
  case (ufrag attr)
  then show ?thesis using mux_inv_conn [OF inv] by blast
qed

lemma HandleSTUNMessage_inv: "mux_inv m \<Longrightarrow> mux_inv (snd (HandleSTUNMessage P S pool m msg addr))"
  using destinations_alloc by (auto simp: HandleSTUNMessage_def intro!: forward_inv split: Addr.splits)

lemma RemoveConnByUfrag_eq:
  "RemoveConnByUfrag m u =
     m\<lparr>connsIPv4 := gm_del u (connsIPv4 m), connsIPv6 := gm_del u (connsIPv6 m),
       addressMap := fold (\<lambda>c am. fold gm_del (addresses (conn_at m c)) am)
         (case_option [] (\<lambda>c. [c]) (gm_get (connsIPv4 m) u)
            @ case_option [] (\<lambda>c. [c]) (gm_get (connsIPv6 m) u)) (addressMap m)\<rparr>"
proof -
  have del: "gm_get cm u = None \<Longrightarrow> gm_del u cm = cm" for cm :: "(string, nat) gomap"
    by (simp add: map_of_eq_None_iff)
  show ?thesis
    by (cases "gm_get (connsIPv4 m) u"; cases "gm_get (connsIPv6 m) u")
      (simp_all add: RemoveConnByUfrag_def getAddresses_def conn_at_def Let_def del)
qed

lemma run_watcher_inv: "mux_inv m \<Longrightarrow> mux_inv (run_watcher m w)"
  unfolding run_watcher_def RemoveConnByUfrag_eq mux_inv_def
  by (simp add: conns_ok_del addrs_ok_removed conn_at_def)

lemma mux_step_inv: "mux_step P C S m m' \<Longrightarrow> mux_inv m \<Longrightarrow> mux_inv m'"
proof (induction rule: mux_step.induct)
  case (step_ReadFrom m r c buf blen res c')
  have "same_conns (store m) (store (m\<lparr>store := (store m)(r \<mapsto> c')\<rparr>))"
    using step_ReadFrom(1) ReadFrom_fields [OF step_ReadFrom(2)] by (auto intro: same_conns_update)
  then show ?case by (rule mux_inv_same_conns [OF step_ReadFrom(3)]) simp_all
qed (auto intro: GetConn_inv conn_WriteTo_inv HandleSTUNMessage_inv close_ref_inv run_watcher_inv
    mux_Close_inv)

lemma mux_reachable_inv: "mux_reachable P C S m \<Longrightarrow> mux_inv m"
  by (induction rule: mux_reachable.induct) (auto intro: NewUDPMuxDefault_inv mux_step_inv)

section \<open>Behaviour of the operations\<close>

lemma GetConn_frame [simp]:
  "localAddrsForUnspecified (snd (GetConn P C m u a)) = localAddrsForUnspecified m"
  "UDPConn (snd (GetConn P C m u a)) = UDPConn m"
  "mux_closed (snd (GetConn P C m u a)) = mux_closed m"
  "addressMap (snd (GetConn P C m u a)) = addressMap m"
  by (auto simp: GetConn_def createMuxedConn_def Let_def split: option.splits)

lemma GetConn_getConn:
  assumes "GetConn P C m u a = (Inr r, m')"
  shows "getConn m' u' v = (if u' = u \<and> v = addr_isIPv6 a then Some r else getConn m u' v)"
  using assms
  by (auto simp: GetConn_def createMuxedConn_def getConn_def Let_def split: option.splits if_splits)

lemma GetConn_again:
  assumes "GetConn P C m u a = (Inr r, m')"
  shows "GetConn P C m' u a = (Inr r, m')"
proof -
  have m': "m' = snd (GetConn P C m u a)" using assms by simp
  have "\<not> (length (localAddrsForUnspecified m') = 0
      \<and> Addr_String (pc_LocalAddr C (UDPConn m')) \<noteq> Addr_String a)" and "\<not> IsClosed m'"
    using assms unfolding m'
    by (auto simp: GetConn_def IsClosed_def createMuxedConn_def Let_def split: if_splits option.splits)
  then show ?thesis
    using GetConn_getConn [OF assms, of u "addr_isIPv6 a"] unfolding GetConn_def by auto
qed

lemma conn_Close_closed [simp]: "closedChan (snd (conn_Close P c))"
  by (simp add: conn_Close_def Let_def split: prod.splits)

lemma fold_close_ref_closed:
  "r \<in> set rs \<or> closedChan (conn_at m r) \<Longrightarrow> closedChan (conn_at (fold (close_ref P) rs m) r)"
proof (induction rs arbitrary: m)
  case (Cons r' rs)
  have "r \<in> set rs \<or> closedChan (conn_at (close_ref P r' m) r)"
    using Cons.prems by (auto simp: close_ref_def conn_at_def)
  then show ?case using Cons.IH by simp
qed simp

lemma mux_Close_conns_closed:
  assumes "mux_inv m" and "getConn m u v = Some r"
  shows "isClosed (conn_at (snd (mux_Close P C m)) r)"
proof -
  have open_mux: "\<not> mux_closed m"
    using assms unfolding mux_inv_def getConn_def by (auto split: if_splits)
  let ?m4 = "fold (close_ref P) (gm_vals (connsIPv4 m)) m"
  have "r \<in> set (gm_vals (connsIPv4 m)) \<or> r \<in> set (gm_vals (connsIPv6 m))"
    using assms(2) gm_get_vals [of "connsIPv4 m" u r] gm_get_vals [of "connsIPv6 m" u r]
    unfolding getConn_def by (simp split: if_splits)
  then have "r \<in> set (gm_vals (connsIPv6 ?m4)) \<or> closedChan (conn_at ?m4 r)"
    using fold_close_ref_closed [of r "gm_vals (connsIPv4 m)" m P] by auto
  then have "closedChan (conn_at (fold (close_ref P) (gm_vals (connsIPv6 ?m4)) ?m4) r)"
    by (rule fold_close_ref_closed)
  then show ?thesis
    using open_mux by (simp add: mux_Close_def Let_def isClosed_def conn_at_def)
qed

lemma forward_frame [simp]:
  "connsIPv4 (forward P pool raw a rs m) = connsIPv4 m"
  "connsIPv6 (forward P pool raw a rs m) = connsIPv6 m"
  "addressMap (forward P pool raw a rs m) = addressMap m"
  "mux_closed (forward P pool raw a rs m) = mux_closed m"
  by (induction rs arbitrary: pool m) auto

lemma mux_step_stays_closed: "mux_step P C S m m' \<Longrightarrow> mux_closed m \<Longrightarrow> mux_closed m'"
  by (induction rule: mux_step.induct)
    (auto simp: HandleSTUNMessage_def conn_WriteTo_def writeTo_def addAddress_def
      registerConnForAddress_def close_ref_def run_watcher_def RemoveConnByUfrag_eq mux_Close_def
      Let_def split: prod.splits Addr.splits)

lemma destinations_distinct:
  assumes "mux_inv m"
  shows "distinct (destinations S m msg addr)"
  using mux_inv_addr(1) [OF assms, of "Addr_String addr"]
  by (cases "gm_get (addressMap m) (Addr_String addr)")
    (auto simp: destinations_def Let_def split: option.splits)

lemma forward_store:
  "distinct rs \<Longrightarrow>
   store (forward P pool raw a rs m) r =
     (if r \<in> set rs
      then Some (snd (writePacket P (pool (length (takeWhile (\<lambda>x. x \<noteq> r) rs))) (conn_at m r) raw a))
      else store m r)"
  by (induction rs arbitrary: pool m) (auto simp: conn_at_def)

lemma fold_gm_del: "gm_get (fold gm_del as am) a = (if a \<in> set as then None else gm_get am a)"
  by (induction "as" arbitrary: am) auto

lemma fold_fold_gm_del:
  "gm_get (fold (\<lambda>c am. fold gm_del (f c) am) cs am) a =
     (if \<exists>c\<in>set cs. a \<in> set (f c) then None else gm_get am a)"
  by (induction cs arbitrary: am) (auto simp: fold_gm_del)

lemma RemoveConnByUfrag_addressMap:
  "gm_get (addressMap (RemoveConnByUfrag m u)) a =
     (if \<exists>v r. getConn m u v = Some r \<and> a \<in> set (addresses (conn_at m r))
      then None else gm_get (addressMap m) a)"
  by (cases "gm_get (connsIPv4 m) u"; cases "gm_get (connsIPv6 m) u")
    (auto simp: RemoveConnByUfrag_eq getConn_def fold_fold_gm_del fold_gm_del)

lemma RemoveConnByUfrag_getConn:
  "getConn (RemoveConnByUfrag m u) u' v = (if u' = u then None else getConn m u' v)"
  by (simp add: RemoveConnByUfrag_eq getConn_def)

section \<open>A reference socket and message library\<close>

text \<open>
  A socket that accepts every datagram and a STUN library whose messages are their own bytes,
  used to exhibit executions.
\<close>

definition loop_addr :: UDPAddr where
  "loop_addr = \<lparr>IP = [127, 0, 0, 1], Port = 51820, Zone = ''''\<rparr>"

definition loop_sock :: "unit PacketConn" where
  "loop_sock =
     \<lparr>pc_LocalAddr = (\<lambda>_. UDP loop_addr), pc_WriteTo = (\<lambda>b a s. (Inr (length b), s)),
      pc_Close = (\<lambda>s. (None, s))\<rparr>"

definition raw_stun :: "bytes stun" where
  "raw_stun =
     \<lparr>stun_IsMessage = (\<lambda>b. 20 \<le> length b), stun_Decode = (\<lambda>b. Inr b), msg_Raw = (\<lambda>m. m),
      AttrUsername = (\<lambda>m. Some (of_bytes m)), AttrXORMappedAddress = (\<lambda>m. Some m),
      XORMappedAddress_GetFrom = (\<lambda>m. Inr loop_addr), Build_BindingRequest = (\<lambda>n. Inr [1])\<rparr>"

definition mux0 :: "(fifo, unit) UDPMuxDefault" where
  "mux0 = NewUDPMuxDefault loop_sock () (Inr []) None"

definition mux1 :: "(fifo, unit) UDPMuxDefault" where
  "mux1 = snd (GetConn fifo_io loop_sock mux0 ''u'' (UDP loop_addr))"

lemma IP_Equal_len: "IP_Equal a b \<Longrightarrow> length a = 4 \<Longrightarrow> length b = 16 \<Longrightarrow> b = v4InV6Prefix @ a"
  by (auto simp: IP_Equal_def)

lemma mux0_eq:
  "mux0 = \<lparr>UDPConn = (), connsIPv4 = [], connsIPv6 = [], addressMap = [],
     localAddrsForUnspecified = [], mux_closed = False, store = Map.empty, next_ref = 0, watchers = []\<rparr>"
  by (simp add: mux0_def NewUDPMuxDefault_def loop_sock_def loop_addr_def IsUnspecified_def
      IP_Equal_def IPv4zero_def IPv6unspecified_def v4InV6Prefix_def numeral_eq_Suc)

lemma mux1_eq:
  "GetConn fifo_io loop_sock mux0 ''u'' (UDP loop_addr) = (Inr 0, mux1)"
  "mux1 = mux0\<lparr>store := [0 \<mapsto> newUDPMuxedConn fifo_io ''u'' (UDP loop_addr)], next_ref := 1,
     watchers := [(0, ''u'')], connsIPv4 := [(''u'', 0)]\<rparr>"
  by (simp_all add: mux1_def mux0_eq GetConn_def createMuxedConn_def IsClosed_def getConn_def
      mux_LocalAddr_def loop_sock_def addr_isIPv6_def To4_def loop_addr_def)

lemma mux1_reachable: "mux_reachable fifo_io loop_sock raw_stun mux1"
  unfolding mux1_def mux0_def by (rule mux_next [OF mux_start step_GetConn])

lemma mux1_getConn: "getConn mux1 ''u'' False = Some 0"
  by (simp add: mux1_eq(2) getConn_def)

section \<open>Properties\<close>



text \<open>C3. \<^const>\<open>GetConn\<close> behaves like a cache keyed by ufrag and address family: a successful
  call makes the returned connection the one found under that key, repeating the call returns
  the same connection and changes nothing, and no other key is affected.\<close>

theorem GetConn_contract:
  assumes "GetConn P C m u a = (Inr r, m')"
  shows "getConn m' u (addr_isIPv6 a) = Some r
       \<and> GetConn P C m' u a = (Inr r, m')
       \<and> (\<forall>u' v. (u', v) \<noteq> (u, addr_isIPv6 a) \<longrightarrow> getConn m' u' v = getConn m u' v)"
  using GetConn_getConn [OF assms] GetConn_again [OF assms] by simp

theorem GetConn_contract_witness:
  "getConn mux1 ''u'' (addr_isIPv6 (UDP loop_addr)) = Some 0
   \<and> GetConn fifo_io loop_sock mux1 ''u'' (UDP loop_addr) = (Inr 0, mux1)"
  using GetConn_contract [OF mux1_eq(1)] by blast



text \<open>The connections a STUN packet is for.\<close>

definition stun_target :: "'m stun \<Rightarrow> ('b, 's) UDPMuxDefault \<Rightarrow> 'm \<Rightarrow> Addr \<Rightarrow> nat \<Rightarrow> bool" where
  "stun_target S m msg addr r \<longleftrightarrow>
     (\<exists>l. gm_get (addressMap m) (Addr_String addr) = Some l \<and> r \<in> set l)
   \<or> (\<exists>attr. AttrUsername S msg = Some attr
        \<and> getConn m (hd (Split (CHR '':'') attr)) (addr_isIPv6 addr) = Some r
        \<and> (\<forall>l. gm_get (addressMap m) (Addr_String addr) = Some l \<longrightarrow>
             (\<forall>r'\<in>set l. Key (conn_at m r') \<noteq> Key (conn_at m r))))"

lemma destinations_target: "r \<in> set (destinations S m msg addr) \<longleftrightarrow> stun_target S m msg addr r"
  unfolding stun_target_def destinations_def
  by (cases "gm_get (addressMap m) (Addr_String addr)"; cases "AttrUsername S msg")
    (auto simp: Let_def split: option.splits)



lemma stun_first_packet:
  assumes "mux_inv m" and "getConn m u v6 = Some r" and "store m r = Some c"
    and "AttrUsername S msg = Some (u @ CHR '':'' # rest)" and "CHR '':'' \<notin> set u"
    and "addr_isIPv6 (UDP a) = v6" and "gm_get (addressMap m) (UDPAddr_String a) = None"
  shows "store (snd (HandleSTUNMessage P S pool m msg (UDP a))) r =
     Some (snd (writePacket P (pool 0) c (msg_Raw S msg) a))"
proof -
  have "destinations S m msg (UDP a) = [r]"
    using assms(2,4-7) by (simp add: destinations_def Let_def Split_append_sep)
  then show ?thesis using assms(3) by (simp add: HandleSTUNMessage_def conn_at_def)
qed

lemma stun_read_back:
  assumes "packet_buffer P queue closed" and "mux_inv m"
    and "getConn m u v6 = Some r" and "store m r = Some c" and "queue (conn_buf c) = []"
    and "AttrUsername S msg = Some (u @ CHR '':'' # rest)" and "CHR '':'' \<notin> set u"
    and "addr_isIPv6 (UDP a) = v6" and "gm_get (addressMap m) (UDPAddr_String a) = None"
    and "fst (writePacket P (pool 0) c (msg_Raw S msg) a) = None"
    and "IP_MarshalText (IP a) = Inr s" and "0 \<le> Port a" and "Port a < 65536"
    and "length (Zone a) \<le> 460" and "length (pool 0) = receiveMTU + maxAddrSize"
    and "length rbuf = receiveMTU + maxAddrSize" and "length (msg_Raw S msg) \<le> blen"
  shows "\<exists>c' c''. store (snd (HandleSTUNMessage P S pool m msg (UDP a))) r = Some c'
     \<and> ReadFrom P rbuf c' blen = Some (Inr (msg_Raw S msg, canonical_addr a), c'')"
proof -
  let ?c = "snd (writePacket P (pool 0) c (msg_Raw S msg) a)"
  have "writePacket P (pool 0) c (msg_Raw S msg) a = (None, ?c)"
    using assms(10) by (metis prod.collapse)
  from packet_buffer.write_then_read [OF assms(1,5) this assms(11-13,15,16,14,17)]
  obtain c'' where "ReadFrom P rbuf ?c blen = Some (Inr (msg_Raw S msg, canonical_addr a), c'')"
    by blast
  moreover have "store (snd (HandleSTUNMessage P S pool m msg (UDP a))) r = Some ?c"
    using assms(2-4,6-9) by (rule stun_first_packet)
  ultimately show ?thesis by blast
qed

text \<open>C6. End to end: the first packet from an address the mux has never sent to is routed by the
  ufrag in its username, and the owner of that ufrag reads back exactly the bytes that arrived and
  the address they came from.  This is how peer-reflexive candidates are discovered.\<close>

theorem stun_end_to_end:
  assumes "packet_buffer P queue closed" and "mux_reachable P C S m"
    and "getConn m u v6 = Some r" and "store m r = Some c" and "queue (conn_buf c) = []"
    and "AttrUsername S msg = Some (u @ CHR '':'' # rest)" and "CHR '':'' \<notin> set u"
    and "addr_isIPv6 (UDP a) = v6" and "gm_get (addressMap m) (UDPAddr_String a) = None"
    and "fst (writePacket P (pool 0) c (msg_Raw S msg) a) = None"
    and "IP_MarshalText (IP a) = Inr s" and "0 \<le> Port a" and "Port a < 65536"
    and "length (Zone a) \<le> 460" and "length (pool 0) = receiveMTU + maxAddrSize"
    and "length rbuf = receiveMTU + maxAddrSize" and "length (msg_Raw S msg) \<le> blen"
  shows "\<exists>c' c''. store (snd (HandleSTUNMessage P S pool m msg (UDP a))) r = Some c'
     \<and> ReadFrom P rbuf c' blen = Some (Inr (msg_Raw S msg, canonical_addr a), c'')"
  by (rule stun_read_back [where pool = pool, OF assms(1) mux_reachable_inv [OF assms(2)] assms(3-17)])

theorem stun_end_to_end_witness:
  "\<exists>c' c''. store (snd (HandleSTUNMessage fifo_io raw_stun (\<lambda>_. replicate 8704 0) mux1 (to_bytes ''u:v'')
      (UDP loop_addr))) 0 = Some c'
   \<and> ReadFrom fifo_io (replicate 8704 9) c' 1500 = Some (Inr (to_bytes ''u:v'', canonical_addr loop_addr), c'')"
proof -
  let ?c = "newUDPMuxedConn fifo_io ''u'' (UDP loop_addr)"
  have ip: "IP_MarshalText (IP loop_addr) = Inr (dotted [127, 0, 0, 1])"
    by (simp add: IP_MarshalText_def IP_String_def To4_def loop_addr_def)
  have "format_packet (replicate 8704 0) (to_bytes ''u:v'') loop_addr =
      Inr (packet_bytes (to_bytes ''u:v'') (dotted [127, 0, 0, 1]) loop_addr)"
    using length_dotted [of "[127, 0, 0, 1]"]
    by (intro format_packet_layout ip) (simp_all add: maxAddrSize_def loop_addr_def)
  then have ok: "fst (writePacket fifo_io (replicate 8704 0) ?c (to_bytes ''u:v'') loop_addr) = None"
    by (simp add: writePacket_def newUDPMuxedConn_def fifo_io_def)
  have c: "store mux1 0 = Some ?c" "fifo_queue (conn_buf ?c) = []"
    by (simp_all add: mux1_eq(2) newUDPMuxedConn_def fifo_io_def)
  have user: "AttrUsername raw_stun (to_bytes ''u:v'') = Some (''u'' @ CHR '':'' # ''v'')"
    by (simp add: raw_stun_def)
  have v4: "addr_isIPv6 (UDP loop_addr) = False"
    and new: "gm_get (addressMap mux1) (UDPAddr_String loop_addr) = None"
    and port: "0 \<le> Port loop_addr" "Port loop_addr < 65536" "length (Zone loop_addr) \<le> 460"
    by (simp_all add: addr_isIPv6_def To4_def loop_addr_def mux1_eq(2) mux0_eq)
  from stun_end_to_end [OF fifo.packet_buffer_axioms mux1_reachable mux1_getConn c user _ v4 new,
      of "\<lambda>_. replicate 8704 0" "dotted [127, 0, 0, 1]" "replicate 8704 9" 1500]
  show ?thesis using ok ip port by (simp add: raw_stun_def receiveMTU_def maxAddrSize_def)
qed

text \<open>Removing a connection forgets every remote address it had sent to, for all connections:
  another open connection \<open>r\<close> that uses such an address \<open>a\<close> keeps it in its own list, so its next
  write does not register it again, and a STUN packet from \<open>a\<close> that carries no username is then
  delivered to nobody.\<close>

theorem remove_forgets_shared_address:
  assumes "getConn m u v = Some r1" and "Addr_String a \<in> set (addresses (conn_at m r1))"
    and "\<not> isClosed (conn_at m r)" and "Addr_String a \<in> set (addresses (conn_at m r))"
    and "AttrUsername S msg = None"
  shows "gm_get (addressMap (snd (conn_WriteTo C (RemoveConnByUfrag m u) r buf a))) (Addr_String a) = None
       \<and> destinations S (snd (conn_WriteTo C (RemoveConnByUfrag m u) r buf a)) msg a = []"
proof -
  let ?m = "RemoveConnByUfrag m u"
  have gone: "gm_get (addressMap ?m) (Addr_String a) = None"
    using assms(1,2) by (auto simp: RemoveConnByUfrag_addressMap)
  have same: "conn_at ?m r = conn_at m r"
    by (simp add: RemoveConnByUfrag_eq conn_at_def)
  have "addressMap (snd (conn_WriteTo C ?m r buf a)) = addressMap ?m"
    using assms(3,4)
    by (simp add: conn_WriteTo_def writeTo_def containsAddress_def contains_addr_iff same Let_def
        split: prod.splits)
  then show ?thesis using gone assms(5) by (simp add: destinations_def Let_def)
qed

definition mux_shared :: "UDPAddr \<Rightarrow> (fifo, unit) UDPMuxDefault" where
  "mux_shared a =
     (let m = snd (GetConn fifo_io loop_sock mux1 ''w'' (UDP loop_addr));
          m = snd (conn_WriteTo loop_sock m 0 [1] (UDP a))
      in snd (conn_WriteTo loop_sock m 1 [1] (UDP a)))"

lemma mux_shared_eq:
  "mux_shared a = mux1\<lparr>
     store := [0 \<mapsto> (newUDPMuxedConn fifo_io ''u'' (UDP loop_addr))\<lparr>addresses := [UDPAddr_String a]\<rparr>,
               1 \<mapsto> (newUDPMuxedConn fifo_io ''w'' (UDP loop_addr))\<lparr>addresses := [UDPAddr_String a]\<rparr>],
     next_ref := 2, watchers := [(0, ''u''), (1, ''w'')], connsIPv4 := [(''u'', 0), (''w'', 1)],
     addressMap := [(UDPAddr_String a, [0, 1])]\<rparr>"
  by (simp add: mux_shared_def mux1_eq(2) mux0_eq GetConn_def createMuxedConn_def IsClosed_def getConn_def
      mux_LocalAddr_def loop_sock_def addr_isIPv6_def To4_def loop_addr_def conn_WriteTo_def writeTo_def
      addAddress_def registerConnForAddress_def containsAddress_def conn_at_def isClosed_def
      newUDPMuxedConn_def Let_def fun_upd_twist)

theorem remove_forgets_shared_address_witness:
  "gm_get (addressMap (mux_shared loop_addr)) (UDPAddr_String loop_addr) = Some [0, 1]
   \<and> destinations (raw_stun\<lparr>AttrUsername := \<lambda>_. None\<rparr>)
       (snd (conn_WriteTo loop_sock (RemoveConnByUfrag (mux_shared loop_addr) ''u'') 1 [2] (UDP loop_addr)))
       [] (UDP loop_addr) = []"
proof -
  have "getConn (mux_shared loop_addr) ''u'' False = Some 0"
    "Addr_String (UDP loop_addr) \<in> set (addresses (conn_at (mux_shared loop_addr) 0))"
    "\<not> isClosed (conn_at (mux_shared loop_addr) 1)"
    "Addr_String (UDP loop_addr) \<in> set (addresses (conn_at (mux_shared loop_addr) 1))"
    "AttrUsername (raw_stun\<lparr>AttrUsername := \<lambda>_. None\<rparr>) [] = None"
    by (simp_all add: mux_shared_eq getConn_def conn_at_def isClosed_def newUDPMuxedConn_def)
  from remove_forgets_shared_address [OF this, of loop_sock "[2]"]
  show ?thesis by (simp add: mux_shared_eq)
qed

end
