(* ===== verification/Universal_Mux.thy ===== *)
theory Universal_Mux
  imports Udp_Mux
begin

text \<open>
  The universal mux (\<^verbatim>\<open>iface/bind/udp_mux_universal.go\<close>): a wrapper around the socket that
  refuses to write to routed networks, and the cache of server-reflexive (XOR-mapped) addresses
  discovered with STUN servers.  Time is an explicit argument in nanoseconds; a goroutine that
  waits for a response is the pair of calls before and after the wait.
\<close>

section \<open>The filtering socket\<close>

type_synonym FilterFn = "netipAddr \<Rightarrow> error + bool \<times> string"

record 's udpConn =
  inner :: 's
  addrCache :: "(string, bool) gomap"

definition getHostFromAddr :: "Addr \<Rightarrow> error + string" where
  "getHostFromAddr addr =
     (case SplitHostPort (Addr_String addr) of Inl err \<Rightarrow> Inl err | Inr (host, _) \<Rightarrow> Inr host)"

definition performFilterCheck ::
  "FilterFn \<Rightarrow> 's udpConn \<Rightarrow> Addr \<Rightarrow> error option \<times> 's udpConn" where
  "performFilterCheck filterFn u addr =
     (case getHostFromAddr addr of
        Inl _ \<Rightarrow> (None, u)
      | Inr host \<Rightarrow>
          (case netip_ParseAddr host of
             Inl _ \<Rightarrow> (None, u)
           | Inr a \<Rightarrow>
               (case filterFn a of
                  Inl _ \<Rightarrow> (None, u)
                | Inr (isRouted, prefix) \<Rightarrow>
                    let u = u\<lparr>addrCache := gm_put (Addr_String addr) isRouted (addrCache u)\<rparr>
                    in if isRouted
                       then (Some (Errorf (''address '' @ Addr_String addr @ '' is part of routed network ''
                               @ prefix @ '', refusing to write'')), u)
                       else (None, u))))"

definition inner_WriteTo ::
  "'s PacketConn \<Rightarrow> bytes \<Rightarrow> Addr \<Rightarrow> 's udpConn \<Rightarrow> (error + nat) \<times> 's udpConn" where
  "inner_WriteTo C b addr u = (let (res, s) = pc_WriteTo C b addr (inner u) in (res, u\<lparr>inner := s\<rparr>))"

definition handleCachedAddress ::
  "'s PacketConn \<Rightarrow> bool \<Rightarrow> bytes \<Rightarrow> Addr \<Rightarrow> 's udpConn \<Rightarrow> (error + nat) \<times> 's udpConn" where
  "handleCachedAddress C isRouted b addr u =
     (if isRouted
      then (Inl (Errorf (''address '' @ Addr_String addr
                   @ '' is part of a routed network, refusing to write'')), u)
      else inner_WriteTo C b addr u)"

definition handleUncachedAddress ::
  "'s PacketConn \<Rightarrow> FilterFn \<Rightarrow> bytes \<Rightarrow> Addr \<Rightarrow> 's udpConn \<Rightarrow> (error + nat) \<times> 's udpConn" where
  "handleUncachedAddress C filterFn b addr u =
     (case performFilterCheck filterFn u addr of
        (Some err, u') \<Rightarrow> (Inl err, u')
      | (None, u') \<Rightarrow> inner_WriteTo C b addr u')"

definition udpConn_WriteTo ::
  "'s PacketConn \<Rightarrow> FilterFn option \<Rightarrow> bytes \<Rightarrow> Addr \<Rightarrow> 's udpConn \<Rightarrow> (error + nat) \<times> 's udpConn" where
  "udpConn_WriteTo C filterFn b addr u =
     (case filterFn of
        None \<Rightarrow> inner_WriteTo C b addr u
      | Some f \<Rightarrow>
          (case gm_get (addrCache u) (Addr_String addr) of
             Some isRouted \<Rightarrow> handleCachedAddress C isRouted b addr u
           | None \<Rightarrow> handleUncachedAddress C f b addr u))"

text \<open>The wrapper is again a \<^verbatim>\<open>net.PacketConn\<close>: every other method is the wrapped socket's.\<close>

definition udpConn_PacketConn :: "'s PacketConn \<Rightarrow> FilterFn option \<Rightarrow> 's udpConn PacketConn" where
  "udpConn_PacketConn C filterFn =
     \<lparr>pc_LocalAddr = (\<lambda>u. pc_LocalAddr C (inner u)),
      pc_WriteTo = udpConn_WriteTo C filterFn,
      pc_Close = (\<lambda>u. let (err, s) = pc_Close C (inner u) in (err, u\<lparr>inner := s\<rparr>))\<rparr>"

section \<open>Mapped addresses\<close>

record xorMapped =
  xm_addr :: "UDPAddr option"
  waitAddrReceived :: bool
  expiresAt :: int

text \<open>\<open>waitAddrReceived\<close> tells whether the channel has been closed.\<close>

definition closeWaiters :: "xorMapped \<Rightarrow> xorMapped" where
  "closeWaiters a = (if waitAddrReceived a then a else a\<lparr>waitAddrReceived := True\<rparr>)"

definition pending :: "xorMapped \<Rightarrow> bool" where
  "pending a \<longleftrightarrow> xm_addr a = None"

definition expired :: "int \<Rightarrow> xorMapped \<Rightarrow> bool" where
  "expired now a \<longleftrightarrow> expiresAt a < now"

definition SetAddr :: "UDPAddr \<Rightarrow> xorMapped \<Rightarrow> xorMapped" where
  "SetAddr addr a = closeWaiters (a\<lparr>xm_addr := Some addr\<rparr>)"

record ('b, 's) UniversalUDPMuxDefault =
  mux :: "('b, 's udpConn) UDPMuxDefault"
  XORMappedAddrCacheTTL :: int
  xorMappedMap :: "(string, nat) gomap"
  xm_store :: "nat \<rightharpoonup> xorMapped"
  xm_next :: nat

definition second :: int where "second = 1000000000"

definition NewUniversalUDPMuxDefault ::
  "'s PacketConn \<Rightarrow> FilterFn option \<Rightarrow> 's \<Rightarrow> int \<Rightarrow> (error + Interface list)
     \<Rightarrow> ('b, 's) UniversalUDPMuxDefault" where
  "NewUniversalUDPMuxDefault C filterFn conn ttl ifaces =
     (let ttl = (if ttl = 0 then 25 * second else ttl);
          wrapped = \<lparr>inner = conn, addrCache = []\<rparr>
      in \<lparr>mux = NewUDPMuxDefault (udpConn_PacketConn C filterFn) wrapped ifaces None,
          XORMappedAddrCacheTTL = ttl, xorMappedMap = [], xm_store = Map.empty, xm_next = 0\<rparr>)"

definition GetSharedConn :: "('b, 's) UniversalUDPMuxDefault \<Rightarrow> 's udpConn" where
  "GetSharedConn u = UDPConn (mux u)"

definition universal_GetListenAddresses ::
  "'s PacketConn \<Rightarrow> FilterFn option \<Rightarrow> ('b, 's) UniversalUDPMuxDefault \<Rightarrow> Addr list" where
  "universal_GetListenAddresses C filterFn u =
     [mux_LocalAddr (udpConn_PacketConn C filterFn) (mux u)]"

definition GetRelayedAddr :: "Addr \<Rightarrow> int \<Rightarrow> error + Addr" where
  "GetRelayedAddr turnAddr deadline = Inl (Errorf ''not implemented yet'')"

definition GetConnForURL ::
  "'b packetio \<Rightarrow> 's PacketConn \<Rightarrow> FilterFn option \<Rightarrow> ('b, 's) UniversalUDPMuxDefault
     \<Rightarrow> string \<Rightarrow> string \<Rightarrow> Addr \<Rightarrow> (error + nat) \<times> ('b, 's) UniversalUDPMuxDefault" where
  "GetConnForURL P C filterFn u ufrag url addr =
     (let (res, m) = GetConn P (udpConn_PacketConn C filterFn) (mux u) (ufrag @ url) addr
      in (res, u\<lparr>mux := m\<rparr>))"

definition xm_at :: "('b, 's) UniversalUDPMuxDefault \<Rightarrow> nat \<Rightarrow> xorMapped" where
  "xm_at u r = the (xm_store u r)"

definition isXORMappedResponse :: "'m stun \<Rightarrow> ('b, 's) UniversalUDPMuxDefault \<Rightarrow> 'm \<Rightarrow> string \<Rightarrow> bool" where
  "isXORMappedResponse S u msg stunAddr \<longleftrightarrow>
     AttrXORMappedAddress S msg \<noteq> None \<and> gm_get (xorMappedMap u) stunAddr \<noteq> None"

definition handleXORMappedResponse ::
  "'m stun \<Rightarrow> ('b, 's) UniversalUDPMuxDefault \<Rightarrow> UDPAddr \<Rightarrow> 'm
     \<Rightarrow> error option \<times> ('b, 's) UniversalUDPMuxDefault" where
  "handleXORMappedResponse S u stunAddr msg =
     (case gm_get (xorMappedMap u) (UDPAddr_String stunAddr) of
        None \<Rightarrow> (Some (Errorf ''no XOR address mapping''), u)
      | Some r \<Rightarrow>
          (case XORMappedAddress_GetFrom S msg of
             Inl err \<Rightarrow> (Some err, u)
           | Inr addr \<Rightarrow>
               (None, u\<lparr>xorMappedMap := gm_put (UDPAddr_String stunAddr) r (xorMappedMap u),
                        xm_store := (xm_store u)(r \<mapsto> SetAddr addr (xm_at u r))\<rparr>)))"

definition universal_HandleSTUNMessage ::
  "'b packetio \<Rightarrow> 'm stun \<Rightarrow> (nat \<Rightarrow> bytes) \<Rightarrow> ('b, 's) UniversalUDPMuxDefault \<Rightarrow> 'm \<Rightarrow> Addr
     \<Rightarrow> error option \<times> ('b, 's) UniversalUDPMuxDefault" where
  "universal_HandleSTUNMessage P S pool u msg addr =
     (case addr of
        OtherAddr _ \<Rightarrow> (None, u)
      | UDP udpAddr \<Rightarrow>
          if isXORMappedResponse S u msg (UDPAddr_String udpAddr)
          then (None, snd (handleXORMappedResponse S u udpAddr msg))
          else let (err, m) = HandleSTUNMessage P S pool (mux u) msg addr in (err, u\<lparr>mux := m\<rparr>))"

text \<open>
  \<^verbatim>\<open>sendSTUN\<close> returns the channel to wait on, here the reference of its entry; \<open>txid\<close> is the
  random transaction identifier.
\<close>

definition sendSTUN ::
  "'s PacketConn \<Rightarrow> FilterFn option \<Rightarrow> 'm stun \<Rightarrow> int \<Rightarrow> nat \<Rightarrow> ('b, 's) UniversalUDPMuxDefault \<Rightarrow> Addr
     \<Rightarrow> (error + nat) \<times> ('b, 's) UniversalUDPMuxDefault" where
  "sendSTUN C filterFn S now txid u serverAddr =
     (let (r, u) =
        (case gm_get (xorMappedMap u) (Addr_String serverAddr) of
           Some r \<Rightarrow> (r, u)
         | None \<Rightarrow>
             (xm_next u,
              u\<lparr>xm_store := (xm_store u)(xm_next u \<mapsto>
                   \<lparr>xm_addr = None, waitAddrReceived = False,
                    expiresAt = now + XORMappedAddrCacheTTL u\<rparr>),
                xm_next := Suc (xm_next u),
                xorMappedMap := gm_put (Addr_String serverAddr) (xm_next u) (xorMappedMap u)\<rparr>))
      in case Build_BindingRequest S txid of
           Inl err \<Rightarrow> (Inl err, u)
         | Inr req \<Rightarrow>
             (case writeTo (udpConn_PacketConn C filterFn) (mux u) req serverAddr of
                (Inl err, m) \<Rightarrow> (Inl err, u\<lparr>mux := m\<rparr>)
              | (Inr _, m) \<Rightarrow> (Inr r, u\<lparr>mux := m\<rparr>)))"

datatype xor_request = Mapped UDPAddr | Failed error | Waiting nat

text \<open>
  \<^verbatim>\<open>GetXORMappedAddr\<close> up to the blocking \<^verbatim>\<open>select\<close>, and from there on.  In the second part
  \<open>timeout\<close> says which case of the \<^verbatim>\<open>select\<close> fired.
\<close>

definition GetXORMappedAddr_request ::
  "'s PacketConn \<Rightarrow> FilterFn option \<Rightarrow> 'm stun \<Rightarrow> int \<Rightarrow> nat \<Rightarrow> ('b, 's) UniversalUDPMuxDefault \<Rightarrow> Addr
     \<Rightarrow> xor_request \<times> ('b, 's) UniversalUDPMuxDefault" where
  "GetXORMappedAddr_request C filterFn S now txid u serverAddr =
     (let key = Addr_String serverAddr;
          (hit, u) =
        (case gm_get (xorMappedMap u) key of
           None \<Rightarrow> (None, u)
         | Some r \<Rightarrow>
             if expired now (xm_at u r)
             then (None, u\<lparr>xm_store := (xm_store u)(r \<mapsto> closeWaiters (xm_at u r)),
                           xorMappedMap := gm_del key (xorMappedMap u)\<rparr>)
             else if pending (xm_at u r) then (None, u)
             else (xm_addr (xm_at u r), u))
      in case hit of
           Some addr \<Rightarrow> (Mapped addr, u)
         | None \<Rightarrow>
             (case sendSTUN C filterFn S now txid u serverAddr of
                (Inl err, u) \<Rightarrow> (Failed (Wrapf ''failed to send STUN packet'' err), u)
              | (Inr r, u) \<Rightarrow> (Waiting r, u)))"

definition GetXORMappedAddr_wait ::
  "('b, 's) UniversalUDPMuxDefault \<Rightarrow> Addr \<Rightarrow> bool \<Rightarrow> error + UDPAddr" where
  "GetXORMappedAddr_wait u serverAddr timeout =
     (if timeout then Inl (Errorf ''timeout while waiting for XORMappedAddr'')
      else case gm_get (xorMappedMap u) (Addr_String serverAddr) of
             None \<Rightarrow> Inl (Errorf ''no XOR address mapping'')
           | Some r \<Rightarrow>
               (case xm_addr (xm_at u r) of
                  None \<Rightarrow> Inl (Errorf ''no XOR address mapping'')
                | Some addr \<Rightarrow> Inr addr))"

section \<open>The reading loop\<close>

text \<open>
  One iteration of \<^verbatim>\<open>ReadFromConn\<close>: \<open>res\<close> is what the socket's \<^verbatim>\<open>ReadFrom\<close> returned, the
  count, the content of the 1500-byte buffer and the sender.  The count is the socket's word:
  slicing the buffer with it panics when it exceeds the buffer.
\<close>

definition ReadFromConn_iter ::
  "'b packetio \<Rightarrow> 'm stun \<Rightarrow> (nat \<Rightarrow> bytes) \<Rightarrow> error + int \<times> bytes \<times> Addr
     \<Rightarrow> ('b, 's) UniversalUDPMuxDefault \<Rightarrow> error + ('b, 's) UniversalUDPMuxDefault" where
  "ReadFromConn_iter P S pool res u =
     (case res of
        Inl _ \<Rightarrow> Inr u
      | Inr (n, buf, a) \<Rightarrow>
          if n < 0 \<or> int (length buf) < n then Inl (Panic ''slice bounds out of range'')
          else case stun_Decode S (take (nat n) buf) of
                 Inl _ \<Rightarrow> Inr u
               | Inr msg \<Rightarrow> Inr (snd (universal_HandleSTUNMessage P S pool u msg a)))"

text \<open>The loop until the context is done, over the results of the reads.\<close>

fun ReadFromConn ::
  "'b packetio \<Rightarrow> 'm stun \<Rightarrow> (nat \<Rightarrow> nat \<Rightarrow> bytes) \<Rightarrow> (error + int \<times> bytes \<times> Addr) list
     \<Rightarrow> ('b, 's) UniversalUDPMuxDefault \<Rightarrow> error + ('b, 's) UniversalUDPMuxDefault" where
  "ReadFromConn P S pools [] u = Inr u"
| "ReadFromConn P S pools (res # rest) u =
     (case ReadFromConn_iter P S (pools 0) res u of
        Inl err \<Rightarrow> Inl err
      | Inr u' \<Rightarrow> ReadFromConn P S (\<lambda>i. pools (Suc i)) rest u')"

section \<open>The filter is transparent\<close>

text \<open>What the filter says of an address, as a function of the string it is cached under.\<close>

definition verdict :: "FilterFn \<Rightarrow> Addr \<Rightarrow> bool option" where
  "verdict f addr =
     (case getHostFromAddr addr of
        Inl _ \<Rightarrow> None
      | Inr host \<Rightarrow>
          (case netip_ParseAddr host of
             Inl _ \<Rightarrow> None
           | Inr a \<Rightarrow> (case f a of Inl _ \<Rightarrow> None | Inr (isRouted, _) \<Rightarrow> Some isRouted)))"

definition routed :: "FilterFn \<Rightarrow> Addr \<Rightarrow> bool" where
  "routed f addr \<longleftrightarrow> verdict f addr = Some True"

definition cache_ok :: "FilterFn \<Rightarrow> 's udpConn \<Rightarrow> bool" where
  "cache_ok f u \<longleftrightarrow>
     (\<forall>addr v. gm_get (addrCache u) (Addr_String addr) = Some v \<longrightarrow> verdict f addr = Some v)"

fun write_all ::
  "(bytes \<Rightarrow> Addr \<Rightarrow> 's \<Rightarrow> (error + nat) \<times> 's) \<Rightarrow> (bytes \<times> Addr) list \<Rightarrow> 's \<Rightarrow> (error + nat) list \<times> 's" where
  "write_all w [] s = ([], s)"
| "write_all w ((b, addr) # ws) s =
     (let (res, s) = w b addr s; (rs, s) = write_all w ws s in (res # rs, s))"

lemma verdict_cong: "Addr_String a = Addr_String b \<Longrightarrow> verdict f a = verdict f b"
  by (simp add: verdict_def getHostFromAddr_def)

lemma performFilterCheck_refuses:
  "fst (performFilterCheck f u addr) = None \<longleftrightarrow> \<not> routed f addr"
  by (auto simp: performFilterCheck_def routed_def verdict_def Let_def split: sum.splits prod.splits)

lemma performFilterCheck_snd:
  "snd (performFilterCheck f u addr) =
     (case verdict f addr of
        None \<Rightarrow> u | Some v \<Rightarrow> u\<lparr>addrCache := gm_put (Addr_String addr) v (addrCache u)\<rparr>)"
  by (auto simp: performFilterCheck_def verdict_def Let_def split: sum.splits prod.splits)

lemma performFilterCheck_inner [simp]: "inner (snd (performFilterCheck f u addr)) = inner u"
  by (simp add: performFilterCheck_snd split: option.split)

lemma cache_ok_put:
  assumes "cache_ok f u" and "verdict f addr = Some v"
  shows "cache_ok f (u\<lparr>addrCache := gm_put (Addr_String addr) v (addrCache u)\<rparr>)"
  unfolding cache_ok_def
proof (intro allI impI)
  fix a w assume get: "gm_get (addrCache (u\<lparr>addrCache := gm_put (Addr_String addr) v (addrCache u)\<rparr>))
      (Addr_String a) = Some w"
  show "verdict f a = Some w"
  proof (cases "Addr_String a = Addr_String addr")
    case True
    with get have "v = w" by (simp add: gm_get_put)
    with assms(2) verdict_cong [OF True] show ?thesis by simp
  next
    case False
    with get have "gm_get (addrCache u) (Addr_String a) = Some w" by (simp add: gm_get_put)
    with assms(1) show ?thesis by (simp add: cache_ok_def)
  qed
qed

lemma performFilterCheck_cache_ok:
  assumes "cache_ok f u"
  shows "cache_ok f (snd (performFilterCheck f u addr))"
  using cache_ok_put [OF assms, of addr] assms
  by (simp add: performFilterCheck_snd split: option.split)

lemma inner_WriteTo_simps [simp]:
  "inner (snd (inner_WriteTo C b addr u)) = snd (pc_WriteTo C b addr (inner u))"
  "fst (inner_WriteTo C b addr u) = fst (pc_WriteTo C b addr (inner u))"
  "cache_ok f (snd (inner_WriteTo C b addr u)) = cache_ok f u"
  by (simp_all add: inner_WriteTo_def cache_ok_def split: prod.splits)

lemma udpConn_WriteTo_filter:
  assumes "cache_ok f u"
  shows "cache_ok f (snd (udpConn_WriteTo C (Some f) b addr u))" (is ?ok)
    and "routed f addr \<Longrightarrow> isl (fst (udpConn_WriteTo C (Some f) b addr u))
           \<and> inner (snd (udpConn_WriteTo C (Some f) b addr u)) = inner u" (is "_ \<Longrightarrow> ?refused")
    and "\<not> routed f addr \<Longrightarrow>
           fst (udpConn_WriteTo C (Some f) b addr u) = fst (pc_WriteTo C b addr (inner u))
         \<and> inner (snd (udpConn_WriteTo C (Some f) b addr u)) = snd (pc_WriteTo C b addr (inner u))"
           (is "_ \<Longrightarrow> ?through")
proof -
  have cached: "verdict f addr = Some v" if "gm_get (addrCache u) (Addr_String addr) = Some v" for v
    using assms that by (simp add: cache_ok_def)
  obtain e u' where chk: "performFilterCheck f u addr = (e, u')" by fastforce
  note facts = performFilterCheck_refuses [of f u addr, unfolded chk]
    performFilterCheck_inner [of f u addr, unfolded chk]
    performFilterCheck_cache_ok [OF assms, of addr, unfolded chk]
  note defs = udpConn_WriteTo_def handleCachedAddress_def handleUncachedAddress_def chk
  show ?ok using assms facts by (auto simp: defs split: option.splits)
  show ?refused if "routed f addr"
    using that cached facts by (auto simp: defs routed_def split: option.splits)
  show ?through if "\<not> routed f addr"
    using that cached facts by (auto simp: defs routed_def split: option.splits)
qed

lemma write_all_filter:
  "cache_ok f u \<Longrightarrow>
     inner (snd (write_all (udpConn_WriteTo C (Some f)) ws u))
       = snd (write_all (pc_WriteTo C) (filter (\<lambda>w. \<not> routed f (snd w)) ws) (inner u))
   \<and> map snd (filter (\<lambda>x. \<not> routed f (snd (fst x))) (zip ws (fst (write_all (udpConn_WriteTo C (Some f)) ws u))))
       = fst (write_all (pc_WriteTo C) (filter (\<lambda>w. \<not> routed f (snd w)) ws) (inner u))
   \<and> list_all (\<lambda>x. isl (snd x)) (filter (\<lambda>x. routed f (snd (fst x)))
        (zip ws (fst (write_all (udpConn_WriteTo C (Some f)) ws u))))"
proof (induction ws arbitrary: u)
  case (Cons w ws)
  obtain b addr where w: "w = (b, addr)" by fastforce
  obtain res u' where step: "udpConn_WriteTo C (Some f) b addr u = (res, u')" by fastforce
  note props = udpConn_WriteTo_filter [OF Cons.prems, where C = C and b = b and addr = addr, unfolded step fst_conv snd_conv]
  show ?case
    using Cons.IH [OF props(1)] props(2,3)
    by (cases "routed f addr") (auto simp: w step case_prod_beta)
qed simp

section \<open>Mapped addresses: invariant\<close>

text \<open>
  Every server's entry is allocated, no two servers share one, and the waiters of an entry are
  released exactly when it has an address.
\<close>

definition xor_inv :: "('b, 's) UniversalUDPMuxDefault \<Rightarrow> bool" where
  "xor_inv u \<longleftrightarrow> gm_wf (xorMappedMap u)
     \<and> (\<forall>k r. gm_get (xorMappedMap u) k = Some r \<longrightarrow>
          (\<exists>e. xm_store u r = Some e \<and> (xm_addr e = None \<longleftrightarrow> \<not> waitAddrReceived e)))
     \<and> (\<forall>k k' r. gm_get (xorMappedMap u) k = Some r \<longrightarrow> gm_get (xorMappedMap u) k' = Some r \<longrightarrow> k = k')
     \<and> (\<forall>r. xm_store u r \<noteq> None \<longrightarrow> r < xm_next u)"

inductive universal_step ::
  "'b packetio \<Rightarrow> 's PacketConn \<Rightarrow> FilterFn option \<Rightarrow> 'm stun
     \<Rightarrow> ('b, 's) UniversalUDPMuxDefault \<Rightarrow> ('b, 's) UniversalUDPMuxDefault \<Rightarrow> bool"
  for P C f S where
  step_mux: "mux_step P (udpConn_PacketConn C f) S (mux u) m' \<Longrightarrow> universal_step P C f S u (u\<lparr>mux := m'\<rparr>)"
| step_xor_request:
    "universal_step P C f S u (snd (GetXORMappedAddr_request C f S now txid u serverAddr))"
| step_message: "universal_step P C f S u (snd (universal_HandleSTUNMessage P S pool u msg addr))"

inductive universal_reachable ::
  "'b packetio \<Rightarrow> 's PacketConn \<Rightarrow> FilterFn option \<Rightarrow> 'm stun \<Rightarrow> ('b, 's) UniversalUDPMuxDefault \<Rightarrow> bool"
  for P C f S where
  universal_start: "universal_reachable P C f S (NewUniversalUDPMuxDefault C f conn ttl ifaces)"
| universal_next: "universal_reachable P C f S u \<Longrightarrow> universal_step P C f S u u'
     \<Longrightarrow> universal_reachable P C f S u'"

lemma xor_inv_mux [simp]: "xor_inv (u\<lparr>mux := m\<rparr>) = xor_inv u"
  by (simp add: xor_inv_def)

lemma xor_inv_entry:
  "xor_inv u \<Longrightarrow> gm_get (xorMappedMap u) k = Some r \<Longrightarrow> xm_store u r = Some (xm_at u r)"
  unfolding xor_inv_def xm_at_def by (metis option.sel)

lemma xor_inv_fresh: "xor_inv u \<Longrightarrow> xm_store u (xm_next u) = None"
  unfolding xor_inv_def by (meson less_irrefl)

lemma xor_inv_new_entry:
  assumes "xor_inv u"
  shows "xor_inv (u\<lparr>xm_store := (xm_store u)(xm_next u \<mapsto>
             \<lparr>xm_addr = None, waitAddrReceived = False, expiresAt = t\<rparr>),
           xm_next := Suc (xm_next u), xorMappedMap := gm_put k (xm_next u) (xorMappedMap u)\<rparr>)"
proof -
  have "gm_get (xorMappedMap u) k' \<noteq> Some (xm_next u)" for k'
    using xor_inv_fresh [OF assms] assms unfolding xor_inv_def by fastforce
  then show ?thesis using assms unfolding xor_inv_def
    by (auto simp: gm_get_put less_Suc_eq split: if_splits)
qed

lemma xor_inv_drop_entry:
  assumes "xor_inv u" and "gm_get (xorMappedMap u) k = Some r"
  shows "xor_inv (u\<lparr>xm_store := (xm_store u)(r \<mapsto> e), xorMappedMap := gm_del k (xorMappedMap u)\<rparr>)"
proof -
  have "gm_get (xorMappedMap u) k' = Some r \<Longrightarrow> k' = k" for k'
    using assms unfolding xor_inv_def by blast
  moreover have "r < xm_next u" using assms xor_inv_entry unfolding xor_inv_def by blast
  ultimately show ?thesis using assms(1) unfolding xor_inv_def
    by (auto simp: gm_get_del split: if_splits)
qed

lemma xor_inv_set_addr:
  assumes "xor_inv u" and "gm_get (xorMappedMap u) k = Some r"
  shows "xor_inv (u\<lparr>xorMappedMap := gm_put k r (xorMappedMap u),
                    xm_store := (xm_store u)(r \<mapsto> SetAddr a (xm_at u r))\<rparr>)"
proof -
  have same: "gm_get (gm_put k r (xorMappedMap u)) k' = gm_get (xorMappedMap u) k'" for k'
    using assms(2) by (simp add: gm_get_put)
  moreover have "r < xm_next u" using assms xor_inv_entry unfolding xor_inv_def by blast
  ultimately show ?thesis using assms(1) unfolding xor_inv_def
    by (auto simp: SetAddr_def closeWaiters_def)
qed

lemma sendSTUN_xor_inv:
  assumes "xor_inv u" shows "xor_inv (snd (sendSTUN C f S now txid u srv))"
  using assms xor_inv_new_entry [OF assms]
  by (auto simp: sendSTUN_def Let_def split: option.splits sum.splits prod.splits)

lemma request_xor_inv:
  fixes u :: "('b, 's) UniversalUDPMuxDefault"
  assumes "xor_inv u" shows "xor_inv (snd (GetXORMappedAddr_request C f S now txid u srv))"
proof -
  have send: "xor_inv u' \<Longrightarrow> xor_inv (snd (case sendSTUN C f S now txid u' srv of
      (Inl err, u) \<Rightarrow> (Failed (Wrapf ''failed to send STUN packet'' err), u)
    | (Inr r, u) \<Rightarrow> (Waiting r, u)))" for u' :: "('b, 's) UniversalUDPMuxDefault"
    using sendSTUN_xor_inv [of u' C f S now txid srv] by (auto split: sum.splits prod.splits)
  show ?thesis unfolding GetXORMappedAddr_request_def Let_def
    using assms xor_inv_drop_entry [OF assms] send
    by (auto split: option.splits simp del: case_prod_conv)
qed

lemma message_xor_inv:
  assumes "xor_inv u" shows "xor_inv (snd (universal_HandleSTUNMessage P S pool u msg addr))"
  using assms xor_inv_set_addr [OF assms]
  by (auto simp: universal_HandleSTUNMessage_def handleXORMappedResponse_def
      split: option.splits sum.splits prod.splits Addr.splits)

lemma universal_step_inv:
  "universal_step P C f S u u' \<Longrightarrow> xor_inv u \<and> mux_inv (mux u) \<Longrightarrow> xor_inv u'"
  by (induction rule: universal_step.induct) (simp_all add: request_xor_inv message_xor_inv)

lemma sendSTUN_mux:
  "\<exists>s. mux (snd (sendSTUN C f S now txid u srv)) = (mux u)\<lparr>UDPConn := s\<rparr>"
proof -
  have id: "\<exists>s. m = m\<lparr>UDPConn := s\<rparr>" for m :: "('b, 's udpConn) UDPMuxDefault"
    by (rule exI [of _ "UDPConn m"]) simp
  show ?thesis
    by (auto simp: sendSTUN_def Let_def writeTo_def id split: option.splits sum.splits prod.splits)
qed

lemma mux_inv_socket [simp]: "mux_inv (m\<lparr>UDPConn := s\<rparr>) = mux_inv m"
  by (simp add: mux_inv_def)

lemma sendSTUN_mux_inv: "mux_inv (mux (snd (sendSTUN C f S now txid u srv))) = mux_inv (mux u)"
  using sendSTUN_mux [of C f S now txid u srv] by auto

lemma request_mux_inv:
  "mux_inv (mux (snd (GetXORMappedAddr_request C f S now txid u srv))) = mux_inv (mux u)"
proof -
  have send: "mux_inv (mux (snd (case sendSTUN C f S now txid u' srv of
      (Inl err, u) \<Rightarrow> (Failed (Wrapf ''failed to send STUN packet'' err), u)
    | (Inr r, u) \<Rightarrow> (Waiting r, u)))) = mux_inv (mux u')" for u'
    using sendSTUN_mux_inv [of C f S now txid u' srv] by (auto split: sum.splits prod.splits)
  show ?thesis unfolding GetXORMappedAddr_request_def Let_def
    by (auto simp: send split: option.splits simp del: case_prod_conv)
qed

lemma message_mux_inv:
  "mux_inv (mux u) \<Longrightarrow> mux_inv (mux (snd (universal_HandleSTUNMessage P S pool u msg addr)))"
  using HandleSTUNMessage_inv [of "mux u" P S pool msg addr]
  by (auto simp: universal_HandleSTUNMessage_def handleXORMappedResponse_def
      split: option.splits sum.splits prod.splits Addr.splits)

lemma universal_step_mux_inv: "universal_step P C f S u u' \<Longrightarrow> mux_inv (mux u) \<Longrightarrow> mux_inv (mux u')"
  by (induction rule: universal_step.induct)
    (auto simp: request_mux_inv intro: message_mux_inv elim: mux_step_inv)

lemma universal_reachable_inv: "universal_reachable P C f S u \<Longrightarrow> xor_inv u \<and> mux_inv (mux u)"
proof (induction rule: universal_reachable.induct)
  case (universal_start conn ttl ifaces)
  show ?case
    by (simp add: NewUniversalUDPMuxDefault_def Let_def xor_inv_def NewUDPMuxDefault_inv)
qed (blast intro: universal_step_inv universal_step_mux_inv)

section \<open>Discovery\<close>

lemma sendSTUN_entry:
  "sendSTUN C f S now txid u srv = (Inr r, u') \<Longrightarrow> gm_get (xorMappedMap u') (Addr_String srv) = Some r"
  by (auto simp: sendSTUN_def Let_def gm_get_put split: option.splits sum.splits prod.splits)

lemma request_entry:
  assumes "GetXORMappedAddr_request C f S now txid u srv = (Waiting r, u')"
  shows "gm_get (xorMappedMap u') (Addr_String srv) = Some r"
  using assms unfolding GetXORMappedAddr_request_def Let_def
  by (auto dest!: sendSTUN_entry split: option.splits sum.splits prod.splits if_splits)

lemma response_sets_addr:
  assumes "gm_get (xorMappedMap u) (UDPAddr_String srv) = Some r"
    and "AttrXORMappedAddress S msg \<noteq> None" and "XORMappedAddress_GetFrom S msg = Inr a"
    and "u' = snd (universal_HandleSTUNMessage P S pool u msg (UDP srv))"
  shows "gm_get (xorMappedMap u') (UDPAddr_String srv) = Some r"
    and "xm_at u' r = SetAddr a (xm_at u r)" and "mux u' = mux u"
  using assms by (auto simp: universal_HandleSTUNMessage_def isXORMappedResponse_def
      handleXORMappedResponse_def xm_at_def gm_get_put)

lemma SetAddr_fields [simp]:
  "xm_addr (SetAddr a e) = Some a" "waitAddrReceived (SetAddr a e)"
  "expiresAt (SetAddr a e) = expiresAt e"
  by (simp_all add: SetAddr_def closeWaiters_def)

lemma request_served_from_cache:
  assumes "gm_get (xorMappedMap u) (Addr_String srv) = Some r" and "xm_addr (xm_at u r) = Some a"
    and "now \<le> expiresAt (xm_at u r)"
  shows "GetXORMappedAddr_request C f S now txid u srv = (Mapped a, u)"
  using assms by (simp add: GetXORMappedAddr_request_def expired_def pending_def)

lemma request_expired:
  assumes "gm_get (xorMappedMap u) (Addr_String srv) = Some r" and "expiresAt (xm_at u r) < now"
  shows "fst (GetXORMappedAddr_request C f S now txid u srv) \<noteq> Mapped a"
  using assms by (auto simp: GetXORMappedAddr_request_def expired_def split: sum.splits prod.splits)

lemma handleXOR_other:
  assumes "xor_inv u" and "UDPAddr_String srv \<noteq> k"
    and "gm_get (xorMappedMap u) k = Some r"
    and "u' = snd (universal_HandleSTUNMessage P S pool u msg (UDP srv))"
  shows "gm_get (xorMappedMap u') k = Some r \<and> xm_at u' r = xm_at u r"
proof -
  have "gm_get (xorMappedMap u) (UDPAddr_String srv) = Some r' \<Longrightarrow> r' \<noteq> r" for r'
    using assms(1-3) unfolding xor_inv_def by blast
  then show ?thesis using assms(2-4)
    by (auto simp: universal_HandleSTUNMessage_def handleXORMappedResponse_def xm_at_def gm_get_put
        split: option.splits sum.splits prod.splits)
qed

section \<open>An instance\<close>

definition stun_srv :: UDPAddr where
  "stun_srv = \<lparr>IP = [8, 8, 8, 8], Port = 3478, Zone = ''''\<rparr>"

definition umux0 :: "(fifo, unit) UniversalUDPMuxDefault" where
  "umux0 = NewUniversalUDPMuxDefault loop_sock None () 0 (Inr [])"

definition umux1 :: "(fifo, unit) UniversalUDPMuxDefault" where
  "umux1 = snd (GetXORMappedAddr_request loop_sock None raw_stun 5 7 umux0 (UDP stun_srv))"

lemma umux1_request:
  "GetXORMappedAddr_request loop_sock None raw_stun 5 7 umux0 (UDP stun_srv) = (Waiting 0, umux1)"
  by (simp add: umux1_def umux0_def NewUniversalUDPMuxDefault_def NewUDPMuxDefault_def
      GetXORMappedAddr_request_def sendSTUN_def raw_stun_def writeTo_def udpConn_PacketConn_def
      udpConn_WriteTo_def inner_WriteTo_def loop_sock_def Let_def)

lemma umux1_entry: "gm_get (xorMappedMap umux1) (UDPAddr_String stun_srv) = Some 0"
  using request_entry [OF umux1_request] by simp

lemma umux1_reachable: "universal_reachable fifo_io loop_sock None raw_stun umux1"
  unfolding umux1_def umux0_def by (rule universal_next [OF universal_start step_xor_request])

lemma umux1_expiry: "expiresAt (xm_at umux1 0) = 5 + 25 * second"
  by (simp add: umux1_def umux0_def NewUniversalUDPMuxDefault_def NewUDPMuxDefault_def
      GetXORMappedAddr_request_def sendSTUN_def raw_stun_def writeTo_def udpConn_PacketConn_def
      udpConn_WriteTo_def inner_WriteTo_def loop_sock_def Let_def xm_at_def)

section \<open>Properties\<close>


text \<open>C11. A server-reflexive address is discovered: when a request is waiting and the server's
  response with an XOR-MAPPED-ADDRESS arrives, the waiter is released and gets that address, the
  response is not passed to any ICE connection, and until the entry expires further requests are
  answered from the cache with no state changed and nothing sent; after it expires the cached
  address is never returned.\<close>

theorem xor_mapped_discovery:
  assumes "GetXORMappedAddr_request C f S now txid u (UDP srv) = (Waiting r, u1)"
    and "AttrXORMappedAddress S msg \<noteq> None" and "XORMappedAddress_GetFrom S msg = Inr a"
    and "u2 = snd (universal_HandleSTUNMessage P S pool u1 msg (UDP srv))"
  shows "waitAddrReceived (xm_at u2 r)
       \<and> GetXORMappedAddr_wait u2 (UDP srv) False = Inr a
       \<and> mux u2 = mux u1
       \<and> (\<forall>now' txid'. now' \<le> expiresAt (xm_at u1 r) \<longrightarrow>
            GetXORMappedAddr_request C f S now' txid' u2 (UDP srv) = (Mapped a, u2))
       \<and> (\<forall>now' txid' b. expiresAt (xm_at u1 r) < now' \<longrightarrow>
            fst (GetXORMappedAddr_request C f S now' txid' u2 (UDP srv)) \<noteq> Mapped b)"
proof -
  have e1: "gm_get (xorMappedMap u1) (UDPAddr_String srv) = Some r"
    using request_entry [OF assms(1)] by simp
  note r = response_sets_addr [OF e1 assms(2-4)]
  show ?thesis
  proof (intro conjI allI impI)
    show "waitAddrReceived (xm_at u2 r)" using r(2) by simp
    show "GetXORMappedAddr_wait u2 (UDP srv) False = Inr a"
      using r by (simp add: GetXORMappedAddr_wait_def)
    show "GetXORMappedAddr_request C f S now' txid' u2 (UDP srv) = (Mapped a, u2)"
      if "now' \<le> expiresAt (xm_at u1 r)" for now' txid'
      using that r by (intro request_served_from_cache [where r = r]) simp_all
    show "fst (GetXORMappedAddr_request C f S now' txid' u2 (UDP srv)) \<noteq> Mapped b"
      if "expiresAt (xm_at u1 r) < now'" for now' txid' b
      using that r by (intro request_expired [where r = r]) simp_all
  qed (rule r(3))
qed

theorem xor_mapped_discovery_witness:
  "\<exists>u2 :: (fifo, unit) UniversalUDPMuxDefault.
     GetXORMappedAddr_wait u2 (UDP stun_srv) False = Inr loop_addr
   \<and> GetXORMappedAddr_request loop_sock None raw_stun (20 * second) 9 u2 (UDP stun_srv) = (Mapped loop_addr, u2)
   \<and> fst (GetXORMappedAddr_request loop_sock None raw_stun (26 * second) 9 u2 (UDP stun_srv)) \<noteq> Mapped loop_addr"
proof -
  define u2 where "u2 = snd (universal_HandleSTUNMessage fifo_io raw_stun (\<lambda>_. []) umux1 [1] (UDP stun_srv))"
  have "AttrXORMappedAddress raw_stun [1] \<noteq> None"
    and "XORMappedAddress_GetFrom raw_stun [1] = Inr loop_addr" by (simp_all add: raw_stun_def)
  from xor_mapped_discovery [OF umux1_request this u2_def]
  have "GetXORMappedAddr_wait u2 (UDP stun_srv) False = Inr loop_addr"
    and "\<And>now' txid'. now' \<le> 5 + 25 * second \<Longrightarrow>
      GetXORMappedAddr_request loop_sock None raw_stun now' txid' u2 (UDP stun_srv) = (Mapped loop_addr, u2)"
    and "\<And>now' txid' b. 5 + 25 * second < now' \<Longrightarrow>
      fst (GetXORMappedAddr_request loop_sock None raw_stun now' txid' u2 (UDP stun_srv)) \<noteq> Mapped b"
    unfolding umux1_expiry by blast+
  moreover have "20 * second \<le> 5 + 25 * second" "5 + 25 * second < 26 * second"
    by (simp_all add: second_def)
  ultimately show ?thesis by blast
qed



text \<open>A caller that finds a request already pending does not just wait for it: it gets the
  same channel, and the STUN server is sent one more binding request.\<close>

theorem pending_request_is_sent_again:
  assumes "GetXORMappedAddr_request C f S now txid u srv = (Waiting r, u1)"
    and "pending (xm_at u1 r)" and "now' \<le> expiresAt (xm_at u1 r)"
    and "Build_BindingRequest S txid' = Inr req"
    and "udpConn_WriteTo C f req srv (UDPConn (mux u1)) = (Inr n, conn')"
  shows "GetXORMappedAddr_request C f S now' txid' u1 srv
       = (Waiting r, u1\<lparr>mux := (mux u1)\<lparr>UDPConn := conn'\<rparr>\<rparr>)"
  using request_entry [OF assms(1)] assms(2-5)
  by (simp add: GetXORMappedAddr_request_def expired_def sendSTUN_def writeTo_def udpConn_PacketConn_def)

theorem pending_request_is_sent_again_witness:
  "GetXORMappedAddr_request loop_sock None raw_stun 6 8 umux1 (UDP stun_srv)
     = (Waiting 0, umux1\<lparr>mux := (mux umux1)\<lparr>UDPConn := UDPConn (mux umux1)\<rparr>\<rparr>)"
proof -
  have p: "pending (xm_at umux1 0)"
    by (simp add: umux1_def umux0_def NewUniversalUDPMuxDefault_def NewUDPMuxDefault_def
      GetXORMappedAddr_request_def sendSTUN_def raw_stun_def writeTo_def udpConn_PacketConn_def
      udpConn_WriteTo_def inner_WriteTo_def loop_sock_def Let_def xm_at_def pending_def)
  show ?thesis
    by (rule pending_request_is_sent_again [OF umux1_request p, where req = "[1]" and n = 1])
      (simp_all add: umux1_expiry second_def raw_stun_def udpConn_WriteTo_def inner_WriteTo_def loop_sock_def)
qed

definition read_ok :: "error + int \<times> bytes \<times> Addr \<Rightarrow> bool" where
  "read_ok res = (case res of Inl _ \<Rightarrow> True | Inr (n, buf, _) \<Rightarrow> 0 \<le> n \<and> n \<le> int (length buf))"

lemma ReadFromConn_iter_ok: "isl (ReadFromConn_iter P S pool res u) \<longleftrightarrow> \<not> read_ok res"
  by (auto simp: ReadFromConn_iter_def read_ok_def split: sum.splits)

text \<open>The read loop survives any sequence of read results, failed reads and packets that are
  not STUN included, exactly as long as every count the socket returns fits the buffer it was
  given; a single larger count panics.\<close>

theorem ReadFromConn_panics_iff:
  "isl (ReadFromConn P S pools results u) \<longleftrightarrow> \<not> list_all read_ok results"
proof (induction results arbitrary: pools u)
  case (Cons res rest)
  then show ?case
    using ReadFromConn_iter_ok [of P S "pools 0" res u]
    by (cases "ReadFromConn_iter P S (pools 0) res u") auto
qed simp

end
