(* ===== verification/Ice_Bind.thy ===== *)
theory Ice_Bind
  imports Universal_Mux
begin

text \<open>
  The WireGuard bind (\<^verbatim>\<open>iface/bind/bind.go\<close>): it shares WireGuard's own UDP socket with ICE by
  filtering the STUN packets out of every batch it receives and handing them to the universal
  mux.  The socket reads (\<^verbatim>\<open>ipv4.PacketConn.ReadBatch\<close>, \<^verbatim>\<open>net.UDPConn.ReadMsgUDP\<close>) and
  \<^verbatim>\<open>GetSrcFromControl\<close> are parameters.  A buffer is passed at its full capacity, so slicing past
  its length panics.
\<close>

section \<open>Definitions\<close>

record Message =
  Buffers :: "bytes list"
  OOB :: bytes
  msg_N :: int
  msg_NN :: int
  msg_Addr :: Addr

text \<open>\<^verbatim>\<open>netip.AddrPort\<close>; an address of a wrong length is the invalid one, \<open>None\<close>.\<close>

type_synonym AddrPort = "netipAddr option \<times> u16"

definition UDPAddr_AddrPort :: "UDPAddr \<Rightarrow> AddrPort" where
  "UDPAddr_AddrPort a =
     (if length (IP a) = 4 then Some (Addr4 (IP a))
      else if length (IP a) = 16 then Some (Addr6 (IP a) (Zone a))
      else None,
      word_of_int (Port a))"

record 'src StdNetEndpoint =
  AddrPort :: AddrPort
  ep_src :: "'src option"

record ('b, 's) ICEBind =
  udpMux :: "('b, 's) UniversalUDPMuxDefault option"
  bind_filterFn :: "FilterFn option"

definition NewICEBind :: "FilterFn option \<Rightarrow> ('b, 's) ICEBind" where
  "NewICEBind filterFn = \<lparr>udpMux = None, bind_filterFn = filterFn\<rparr>"

definition GetICEMux :: "('b, 's) ICEBind \<Rightarrow> error + ('b, 's) UniversalUDPMuxDefault" where
  "GetICEMux s =
     (case udpMux s of
        None \<Rightarrow> Inl (Errorf ''ICEBind has not been initialized yet'')
      | Some m \<Rightarrow> Inr m)"

text \<open>Creating the receive function creates the mux on the socket; the function itself is
  \<open>receive\<close> below.\<close>

definition createIPv4ReceiverFn ::
  "'s PacketConn \<Rightarrow> 's \<Rightarrow> (error + Interface list) \<Rightarrow> ('b, 's) ICEBind \<Rightarrow> ('b, 's) ICEBind" where
  "createIPv4ReceiverFn C conn ifaces s =
     s\<lparr>udpMux := Some (NewUniversalUDPMuxDefault C (bind_filterFn s) conn 0 ifaces)\<rparr>"

definition parseSTUNMessage :: "'m stun \<Rightarrow> bytes \<Rightarrow> error + 'm" where
  "parseSTUNMessage S raw = (case stun_Decode S raw of Inl err \<Rightarrow> Inl err | Inr msg \<Rightarrow> Inr msg)"

text \<open>The result is \<^verbatim>\<open>(bool, error)\<close>, the buffers after the call, and the mux.\<close>

fun filterOutStunMessages ::
  "'b packetio \<Rightarrow> 'm stun \<Rightarrow> (nat \<Rightarrow> bytes) \<Rightarrow> bytes list \<Rightarrow> int \<Rightarrow> Addr \<Rightarrow> ('b, 's) UniversalUDPMuxDefault
     \<Rightarrow> error + bool \<times> error option \<times> bytes list \<times> ('b, 's) UniversalUDPMuxDefault" where
  "filterOutStunMessages P S pool [] n addr u = Inr (False, None, [], u)"
| "filterOutStunMessages P S pool (b # bs) n addr u =
     (if \<not> stun_IsMessage S b
      then case filterOutStunMessages P S pool bs n addr u of
             Inl err \<Rightarrow> Inl err
           | Inr (ok, err, bs', u') \<Rightarrow> Inr (ok, err, b # bs', u')
      else if n < 0 \<or> int (length b) < n then Inl (Panic ''slice bounds out of range'')
      else case parseSTUNMessage S (take (nat n) b) of
             Inl err \<Rightarrow> Inr (True, Some err, [] # bs, u)
           | Inr msg \<Rightarrow> Inr (True, None, [] # bs, snd (universal_HandleSTUNMessage P S pool u msg addr)))"

fun set_buffers :: "Message list \<Rightarrow> bytes list \<Rightarrow> error + Message list" where
  "set_buffers msgs [] = Inr msgs"
| "set_buffers [] (b # bs) = Inl (Panic ''index out of range'')"
| "set_buffers (m # msgs) (b # bs) =
     (if Buffers m = [] then Inl (Panic ''index out of range'')
      else case set_buffers msgs bs of
             Inl err \<Rightarrow> Inl err
           | Inr msgs' \<Rightarrow> Inr (m\<lparr>Buffers := (Buffers m)[0 := b]\<rparr> # msgs'))"

text \<open>The loop over the messages received, from index \<open>i\<close> on.\<close>

fun receive_loop ::
  "'b packetio \<Rightarrow> 'm stun \<Rightarrow> (bytes \<Rightarrow> 'src option) \<Rightarrow> (nat \<Rightarrow> nat \<Rightarrow> bytes) \<Rightarrow> nat \<Rightarrow> Message list
     \<Rightarrow> int list \<Rightarrow> 'src StdNetEndpoint list \<Rightarrow> ('b, 's) UniversalUDPMuxDefault
     \<Rightarrow> error + int list \<times> 'src StdNetEndpoint list \<times> ('b, 's) UniversalUDPMuxDefault" where
  "receive_loop P S GetSrc pools i [] sizes eps u = Inr (sizes, eps, u)"
| "receive_loop P S GetSrc pools i (msg # msgs) sizes eps u =
     (case filterOutStunMessages P S (pools i) (Buffers msg) (msg_N msg) (msg_Addr msg) u of
        Inl err \<Rightarrow> Inl err
      | Inr (ok, _, _, u) \<Rightarrow>
          if length sizes \<le> i then Inl (Panic ''index out of range'')
          else let sizes = sizes[i := if ok then 0 else msg_N msg]
               in case msg_Addr msg of
                    OtherAddr _ \<Rightarrow> Inl (Panic ''interface conversion'')
                  | UDP a \<Rightarrow>
                      if msg_NN msg < 0 \<or> int (length (OOB msg)) < msg_NN msg
                      then Inl (Panic ''slice bounds out of range'')
                      else if length eps \<le> i then Inl (Panic ''index out of range'')
                      else receive_loop P S GetSrc pools (Suc i) msgs sizes
                             (eps[i := \<lparr>AddrPort = UDPAddr_AddrPort a,
                                        ep_src = GetSrc (take (nat (msg_NN msg)) (OOB msg))\<rparr>]) u)"

definition receive ::
  "'b packetio \<Rightarrow> 'm stun \<Rightarrow> (bytes \<Rightarrow> 'src option) \<Rightarrow> (nat \<Rightarrow> nat \<Rightarrow> bytes) \<Rightarrow> bool
     \<Rightarrow> (Message list \<Rightarrow> error + nat \<times> Message list)
     \<Rightarrow> (bytes \<Rightarrow> bytes \<Rightarrow> error + Message)
     \<Rightarrow> Message list \<Rightarrow> bytes list \<Rightarrow> int list \<Rightarrow> 'src StdNetEndpoint list
     \<Rightarrow> ('b, 's) UniversalUDPMuxDefault
     \<Rightarrow> error + nat \<times> int list \<times> 'src StdNetEndpoint list \<times> ('b, 's) UniversalUDPMuxDefault" where
  "receive P S GetSrc pools linux ReadBatch ReadMsgUDP pool_msgs bufs sizes eps u =
     (case set_buffers pool_msgs bufs of
        Inl err \<Rightarrow> Inl err
      | Inr msgs \<Rightarrow>
          (case (if linux then ReadBatch msgs
                 else case msgs of
                        [] \<Rightarrow> Inl (Panic ''index out of range'')
                      | m # ms \<Rightarrow>
                          if Buffers m = [] then Inl (Panic ''index out of range'')
                          else case ReadMsgUDP (hd (Buffers m)) (OOB m) of
                                 Inl err \<Rightarrow> Inl err
                               | Inr m' \<Rightarrow> Inr (1, m' # ms)) of
             Inl err \<Rightarrow> Inl err
           | Inr (numMsgs, msgs) \<Rightarrow>
               if length msgs < numMsgs then Inl (Panic ''index out of range'')
               else case receive_loop P S GetSrc pools 0 (take numMsgs msgs) sizes eps u of
                      Inl err \<Rightarrow> Inl err
                    | Inr (sizes, eps, u) \<Rightarrow> Inr (numMsgs, sizes, eps, u)))"

section \<open>What the filter does to a batch\<close>

definition stun_part :: "'m stun \<Rightarrow> Message \<Rightarrow> bytes option" where
  "stun_part S m = find (stun_IsMessage S) (Buffers m)"

text \<open>The mux after the STUN messages of a batch have been handed to it in order.\<close>

fun deliver ::
  "'b packetio \<Rightarrow> 'm stun \<Rightarrow> (nat \<Rightarrow> nat \<Rightarrow> bytes) \<Rightarrow> nat \<Rightarrow> Message list
     \<Rightarrow> ('b, 's) UniversalUDPMuxDefault \<Rightarrow> ('b, 's) UniversalUDPMuxDefault" where
  "deliver P S pools i [] u = u"
| "deliver P S pools i (m # ms) u =
     deliver P S pools (Suc i) ms
       (case stun_part S m of
          None \<Rightarrow> u
        | Some b \<Rightarrow>
            (case stun_Decode S (take (nat (msg_N m)) b) of
               Inl _ \<Rightarrow> u
             | Inr msg \<Rightarrow> snd (universal_HandleSTUNMessage P S (pools i) u msg (msg_Addr m))))"

definition well_received :: "Message \<Rightarrow> bool" where
  "well_received m \<longleftrightarrow>
     (case msg_Addr m of UDP _ \<Rightarrow> True | OtherAddr _ \<Rightarrow> False)
   \<and> 0 \<le> msg_NN m \<and> msg_NN m \<le> int (length (OOB m))
   \<and> 0 \<le> msg_N m \<and> list_all (\<lambda>b. msg_N m \<le> int (length b)) (Buffers m)"

definition wg_size :: "'m stun \<Rightarrow> Message \<Rightarrow> int" where
  "wg_size S m = (if stun_part S m = None then msg_N m else 0)"

definition wg_endpoint :: "(bytes \<Rightarrow> 'src option) \<Rightarrow> Message \<Rightarrow> 'src StdNetEndpoint" where
  "wg_endpoint GetSrc m =
     (case msg_Addr m of
        UDP a \<Rightarrow> \<lparr>AddrPort = UDPAddr_AddrPort a, ep_src = GetSrc (take (nat (msg_NN m)) (OOB m))\<rparr>
      | OtherAddr _ \<Rightarrow> \<lparr>AddrPort = (None, 0), ep_src = None\<rparr>)"

lemma filterOutStunMessages_spec:
  assumes "0 \<le> n" and "list_all (\<lambda>b. n \<le> int (length b)) bufs"
  shows "\<exists>err bufs'. filterOutStunMessages P S pool bufs n addr u =
     Inr (case find (stun_IsMessage S) bufs of
            None \<Rightarrow> (False, err, bufs', u)
          | Some b \<Rightarrow>
              (True, err, bufs',
               (case stun_Decode S (take (nat n) b) of
                  Inl _ \<Rightarrow> u
                | Inr msg \<Rightarrow> snd (universal_HandleSTUNMessage P S pool u msg addr))))"
  using assms
proof (induction bufs)
  case (Cons b bs)
  show ?case
  proof (cases "stun_IsMessage S b")
    case True
    with Cons.prems show ?thesis
      by (cases "stun_Decode S (take (nat n) b)") (auto simp: parseSTUNMessage_def)
  next
    case False
    from Cons obtain err bufs' where "filterOutStunMessages P S pool bs n addr u =
     Inr (case find (stun_IsMessage S) bs of
            None \<Rightarrow> (False, err, bufs', u)
          | Some b \<Rightarrow>
              (True, err, bufs',
               (case stun_Decode S (take (nat n) b) of
                  Inl _ \<Rightarrow> u
                | Inr msg \<Rightarrow> snd (universal_HandleSTUNMessage P S pool u msg addr))))" by auto
    with False show ?thesis
      by (intro exI [of _ err] exI [of _ "b # bufs'"]) (simp split: option.split)
  qed
qed simp

lemma receive_loop_spec:
  assumes "list_all well_received msgs" and "i + length msgs \<le> length sizes"
    and "i + length msgs \<le> length eps"
  shows "receive_loop P S GetSrc pools i msgs sizes eps u =
     Inr (take i sizes @ map (wg_size S) msgs @ drop (i + length msgs) sizes,
          take i eps @ map (wg_endpoint GetSrc) msgs @ drop (i + length msgs) eps,
          deliver P S pools i msgs u)"
  using assms
proof (induction msgs arbitrary: i sizes eps u)
  case (Cons m msgs)
  obtain a where a: "msg_Addr m = UDP a"
    using Cons.prems(1) by (auto simp: well_received_def split: Addr.splits)
  have nn: "\<not> msg_NN m < 0" "\<not> int (length (OOB m)) < msg_NN m"
    and n: "0 \<le> msg_N m" "list_all (\<lambda>b. msg_N m \<le> int (length b)) (Buffers m)"
    and i: "\<not> length sizes \<le> i" "\<not> length eps \<le> i"
    using Cons.prems by (auto simp: well_received_def)
  have shift: "take (Suc i) (xs[i := x]) = take i xs @ [x]" "drop (Suc i + k) (xs[i := x]) = drop (Suc i + k) xs"
    if "i < length xs" for xs :: "'z list" and x k
    using that by (simp_all add: take_Suc_conv_app_nth)
  show ?case
    using Cons.IH [of "Suc i" "sizes[i := wg_size S m]" "eps[i := wg_endpoint GetSrc m]"] Cons.prems
      filterOutStunMessages_spec [OF n, of P S "pools i" "msg_Addr m" u] nn i
    by (auto simp: a wg_size_def wg_endpoint_def stun_part_def shift Let_def not_le
        split: option.splits)
qed simp

lemma receive_spec:
  assumes "set_buffers pool_msgs bufs = Inr msgs0" and "ReadBatch msgs0 = Inr (n, msgs)"
    and "n \<le> length msgs" and "list_all well_received (take n msgs)"
    and "n \<le> length sizes" and "n \<le> length eps"
  shows "receive P S GetSrc pools True ReadBatch ReadMsgUDP pool_msgs bufs sizes eps u =
     Inr (n, map (wg_size S) (take n msgs) @ drop n sizes,
             map (wg_endpoint GetSrc) (take n msgs) @ drop n eps,
             deliver P S pools 0 (take n msgs) u)"
  using assms receive_loop_spec [of "take n msgs" 0 sizes eps P S GetSrc pools u]
  by (simp add: receive_def min_absorb2)

lemma deliver_none: "list_all (\<lambda>m. stun_part S m = None) ms \<Longrightarrow> deliver P S pools i ms u = u"
  by (induction ms arbitrary: i) simp_all

lemma deliver_append:
  "deliver P S pools i (ms @ ms') u = deliver P S pools (i + length ms) ms' (deliver P S pools i ms u)"
  by (induction ms arbitrary: i u) simp_all

lemma universal_delivers_to_mux:
  assumes "gm_get (xorMappedMap u) (UDPAddr_String a) = None"
  shows "mux (snd (universal_HandleSTUNMessage P S pool u msg (UDP a))) = snd (HandleSTUNMessage P S pool (mux u) msg (UDP a))"
  using assms by (simp add: universal_HandleSTUNMessage_def isXORMappedResponse_def case_prod_beta Let_def)

section \<open>Properties\<close>

definition demo_msg :: "bytes \<Rightarrow> Message" where
  "demo_msg b = \<lparr>Buffers = [b], OOB = [], msg_N = int (length b), msg_NN = 0, msg_Addr = UDP loop_addr\<rparr>"

text \<open>C13. A received batch is demultiplexed exactly: when the socket delivers well-formed
  messages, WireGuard gets size 0 for every message that holds a STUN packet and the untouched
  size and sender of every other one, the rest of its slices is left alone, and the mux sees
  precisely the decodable STUN packets, once each and in order of arrival.\<close>

theorem receive_demultiplexes:
  assumes "set_buffers pool_msgs bufs = Inr msgs0" and "ReadBatch msgs0 = Inr (n, msgs)"
    and "n \<le> length msgs" and "list_all well_received (take n msgs)"
    and "n \<le> length sizes" and "n \<le> length eps"
  shows "receive P S GetSrc pools True ReadBatch ReadMsgUDP pool_msgs bufs sizes eps u =
     Inr (n, map (wg_size S) (take n msgs) @ drop n sizes,
             map (wg_endpoint GetSrc) (take n msgs) @ drop n eps,
             deliver P S pools 0 (take n msgs) u)"
  using assms by (rule receive_spec)

theorem receive_demultiplexes_witness:
  "\<exists>u' :: (fifo, unit) UniversalUDPMuxDefault.
     receive fifo_io raw_stun (\<lambda>_. None :: unit option) (\<lambda>_ _. []) True
       (\<lambda>_. Inr (2, [demo_msg (replicate 20 7), demo_msg [4, 0]])) (\<lambda>_ _. Inl EOF)
       [demo_msg [], demo_msg []] [[], []] [9, 9, 9]
       (replicate 3 \<lparr>AddrPort = (None, 0), ep_src = None\<rparr>) umux1
     = Inr (2, [0, 2, 9],
            [\<lparr>AddrPort = UDPAddr_AddrPort loop_addr, ep_src = None\<rparr>,
             \<lparr>AddrPort = UDPAddr_AddrPort loop_addr, ep_src = None\<rparr>,
             \<lparr>AddrPort = (None, 0), ep_src = None\<rparr>], u')"
proof -
  have "set_buffers [demo_msg [], demo_msg []] [[], []] = Inr [demo_msg [], demo_msg []]"
    by (simp add: demo_msg_def)
  from receive_demultiplexes [OF this, where n = 2 and msgs = "[demo_msg (replicate 20 7), demo_msg [4, 0]]"
      and ReadBatch = "\<lambda>_. Inr (2, [demo_msg (replicate 20 7), demo_msg [4, 0]])"
      and sizes = "[9, 9, 9]" and eps = "replicate 3 \<lparr>AddrPort = (None, 0), ep_src = None\<rparr>"
      and S = raw_stun and GetSrc = "\<lambda>_. None"]
  show ?thesis
    by (intro exI) (simp add: demo_msg_def well_received_def numeral_eq_Suc wg_size_def wg_endpoint_def
        stun_part_def raw_stun_def)
qed

text \<open>C14. WireGuard and ICE share one socket and one batch: when a batch of well-formed messages holds
  one STUN packet, from a peer the mux has never sent to, among packets of WireGuard, then WireGuard
  gets every other packet with its size, and size 0 in place of that one; the owner of the user
  fragment in its username reads the bytes of the packet and the address it came from, and the
  receiving goroutine survives.\<close>

theorem batch_reaches_both:
  assumes "packet_buffer P queue closed" and "universal_reachable P C f S u"
    and "set_buffers pool_msgs bufs = Inr msgs0" and "ReadBatch msgs0 = Inr (length (pre @ x # post), pre @ x # post)"
    and "list_all well_received (pre @ x # post)" and "length (pre @ x # post) \<le> length sizes"
    and "length (pre @ x # post) \<le> length eps"
    and "list_all (\<lambda>m. stun_part S m = None) (pre @ post)"
    and "Buffers x = [b]" and "stun_IsMessage S b" and "stun_Decode S (take (nat (msg_N x)) b) = Inr msg"
    and "msg_Addr x = UDP a" and "gm_get (xorMappedMap u) (UDPAddr_String a) = None"
    and "getConn (mux u) ufrag v6 = Some r" and "store (mux u) r = Some c" and "queue (conn_buf c) = []"
    and "AttrUsername S msg = Some (ufrag @ CHR '':'' # rest)" and "CHR '':'' \<notin> set ufrag"
    and "addr_isIPv6 (UDP a) = v6" and "gm_get (addressMap (mux u)) (UDPAddr_String a) = None"
    and "fst (writePacket P (pools (length pre) 0) c (msg_Raw S msg) a) = None"
    and "IP_MarshalText (IP a) = Inr s" and "0 \<le> Port a" and "Port a < 65536"
    and "length (Zone a) \<le> 460" and "length (pools (length pre) 0) = receiveMTU + maxAddrSize"
    and "length rbuf = receiveMTU + maxAddrSize" and "length (msg_Raw S msg) \<le> blen"
  shows "\<exists>eps' u' c' c''. receive P S GetSrc pools True ReadBatch ReadMsgUDP pool_msgs bufs sizes eps u
       = Inr (length (pre @ x # post), map msg_N pre @ 0 # map msg_N post @ drop (length (pre @ x # post)) sizes, eps', u')
     \<and> store (mux u') r = Some c' \<and> ReadFrom P rbuf c' blen = Some (Inr (msg_Raw S msg, canonical_addr a), c'')"
proof -
  let ?u' = "snd (universal_HandleSTUNMessage P S (pools (length pre)) u msg (UDP a))"
  have x: "stun_part S x = Some b" using assms(9,10) by (simp add: stun_part_def)
  have "deliver P S pools 0 (pre @ x # post) u = ?u'"
    using assms(8,11,12) x by (simp add: deliver_append deliver_none)
  moreover have "map (wg_size S) (pre @ x # post) = map msg_N pre @ 0 # map msg_N post"
    using assms(8) x by (auto simp: wg_size_def list_all_iff)
  moreover have "take (length (pre @ x # post)) (pre @ x # post) = pre @ x # post" by simp
  ultimately have run: "receive P S GetSrc pools True ReadBatch ReadMsgUDP pool_msgs bufs sizes eps u
      = Inr (length (pre @ x # post), map msg_N pre @ 0 # map msg_N post @ drop (length (pre @ x # post)) sizes,
          map (wg_endpoint GetSrc) (pre @ x # post) @ drop (length (pre @ x # post)) eps, ?u')"
    using receive_spec [where ReadBatch = ReadBatch, OF assms(3,4) _ _ assms(6,7), of P S GetSrc pools ReadMsgUDP u] assms(5)
    by (simp only: order_refl append_assoc append_Cons)
  have inv: "mux_inv (mux u)" using universal_reachable_inv [OF assms(2)] by simp
  obtain c' c'' where "store (snd (HandleSTUNMessage P S (pools (length pre)) (mux u) msg (UDP a))) r = Some c'"
    "ReadFrom P rbuf c' blen = Some (Inr (msg_Raw S msg, canonical_addr a), c'')"
    using stun_read_back [where pool = "pools (length pre)", OF assms(1) inv assms(14-28)] by blast
  then show ?thesis unfolding run universal_delivers_to_mux [OF assms(13), symmetric] by blast
qed

definition ice_packet :: bytes where
  "ice_packet = to_bytes (''u'' @ CHR '':'' # replicate 18 (CHR ''v''))"

definition umux_u :: "(fifo, unit) UniversalUDPMuxDefault" where
  "umux_u = umux0\<lparr>mux := snd (GetConn fifo_io (udpConn_PacketConn loop_sock None) (mux umux0) ''u'' (UDP loop_addr))\<rparr>"

lemma umux_u_reachable: "universal_reachable fifo_io loop_sock None raw_stun umux_u"
  unfolding umux_u_def umux0_def by (rule universal_next [OF universal_start step_mux [OF step_GetConn]])

lemma umux_u_facts:
  "xorMappedMap umux_u = []" "addressMap (mux umux_u) = []" "connsIPv4 (mux umux_u) = [(''u'', 0)]"
  "store (mux umux_u) 0 = Some (newUDPMuxedConn fifo_io ''u'' (UDP loop_addr))"
  by (simp_all add: umux_u_def umux0_def NewUniversalUDPMuxDefault_def NewUDPMuxDefault_def udpConn_PacketConn_def GetConn_def
      createMuxedConn_def IsClosed_def getConn_def mux_LocalAddr_def loop_sock_def addr_isIPv6_def To4_def loop_addr_def
      IsUnspecified_def IP_Equal_def IPv4zero_def IPv6unspecified_def v4InV6Prefix_def numeral_eq_Suc Let_def)

theorem batch_reaches_both_witness:
  "\<exists>eps' u' c' c''. receive fifo_io raw_stun (\<lambda>_. None :: unit option) (\<lambda>_ _. replicate 8704 0) True
       (\<lambda>_. Inr (3, [demo_msg [4, 0], demo_msg ice_packet, demo_msg [4, 1, 2]])) (\<lambda>_ _. Inl EOF)
       [demo_msg [], demo_msg [], demo_msg []] [[], [], []] [9, 9, 9, 9]
       (replicate 4 \<lparr>AddrPort = (None, 0), ep_src = None\<rparr>) umux_u
     = Inr (3, [2, 0, 3, 9], eps', u')
   \<and> store (mux u') 0 = Some c'
   \<and> ReadFrom fifo_io (replicate 8704 9) c' 1500 = Some (Inr (ice_packet, canonical_addr loop_addr), c'')"
proof -
  let ?c = "newUDPMuxedConn fifo_io ''u'' (UDP loop_addr)"
  let ?pre = "[demo_msg [4, 0]]" and ?x = "demo_msg ice_packet" and ?post = "[demo_msg [4, 1, 2]]"
  have len: "length ice_packet = 20" by (simp add: ice_packet_def)
  have n: "length (?pre @ ?x # ?post) = 3" by simp
  have ip: "IP_MarshalText (IP loop_addr) = Inr (dotted [127, 0, 0, 1])"
    by (simp add: IP_MarshalText_def IP_String_def To4_def loop_addr_def)
  have "format_packet (replicate 8704 0) ice_packet loop_addr = Inr (packet_bytes ice_packet (dotted [127, 0, 0, 1]) loop_addr)"
    using length_dotted [of "[127, 0, 0, 1]"] len
    by (intro format_packet_layout ip) (simp_all add: maxAddrSize_def loop_addr_def)
  then have ok: "fst (writePacket fifo_io (replicate 8704 0) ?c (msg_Raw raw_stun ice_packet) loop_addr) = None"
    by (simp add: writePacket_def newUDPMuxedConn_def fifo_io_def raw_stun_def)
  have bufs: "set_buffers [demo_msg [], demo_msg [], demo_msg []] [[], [], []] = Inr [demo_msg [], demo_msg [], demo_msg []]"
    by (simp add: demo_msg_def)
  have recv: "list_all well_received (?pre @ ?x # ?post)" by (simp add: demo_msg_def well_received_def)
  have other: "list_all (\<lambda>m. stun_part raw_stun m = None) (?pre @ ?post)" by (simp add: demo_msg_def stun_part_def raw_stun_def)
  have stun: "Buffers ?x = [ice_packet]" "stun_IsMessage raw_stun ice_packet"
    "stun_Decode raw_stun (take (nat (msg_N ?x)) ice_packet) = Inr ice_packet" "msg_Addr ?x = UDP loop_addr"
    "AttrUsername raw_stun ice_packet = Some (''u'' @ CHR '':'' # replicate 18 (CHR ''v''))" "CHR '':'' \<notin> set ''u''"
    by (simp_all add: demo_msg_def raw_stun_def len) (simp_all add: ice_packet_def)
  have mux: "gm_get (xorMappedMap umux_u) (UDPAddr_String loop_addr) = None" "getConn (mux umux_u) ''u'' False = Some 0"
    "fifo_queue (conn_buf ?c) = []" "gm_get (addressMap (mux umux_u)) (UDPAddr_String loop_addr) = None"
    by (simp_all add: umux_u_facts getConn_def newUDPMuxedConn_def fifo_io_def)
  have addr: "addr_isIPv6 (UDP loop_addr) = False" "0 \<le> Port loop_addr" "Port loop_addr < 65536" "length (Zone loop_addr) \<le> 460"
    by (simp_all add: addr_isIPv6_def To4_def loop_addr_def)
  have raw: "msg_Raw raw_stun ice_packet = ice_packet" by (simp add: raw_stun_def)
  have sizes: "msg_N (demo_msg [4, 0]) = 2" "msg_N (demo_msg [4, 1, 2]) = 3" by (simp_all add: demo_msg_def)
  show ?thesis
    using batch_reaches_both [where pools = "\<lambda>_ _. replicate 8704 0" and pre = ?pre and post = ?post and sizes = "[9, 9, 9, 9]"
        and eps = "replicate 4 \<lparr>AddrPort = (None, 0), ep_src = None\<rparr>" and rbuf = "replicate 8704 9" and blen = 1500
        and ReadBatch = "\<lambda>_. Inr (3, [demo_msg [4, 0], demo_msg ice_packet, demo_msg [4, 1, 2]])"
        and GetSrc = "\<lambda>_. None" and ReadMsgUDP = "\<lambda>_ _. Inl EOF",
        OF fifo.packet_buffer_axioms umux_u_reachable bufs _ recv _ _ other stun(1-4) mux(1,2) umux_u_facts(4) mux(3) stun(5,6)
          addr(1) mux(4) ok ip addr(2-4)]
    by (simp add: raw sizes len receiveMTU_def maxAddrSize_def numeral_3_eq_3)
qed

end
