(* ===== verification/Signal_Store.thy ===== *)
theory Signal_Store
  imports Punch_Prelude
begin

text \<open>
  The peer directory of the signal server (\<^verbatim>\<open>signal/store\<close>).  The table lives in gorm over SQLite,
  which the code only calls: the record \<open>gormDB\<close> has one operation for every query the code builds,
  and the locale \<open>gorm_table\<close> states what gorm documents for them.  Every error gorm could report
  is ignored by the code.
\<close>

section \<open>Data\<close>

record Peer =
  peer_ID :: int
  peer_ClientID :: string
  peer_IP :: string
  peer_Port :: int
  peer_WgPubKey :: string
  peer_Token :: string
  peer_AllowedIP :: string
  peer_LastKeepAliveAt :: "int option"

text \<open>\<^verbatim>\<open>None\<close> is the zero \<^verbatim>\<open>time.Time\<close>.\<close>

record PeerLogin =
  login_IP :: string
  login_Port :: int
  login_ClientID :: string
  login_WgPubKey :: string
  login_Token :: string
  login_AllowedIP :: string

record PeerConfig =
  conf_IP :: string
  conf_Port :: int
  conf_ClientID :: string
  conf_WgPubKey :: string
  conf_Token :: string
  conf_AllowedIP :: string
  conf_LastKeepAliveAt :: string

definition zero_Peer :: Peer where
  "zero_Peer = \<lparr>peer_ID = 0, peer_ClientID = '''', peer_IP = '''', peer_Port = 0, peer_WgPubKey = '''',
     peer_Token = '''', peer_AllowedIP = '''', peer_LastKeepAliveAt = None\<rparr>"

section \<open>The database\<close>

record 'd gormDB =
  Where_token_Find :: "string \<Rightarrow> 'd \<Rightarrow> Peer list"
  Where_token_client_Updates :: "string \<Rightarrow> string \<Rightarrow> Peer \<Rightarrow> 'd \<Rightarrow> 'd"
  db_Create :: "Peer \<Rightarrow> 'd \<Rightarrow> 'd"
  Where_all_Delete :: "'d \<Rightarrow> 'd"

text \<open>\<^verbatim>\<open>Updates\<close> with a struct changes the columns of its non-zero fields only.\<close>

definition Updates_struct :: "Peer \<Rightarrow> Peer \<Rightarrow> Peer" where
  "Updates_struct v p =
     \<lparr>peer_ID = (if peer_ID v \<noteq> 0 then peer_ID v else peer_ID p),
      peer_ClientID = (if peer_ClientID v \<noteq> '''' then peer_ClientID v else peer_ClientID p),
      peer_IP = (if peer_IP v \<noteq> '''' then peer_IP v else peer_IP p),
      peer_Port = (if peer_Port v \<noteq> 0 then peer_Port v else peer_Port p),
      peer_WgPubKey = (if peer_WgPubKey v \<noteq> '''' then peer_WgPubKey v else peer_WgPubKey p),
      peer_Token = (if peer_Token v \<noteq> '''' then peer_Token v else peer_Token p),
      peer_AllowedIP = (if peer_AllowedIP v \<noteq> '''' then peer_AllowedIP v else peer_AllowedIP p),
      peer_LastKeepAliveAt = (if peer_LastKeepAliveAt v \<noteq> None then peer_LastKeepAliveAt v
                              else peer_LastKeepAliveAt p)\<rparr>"

section \<open>Operations\<close>

text \<open>The package initialiser empties the table.\<close>

definition store_init :: "'d gormDB \<Rightarrow> 'd \<Rightarrow> 'd" where
  "store_init D d = Where_all_Delete D d"

fun register_loop :: "'d gormDB \<Rightarrow> PeerLogin \<Rightarrow> Peer list \<Rightarrow> 'd \<Rightarrow> 'd option" where
  "register_loop D peerLogin [] d = None"
| "register_loop D peerLogin (peer # peers) d =
     (if peer_ClientID peer = login_ClientID peerLogin
      then Some (Where_token_client_Updates D (login_Token peerLogin) (login_ClientID peerLogin)
                   (zero_Peer\<lparr>peer_WgPubKey := login_WgPubKey peerLogin, peer_IP := login_IP peerLogin,
                              peer_Port := login_Port peerLogin\<rparr>) d)
      else register_loop D peerLogin peers d)"

definition Register :: "'d gormDB \<Rightarrow> int \<Rightarrow> PeerLogin \<Rightarrow> 'd \<Rightarrow> 'd" where
  "Register D now peerLogin d =
     (case register_loop D peerLogin (Where_token_Find D (login_Token peerLogin) d) d of
        Some d' \<Rightarrow> d'
      | None \<Rightarrow>
          db_Create D
            \<lparr>peer_ID = 0, peer_ClientID = login_ClientID peerLogin, peer_IP = login_IP peerLogin,
             peer_Port = login_Port peerLogin, peer_WgPubKey = login_WgPubKey peerLogin,
             peer_Token = login_Token peerLogin, peer_AllowedIP = login_AllowedIP peerLogin,
             peer_LastKeepAliveAt = Some now\<rparr> d)"

definition peer_config :: "Peer \<Rightarrow> PeerConfig" where
  "peer_config peer =
     \<lparr>conf_IP = peer_IP peer, conf_Port = peer_Port peer, conf_ClientID = peer_ClientID peer,
      conf_WgPubKey = peer_WgPubKey peer, conf_Token = peer_Token peer,
      conf_AllowedIP = peer_AllowedIP peer, conf_LastKeepAliveAt = ''''\<rparr>"

fun clients_loop :: "string \<Rightarrow> Peer list \<Rightarrow> PeerConfig list \<Rightarrow> PeerConfig list" where
  "clients_loop clientId [] peerConfig = peerConfig"
| "clients_loop clientId (peer # peers) peerConfig =
     clients_loop clientId peers
       (if peer_ClientID peer \<noteq> clientId then peerConfig @ [peer_config peer] else peerConfig)"

definition GetClients :: "'d gormDB \<Rightarrow> string \<Rightarrow> string \<Rightarrow> 'd \<Rightarrow> PeerConfig list" where
  "GetClients D clientId token d = clients_loop clientId (Where_token_Find D token d) []"

text \<open>\<^verbatim>\<open>SqlStore.GetPeers\<close>: the query fills a fresh \<^verbatim>\<open>Peer\<close>, not the list that is returned.\<close>

definition GetPeers :: "'d gormDB \<Rightarrow> string \<Rightarrow> 'd \<Rightarrow> Peer list" where
  "GetPeers D token d = (let peers = []; found = Where_token_Find D token d in peers)"

section \<open>What gorm promises\<close>

locale gorm_table =
  fixes D :: "'d gormDB"
    and rows :: "'d \<Rightarrow> Peer list"
  assumes find_rows: "Where_token_Find D t d = filter (\<lambda>p. peer_Token p = t) (rows d)"
    and updates_rows: "rows (Where_token_client_Updates D t c v d) =
      map (\<lambda>p. if peer_Token p = t \<and> peer_ClientID p = c then Updates_struct v p else p) (rows d)"
    and create_rows: "\<exists>i. rows (db_Create D p d) = rows d @ [p\<lparr>peer_ID := i\<rparr>]"
    and delete_rows: "rows (Where_all_Delete D d) = []"

text \<open>A table kept as a list and the largest primary key given out.\<close>

definition list_db :: "(int \<times> Peer list) gormDB" where
  "list_db =
     \<lparr>Where_token_Find = (\<lambda>t (n, ps). filter (\<lambda>p. peer_Token p = t) ps),
      Where_token_client_Updates = (\<lambda>t c v (n, ps).
        (n, map (\<lambda>p. if peer_Token p = t \<and> peer_ClientID p = c then Updates_struct v p else p) ps)),
      db_Create = (\<lambda>p (n, ps). (n + 1, ps @ [p\<lparr>peer_ID := n + 1\<rparr>])),
      Where_all_Delete = (\<lambda>(n, ps). (n, []))\<rparr>"

interpretation list_table: gorm_table list_db snd
  by unfold_locales (auto simp: list_db_def split: prod.splits)

section \<open>The directory\<close>

text \<open>
  The directory a client sees: for a token and a client identifier, the peer registered under
  them.  A store is well-formed when that is unique.
\<close>

definition key :: "Peer \<Rightarrow> string \<times> string" where
  "key p = (peer_Token p, peer_ClientID p)"

definition directory :: "Peer list \<Rightarrow> string \<times> string \<Rightarrow> Peer option" where
  "directory ps = map_of (map (\<lambda>p. (key p, p)) ps)"

definition unique_keys :: "Peer list \<Rightarrow> bool" where
  "unique_keys ps \<longleftrightarrow> distinct (map key ps)"

definition login_key :: "PeerLogin \<Rightarrow> string \<times> string" where
  "login_key l = (login_Token l, login_ClientID l)"

definition upsert :: "int \<Rightarrow> PeerLogin \<Rightarrow> Peer option \<Rightarrow> Peer" where
  "upsert now l old =
     (case old of
        Some p \<Rightarrow> p\<lparr>peer_WgPubKey := if login_WgPubKey l \<noteq> '''' then login_WgPubKey l else peer_WgPubKey p,
                   peer_IP := if login_IP l \<noteq> '''' then login_IP l else peer_IP p,
                   peer_Port := if login_Port l \<noteq> 0 then login_Port l else peer_Port p\<rparr>
      | None \<Rightarrow> \<lparr>peer_ID = 0, peer_ClientID = login_ClientID l, peer_IP = login_IP l,
                 peer_Port = login_Port l, peer_WgPubKey = login_WgPubKey l, peer_Token = login_Token l,
                 peer_AllowedIP = login_AllowedIP l, peer_LastKeepAliveAt = Some now\<rparr>)"

lemma clients_loop_eq:
  "clients_loop c ps acc = acc @ map peer_config (filter (\<lambda>p. peer_ClientID p \<noteq> c) ps)"
  by (induction c ps acc rule: clients_loop.induct) auto

lemma directory_Some:
  "directory ps k = Some p \<Longrightarrow> p \<in> set ps \<and> key p = k"
  unfolding directory_def by (drule map_of_SomeD) auto

lemma directory_unique: "unique_keys ps \<Longrightarrow> p \<in> set ps \<Longrightarrow> directory ps (key p) = Some p"
  unfolding directory_def unique_keys_def
  by (rule map_of_is_SomeI) (auto simp: comp_def)

lemma directory_None: "directory ps k = None \<longleftrightarrow> (\<forall>p\<in>set ps. key p \<noteq> k)"
  by (auto simp: directory_def map_of_eq_None_iff image_iff)

lemma directory_append: "directory (ps @ qs) k = (case directory ps k of None \<Rightarrow> directory qs k | Some p \<Rightarrow> Some p)"
  by (simp add: directory_def map_add_def split: option.split)

lemma directory_map:
  assumes "\<And>p. key (f p) = key p"
  shows "directory (map f ps) k = map_option f (directory ps k)"
  using assms by (induction ps) (auto simp: directory_def)

lemma Updates_login:
  "Updates_struct (zero_Peer\<lparr>peer_WgPubKey := login_WgPubKey l, peer_IP := login_IP l,
      peer_Port := login_Port l\<rparr>) p = upsert now l (Some p)"
  by (simp add: Updates_struct_def zero_Peer_def upsert_def)

lemma key_upsert_Some [simp]: "key (upsert now l (Some p)) = key p"
  by (simp add: key_def upsert_def)

lemma register_loop_eq:
  "register_loop D l ps d =
     (if \<exists>p\<in>set ps. peer_ClientID p = login_ClientID l
      then Some (Where_token_client_Updates D (login_Token l) (login_ClientID l)
             (zero_Peer\<lparr>peer_WgPubKey := login_WgPubKey l, peer_IP := login_IP l,
                        peer_Port := login_Port l\<rparr>) d)
      else None)"
  by (induction D l ps d rule: register_loop.induct) auto

context gorm_table
begin

lemma Register_rows:
  "\<exists>i. rows (Register D now l d) =
     (if directory (rows d) (login_key l) = None
      then rows d @ [upsert now l None\<lparr>peer_ID := i\<rparr>]
      else map (\<lambda>p. if key p = login_key l then upsert now l (Some p) else p) (rows d))"
proof -
  have hit: "(\<exists>p\<in>set (Where_token_Find D (login_Token l) d). peer_ClientID p = login_ClientID l)
      \<longleftrightarrow> directory (rows d) (login_key l) \<noteq> None"
    by (auto simp: find_rows directory_None key_def login_key_def)
  show ?thesis
  proof (cases "directory (rows d) (login_key l)")
    case None
    then have "Register D now l d = db_Create D (upsert now l None) d"
      using hit by (simp add: Register_def register_loop_eq upsert_def)
    with create_rows [of "upsert now l None" d] None show ?thesis by simp
  next
    case (Some p)
    then show ?thesis
      using hit by (simp add: Register_def register_loop_eq updates_rows Updates_login [of _ _ now]
          key_def login_key_def cong: if_cong)
  qed
qed

lemma Register_directory:
  "\<exists>i. directory (rows (Register D now l d)) = (directory (rows d))(login_key l \<mapsto>
      (case directory (rows d) (login_key l) of
         None \<Rightarrow> upsert now l None\<lparr>peer_ID := i\<rparr> | Some p \<Rightarrow> upsert now l (Some p)))"
proof -
  obtain i where rows: "rows (Register D now l d) =
     (if directory (rows d) (login_key l) = None
      then rows d @ [upsert now l None\<lparr>peer_ID := i\<rparr>]
      else map (\<lambda>p. if key p = login_key l then upsert now l (Some p) else p) (rows d))"
    using Register_rows by blast
  have new: "key (upsert now l None\<lparr>peer_ID := i\<rparr>) = login_key l"
    by (simp add: key_def login_key_def upsert_def)
  have "directory (rows (Register D now l d)) k =
     (if k = login_key l
      then Some (case directory (rows d) k of
                   None \<Rightarrow> upsert now l None\<lparr>peer_ID := i\<rparr> | Some p \<Rightarrow> upsert now l (Some p))
      else directory (rows d) k)" for k
  proof (cases "directory (rows d) (login_key l)")
    case None
    then show ?thesis
      by (auto simp: rows directory_append new directory_def [of "[_]"] split: option.split)
  next
    case (Some p)
    have same: "key (if key p = login_key l then upsert now l (Some p) else p) = key p" for p by simp
    have other: "map_option (\<lambda>p. if key p = login_key l then upsert now l (Some p) else p) (directory (rows d) k)
        = directory (rows d) k" if "k \<noteq> login_key l"
      using that directory_Some [of "rows d" k] by (cases "directory (rows d) k") auto
    from Some directory_Some [OF Some] show ?thesis
      by (simp add: rows directory_map [OF same] other)
  qed
  then have "directory (rows (Register D now l d)) = (directory (rows d))(login_key l \<mapsto>
      (case directory (rows d) (login_key l) of
         None \<Rightarrow> upsert now l None\<lparr>peer_ID := i\<rparr> | Some p \<Rightarrow> upsert now l (Some p)))"
    by (intro ext) simp
  then show ?thesis by blast
qed

lemma Register_unique: "unique_keys (rows d) \<Longrightarrow> unique_keys (rows (Register D now l d))"
proof -
  assume unique: "unique_keys (rows d)"
  obtain i where rows: "rows (Register D now l d) =
     (if directory (rows d) (login_key l) = None
      then rows d @ [upsert now l None\<lparr>peer_ID := i\<rparr>]
      else map (\<lambda>p. if key p = login_key l then upsert now l (Some p) else p) (rows d))"
    using Register_rows by blast
  have new: "key (upsert now l None\<lparr>peer_ID := i\<rparr>) = login_key l"
    by (simp add: key_def login_key_def upsert_def)
  have "map key (map (\<lambda>p. if key p = login_key l then upsert now l (Some p) else p) (rows d)) = map key (rows d)"
    by simp
  then have old: "unique_keys (map (\<lambda>p. if key p = login_key l then upsert now l (Some p) else p) (rows d))"
    using unique unfolding unique_keys_def by (simp only:)
  show ?thesis
  proof (cases "directory (rows d) (login_key l)")
    case None
    with unique new show ?thesis by (auto simp: rows unique_keys_def directory_None)
  qed (simp add: rows old)
qed

lemma GetClients_eq:
  "GetClients D c t d = map peer_config (filter (\<lambda>p. peer_Token p = t \<and> peer_ClientID p \<noteq> c) (rows d))"
  by (simp add: GetClients_def clients_loop_eq find_rows conj_commute)

lemma GetClients_directory:
  assumes "unique_keys (rows d)"
  shows "conf \<in> set (GetClients D c t d) \<longleftrightarrow>
     (\<exists>c' p. c' \<noteq> c \<and> directory (rows d) (t, c') = Some p \<and> conf = peer_config p)"
proof
  assume "conf \<in> set (GetClients D c t d)"
  then obtain p where "p \<in> set (rows d)" "peer_Token p = t" "peer_ClientID p \<noteq> c" "conf = peer_config p"
    by (auto simp: GetClients_eq)
  with directory_unique [OF assms] show "\<exists>c' p. c' \<noteq> c \<and> directory (rows d) (t, c') = Some p \<and> conf = peer_config p"
    by (auto simp: key_def)
next
  assume "\<exists>c' p. c' \<noteq> c \<and> directory (rows d) (t, c') = Some p \<and> conf = peer_config p"
  then show "conf \<in> set (GetClients D c t d)"
    by (auto simp: GetClients_eq key_def dest!: directory_Some)
qed

lemma login_listed:
  assumes "unique_keys (rows d)" and "c \<noteq> login_ClientID l"
    and "login_IP l \<noteq> ''''" and "login_Port l \<noteq> 0" and "login_WgPubKey l \<noteq> ''''"
  shows "\<exists>conf \<in> set (GetClients D c (login_Token l) (Register D now l d)).
     conf_ClientID conf = login_ClientID l \<and> conf_IP conf = login_IP l
   \<and> conf_Port conf = login_Port l \<and> conf_WgPubKey conf = login_WgPubKey l
   \<and> conf_AllowedIP conf = (case directory (rows d) (login_key l) of None \<Rightarrow> login_AllowedIP l | Some q \<Rightarrow> peer_AllowedIP q)"
proof -
  obtain p where p: "directory (rows (Register D now l d)) (login_key l) = Some p"
    "peer_IP p = login_IP l" "peer_Port p = login_Port l" "peer_WgPubKey p = login_WgPubKey l"
    "peer_AllowedIP p = (case directory (rows d) (login_key l) of None \<Rightarrow> login_AllowedIP l | Some q \<Rightarrow> peer_AllowedIP q)"
  proof -
    obtain i where dir: "directory (rows (Register D now l d)) = (directory (rows d))(login_key l \<mapsto>
      (case directory (rows d) (login_key l) of
         None \<Rightarrow> upsert now l None\<lparr>peer_ID := i\<rparr> | Some p \<Rightarrow> upsert now l (Some p)))"
      using Register_directory by blast
    show thesis
      by (rule that [OF fun_cong [OF dir, THEN trans, OF fun_upd_same]])
        (simp_all add: upsert_def assms(3-5) split: option.split)
  qed
  have "key p = login_key l" using directory_Some [OF p(1)] by simp
  then have "peer_ClientID p = login_ClientID l" by (simp add: key_def login_key_def)
  moreover have "peer_config p \<in> set (GetClients D c (login_Token l) (Register D now l d))"
    unfolding GetClients_directory [OF Register_unique [OF assms(1)]]
    using p(1) assms(2) by (intro exI [of _ "login_ClientID l"] exI [of _ p]) (simp add: login_key_def)
  ultimately show ?thesis using p(2-5) by (intro bexI [of _ "peer_config p"]) (simp_all add: peer_config_def)
qed

end

section \<open>Properties\<close>

definition login_a :: PeerLogin where
  "login_a = \<lparr>login_IP = ''1.2.3.4'', login_Port = 51820, login_ClientID = ''A'', login_WgPubKey = ''ka'',
     login_Token = ''t'', login_AllowedIP = ''172.16.0.1''\<rparr>"

definition store_a :: "int \<times> Peer list" where
  "store_a = Register list_db 5 login_a (store_init list_db (0, []))"

lemma store_a_eq:
  "store_a = (1, [\<lparr>peer_ID = 1, peer_ClientID = ''A'', peer_IP = ''1.2.3.4'', peer_Port = 51820,
     peer_WgPubKey = ''ka'', peer_Token = ''t'', peer_AllowedIP = ''172.16.0.1'', peer_LastKeepAliveAt = Some 5\<rparr>])"
  by (simp add: store_a_def Register_def store_init_def list_db_def login_a_def)

lemma store_a_unique: "unique_keys (snd store_a)"
  by (simp add: store_a_eq unique_keys_def)

text \<open>C18. Registering is an upsert of a directory keyed by token and client identifier: over any
  table that behaves as gorm documents, the entry of the logging-in client becomes the one with
  the address, port and key of the login (created when there was none, fields the login leaves
  empty kept when there was), every other entry is unchanged, and no key ever occurs twice.\<close>

theorem Register_refines_upsert:
  assumes "gorm_table D rows" and "unique_keys (rows d)"
  shows "unique_keys (rows (Register D now l d))
       \<and> (\<exists>i. directory (rows (Register D now l d)) =
            (directory (rows d))(login_key l \<mapsto>
               (case directory (rows d) (login_key l) of
                  None \<Rightarrow> upsert now l None\<lparr>peer_ID := i\<rparr>
                | Some p \<Rightarrow> upsert now l (Some p))))"
proof
  show "unique_keys (rows (Register D now l d))"
    using assms by (rule gorm_table.Register_unique)
  show "\<exists>i. directory (rows (Register D now l d)) = (directory (rows d))(login_key l \<mapsto>
      (case directory (rows d) (login_key l) of
         None \<Rightarrow> upsert now l None\<lparr>peer_ID := i\<rparr> | Some p \<Rightarrow> upsert now l (Some p)))"
    using assms(1) by (rule gorm_table.Register_directory)
qed

theorem Register_refines_upsert_witness:
  "\<exists>p. directory (snd (Register list_db 9 (login_a\<lparr>login_Port := 40000\<rparr>) store_a)) (''t'', ''A'') = Some p
     \<and> peer_Port p = 40000 \<and> peer_IP p = ''1.2.3.4''"
proof -
  have old: "directory (snd store_a) (''t'', ''A'') \<noteq> None" by (simp add: store_a_eq directory_def key_def)
  obtain i where "directory (snd (Register list_db 9 (login_a\<lparr>login_Port := 40000\<rparr>) store_a)) =
      (directory (snd store_a))(login_key (login_a\<lparr>login_Port := 40000\<rparr>) \<mapsto>
         (case directory (snd store_a) (login_key (login_a\<lparr>login_Port := 40000\<rparr>)) of
            None \<Rightarrow> upsert 9 (login_a\<lparr>login_Port := 40000\<rparr>) None\<lparr>peer_ID := i\<rparr>
          | Some p \<Rightarrow> upsert 9 (login_a\<lparr>login_Port := 40000\<rparr>) (Some p)))"
    using Register_refines_upsert [OF list_table.gorm_table_axioms store_a_unique] by blast
  with old show ?thesis by (auto simp: login_key_def login_a_def upsert_def split: option.splits)
qed

text \<open>C19. A client is told of exactly the other clients of its own token: a configuration is in
  the answer if and only if it is that of a peer registered under the same token with another
  client identifier, so tokens are isolated from each other and a client never gets itself.\<close>

theorem GetClients_isolates_tokens:
  assumes "gorm_table D rows" and "unique_keys (rows d)"
  shows "set (GetClients D c t d) =
     {peer_config p | p c'. directory (rows d) (t, c') = Some p \<and> c' \<noteq> c}
   \<and> (\<forall>conf\<in>set (GetClients D c t d). conf_Token conf = t \<and> conf_ClientID conf \<noteq> c)"
proof -
  have eq: "set (GetClients D c t d) =
     {peer_config p | p c'. directory (rows d) (t, c') = Some p \<and> c' \<noteq> c}"
    by (intro set_eqI) (simp only: gorm_table.GetClients_directory [OF assms] mem_Collect_eq, blast)
  have "conf_Token conf = t \<and> conf_ClientID conf \<noteq> c" if "conf \<in> set (GetClients D c t d)" for conf
    using that by (auto simp: gorm_table.GetClients_eq [OF assms(1)] peer_config_def)
  with eq show ?thesis by simp
qed

theorem GetClients_isolates_tokens_witness:
  "map conf_ClientID (GetClients list_db ''B'' ''t'' store_a) = [''A'']
   \<and> list_all (\<lambda>conf. conf_ClientID conf \<noteq> ''A'') (GetClients list_db ''A'' ''t'' store_a)"
  using GetClients_isolates_tokens [OF list_table.gorm_table_axioms store_a_unique, of "''A''" "''t''"]
  by (simp add: list_table.GetClients_eq store_a_eq peer_config_def list_all_iff)

text \<open>Logging in again does not refresh everything: the allowed address announced to the
  other peers and the time of the last sign of life stay those of the first login, whatever the
  later login says.\<close>

theorem relogin_keeps_allowed_ip:
  assumes "gorm_table D rows" and "unique_keys (rows d)"
    and "directory (rows d) (login_key l) = Some p" and "c \<noteq> login_ClientID l"
  shows "\<exists>p' conf. directory (rows (Register D now l d)) (login_key l) = Some p'
       \<and> peer_LastKeepAliveAt p' = peer_LastKeepAliveAt p
       \<and> conf \<in> set (GetClients D c (login_Token l) (Register D now l d))
       \<and> conf_ClientID conf = login_ClientID l \<and> conf_AllowedIP conf = peer_AllowedIP p"
proof -
  let ?d = "Register D now l d" and ?p' = "upsert now l (Some p)"
  have dir: "directory (rows ?d) (login_key l) = Some ?p'"
    using gorm_table.Register_directory [OF assms(1), of now l d] assms(3) by (auto simp only: fun_upd_same option.case)
  have "unique_keys (rows ?d)" using assms(1,2) by (rule gorm_table.Register_unique)
  then have "peer_config ?p' \<in> set (GetClients D c (login_Token l) ?d)"
    using gorm_table.GetClients_directory [OF assms(1)] dir assms(4) by (fastforce simp: login_key_def)
  with dir directory_Some [OF assms(3)] show ?thesis
    by (intro exI [of _ ?p'] exI [of _ "peer_config ?p'"])
      (simp add: upsert_def peer_config_def key_def login_key_def)
qed

theorem relogin_keeps_allowed_ip_witness:
  "\<exists>conf \<in> set (GetClients list_db ''B'' ''t''
      (Register list_db 9 (login_a\<lparr>login_AllowedIP := ''172.16.0.9''\<rparr>) store_a)).
     conf_AllowedIP conf = ''172.16.0.1''"
proof -
  let ?l = "login_a\<lparr>login_AllowedIP := ''172.16.0.9''\<rparr>"
  obtain p where p: "directory (snd store_a) (login_key ?l) = Some p" "peer_AllowedIP p = ''172.16.0.1''"
    by (simp add: store_a_eq directory_def key_def login_key_def login_a_def)
  have "''B'' \<noteq> login_ClientID ?l" by (simp add: login_a_def)
  from relogin_keeps_allowed_ip [OF list_table.gorm_table_axioms store_a_unique p(1) this, of 9]
  show ?thesis by (auto simp: p(2) login_a_def)
qed

end
