(* ===== verification/Signal_Server.thy ===== *)
theory Signal_Server
  imports Signal_Store Net_Addr
begin

text \<open>
  The signal server (\<^verbatim>\<open>signal/server/signal.go\<close>): JSON requests over UDP that register a client
  under the address they come from, or ask for the other clients of a token.  JSON is
  \<^verbatim>\<open>encoding/json\<close>: the record \<open>server_json\<close>, with \<open>'v\<close> the dynamic values a message body holds.
\<close>

section \<open>Definitions\<close>

datatype MessageType = Login | KeepAlive | Query | OtherType int

record 'v Message =
  msg_Type :: MessageType
  msg_Token :: string
  msg_Body :: 'v

record PeerLoginReq =
  loginreq_ClientID :: string
  loginreq_WgPubKey :: string
  loginreq_AllowedIP :: string

record PeerQueryReq =
  queryreq_ClientID :: string

record RegisterResponse =
  resp_IP :: string
  resp_Port :: int

record 'v server_json =
  Unmarshal_Message :: "bytes \<Rightarrow> error + 'v Message"
  Marshal_Body :: "'v \<Rightarrow> error + bytes"
  Unmarshal_PeerLoginReq :: "bytes \<Rightarrow> error + PeerLoginReq"
  Unmarshal_PeerQueryReq :: "bytes \<Rightarrow> error + PeerQueryReq"
  Marshal_RegisterResponse :: "RegisterResponse \<Rightarrow> error + bytes"
  Marshal_PeerConfigs :: "PeerConfig list \<Rightarrow> error + bytes"

text \<open>An ignored marshalling error leaves the nil slice.\<close>

definition ignore_error :: "error + bytes \<Rightarrow> bytes" where
  "ignore_error r = (case r of Inl _ \<Rightarrow> [] | Inr b \<Rightarrow> b)"

definition handleLoginRequest ::
  "'v server_json \<Rightarrow> 'd gormDB \<Rightarrow> int \<Rightarrow> 'v Message \<Rightarrow> UDPAddr \<Rightarrow> 'd \<Rightarrow> bytes \<times> 'd" where
  "handleLoginRequest J D now message remoteAddr d =
     (let ip = IP_String (IP remoteAddr); port = Port remoteAddr
      in case Marshal_Body J (msg_Body message) of
           Inl _ \<Rightarrow> ([], d)
         | Inr jsonData \<Rightarrow>
             (case Unmarshal_PeerLoginReq J jsonData of
                Inl _ \<Rightarrow> ([], d)
              | Inr peerLoginReq \<Rightarrow>
                  let peerLogin =
                        \<lparr>login_IP = ip, login_Port = port,
                         login_ClientID = loginreq_ClientID peerLoginReq,
                         login_WgPubKey = loginreq_WgPubKey peerLoginReq,
                         login_Token = msg_Token message,
                         login_AllowedIP = loginreq_AllowedIP peerLoginReq\<rparr>
                  in (ignore_error (Marshal_RegisterResponse J \<lparr>resp_IP = ip, resp_Port = port\<rparr>),
                      Register D now peerLogin d)))"

definition handleQueryRequest :: "'v server_json \<Rightarrow> 'd gormDB \<Rightarrow> 'v Message \<Rightarrow> 'd \<Rightarrow> bytes" where
  "handleQueryRequest J D message d =
     (case Marshal_Body J (msg_Body message) of
        Inl _ \<Rightarrow> []
      | Inr jsonData \<Rightarrow>
          (case Unmarshal_PeerQueryReq J jsonData of
             Inl _ \<Rightarrow> []
           | Inr peerQueryReq \<Rightarrow>
               ignore_error (Marshal_PeerConfigs J
                 (GetClients D (queryreq_ClientID peerQueryReq) (msg_Token message) d))))"

text \<open>The datagram sent back, if any, and the database.\<close>

definition handleConnection ::
  "'v server_json \<Rightarrow> 'd gormDB \<Rightarrow> int \<Rightarrow> bytes \<Rightarrow> UDPAddr \<Rightarrow> 'd \<Rightarrow> (bytes \<times> UDPAddr) option \<times> 'd" where
  "handleConnection J D now buffer remoteAddr d =
     (case Unmarshal_Message J buffer of
        Inl _ \<Rightarrow> (None, d)
      | Inr message \<Rightarrow>
          let (responseData, d) =
                (if msg_Type message = Login then handleLoginRequest J D now message remoteAddr d
                 else if msg_Type message = Query then (handleQueryRequest J D message d, d)
                 else ([], d))
          in (Some (responseData, remoteAddr), d))"

text \<open>
  \<^verbatim>\<open>Run\<close>: one buffer is allocated before the loop and every handler goroutine gets a slice of it.
  A handler that has been started but has not run is the length of its slice and the sender.
\<close>

record 'd server_state =
  srv_buffer :: bytes
  srv_handlers :: "(nat \<times> UDPAddr) list"
  srv_db :: 'd
  srv_sent :: "(bytes \<times> UDPAddr) list"

definition server_start :: "'d gormDB \<Rightarrow> 'd \<Rightarrow> 'd server_state" where
  "server_start D d = \<lparr>srv_buffer = replicate 1024 0, srv_handlers = [], srv_db = store_init D d, srv_sent = []\<rparr>"

definition read_datagram :: "bytes \<Rightarrow> UDPAddr \<Rightarrow> 'd server_state \<Rightarrow> 'd server_state" where
  "read_datagram data remoteAddr s =
     (let n = min (length data) (length (srv_buffer s))
      in s\<lparr>srv_buffer := copy_at 0 (take n data) (srv_buffer s),
           srv_handlers := srv_handlers s @ [(n, remoteAddr)]\<rparr>)"

definition run_handler ::
  "'v server_json \<Rightarrow> 'd gormDB \<Rightarrow> int \<Rightarrow> nat \<times> UDPAddr \<Rightarrow> 'd server_state \<Rightarrow> 'd server_state" where
  "run_handler J D now h s =
     (let (res, d) = handleConnection J D now (take (fst h) (srv_buffer s)) (snd h) (srv_db s)
      in s\<lparr>srv_db := d, srv_sent := srv_sent s @ (case res of None \<Rightarrow> [] | Some m \<Rightarrow> [m]),
           srv_handlers := remove1 h (srv_handlers s)\<rparr>)"

inductive server_step ::
  "'v server_json \<Rightarrow> 'd gormDB \<Rightarrow> 'd server_state \<Rightarrow> 'd server_state \<Rightarrow> bool" for J D where
  step_read: "server_step J D s (read_datagram data remoteAddr s)"
| step_handle: "h \<in> set (srv_handlers s) \<Longrightarrow> server_step J D s (run_handler J D now h s)"

inductive server_reachable :: "'v server_json \<Rightarrow> 'd gormDB \<Rightarrow> 'd server_state \<Rightarrow> bool" for J D where
  server_init: "server_reachable J D (server_start D d)"
| server_next: "server_reachable J D s \<Longrightarrow> server_step J D s s' \<Longrightarrow> server_reachable J D s'"

section \<open>Lemmas\<close>

lemma length_read_buffer [simp]: "length (srv_buffer (read_datagram data a s)) = length (srv_buffer s)"
  by (simp add: read_datagram_def Let_def)

lemma run_handler_buffer [simp]: "srv_buffer (run_handler J D now h s) = srv_buffer s"
  by (simp add: run_handler_def Let_def split: prod.split)

lemma server_buffer: "server_reachable J D s \<Longrightarrow> length (srv_buffer s) = 1024"
  by (induction rule: server_reachable.induct) (auto simp: server_start_def elim!: server_step.cases)

lemma read_buffer_prefix:
  assumes "length data \<le> length (srv_buffer s)"
  shows "take (length data) (srv_buffer (read_datagram data a s)) = data"
  using assms by (simp add: read_datagram_def Let_def copy_at_def min_absorb1)

lemma IP_String_nonempty: "IP_String ip \<noteq> ''''"
  using v6string_colon [of ip] by (auto simp: IP_String_def dotted_nonempty To4_def split: option.splits if_splits)

context gorm_table
begin

lemma handleLogin_unique:
  "unique_keys (rows d) \<Longrightarrow> unique_keys (rows (snd (handleLoginRequest J D now m a d)))"
  by (auto simp: handleLoginRequest_def Let_def Register_unique split: sum.split)

lemma handleConnection_unique:
  "unique_keys (rows d) \<Longrightarrow> unique_keys (rows (snd (handleConnection J D now b a d)))"
  by (simp add: handleConnection_def Let_def case_prod_beta handleLogin_unique split: sum.split)

lemma server_unique: "server_reachable J D s \<Longrightarrow> unique_keys (rows (srv_db s))"
proof (induction rule: server_reachable.induct)
  case (server_init d)
  show ?case by (simp add: server_start_def store_init_def delete_rows unique_keys_def)
next
  case (server_next s s')
  from server_next.hyps(2) server_next.IH show ?case
  proof cases
    case (step_handle h now)
    then show ?thesis
      using handleConnection_unique [OF server_next.IH, of J now "take (fst h) (srv_buffer s)" "snd h"]
      by (simp add: run_handler_def Let_def split: prod.splits)
  qed (simp add: read_datagram_def Let_def)
qed

end

section \<open>An instance\<close>

text \<open>A codec with the message itself as its dynamic value, for the messages of the witnesses.\<close>

definition demo_json :: "string server_json" where
  "demo_json =
     \<lparr>Unmarshal_Message = (\<lambda>b. case b of
        [] \<Rightarrow> Inl (EnvErr ''unexpected end of JSON input'')
      | k # rest \<Rightarrow> Inr \<lparr>msg_Type = (if k = 1 then Login else Query), msg_Token = ''t'', msg_Body = of_bytes rest\<rparr>),
      Marshal_Body = (\<lambda>v. Inr (to_bytes v)),
      Unmarshal_PeerLoginReq = (\<lambda>b. Inr \<lparr>loginreq_ClientID = of_bytes b, loginreq_WgPubKey = ''k'' @ of_bytes b,
        loginreq_AllowedIP = ''172.16.0.1''\<rparr>),
      Unmarshal_PeerQueryReq = (\<lambda>b. Inr \<lparr>queryreq_ClientID = of_bytes b\<rparr>),
      Marshal_RegisterResponse = (\<lambda>r. Inr (to_bytes (resp_IP r))),
      Marshal_PeerConfigs = (\<lambda>cs. Inr (to_bytes (concat (map conf_ClientID cs))))\<rparr>"

definition addr_a :: UDPAddr where "addr_a = \<lparr>IP = [1, 2, 3, 4], Port = 51820, Zone = ''''\<rparr>"
definition addr_b :: UDPAddr where "addr_b = \<lparr>IP = [5, 6, 7, 8], Port = 51821, Zone = ''''\<rparr>"

definition demo_server :: "(int \<times> Peer list) server_state" where
  "demo_server = server_start list_db (0, [])"

lemma demo_reachable: "server_reachable demo_json list_db demo_server"
  unfolding demo_server_def by (rule server_init)

text \<open>What a handled login does: the answer, and that the client is listed for every other client.\<close>

lemma login_visible:
  assumes "gorm_table D rows" and "server_reachable J D s"
    and "Unmarshal_Message J data = Inr m" and "msg_Type m = Login" and "length data \<le> 1024"
    and "Marshal_Body J (msg_Body m) = Inr body" and "Unmarshal_PeerLoginReq J body = Inr req"
    and "Port a \<noteq> 0" and "loginreq_WgPubKey req \<noteq> ''''" and "c \<noteq> loginreq_ClientID req"
    and "s' = run_handler J D now (length data, a) (read_datagram data a s)"
  shows "last (srv_sent s') =
           (ignore_error (Marshal_RegisterResponse J \<lparr>resp_IP = IP_String (IP a), resp_Port = Port a\<rparr>), a)"
    and "\<exists>conf \<in> set (GetClients D c (msg_Token m) (srv_db s')). conf_ClientID conf = loginreq_ClientID req
       \<and> conf_IP conf = IP_String (IP a) \<and> conf_Port conf = Port a \<and> conf_WgPubKey conf = loginreq_WgPubKey req
       \<and> conf_AllowedIP conf = (case directory (rows (srv_db s)) (msg_Token m, loginreq_ClientID req) of
            None \<Rightarrow> loginreq_AllowedIP req | Some q \<Rightarrow> peer_AllowedIP q)"
proof -
  define l where "l = \<lparr>login_IP = IP_String (IP a), login_Port = Port a,
    login_ClientID = loginreq_ClientID req, login_WgPubKey = loginreq_WgPubKey req,
    login_Token = msg_Token m, login_AllowedIP = loginreq_AllowedIP req\<rparr>"
  have size: "length data \<le> length (srv_buffer s)" using server_buffer [OF assms(2)] assms(5) by simp
  have handled: "handleConnection J D now data a (srv_db s) =
      (Some (ignore_error (Marshal_RegisterResponse J \<lparr>resp_IP = IP_String (IP a), resp_Port = Port a\<rparr>), a),
       Register D now l (srv_db s))"
    using assms(3,4,6,7) by (simp add: handleConnection_def handleLoginRequest_def l_def Let_def)
  have db: "srv_db (read_datagram data a s) = srv_db s" by (simp add: read_datagram_def Let_def)
  have s': "srv_db s' = Register D now l (srv_db s)" and sent: "last (srv_sent s') =
      (ignore_error (Marshal_RegisterResponse J \<lparr>resp_IP = IP_String (IP a), resp_Port = Port a\<rparr>), a)"
    using handled assms(11) by (simp_all add: run_handler_def read_buffer_prefix [OF size] db)
  show "last (srv_sent s') =
      (ignore_error (Marshal_RegisterResponse J \<lparr>resp_IP = IP_String (IP a), resp_Port = Port a\<rparr>), a)" by (rule sent)
  have unique: "unique_keys (rows (srv_db s))" using assms(1,2) by (rule gorm_table.server_unique)
  have "c \<noteq> login_ClientID l" using assms(10) by (simp add: l_def)
  from gorm_table.login_listed [OF assms(1) unique this, of now]
  show "\<exists>conf \<in> set (GetClients D c (msg_Token m) (srv_db s')). conf_ClientID conf = loginreq_ClientID req
       \<and> conf_IP conf = IP_String (IP a) \<and> conf_Port conf = Port a \<and> conf_WgPubKey conf = loginreq_WgPubKey req
       \<and> conf_AllowedIP conf = (case directory (rows (srv_db s)) (msg_Token m, loginreq_ClientID req) of
            None \<Rightarrow> loginreq_AllowedIP req | Some q \<Rightarrow> peer_AllowedIP q)"
    using assms(8,9) unfolding s' by (simp add: l_def login_key_def IP_String_nonempty cong: option.case_cong)
qed

section \<open>Properties\<close>

text \<open>A login is visible to the peers of its token: when the server reads and handles a login
  request, it answers with the public address it saw, and a query it handles next from another
  client with the same token is answered with a list that has the client's identifier, that
  address and port, and its key.\<close>

theorem login_then_query:
  assumes "gorm_table D rows" and "server_reachable J D s"
    and "Unmarshal_Message J data = Inr m" and "msg_Type m = Login" and "length data \<le> 1024"
    and "Marshal_Body J (msg_Body m) = Inr body" and "Unmarshal_PeerLoginReq J body = Inr req"
    and "Port a \<noteq> 0" and "loginreq_WgPubKey req \<noteq> ''''"
    and "s' = run_handler J D now (length data, a) (read_datagram data a s)"
    and "Unmarshal_Message J data' = Inr m'" and "msg_Type m' = Query" and "msg_Token m' = msg_Token m"
    and "Marshal_Body J (msg_Body m') = Inr body'" and "Unmarshal_PeerQueryReq J body' = Inr req'"
    and "queryreq_ClientID req' \<noteq> loginreq_ClientID req"
  shows "last (srv_sent s') =
           (ignore_error (Marshal_RegisterResponse J \<lparr>resp_IP = IP_String (IP a), resp_Port = Port a\<rparr>), a)
       \<and> (\<exists>configs conf. fst (handleConnection J D now' data' a' (srv_db s')) =
              Some (ignore_error (Marshal_PeerConfigs J configs), a')
            \<and> conf \<in> set configs \<and> conf_ClientID conf = loginreq_ClientID req
            \<and> conf_IP conf = IP_String (IP a) \<and> conf_Port conf = Port a
            \<and> conf_WgPubKey conf = loginreq_WgPubKey req)"
proof -
  note visible = login_visible [OF assms(1-9) assms(16,10)]
  have "fst (handleConnection J D now' data' a' (srv_db s')) = Some (ignore_error
      (Marshal_PeerConfigs J (GetClients D (queryreq_ClientID req') (msg_Token m) (srv_db s'))), a')"
    using assms(11-15) by (simp add: handleConnection_def handleQueryRequest_def)
  with visible show ?thesis by blast
qed

theorem login_then_query_witness:
  "\<exists>configs conf. fst (handleConnection demo_json list_db 9 [3, 66] addr_b
      (srv_db (run_handler demo_json list_db 5 (2, addr_a) (read_datagram [1, 65] addr_a demo_server))))
      = Some (ignore_error (Marshal_PeerConfigs demo_json configs), addr_b)
    \<and> conf \<in> set configs \<and> conf_IP conf = ''1.2.3.4'' \<and> conf_Port conf = 51820"
proof -
  have ip: "IP_String (IP addr_a) = ''1.2.3.4''"
    by (simp add: addr_a_def IP_String_def To4_def dotted_def digit_char_def decimal.simps char_of_eq_iff)
  have bytes: "of_bytes [65] = ''A''" "of_bytes [66] = ''B''"
    by (simp_all add: of_bytes_def char_of_byte_def char_of_eq_iff)
  let ?s = "run_handler demo_json list_db 5 (length [1 :: byte, 65], addr_a) (read_datagram [1, 65] addr_a demo_server)"
  let ?m = "\<lparr>msg_Type = Login, msg_Token = ''t'', msg_Body = ''A''\<rparr>"
    and ?m' = "\<lparr>msg_Type = Query, msg_Token = ''t'', msg_Body = ''B''\<rparr>"
  let ?req = "\<lparr>loginreq_ClientID = ''A'', loginreq_WgPubKey = ''kA'', loginreq_AllowedIP = ''172.16.0.1''\<rparr>"
  have "Unmarshal_Message demo_json [1, 65] = Inr ?m" "msg_Type ?m = Login" "length [1 :: byte, 65] \<le> 1024"
    "Marshal_Body demo_json (msg_Body ?m) = Inr (to_bytes ''A'')"
    "Unmarshal_PeerLoginReq demo_json (to_bytes ''A'') = Inr ?req"
    "Port addr_a \<noteq> 0" "loginreq_WgPubKey ?req \<noteq> ''''"
    by (simp_all add: demo_json_def bytes addr_a_def)
  note login = login_then_query [OF list_table.gorm_table_axioms demo_reachable this refl]
  have "Unmarshal_Message demo_json [3, 66] = Inr ?m'" "msg_Type ?m' = Query" "msg_Token ?m' = msg_Token ?m"
    "Marshal_Body demo_json (msg_Body ?m') = Inr (to_bytes ''B'')"
    "Unmarshal_PeerQueryReq demo_json (to_bytes ''B'') = Inr \<lparr>queryreq_ClientID = ''B''\<rparr>"
    "queryreq_ClientID \<lparr>queryreq_ClientID = ''B''\<rparr> \<noteq> loginreq_ClientID ?req"
    by (simp_all add: demo_json_def bytes)
  from login [OF this, where a' = addr_b and now' = 9 and now = 5, THEN conjunct2]
  obtain configs conf where "fst (handleConnection demo_json list_db 9 [3, 66] addr_b (srv_db ?s))
      = Some (ignore_error (Marshal_PeerConfigs demo_json configs), addr_b)"
    "conf \<in> set configs" "conf_IP conf = ''1.2.3.4''" "conf_Port conf = Port addr_a"
    unfolding ip by blast
  moreover have "Port addr_a = 51820" "length [1 :: byte, 65] = 2" by (simp_all add: addr_a_def)
  ultimately show ?thesis by (intro exI [of _ configs] exI [of _ conf]) (simp add: numeral_2_eq_2)
qed

text \<open>C20. The handlers share the receive buffer: when a second datagram of the same length is
  read before the handler of the first one has run, that handler processes the second client's
  request under the first client's address.  The first request is lost, and a login of the second
  client is registered with the wrong address.\<close>

theorem shared_buffer_race:
  assumes "server_reachable J D s" and "length data1 = length data2" and "length data2 \<le> 1024"
    and "s2 = read_datagram data2 a2 (read_datagram data1 a1 s)"
  shows "(length data1, a1) \<in> set (srv_handlers s2)
       \<and> srv_db (run_handler J D now (length data1, a1) s2) = snd (handleConnection J D now data2 a1 (srv_db s))"
proof -
  have size: "length data2 \<le> length (srv_buffer (read_datagram data1 a1 s))"
    using server_buffer [OF assms(1)] assms(3) by simp
  have "take (length data1) (srv_buffer s2) = data2"
    using read_buffer_prefix [OF size] by (simp add: assms(2,4))
  moreover have "srv_db s2 = srv_db s" by (simp add: assms(4) read_datagram_def Let_def)
  moreover have "(length data1, a1) \<in> set (srv_handlers s2)"
    using server_buffer [OF assms(1)] assms(2,3) by (simp add: assms(4) read_datagram_def Let_def)
  ultimately show ?thesis by (simp add: run_handler_def Let_def case_prod_beta)
qed

theorem shared_buffer_race_witness:
  "srv_db (run_handler demo_json list_db 5 (2, addr_a)
       (read_datagram [1, 66] addr_b (read_datagram [1, 65] addr_a demo_server)))
     = Register list_db 5 \<lparr>login_IP = IP_String (IP addr_a), login_Port = 51820, login_ClientID = ''B'',
         login_WgPubKey = ''kB'', login_Token = ''t'', login_AllowedIP = ''172.16.0.1''\<rparr> (srv_db demo_server)"
proof -
  have two: "(2, addr_a) = (length [1 :: byte, 65], addr_a)" by simp
  have bytes: "of_bytes [66] = ''B''"
    by (simp add: of_bytes_def char_of_byte_def char_of_eq_iff)
  have "snd (handleConnection demo_json list_db 5 [1, 66] addr_a (srv_db demo_server))
     = Register list_db 5 \<lparr>login_IP = IP_String (IP addr_a), login_Port = 51820, login_ClientID = ''B'',
         login_WgPubKey = ''kB'', login_Token = ''t'', login_AllowedIP = ''172.16.0.1''\<rparr> (srv_db demo_server)"
    by (simp add: handleConnection_def handleLoginRequest_def demo_json_def addr_a_def bytes Let_def)
  with shared_buffer_race [OF demo_reachable, of "[1, 65]" "[1, 66]" _ addr_b addr_a 5] show ?thesis
    unfolding two by simp
qed

end
