(* ===== verification/Wg_Address.thy ===== *)
theory Wg_Address
  imports Net_Addr
begin

text \<open>
  Networks in CIDR notation, as \<^verbatim>\<open>net.ParseCIDR\<close> reads and \<^verbatim>\<open>net.IPNet\<close> prints them, and the
  WireGuard interface address built on them (\<^verbatim>\<open>iface/address.go\<close>).
\<close>

unbundle bit_operations_syntax

section \<open>Networks\<close>

record IPNet =
  net_IP :: IP
  net_Mask :: bytes

text \<open>\<open>CIDRMask n l\<close> has \<open>l\<close> bytes and \<open>n\<close> leading ones.\<close>

fun CIDRMask :: "nat \<Rightarrow> nat \<Rightarrow> bytes" where
  "CIDRMask n 0 = []"
| "CIDRMask n (Suc l) =
     (if 8 \<le> n then 0xff # CIDRMask (n - 8) l else NOT (drop_bit n 0xff) # CIDRMask 0 l)"

definition IP_Mask :: "IP \<Rightarrow> bytes \<Rightarrow> IP option" where
  "IP_Mask ip msk =
     (let msk = (if length msk = 16 \<and> length ip = 4 \<and> take 12 msk = replicate 12 0xff
                  then drop 12 msk else msk);
          ip = (if length msk = 4 \<and> length ip = 16 \<and> take 12 ip = v4InV6Prefix then drop 12 ip else ip)
      in if length ip \<noteq> length msk then None else Some (map2 (AND) ip msk))"

text \<open>The leading ones of a byte that is not \<open>0xff\<close>, and what is left of it when they are shifted out.\<close>

fun leading_ones :: "nat \<Rightarrow> byte \<Rightarrow> nat \<times> byte" where
  "leading_ones 0 v = (0, v)"
| "leading_ones (Suc fuel) v =
     (if v AND 0x80 \<noteq> 0 then (let (n, r) = leading_ones fuel (push_bit 1 v) in (Suc n, r)) else (0, v))"

fun simpleMaskLength :: "bytes \<Rightarrow> nat option" where
  "simpleMaskLength [] = Some 0"
| "simpleMaskLength (v # m) =
     (if v = 0xff then map_option ((+) 8) (simpleMaskLength m)
      else let (n, r) = leading_ones 8 v
           in if r \<noteq> 0 \<or> \<not> list_all (\<lambda>b. b = 0) m then None else Some n)"

definition networkNumberAndMask :: "IPNet \<Rightarrow> (IP \<times> bytes) option" where
  "networkNumberAndMask n =
     (case (case To4 (net_IP n) of
              Some ip4 \<Rightarrow> Some ip4
            | None \<Rightarrow> if length (net_IP n) = 16 then Some (net_IP n) else None) of
        None \<Rightarrow> None
      | Some ip \<Rightarrow>
          if length (net_Mask n) = 4 then (if length ip = 4 then Some (ip, net_Mask n) else None)
          else if length (net_Mask n) = 16
          then Some (ip, if length ip = 4 then drop 12 (net_Mask n) else net_Mask n)
          else None)"

definition IPNet_String :: "IPNet \<Rightarrow> string" where
  "IPNet_String n =
     (case networkNumberAndMask n of
        None \<Rightarrow> ''<nil>''
      | Some (nn, m) \<Rightarrow>
          (case simpleMaskLength m of
             None \<Rightarrow> IP_String nn @ ''/'' @ EncodeToString m
           | Some l \<Rightarrow> IP_String nn @ ''/'' @ decimal l))"

text \<open>\<^verbatim>\<open>dtoi\<close> on a whole string.\<close>

definition dtoi :: "string \<Rightarrow> nat option" where
  "dtoi s = (if s \<noteq> [] \<and> list_all is_digit s \<and> dec_val s < 0xFFFFFF then Some (dec_val s) else None)"

definition ParseCIDR :: "string \<Rightarrow> error + IP \<times> IPNet" where
  "ParseCIDR s =
     (let addr = takeWhile (\<lambda>c. c \<noteq> CHR ''/'') s; rest = dropWhile (\<lambda>c. c \<noteq> CHR ''/'') s;
          bad = Inl (Errorf (''invalid CIDR address: '' @ s))
      in if rest = [] then bad
         else case netip_ParseAddr addr of
                Inl _ \<Rightarrow> bad
              | Inr (Addr6 b zone) \<Rightarrow>
                  if zone \<noteq> '''' then bad
                  else (case dtoi (tl rest) of
                          None \<Rightarrow> bad
                        | Some n \<Rightarrow>
                            if 128 < n then bad
                            else let m = CIDRMask n 16
                                 in Inr (b, \<lparr>net_IP = the (IP_Mask b m), net_Mask = m\<rparr>))
              | Inr (Addr4 b) \<Rightarrow>
                  (case dtoi (tl rest) of
                     None \<Rightarrow> bad
                   | Some n \<Rightarrow>
                       if 32 < n then bad
                       else let m = CIDRMask n 4; ip = v4InV6Prefix @ b
                            in Inr (ip, \<lparr>net_IP = the (IP_Mask ip m), net_Mask = m\<rparr>)))"

section \<open>The interface address\<close>

record WGAddress =
  wga_IP :: IP
  wga_Network :: IPNet

definition parseWGAddress :: "string \<Rightarrow> error + WGAddress" where
  "parseWGAddress address =
     (case ParseCIDR address of
        Inl err \<Rightarrow> Inl err
      | Inr (ip, network) \<Rightarrow> Inr \<lparr>wga_IP = ip, wga_Network = network\<rparr>)"

definition WGAddress_String :: "WGAddress \<Rightarrow> string" where
  "WGAddress_String addr =
     (let maskSize = (case simpleMaskLength (net_Mask (wga_Network addr)) of Some l \<Rightarrow> l | None \<Rightarrow> 0)
      in IP_String (wga_IP addr) @ ''/'' @ decimal maskSize)"

section \<open>Lemmas\<close>

lemma length_CIDRMask [simp]: "length (CIDRMask n l) = l"
  by (induction n l rule: CIDRMask.induct) simp_all

lemma CIDRMask_0: "CIDRMask 0 l = replicate l 0"
  by (induction l) simp_all

lemma mask_bytes:
  "list_all (\<lambda>n. NOT (drop_bit n (0xff :: byte)) \<noteq> 0xff \<and> leading_ones 8 (NOT (drop_bit n 0xff)) = (n, 0)) [0..<8]"
  by code_simp

lemma mask_byte:
  assumes "n < 8"
  shows "NOT (drop_bit n (0xff :: byte)) \<noteq> 0xff" and "leading_ones 8 (NOT (drop_bit n 0xff)) = (n, 0)"
proof -
  have "n \<in> set [0..<8]" using assms by simp
  then show "NOT (drop_bit n (0xff :: byte)) \<noteq> 0xff" "leading_ones 8 (NOT (drop_bit n 0xff)) = (n, 0)"
    using mask_bytes unfolding list_all_iff by blast+
qed

lemma simpleMaskLength_CIDRMask: "n \<le> 8 * l \<Longrightarrow> simpleMaskLength (CIDRMask n l) = Some n"
proof (induction n l rule: CIDRMask.induct)
  case (2 n l)
  then show ?case by (auto simp: mask_byte CIDRMask_0 list_all_length)
qed simp

lemma dtoi_decimal: "n < 0xFFFFFF \<Longrightarrow> dtoi (decimal n) = Some n"
  using decimal_digits [of n] by (simp add: dtoi_def list_all_iff)

lemma netip_ParseAddr_dotted:
  assumes "length ip = 4"
  shows "netip_ParseAddr (dotted ip) = Inr (Addr4 ip)"
proof -
  obtain a b c d where ip: "ip = [a, b, c, d]"
    using assms by (auto simp: length_Suc_conv numeral_eq_Suc)
  let ?P = "\<lambda>c. c \<noteq> CHR ''.'' \<and> c \<noteq> CHR '':'' \<and> c \<noteq> CHR ''%''"
  have "dropWhile ?P (dotted ip) = dropWhile ?P (CHR ''.'' # dotted [b, c, d])"
    unfolding ip dotted_def using decimal_no_dot [of "unat a"]
    by (simp, subst dropWhile_append2) auto
  then show ?thesis using assms by (simp add: netip_ParseAddr_def)
qed

lemma decimal_no_slash: "CHR ''/'' \<notin> set (decimal n)"
proof -
  have "\<not> is_digit (CHR ''/'')" by simp
  then show ?thesis using decimal_digits [of n] by blast
qed

lemma dotted_no_slash:
  assumes "length ip = 4" shows "CHR ''/'' \<notin> set (dotted ip)"
proof -
  obtain a b c d where "ip = [a, b, c, d]"
    using assms by (auto simp: length_Suc_conv numeral_eq_Suc)
  then show ?thesis using decimal_no_slash by (simp add: dotted_def)
qed

lemma v6string_no_slash: "CHR ''/'' \<notin> set (v6string ip)"
proof
  assume "CHR ''/'' \<in> set (v6string ip)"
  then have "is_hex (CHR ''/'')" using v6string_chars by fastforce
  then show False by (simp add: is_hex_def hex_digit_def)
qed

lemma netip_ParseAddr_v6string:
  assumes "length ip = 16"
  shows "netip_ParseAddr (v6string ip) = Inr (Addr6 ip '''')"
proof -
  let ?P = "\<lambda>c. c \<noteq> CHR ''.'' \<and> c \<noteq> CHR '':'' \<and> c \<noteq> CHR ''%''"
  have no: "CHR ''%'' \<notin> set (v6string ip)" "CHR ''.'' \<notin> set (v6string ip)"
    using v6string_chars not_hex by fastforce+
  obtain c r where dw: "dropWhile ?P (v6string ip) = c # r"
    using v6string_colon [OF assms] by (cases "dropWhile ?P (v6string ip)") auto
  have "c \<in> set (v6string ip)" using dw by (metis list.set_intros(1) set_dropWhileD)
  then have "c \<noteq> CHR ''.''" "c \<noteq> CHR ''%''" using no by auto
  moreover have "\<not> ?P c" using dw unfolding dropWhile_eq_Cons_conv by (rule conjunct2)
  ultimately have c: "c = CHR '':''" by blast
  have "takeWhile (\<lambda>x. x \<noteq> z) w = w \<and> dropWhile (\<lambda>x. x \<noteq> z) w = []" if "z \<notin> set w" for z and w :: string
    using that by (induction w) auto
  note cut = this [OF no(1), THEN conjunct1] this [OF no(1), THEN conjunct2]
  show ?thesis unfolding netip_ParseAddr_def cut using dw c parseIPv6_v6string [OF assms] by simp
qed

lemma cut_at_slash:
  assumes "CHR ''/'' \<notin> set a"
  shows "takeWhile (\<lambda>c. c \<noteq> CHR ''/'') (a @ ''/'' @ b) = a" "dropWhile (\<lambda>c. c \<noteq> CHR ''/'') (a @ ''/'' @ b) = ''/'' @ b"
  using assms by (induction a) auto

text \<open>A network as \<^verbatim>\<open>ParseCIDR\<close> makes it from an IPv4 address or an IPv6 address that is not mapped.\<close>

definition proper_net :: "IPNet \<Rightarrow> bool" where
  "proper_net n \<longleftrightarrow>
     (\<exists>k\<le>32. length (net_IP n) = 4 \<and> net_Mask n = CIDRMask k 4 \<and> IP_Mask (net_IP n) (net_Mask n) = Some (net_IP n))
   \<or> (\<exists>k\<le>128. length (net_IP n) = 16 \<and> To4 (net_IP n) = None \<and> net_Mask n = CIDRMask k 16
        \<and> IP_Mask (net_IP n) (net_Mask n) = Some (net_IP n))"

lemma ParseCIDR_IPNet_String:
  assumes "proper_net n"
  shows "\<exists>ip. ParseCIDR (IPNet_String n) = Inr (ip, n)"
  using assms unfolding proper_net_def
proof (elim disjE exE conjE)
  fix k assume k: "k \<le> 32" and len: "length (net_IP n) = 4" and m: "net_Mask n = CIDRMask k 4"
    and masked: "IP_Mask (net_IP n) (net_Mask n) = Some (net_IP n)"
  have str: "IPNet_String n = dotted (net_IP n) @ ''/'' @ decimal k"
    using k len m simpleMaskLength_CIDRMask [of k 4]
    by (auto simp: IPNet_String_def networkNumberAndMask_def To4_def IP_String_def)
  have "IP_Mask (v4InV6Prefix @ net_IP n) (net_Mask n) = Some (net_IP n)"
    using masked len m by (simp add: IP_Mask_def v4InV6Prefix_def)
  then show ?thesis unfolding str ParseCIDR_def cut_at_slash [OF dotted_no_slash [OF len]]
    using k m by (simp add: netip_ParseAddr_dotted [OF len] dtoi_decimal)
next
  fix k assume k: "k \<le> 128" and len: "length (net_IP n) = 16" and v6: "To4 (net_IP n) = None"
    and m: "net_Mask n = CIDRMask k 16" and masked: "IP_Mask (net_IP n) (net_Mask n) = Some (net_IP n)"
  have str: "IPNet_String n = v6string (net_IP n) @ ''/'' @ decimal k"
    using k len m v6 simpleMaskLength_CIDRMask [of k 16]
    by (auto simp: IPNet_String_def networkNumberAndMask_def IP_String_def)
  show ?thesis unfolding str ParseCIDR_def cut_at_slash [OF v6string_no_slash]
    using k m masked by (simp add: netip_ParseAddr_v6string [OF len] dtoi_decimal)
qed

section \<open>Parsed addresses\<close>

lemma length_all_some: "all_some xs = Some ys \<Longrightarrow> length ys = length xs"
  by (induction xs arbitrary: ys rule: all_some.induct) auto

lemma length_parseIPv4: "parseIPv4 s = Some ip \<Longrightarrow> length ip = 4"
  by (auto simp: parseIPv4_def Let_def dest: length_all_some split: if_splits)

lemma length_groups_of: "length ip = 4 \<Longrightarrow> length (groups_of ip) = 2"
  by (auto simp: groups_of_def length_Suc_conv numeral_eq_Suc)

lemma parseIPv6_loop_groups:
  "parseIPv6_loop k s gs el = Some (gs', el', s') \<Longrightarrow> length gs + k \<le> 8 \<Longrightarrow> length gs' \<le> 8"
proof (induction k arbitrary: s gs el)
  case (Suc k)
  have rec: "parseIPv6_loop k s (gs @ [g]) el = Some (gs', el', s') \<Longrightarrow> length gs' \<le> 8" for s g el
    by (rule Suc.IH) (use Suc.prems(2) in simp)+
  from Suc.prems show ?case
    by (auto simp: parseIPv6_loop.simps(2) Let_def dest: rec dest!: length_parseIPv4 length_groups_of
        split: if_splits option.splits list.splits)
qed (simp add: parseIPv6_loop.simps)

lemma length_expand_ellipsis: "expand_ellipsis (gs, el, s) = Some ip \<Longrightarrow> length gs \<le> 8 \<Longrightarrow> length ip = 16"
proof -
  have len: "length (groups_bytes gs) = 2 * length gs" for gs
    by (induction gs) (auto simp: groups_bytes_def group_bytes_def)
  assume "expand_ellipsis (gs, el, s) = Some ip" "length gs \<le> 8"
  then show ?thesis by (auto simp: expand_ellipsis_def len split: if_splits option.splits)
qed

lemma length_parseIPv6: "parseIPv6 s = Some ip \<Longrightarrow> length ip = 16"
  unfolding parseIPv6_def
  by (auto split: if_splits bind_splits intro: length_expand_ellipsis dest: parseIPv6_loop_groups)

lemma length_netip_ParseAddr:
  "netip_ParseAddr s = Inr (Addr4 b) \<Longrightarrow> length b = 4" "netip_ParseAddr s = Inr (Addr6 c z) \<Longrightarrow> length c = 16"
  by (auto simp: netip_ParseAddr_def Let_def dest: length_parseIPv4 length_parseIPv6 split: list.splits if_splits option.splits)

text \<open>
  An address with its network as \<^verbatim>\<open>ParseCIDR\<close> makes them: an IPv4 address in its 16-byte form with a
  4-byte mask, or an IPv6 address.  An IPv4-mapped one is an IPv6 address that prints like an IPv4
  address.
\<close>

definition cidr_address :: "WGAddress \<Rightarrow> bool" where
  "cidr_address a \<longleftrightarrow>
     (\<exists>b k. length b = 4 \<and> k \<le> 32 \<and> wga_IP a = v4InV6Prefix @ b \<and> net_Mask (wga_Network a) = CIDRMask k 4
        \<and> IP_Mask (wga_IP a) (CIDRMask k 4) = Some (net_IP (wga_Network a)))
   \<or> (\<exists>k. length (wga_IP a) = 16 \<and> k \<le> 128 \<and> net_Mask (wga_Network a) = CIDRMask k 16
        \<and> IP_Mask (wga_IP a) (CIDRMask k 16) = Some (net_IP (wga_Network a)))"

definition mapped_v6 :: "WGAddress \<Rightarrow> bool" where
  "mapped_v6 a \<longleftrightarrow> length (net_Mask (wga_Network a)) = 16 \<and> To4 (wga_IP a) \<noteq> None"

lemma ParseCIDR_cidr_address:
  assumes "ParseCIDR s = Inr (ip, n)"
  shows "cidr_address \<lparr>wga_IP = ip, wga_Network = n\<rparr>"
proof -
  define addr where "addr = takeWhile (\<lambda>c. c \<noteq> CHR ''/'') s"
  from assms consider
      b k where "netip_ParseAddr addr = Inr (Addr4 b)" "k \<le> 32" "ip = v4InV6Prefix @ b"
        "n = \<lparr>net_IP = the (IP_Mask (v4InV6Prefix @ b) (CIDRMask k 4)), net_Mask = CIDRMask k 4\<rparr>"
    | z k where "netip_ParseAddr addr = Inr (Addr6 ip z)" "k \<le> 128"
        "n = \<lparr>net_IP = the (IP_Mask ip (CIDRMask k 16)), net_Mask = CIDRMask k 16\<rparr>"
    unfolding ParseCIDR_def addr_def [symmetric]
    by (simp add: Let_def not_less split: if_splits sum.splits netipAddr.splits option.splits) metis+
  then show ?thesis
  proof cases
    case (1 b k)
    then have "length b = 4" by (simp add: length_netip_ParseAddr)
    then have "\<exists>m. IP_Mask (v4InV6Prefix @ b) (CIDRMask k 4) = Some m"
      by (simp add: IP_Mask_def v4InV6Prefix_def)
    with 1 \<open>length b = 4\<close> show ?thesis unfolding cidr_address_def by (intro disjI1 exI [of _ b] exI [of _ k]) auto
  next
    case (2 z k)
    then have "length ip = 16" by (simp add: length_netip_ParseAddr)
    then have "\<exists>m. IP_Mask ip (CIDRMask k 16) = Some m" by (simp add: IP_Mask_def)
    with 2 \<open>length ip = 16\<close> show ?thesis unfolding cidr_address_def by (intro disjI2 exI [of _ k]) auto
  qed
qed

lemma ParseCIDR_WGAddress_String:
  assumes "cidr_address a" and "\<not> mapped_v6 a"
  shows "ParseCIDR (WGAddress_String a) = Inr (wga_IP a, wga_Network a)"
  using assms(1) unfolding cidr_address_def
proof (elim disjE exE conjE)
  fix b k assume b: "length b = 4" and k: "k \<le> 32" and ip: "wga_IP a = v4InV6Prefix @ b"
    and m: "net_Mask (wga_Network a) = CIDRMask k 4" and masked: "IP_Mask (wga_IP a) (CIDRMask k 4) = Some (net_IP (wga_Network a))"
  have "IP_String (wga_IP a) = dotted b" using b ip by (simp add: IP_String_def To4_def v4InV6Prefix_def)
  then have str: "WGAddress_String a = dotted b @ ''/'' @ decimal k"
    using k m simpleMaskLength_CIDRMask [of k 4] by (simp add: WGAddress_String_def)
  show ?thesis unfolding str ParseCIDR_def cut_at_slash [OF dotted_no_slash [OF b]]
    using k m masked ip by (cases "wga_Network a") (simp add: netip_ParseAddr_dotted [OF b] dtoi_decimal)
next
  fix k assume len: "length (wga_IP a) = 16" and k: "k \<le> 128" and m: "net_Mask (wga_Network a) = CIDRMask k 16"
    and masked: "IP_Mask (wga_IP a) (CIDRMask k 16) = Some (net_IP (wga_Network a))"
  have "To4 (wga_IP a) = None" using assms(2) m by (simp add: mapped_v6_def)
  then have str: "WGAddress_String a = v6string (wga_IP a) @ ''/'' @ decimal k"
    using k m len simpleMaskLength_CIDRMask [of k 16] by (auto simp: WGAddress_String_def IP_String_def)
  show ?thesis unfolding str ParseCIDR_def cut_at_slash [OF v6string_no_slash]
    using k m masked by (cases "wga_Network a") (simp add: netip_ParseAddr_v6string [OF len] dtoi_decimal)
qed

text \<open>C34. An interface address that was parsed prints as a text that parses to the same address and
  network again.  The one exception is an IPv4-mapped IPv6 address, which prints as an IPv4 address
  with an IPv6 prefix length.\<close>

theorem wg_address_roundtrip:
  assumes "parseWGAddress s = Inr a" and "\<not> mapped_v6 a"
  shows "parseWGAddress (WGAddress_String a) = Inr a"
proof -
  have "ParseCIDR s = Inr (wga_IP a, wga_Network a)"
    using assms(1) by (auto simp: parseWGAddress_def split: sum.splits)
  then have "cidr_address a" by (cases a) (auto dest: ParseCIDR_cidr_address)
  then show ?thesis using ParseCIDR_WGAddress_String [OF _ assms(2)] by (simp add: parseWGAddress_def)
qed

theorem wg_address_roundtrip_witness:
  "\<exists>a. parseWGAddress ''10.0.0.7/8'' = Inr a \<and> WGAddress_String a = ''10.0.0.7/8''
     \<and> parseWGAddress (WGAddress_String a) = Inr a"
proof -
  let ?a = "\<lparr>wga_IP = v4InV6Prefix @ [10, 0, 0, 7], wga_Network = \<lparr>net_IP = [10, 0, 0, 0], net_Mask = [255, 0, 0, 0]\<rparr>\<rparr>"
  have m: "CIDRMask 8 4 = [255, 0, 0, 0]" by code_simp
  have str: "WGAddress_String ?a = ''10.0.0.7/8''"
    using simpleMaskLength_CIDRMask [of 8 4] m
    by (simp add: WGAddress_String_def IP_String_def To4_def v4InV6Prefix_def dotted_def digit_char_def decimal.simps char_of_eq_iff)
  have "cidr_address ?a" unfolding cidr_address_def
    by (intro disjI1 exI [of _ "[10, 0, 0, 7]"] exI [of _ 8]) (simp add: m IP_Mask_def v4InV6Prefix_def)
  moreover have n: "\<not> mapped_v6 ?a" by (simp add: mapped_v6_def)
  ultimately have p: "parseWGAddress ''10.0.0.7/8'' = Inr ?a"
    using ParseCIDR_WGAddress_String [of ?a] by (simp add: parseWGAddress_def str)
  from wg_address_roundtrip [OF p n] p str show ?thesis by blast
qed

end
