(* ===== verification/Signal_Client.thy ===== *)
theory Signal_Client
  imports Wg_Address
begin

text \<open>
  The client's side of the signal protocol (\<^verbatim>\<open>client/internal/exchange.go\<close>): one request and its
  response over UDP.  JSON is \<^verbatim>\<open>encoding/json\<close>, the sockets are scripts: the result of dialling and
  writing, and the datagrams that arrive before the read deadline.
\<close>

section \<open>Data\<close>

datatype ClientMessageType = ClientLogin | ClientKeepAlive | ClientQuery

record LoginReq =
  lreq_ClientID :: string
  lreq_WgPubKey :: string
  lreq_AllowedIP :: string

record QueryReq =
  qreq_ClientID :: string

datatype ClientBody = LoginBody LoginReq | QueryBody QueryReq

record ClientMessage =
  cm_Type :: ClientMessageType
  cm_Token :: string
  cm_Body :: ClientBody

record PeerInfo =
  info_ClientId :: string
  info_IP :: string
  info_Port :: int
  info_WgPubKey :: string
  info_AllowedIP :: string
  info_LastKeepAliveAt :: string

record PeerLoginRes =
  res_IP :: string
  res_Port :: int

record client_json =
  Marshal_ClientMessage :: "ClientMessage \<Rightarrow> error + bytes"
  Unmarshal_PeerLoginRes :: "bytes \<Rightarrow> error + PeerLoginRes"
  Unmarshal_PeerInfos :: "bytes \<Rightarrow> PeerInfo list \<times> error option"

record client_flags =
  clientId :: string
  signalIpAddress :: string
  flag_token :: string

text \<open>\<open>sock_reads\<close> are the results of \<^verbatim>\<open>ReadFromUDP\<close> in order, a datagram given in full.\<close>

record client_socket =
  sock_dial :: "UDPAddr \<Rightarrow> UDPAddr \<Rightarrow> error option"
  sock_write :: "error option"
  sock_reads :: "(error + bytes) list"

section \<open>Operations\<close>

definition GetSignalServer :: "client_flags \<Rightarrow> error + string \<times> int" where
  "GetSignalServer F =
     (case SplitHostPort (signalIpAddress F) of
        Inl _ \<Rightarrow> Inl (Panic ''SplitHostPort'')
      | Inr (signalHost, signalPort) \<Rightarrow>
          (case Atoi signalPort of
             Inl _ \<Rightarrow> Inl (Panic ''Atoi'')
           | Inr sPort \<Rightarrow> Inr (signalHost, sPort)))"

text \<open>
  The read loop: a datagram is cut to the 1024-byte buffer and the loop goes on as long as it
  filled the buffer.  When no datagram is left, the read fails at its deadline.
\<close>

definition buffer_size :: nat where "buffer_size = 1024"

fun read_response :: "(error + bytes) list \<Rightarrow> bytes \<Rightarrow> error + bytes" where
  "read_response [] result = Inl (Wrapf ''error reading data'' (EnvErr ''i/o timeout''))"
| "read_response (Inl err # rs) result = Inl (Wrapf ''error reading data'' err)"
| "read_response (Inr d # rs) result =
     (let n = min (length d) buffer_size; result = result @ take n d
      in if n < buffer_size then Inr result else read_response rs result)"

definition server_addr :: "string \<Rightarrow> int \<Rightarrow> UDPAddr" where
  "server_addr host port =
     \<lparr>IP = (case ParseIP host of Some ip \<Rightarrow> ip | None \<Rightarrow> []), Port = port, Zone = ''''\<rparr>"

definition ClientRegister ::
  "client_json \<Rightarrow> client_flags \<Rightarrow> client_socket \<Rightarrow> int \<Rightarrow> string \<Rightarrow> string \<Rightarrow> error + PeerLoginRes" where
  "ClientRegister J F K port wgPubKey localIP =
     (case GetSignalServer F of
        Inl err \<Rightarrow> Inl err
      | Inr (signalHost, signalPort) \<Rightarrow>
     (case sock_dial K \<lparr>IP = [], Port = port, Zone = ''''\<rparr> (server_addr signalHost signalPort) of
        Some err \<Rightarrow> Inl (Wrapf ''error connecting'' err)
      | None \<Rightarrow>
     (case ParseCIDR localIP of
        Inl err \<Rightarrow> Inl err
      | Inr (ip, _) \<Rightarrow>
     (case Marshal_ClientMessage J \<lparr>cm_Type = ClientLogin, cm_Token = flag_token F,
              cm_Body = LoginBody \<lparr>lreq_ClientID = clientId F, lreq_WgPubKey = wgPubKey,
                                   lreq_AllowedIP = IP_String ip\<rparr>\<rparr> of
        Inl err \<Rightarrow> Inl (Wrapf ''error marshaling JSON'' err)
      | Inr jsonData \<Rightarrow>
     (case sock_write K of
        Some err \<Rightarrow> Inl (Wrapf ''error sending data'' err)
      | None \<Rightarrow>
     (case read_response (sock_reads K) [] of
        Inl err \<Rightarrow> Inl err
      | Inr result \<Rightarrow> Unmarshal_PeerLoginRes J result))))))"

text \<open>
  The result of \<^verbatim>\<open>GetRemotePeers\<close> is a slice and an error: when the JSON is well-formed but does not
  have the right types, \<^verbatim>\<open>json.Unmarshal\<close> fills in what fits, and both are returned.
\<close>

definition GetRemotePeers ::
  "client_json \<Rightarrow> client_flags \<Rightarrow> client_socket \<Rightarrow> string \<Rightarrow> string \<Rightarrow> PeerInfo list \<times> error option" where
  "GetRemotePeers J F K client token =
     (case GetSignalServer F of
        Inl err \<Rightarrow> ([], Some err)
      | Inr (signalHost, signalPort) \<Rightarrow>
     (case sock_dial K \<lparr>IP = [], Port = 0, Zone = ''''\<rparr> (server_addr signalHost signalPort) of
        Some err \<Rightarrow> ([], Some (Wrapf ''error connecting'' err))
      | None \<Rightarrow>
     (case Marshal_ClientMessage J \<lparr>cm_Type = ClientQuery, cm_Token = token,
              cm_Body = QueryBody \<lparr>qreq_ClientID = client\<rparr>\<rparr> of
        Inl err \<Rightarrow> ([], Some (Wrapf ''error marshaling JSON'' err))
      | Inr jsonData \<Rightarrow>
     (case sock_write K of
        Some err \<Rightarrow> ([], Some (Wrapf ''error sending data'' err))
      | None \<Rightarrow>
     (case read_response (sock_reads K) [] of
        Inl err \<Rightarrow> ([], Some err)
      | Inr result \<Rightarrow>
          (case Unmarshal_PeerInfos J result of
             (response, Some err) \<Rightarrow> (response, Some (Wrapf ''error unmarshaling JSON'' err))
           | (response, None) \<Rightarrow> (response, None)))))))"

section \<open>Properties\<close>

text \<open>The peers of a token are learnt only while their list is short: when the server answers
  with one datagram, as it does, the client returns the peers in it if the datagram has fewer than
  1024 bytes, and otherwise waits for more data that never comes and fails at its deadline.\<close>

theorem GetRemotePeers_response_limit:
  assumes "GetSignalServer F = Inr (host, port)" and "\<And>a b. sock_dial K a b = None"
    and "Marshal_ClientMessage J \<lparr>cm_Type = ClientQuery, cm_Token = token,
           cm_Body = QueryBody \<lparr>qreq_ClientID = client\<rparr>\<rparr> = Inr req"
    and "sock_write K = None" and "sock_reads K = [Inr answer]"
    and "Unmarshal_PeerInfos J answer = (peers, None)"
  shows "GetRemotePeers J F K client token =
     (if length answer < 1024 then (peers, None)
      else ([], Some (Wrapf ''error reading data'' (EnvErr ''i/o timeout''))))"
  using assms by (simp add: GetRemotePeers_def buffer_size_def Let_def)

definition demo_flags :: client_flags where
  "demo_flags = \<lparr>clientId = ''A'', signalIpAddress = ''1.2.3.4:51833'', flag_token = ''t''\<rparr>"

definition demo_client_json :: client_json where
  "demo_client_json = \<lparr>Marshal_ClientMessage = (\<lambda>_. Inr [1]), Unmarshal_PeerLoginRes = (\<lambda>_. Inl EOF),
     Unmarshal_PeerInfos = (\<lambda>_. ([], None))\<rparr>"

definition demo_socket :: "bytes \<Rightarrow> client_socket" where
  "demo_socket d = \<lparr>sock_dial = (\<lambda>_ _. None), sock_write = None, sock_reads = [Inr d]\<rparr>"

lemma demo_server: "\<exists>host port. GetSignalServer demo_flags = Inr (host, port)"
  by (simp add: GetSignalServer_def demo_flags_def SplitHostPort_def after_last_def Atoi_def dec_val_def char_digit_def)

theorem GetRemotePeers_response_limit_witness:
  "GetRemotePeers demo_client_json demo_flags (demo_socket [91, 93]) ''A'' ''t'' = ([], None)
   \<and> snd (GetRemotePeers demo_client_json demo_flags (demo_socket (replicate 1024 91)) ''A'' ''t'') \<noteq> None"
proof -
  obtain host port where s: "GetSignalServer demo_flags = Inr (host, port)" using demo_server by blast
  have K: "\<And>a b. sock_dial (demo_socket d) a b = None" "sock_write (demo_socket d) = None"
    "sock_reads (demo_socket d) = [Inr d]" for d by (simp_all add: demo_socket_def)
  have J: "Marshal_ClientMessage demo_client_json m = Inr [1]" "Unmarshal_PeerInfos demo_client_json b = ([], None)" for m b
    by (simp_all add: demo_client_json_def)
  note limit = GetRemotePeers_response_limit [OF s K(1) J(1) K(2) K(3) J(2)]
  show ?thesis using limit [of "[91, 93]"] limit [of "replicate 1024 91"] by simp
qed

end
