(* ===== verification/Peer_Conn.thy ===== *)
theory Peer_Conn
  imports Signal_Client
begin

text \<open>
  A connection to a remote peer (\<^verbatim>\<open>client/internal/peer\<close>): the \<^verbatim>\<open>Conn\<close> object with its mutex, the
  errors it reports, and the ICE settings read from the environment.  The mutex is part of the
  state: locking it while it is held blocks the caller, and \<open>Blocked\<close> is a call that never returns
  by its own doing.  The WireGuard interface and the address resolver are parameters.
\<close>

section \<open>Errors\<close>

datatype conn_error =
    ConnectionTimeoutError string int
  | ConnectionClosedError string
  | ConnectionDisconnectedError string
  | ConnectionAlreadyClosedError string
  | OtherError error

fun conn_error_Error :: "(int \<Rightarrow> string) \<Rightarrow> (error \<Rightarrow> string) \<Rightarrow> conn_error \<Rightarrow> string" where
  "conn_error_Error dur err (ConnectionTimeoutError peer timeout) =
     ''connection to peer '' @ peer @ '' timed out after '' @ dur timeout"
| "conn_error_Error dur err (ConnectionClosedError peer) = ''connection to peer '' @ peer @ '' has been closed''"
| "conn_error_Error dur err (ConnectionDisconnectedError peer) = ''disconnected from peer '' @ peer"
| "conn_error_Error dur err (ConnectionAlreadyClosedError peer) =
     ''connection to peer '' @ peer @ '' has been already closed''"
| "conn_error_Error dur err (OtherError e) = err e"

section \<open>Settings from the environment\<close>

text \<open>\<^verbatim>\<open>time.Duration(n) * time.Second\<close>: a product of 64-bit integers.\<close>

definition seconds_duration :: "int \<Rightarrow> int" where
  "seconds_duration n = sint (word_of_int (n * 1000000000) :: 64 word)"

definition env_seconds :: "(string \<Rightarrow> string) \<Rightarrow> string \<Rightarrow> int \<Rightarrow> int" where
  "env_seconds Getenv name dflt =
     (if Getenv name = '''' then dflt
      else case Atoi (Getenv name) of Inl _ \<Rightarrow> dflt | Inr sec \<Rightarrow> seconds_duration sec)"

definition iceKeepAliveDefault :: int where "iceKeepAliveDefault = 4 * 1000000000"
definition iceDisconnectedTimeoutDefault :: int where "iceDisconnectedTimeoutDefault = 6 * 1000000000"
definition iceRelayAcceptanceMinWaitDefault :: int where "iceRelayAcceptanceMinWaitDefault = 2 * 1000000000"
definition defaultWgKeepAlive :: int where "defaultWgKeepAlive = 2 * 1000000000"

definition iceKeepAlive :: "(string \<Rightarrow> string) \<Rightarrow> int" where
  "iceKeepAlive Getenv = env_seconds Getenv ''NB_ICE_KEEP_ALIVE_INTERVAL_SEC'' iceKeepAliveDefault"

definition iceDisconnectedTimeout :: "(string \<Rightarrow> string) \<Rightarrow> int" where
  "iceDisconnectedTimeout Getenv = env_seconds Getenv ''NB_ICE_DISCONNECTED_TIMEOUT_SEC'' iceDisconnectedTimeoutDefault"

definition iceRelayAcceptanceMinWait :: "(string \<Rightarrow> string) \<Rightarrow> int" where
  "iceRelayAcceptanceMinWait Getenv =
     env_seconds Getenv ''NB_ICE_RELAY_ACCEPTANCE_MIN_WAIT_SEC'' iceRelayAcceptanceMinWaitDefault"

definition to_lower :: "char \<Rightarrow> char" where
  "to_lower c = (if 65 \<le> (of_char c :: nat) \<and> (of_char c :: nat) \<le> 90 then char_of ((of_char c :: nat) + 32) else c)"

definition hasICEForceRelayConn :: "(string \<Rightarrow> string) \<Rightarrow> bool" where
  "hasICEForceRelayConn Getenv \<longleftrightarrow> map to_lower (Getenv ''NB_ICE_FORCE_RELAY_CONN'') = ''true''"

section \<open>The connection\<close>

record OfferAnswer =
  ans_WgListenPort :: int
  ans_WgAddr :: string

record ConnConfig =
  conn_Key :: string
  conn_LocalKey :: string
  conn_StunTurn :: "string list"
  conn_InterfaceBlackList :: "string list"
  conn_DisableIPv6Discovery :: bool
  conn_Timeout :: int
  conn_RemoteKey :: string
  conn_WgListenPort :: int
  conn_AllowedIps :: string
  conn_PreSharedKey :: "bytes option"
  conn_LocalWgPort :: int

text \<open>
  \<open>mu\<close> tells whether the mutex is held; \<open>wgProxy\<close> and \<open>agent\<close> whether there is one (neither is set
  anywhere in the code); \<open>waiting\<close> whether a goroutine is receiving from the close channel.
\<close>

record Conn =
  conn_config :: ConnConfig
  mu :: bool
  agent :: "nat option"
  wgProxy :: "nat option"
  remoteAnswer :: OfferAnswer
  waiting :: bool
  punches :: "(string \<times> int) list"

datatype 'a outcome = Done 'a | Blocked

definition Lock :: "Conn \<Rightarrow> Conn outcome" where
  "Lock c = (if mu c then Blocked else Done (c\<lparr>mu := True\<rparr>))"

definition Unlock :: "Conn \<Rightarrow> Conn" where
  "Unlock c = c\<lparr>mu := False\<rparr>"

definition NewConn :: "ConnConfig \<Rightarrow> Conn" where
  "NewConn config =
     \<lparr>conn_config = config, mu = False, agent = None, wgProxy = None,
      remoteAnswer = \<lparr>ans_WgListenPort = 0, ans_WgAddr = ''''\<rparr>, waiting = False, punches = []\<rparr>"

definition OnRemoteAnswer :: "OfferAnswer \<Rightarrow> Conn \<Rightarrow> Conn" where
  "OnRemoteAnswer answer c = c\<lparr>remoteAnswer := answer\<rparr>"

record 'w conn_env =
  ResolveUDPAddr :: "string \<Rightarrow> error + UDPAddr"
  UpdatePeer :: "string \<Rightarrow> string \<Rightarrow> int \<Rightarrow> UDPAddr \<Rightarrow> bytes option \<Rightarrow> 'w \<Rightarrow> error option \<times> 'w"
  agent_Close :: "nat \<Rightarrow> error option"
  proxy_CloseConn :: "nat \<Rightarrow> error option"

text \<open>
  \<^verbatim>\<open>configureConnection\<close>: it starts the punching goroutine (\<open>punches\<close>) and hands the peer to WireGuard.
  The error of resolving the endpoint is ignored, and the resolved address is dereferenced.  When
  WireGuard refuses the peer, the outcome of closing the proxy connection is only logged.
\<close>

definition configureConnection ::
  "'w conn_env \<Rightarrow> string \<Rightarrow> int \<Rightarrow> Conn \<Rightarrow> 'w \<Rightarrow> ((error + UDPAddr) \<times> Conn \<times> 'w) outcome" where
  "configureConnection E remoteAddr remoteWgPort c w =
     (case Lock c of
        Blocked \<Rightarrow> Blocked
      | Done c \<Rightarrow>
          let c = c\<lparr>punches := punches c @ [(remoteAddr, remoteWgPort)]\<rparr>;
              endpoint = server_addr remoteAddr remoteWgPort
          in case ResolveUDPAddr E (UDPAddr_String endpoint) of
               Inl _ \<Rightarrow> Done (Inl (Panic ''nil pointer dereference''), Unlock c, w)
             | Inr endpointUdpAddr \<Rightarrow>
                 (case UpdatePeer E (conn_RemoteKey (conn_config c)) (conn_AllowedIps (conn_config c))
                         defaultWgKeepAlive endpointUdpAddr (conn_PreSharedKey (conn_config c)) w of
                    (Some err, w) \<Rightarrow> Done (Inl (Wrapf ''update peer'' err), Unlock c, w)
                  | (None, w) \<Rightarrow> Done (Inr endpoint, Unlock c, w)))"

text \<open>
  \<^verbatim>\<open>punchRemoteWGPort\<close>, one second later: the datagram it writes to the shared socket, if any.
  \<open>is_universal\<close> tells whether the configured mux is a \<^verbatim>\<open>UniversalUDPMuxDefault\<close>.
\<close>

definition punchRemoteWGPort ::
  "'w conn_env \<Rightarrow> bool \<Rightarrow> string \<Rightarrow> int \<Rightarrow> (bytes \<times> UDPAddr) option" where
  "punchRemoteWGPort E is_universal remoteAddr remoteWgPort =
     (case ResolveUDPAddr E (remoteAddr @ '':'' @ Itoa remoteWgPort) of
        Inl _ \<Rightarrow> None
      | Inr addr \<Rightarrow> if is_universal then Some ([0x6e, 0x62], addr) else None)"

text \<open>\<^verbatim>\<open>Open\<close> up to its \<^verbatim>\<open>select\<close>, and what it returns when one of the two cases fires.\<close>

definition Open_start ::
  "'w conn_env \<Rightarrow> Conn \<Rightarrow> 'w \<Rightarrow> ((error + UDPAddr) \<times> Conn \<times> 'w) outcome" where
  "Open_start E c w =
     (case Lock c of
        Blocked \<Rightarrow> Blocked
      | Done c \<Rightarrow>
          let c = Unlock c
          in case configureConnection E (ans_WgAddr (remoteAnswer c)) (ans_WgListenPort (remoteAnswer c)) c w of
               Blocked \<Rightarrow> Blocked
             | Done (Inl err, c, w) \<Rightarrow> Done (Inl err, c, w)
             | Done (Inr endpoint, c, w) \<Rightarrow> Done (Inr endpoint, c\<lparr>waiting := True\<rparr>, w))"

datatype open_event = CloseReceived | ContextDone

definition Open_wait :: "open_event \<Rightarrow> Conn \<Rightarrow> conn_error \<times> Conn" where
  "Open_wait ev c =
     (case ev of
        CloseReceived \<Rightarrow> (ConnectionClosedError (conn_Key (conn_config c)), c\<lparr>waiting := False\<rparr>)
      | ContextDone \<Rightarrow> (ConnectionDisconnectedError (conn_Key (conn_config c)), c\<lparr>waiting := False\<rparr>))"

definition cleanup :: "'w conn_env \<Rightarrow> Conn \<Rightarrow> (error option \<times> Conn) outcome" where
  "cleanup E c =
     (case Lock c of
        Blocked \<Rightarrow> Blocked
      | Done c \<Rightarrow>
          let c = (case agent c of
                     Some a \<Rightarrow> if agent_Close E a = None then c\<lparr>agent := None\<rparr> else c
                   | None \<Rightarrow> c);
              (err2, c) = (case wgProxy c of
                             Some p \<Rightarrow> (proxy_CloseConn E p, c\<lparr>wgProxy := None\<rparr>)
                           | None \<Rightarrow> (None, c))
          in Done (err2, Unlock c))"

definition Conn_Close :: "'w conn_env \<Rightarrow> Conn \<Rightarrow> (conn_error option \<times> Conn) outcome" where
  "Conn_Close E c =
     (case Lock c of
        Blocked \<Rightarrow> Blocked
      | Done c \<Rightarrow>
          (case cleanup E c of
             Blocked \<Rightarrow> Blocked
           | Done (_, c) \<Rightarrow>
               if waiting c then Done (None, Unlock (c\<lparr>waiting := False\<rparr>))
               else Done (Some (ConnectionAlreadyClosedError (conn_Key (conn_config c))), Unlock c)))"

section \<open>Properties\<close>

text \<open>C26. Opening a connection configures WireGuard with the address the remote peer announced and
  then waits, with the mutex released; but closing it never returns, in any state: \<^verbatim>\<open>Close\<close> holds the
  mutex when it calls \<^verbatim>\<open>cleanup\<close>, which takes it again.\<close>

theorem Conn_Close_deadlocks:
  assumes "\<not> mu c" and "remoteAnswer c = \<lparr>ans_WgListenPort = port, ans_WgAddr = ip\<rparr>"
    and "ResolveUDPAddr E (UDPAddr_String (server_addr ip port)) = Inr addr"
    and "UpdatePeer E (conn_RemoteKey (conn_config c)) (conn_AllowedIps (conn_config c))
           defaultWgKeepAlive addr (conn_PreSharedKey (conn_config c)) w = (None, w')"
  shows "(\<exists>c'. Open_start E c w = Done (Inr (server_addr ip port), c', w') \<and> \<not> mu c' \<and> waiting c'
             \<and> punches c' = punches c @ [(ip, port)])
       \<and> (\<forall>x. Conn_Close E x = Blocked)"
  using assms
  by (simp add: Open_start_def configureConnection_def Conn_Close_def cleanup_def Lock_def Unlock_def Let_def)

definition demo_conn :: Conn where
  "demo_conn = OnRemoteAnswer \<lparr>ans_WgListenPort = 51820, ans_WgAddr = ''1.2.3.4''\<rparr>
     (NewConn \<lparr>conn_Key = ''k'', conn_LocalKey = ''l'', conn_StunTurn = [], conn_InterfaceBlackList = [],
        conn_DisableIPv6Discovery = True, conn_Timeout = 0, conn_RemoteKey = ''k'', conn_WgListenPort = 51820,
        conn_AllowedIps = ''10.0.0.1/32'', conn_PreSharedKey = None, conn_LocalWgPort = 51820\<rparr>)"

definition demo_env :: "unit conn_env" where
  "demo_env = \<lparr>ResolveUDPAddr = (\<lambda>_. Inr \<lparr>IP = [1, 2, 3, 4], Port = 51820, Zone = ''''\<rparr>),
     UpdatePeer = (\<lambda>_ _ _ _ _ w. (None, w)), agent_Close = (\<lambda>_. None), proxy_CloseConn = (\<lambda>_. None)\<rparr>"

theorem Conn_Close_deadlocks_witness: "Conn_Close demo_env demo_conn = Blocked"
  using Conn_Close_deadlocks [of demo_conn 51820 "''1.2.3.4''" demo_env "\<lparr>IP = [1, 2, 3, 4], Port = 51820, Zone = ''''\<rparr>" "()" "()"]
  by (simp add: demo_conn_def demo_env_def OnRemoteAnswer_def NewConn_def)

end
