(* ===== verification/Wg_Configurer.thy ===== *)
theory Wg_Configurer
  imports Wg_Address
begin

text \<open>
  The two ways to configure a WireGuard device (\<^verbatim>\<open>iface/wg_configurer_usp.go\<close> through the text
  protocol of the user space device, \<^verbatim>\<open>iface/wg_configurer_kernel_unix.go\<close> through \<^verbatim>\<open>wgctrl\<close>).  The
  device's \<^verbatim>\<open>IpcSet\<close> and \<^verbatim>\<open>IpcGet\<close>, \<^verbatim>\<open>wgctrl\<close> and the base64 form of keys (\<^verbatim>\<open>wgtypes\<close>) are parameters.
\<close>

section \<open>Data\<close>

record PeerConf =
  pc_PublicKey :: bytes
  pc_Remove :: bool
  pc_UpdateOnly :: bool
  pc_PresharedKey :: "bytes option"
  pc_Endpoint :: "UDPAddr option"
  pc_PersistentKeepaliveInterval :: "int option"
  pc_ReplaceAllowedIPs :: bool
  pc_AllowedIPs :: "IPNet list"

record WgConf =
  cfg_PrivateKey :: "bytes option"
  cfg_ListenPort :: "int option"
  cfg_FirewallMark :: "int option"
  cfg_ReplacePeers :: bool
  cfg_Peers :: "PeerConf list"

definition zero_PeerConf :: PeerConf where
  "zero_PeerConf = \<lparr>pc_PublicKey = [], pc_Remove = False, pc_UpdateOnly = False, pc_PresharedKey = None,
     pc_Endpoint = None, pc_PersistentKeepaliveInterval = None, pc_ReplaceAllowedIPs = False, pc_AllowedIPs = []\<rparr>"

definition zero_WgConf :: WgConf where
  "zero_WgConf = \<lparr>cfg_PrivateKey = None, cfg_ListenPort = None, cfg_FirewallMark = None,
     cfg_ReplacePeers = False, cfg_Peers = []\<rparr>"

record WGStats =
  LastHandshake :: "int \<times> int"
  TxBytes :: int
  RxBytes :: int

definition ErrAllowedIPNotFound :: error where "ErrAllowedIPNotFound = Errorf ''allowed IP not found''"
definition ErrPeerNotFound :: error where "ErrPeerNotFound = Errorf ''peer not found''"

definition NetbirdFwmark :: int where "NetbirdFwmark = 0x1BD00"

definition getFwmark :: "bool \<Rightarrow> bool \<Rightarrow> int" where
  "getFwmark linux CustomRoutingDisabled = (if linux \<and> \<not> CustomRoutingDisabled then NetbirdFwmark else 0)"

section \<open>The configuration as text\<close>

text \<open>\<^verbatim>\<open>int(d.Seconds())\<close> of a duration in nanoseconds, truncated towards zero.\<close>

definition seconds_trunc :: "int \<Rightarrow> int" where
  "seconds_trunc ns = sgn ns * (\<bar>ns\<bar> div 1000000000)"

definition kv_line :: "string \<Rightarrow> string \<Rightarrow> string" where
  "kv_line k v = k @ ''='' @ v @ [NL]"

definition peer_string :: "PeerConf \<Rightarrow> string" where
  "peer_string p =
     kv_line ''public_key'' (EncodeToString (pc_PublicKey p))
   @ (case pc_PresharedKey p of None \<Rightarrow> '''' | Some k \<Rightarrow> kv_line ''preshared_key'' (EncodeToString k))
   @ (if pc_Remove p then ''remove=true'' else '''')
   @ (if pc_ReplaceAllowedIPs p then kv_line ''replace_allowed_ips'' ''true'' else '''')
   @ concat (map (\<lambda>aip. kv_line ''allowed_ip'' (IPNet_String aip)) (pc_AllowedIPs p))
   @ (case pc_Endpoint p of None \<Rightarrow> '''' | Some e \<Rightarrow> kv_line ''endpoint'' (UDPAddr_String e))
   @ (case pc_PersistentKeepaliveInterval p of
        None \<Rightarrow> '''' | Some d \<Rightarrow> kv_line ''persistent_keepalive_interval'' (Itoa (seconds_trunc d)))"

definition toWgUserspaceString :: "WgConf \<Rightarrow> string" where
  "toWgUserspaceString wgCfg =
     (case cfg_PrivateKey wgCfg of None \<Rightarrow> '''' | Some k \<Rightarrow> kv_line ''private_key'' (EncodeToString k))
   @ (case cfg_ListenPort wgCfg of None \<Rightarrow> '''' | Some p \<Rightarrow> kv_line ''listen_port'' (Itoa p))
   @ (if cfg_ReplacePeers wgCfg then kv_line ''replace_peers'' ''true'' else '''')
   @ (case cfg_FirewallMark wgCfg of None \<Rightarrow> '''' | Some m \<Rightarrow> kv_line ''fwmark'' (Itoa m))
   @ concat (map peer_string (cfg_Peers wgCfg))"

section \<open>The user space device\<close>

record 'd wgDevice =
  IpcSet :: "string \<Rightarrow> 'd \<Rightarrow> error option \<times> 'd"
  IpcGet :: "'d \<Rightarrow> error + string"

definition usp_configureInterface ::
  "(string \<Rightarrow> error + bytes) \<Rightarrow> 'd wgDevice \<Rightarrow> int \<Rightarrow> string \<Rightarrow> int \<Rightarrow> 'd \<Rightarrow> error option \<times> 'd" where
  "usp_configureInterface ParseKey V fwmark privateKey port d =
     (case ParseKey privateKey of
        Inl err \<Rightarrow> (Some err, d)
      | Inr key \<Rightarrow>
          IpcSet V (toWgUserspaceString (zero_WgConf\<lparr>cfg_PrivateKey := Some key, cfg_ReplacePeers := True,
            cfg_FirewallMark := Some fwmark, cfg_ListenPort := Some port\<rparr>)) d)"

definition update_conf ::
  "bytes \<Rightarrow> IPNet \<Rightarrow> int \<Rightarrow> UDPAddr option \<Rightarrow> bytes option \<Rightarrow> WgConf" where
  "update_conf key ipNet keepAlive endpoint preSharedKey =
     zero_WgConf\<lparr>cfg_Peers := [zero_PeerConf\<lparr>pc_PublicKey := key, pc_ReplaceAllowedIPs := True,
       pc_AllowedIPs := [ipNet], pc_PersistentKeepaliveInterval := Some keepAlive,
       pc_PresharedKey := preSharedKey, pc_Endpoint := endpoint\<rparr>]\<rparr>"

definition usp_updatePeer ::
  "(string \<Rightarrow> error + bytes) \<Rightarrow> 'd wgDevice \<Rightarrow> string \<Rightarrow> string \<Rightarrow> int \<Rightarrow> UDPAddr option \<Rightarrow> bytes option
     \<Rightarrow> 'd \<Rightarrow> error option \<times> 'd" where
  "usp_updatePeer ParseKey V peerKey allowedIps keepAlive endpoint preSharedKey d =
     (case ParseCIDR allowedIps of
        Inl err \<Rightarrow> (Some err, d)
      | Inr (_, ipNet) \<Rightarrow>
          (case ParseKey peerKey of
             Inl err \<Rightarrow> (Some err, d)
           | Inr key \<Rightarrow> IpcSet V (toWgUserspaceString (update_conf key ipNet keepAlive endpoint preSharedKey)) d))"

definition usp_removePeer ::
  "(string \<Rightarrow> error + bytes) \<Rightarrow> 'd wgDevice \<Rightarrow> string \<Rightarrow> 'd \<Rightarrow> error option \<times> 'd" where
  "usp_removePeer ParseKey V peerKey d =
     (case ParseKey peerKey of
        Inl err \<Rightarrow> (Some err, d)
      | Inr key \<Rightarrow>
          IpcSet V (toWgUserspaceString (zero_WgConf\<lparr>cfg_Peers :=
            [zero_PeerConf\<lparr>pc_PublicKey := key, pc_Remove := True\<rparr>]\<rparr>)) d)"

definition add_conf :: "bytes \<Rightarrow> IPNet \<Rightarrow> WgConf" where
  "add_conf key ipNet = zero_WgConf\<lparr>cfg_Peers := [zero_PeerConf\<lparr>pc_PublicKey := key, pc_UpdateOnly := True,
     pc_ReplaceAllowedIPs := False, pc_AllowedIPs := [ipNet]\<rparr>]\<rparr>"

definition usp_addAllowedIP ::
  "(string \<Rightarrow> error + bytes) \<Rightarrow> 'd wgDevice \<Rightarrow> string \<Rightarrow> string \<Rightarrow> 'd \<Rightarrow> error option \<times> 'd" where
  "usp_addAllowedIP ParseKey V peerKey allowedIP d =
     (case ParseCIDR allowedIP of
        Inl err \<Rightarrow> (Some err, d)
      | Inr (_, ipNet) \<Rightarrow>
          (case ParseKey peerKey of
             Inl err \<Rightarrow> (Some err, d)
           | Inr key \<Rightarrow> IpcSet V (toWgUserspaceString (add_conf key ipNet)) d))"

definition replace_conf :: "bytes \<Rightarrow> IPNet list \<Rightarrow> WgConf" where
  "replace_conf key ips = zero_WgConf\<lparr>cfg_Peers := [zero_PeerConf\<lparr>pc_PublicKey := key, pc_UpdateOnly := True,
     pc_ReplaceAllowedIPs := True, pc_AllowedIPs := ips\<rparr>]\<rparr>"

fun remove_loop ::
  "string \<Rightarrow> string \<Rightarrow> string list \<Rightarrow> bool \<Rightarrow> bool \<Rightarrow> IPNet list \<Rightarrow> error + bool \<times> IPNet list" where
  "remove_loop hexKey ip [] foundPeer removed ips = Inr (removed, ips)"
| "remove_loop hexKey ip (l # lines) foundPeer removed ips =
     (let line = TrimSpace l;
          foundPeer = (if HasPrefix line ''public_key='' \<and> foundPeer then False else foundPeer);
          foundPeer = (if line = ''public_key='' @ hexKey then True else foundPeer)
      in if foundPeer \<and> line = ''allowed_ip='' @ ip then remove_loop hexKey ip lines foundPeer True ips
         else if foundPeer \<and> HasPrefix line ''allowed_ip=''
         then (case ParseCIDR (TrimPrefix line ''allowed_ip='') of
                 Inl err \<Rightarrow> Inl err
               | Inr (_, ipNet) \<Rightarrow> remove_loop hexKey ip lines foundPeer removed (ips @ [ipNet]))
         else remove_loop hexKey ip lines foundPeer removed ips)"

definition usp_removeAllowedIP ::
  "(string \<Rightarrow> error + bytes) \<Rightarrow> 'd wgDevice \<Rightarrow> string \<Rightarrow> string \<Rightarrow> 'd \<Rightarrow> error option \<times> 'd" where
  "usp_removeAllowedIP ParseKey V peerKey ip d =
     (case IpcGet V d of
        Inl err \<Rightarrow> (Some err, d)
      | Inr ipc \<Rightarrow>
          (case ParseKey peerKey of
             Inl err \<Rightarrow> (Some err, d)
           | Inr key \<Rightarrow>
               (case remove_loop (EncodeToString key) ip (Split NL ipc) False False [] of
                  Inl err \<Rightarrow> (Some err, d)
                | Inr (removedAllowedIP, ips) \<Rightarrow>
                    if \<not> removedAllowedIP then (Some ErrAllowedIPNotFound, d)
                    else IpcSet V (toWgUserspaceString (replace_conf key ips)) d)))"

text \<open>\<^verbatim>\<open>strings.SplitN(line, "=", 2)\<close> of a line with an equals sign.\<close>

definition SplitN2 :: "string \<Rightarrow> string \<times> string" where
  "SplitN2 line = (takeWhile (\<lambda>c. c \<noteq> CHR ''='') line, tl (dropWhile (\<lambda>c. c \<noteq> CHR ''='') line))"

fun collect_keys ::
  "string list \<Rightarrow> bool \<Rightarrow> string \<Rightarrow> (string, string) gomap \<Rightarrow> (string, string) gomap" where
  "collect_keys [] foundPeer line m = m"
| "collect_keys (key # keys) foundPeer line m =
     collect_keys keys foundPeer line
       (if foundPeer \<and> HasPrefix line (key @ ''='')
        then let v = SplitN2 line in gm_put (fst v) (snd v) m else m)"

fun find_loop ::
  "string \<Rightarrow> string list \<Rightarrow> string list \<Rightarrow> bool \<Rightarrow> (string, string) gomap \<Rightarrow> bool \<times> (string, string) gomap" where
  "find_loop hexKey keys [] foundPeer m = (foundPeer, m)"
| "find_loop hexKey keys (l # lines) foundPeer m =
     (let line = TrimSpace l
      in if HasPrefix line ''public_key='' \<and> foundPeer then (foundPeer, m)
         else let foundPeer = (if line = ''public_key='' @ hexKey then True else foundPeer)
              in find_loop hexKey keys lines foundPeer (collect_keys keys foundPeer line m))"

definition findPeerInfo ::
  "(string \<Rightarrow> error + bytes) \<Rightarrow> string \<Rightarrow> string \<Rightarrow> string list \<Rightarrow> error + (string, string) gomap" where
  "findPeerInfo ParseKey ipcInput peerKey searchConfigKeys =
     (case ParseKey peerKey of
        Inl err \<Rightarrow> Inl (Wrapf ''parse key'' err)
      | Inr key \<Rightarrow>
          let (foundPeer, configFound) =
                find_loop (EncodeToString key) searchConfigKeys (Split NL ipcInput) False []
          in case find (\<lambda>k. gm_get configFound k = None) searchConfigKeys of
               Some k \<Rightarrow> Inl (Errorf (''config key not found: '' @ k))
             | None \<Rightarrow>
                 if \<not> foundPeer then Inl (Wrapf peerKey ErrPeerNotFound) else Inr configFound)"

text \<open>\<^verbatim>\<open>strconv.ParseInt(s, 10, 64)\<close>.\<close>

definition ParseInt64 :: "string \<Rightarrow> error + int" where
  "ParseInt64 s =
     (let (neg, ds) = (case s of c # r \<Rightarrow> if c = CHR ''-'' then (True, r) else if c = CHR ''+'' then (False, r)
                                          else (False, s) | [] \<Rightarrow> (False, s))
      in if ds = [] \<or> \<not> list_all is_digit ds then Inl (Errorf (''strconv.ParseInt: parsing '' @ s))
         else let v = (if neg then - int (dec_val ds) else int (dec_val ds))
              in if - (2 ^ 63) \<le> v \<and> v < 2 ^ 63 then Inr v
                 else Inl (Errorf (''strconv.ParseInt: parsing '' @ s @ '': value out of range'')))"

definition map_at :: "(string, string) gomap \<Rightarrow> string \<Rightarrow> string" where
  "map_at m k = (case gm_get m k of Some v \<Rightarrow> v | None \<Rightarrow> '''')"

definition usp_getStats ::
  "(string \<Rightarrow> error + bytes) \<Rightarrow> 'd wgDevice \<Rightarrow> string \<Rightarrow> 'd \<Rightarrow> error + WGStats" where
  "usp_getStats ParseKey V peerKey d =
     (case IpcGet V d of
        Inl err \<Rightarrow> Inl (Wrapf ''ipc get'' err)
      | Inr ipc \<Rightarrow>
     (case findPeerInfo ParseKey ipc peerKey
             [''last_handshake_time_sec'', ''last_handshake_time_nsec'', ''tx_bytes'', ''rx_bytes''] of
        Inl err \<Rightarrow> Inl (Wrapf ''find peer info'' err)
      | Inr stats \<Rightarrow>
     (case ParseInt64 (map_at stats ''last_handshake_time_sec'') of
        Inl err \<Rightarrow> Inl (Wrapf ''parse handshake sec'' err)
      | Inr sec \<Rightarrow>
     (case ParseInt64 (map_at stats ''last_handshake_time_nsec'') of
        Inl err \<Rightarrow> Inl (Wrapf ''parse handshake nsec'' err)
      | Inr nsec \<Rightarrow>
     (case ParseInt64 (map_at stats ''tx_bytes'') of
        Inl err \<Rightarrow> Inl (Wrapf ''parse tx_bytes'' err)
      | Inr txBytes \<Rightarrow>
     (case ParseInt64 (map_at stats ''rx_bytes'') of
        Inl err \<Rightarrow> Inl (Wrapf ''parse rx_bytes'' err)
      | Inr rxBytes \<Rightarrow>
          Inr \<lparr>LastHandshake = (sec, nsec), TxBytes = txBytes, RxBytes = rxBytes\<rparr>))))))"

section \<open>The kernel device\<close>

record wgPeer =
  wp_PublicKey :: bytes
  wp_AllowedIPs :: "IPNet list"
  wp_LastHandshakeTime :: "int \<times> int"
  wp_TransmitBytes :: int
  wp_ReceiveBytes :: int

text \<open>\<open>wg_New\<close> is the error of opening the control client; \<open>Key_String\<close> the base64 form of a key.\<close>

record 'k wgctrl =
  wg_New :: "error option"
  wg_Device :: "string \<Rightarrow> 'k \<Rightarrow> error + wgPeer list"
  wg_ConfigureDevice :: "string \<Rightarrow> WgConf \<Rightarrow> 'k \<Rightarrow> error option \<times> 'k"
  Key_String :: "bytes \<Rightarrow> string"

definition configure :: "'k wgctrl \<Rightarrow> string \<Rightarrow> WgConf \<Rightarrow> 'k \<Rightarrow> error option \<times> 'k" where
  "configure W deviceName config k =
     (case wg_New W of
        Some err \<Rightarrow> (Some err, k)
      | None \<Rightarrow>
          (case wg_Device W deviceName k of
             Inl err \<Rightarrow> (Some err, k)
           | Inr _ \<Rightarrow> wg_ConfigureDevice W deviceName config k))"

definition wrap_error :: "string \<Rightarrow> error option \<times> 'k \<Rightarrow> error option \<times> 'k" where
  "wrap_error msg r = (map_option (Wrapf msg) (fst r), snd r)"

definition kernel_configureInterface ::
  "(string \<Rightarrow> error + bytes) \<Rightarrow> 'k wgctrl \<Rightarrow> string \<Rightarrow> int \<Rightarrow> string \<Rightarrow> int \<Rightarrow> 'k \<Rightarrow> error option \<times> 'k" where
  "kernel_configureInterface ParseKey W deviceName fwmark privateKey port k =
     (case ParseKey privateKey of
        Inl err \<Rightarrow> (Some err, k)
      | Inr key \<Rightarrow>
          wrap_error ''configuring interface''
            (configure W deviceName (zero_WgConf\<lparr>cfg_PrivateKey := Some key, cfg_ReplacePeers := True,
               cfg_FirewallMark := Some fwmark, cfg_ListenPort := Some port\<rparr>) k))"

definition kernel_updatePeer ::
  "(string \<Rightarrow> error + bytes) \<Rightarrow> 'k wgctrl \<Rightarrow> string \<Rightarrow> string \<Rightarrow> string \<Rightarrow> int \<Rightarrow> UDPAddr option \<Rightarrow> bytes option
     \<Rightarrow> 'k \<Rightarrow> error option \<times> 'k" where
  "kernel_updatePeer ParseKey W deviceName peerKey allowedIps keepAlive endpoint preSharedKey k =
     (case ParseCIDR allowedIps of
        Inl err \<Rightarrow> (Some err, k)
      | Inr (_, ipNet) \<Rightarrow>
          (case ParseKey peerKey of
             Inl err \<Rightarrow> (Some err, k)
           | Inr key \<Rightarrow>
               wrap_error ''updating peer''
                 (configure W deviceName (update_conf key ipNet keepAlive endpoint preSharedKey) k)))"

definition kernel_removePeer ::
  "(string \<Rightarrow> error + bytes) \<Rightarrow> 'k wgctrl \<Rightarrow> string \<Rightarrow> string \<Rightarrow> 'k \<Rightarrow> error option \<times> 'k" where
  "kernel_removePeer ParseKey W deviceName peerKey k =
     (case ParseKey peerKey of
        Inl err \<Rightarrow> (Some err, k)
      | Inr key \<Rightarrow>
          wrap_error ''removing peer''
            (configure W deviceName (zero_WgConf\<lparr>cfg_Peers :=
               [zero_PeerConf\<lparr>pc_PublicKey := key, pc_Remove := True\<rparr>]\<rparr>) k))"

definition kernel_addAllowedIP ::
  "(string \<Rightarrow> error + bytes) \<Rightarrow> 'k wgctrl \<Rightarrow> string \<Rightarrow> string \<Rightarrow> string \<Rightarrow> 'k \<Rightarrow> error option \<times> 'k" where
  "kernel_addAllowedIP ParseKey W deviceName peerKey allowedIP k =
     (case ParseCIDR allowedIP of
        Inl err \<Rightarrow> (Some err, k)
      | Inr (_, ipNet) \<Rightarrow>
          (case ParseKey peerKey of
             Inl err \<Rightarrow> (Some err, k)
           | Inr key \<Rightarrow> wrap_error ''adding allowed Ip'' (configure W deviceName (add_conf key ipNet) k)))"

definition getPeer :: "'k wgctrl \<Rightarrow> string \<Rightarrow> string \<Rightarrow> 'k \<Rightarrow> error + wgPeer" where
  "getPeer W ifaceName peerPubKey k =
     (case wg_New W of
        Some err \<Rightarrow> Inl (Wrapf ''wgctl'' err)
      | None \<Rightarrow>
          (case wg_Device W ifaceName k of
             Inl err \<Rightarrow> Inl (Wrapf ''get device'' err)
           | Inr peers \<Rightarrow>
               (case find (\<lambda>peer. Key_String W (wp_PublicKey peer) = peerPubKey) peers of
                  Some peer \<Rightarrow> Inr peer
                | None \<Rightarrow> Inl ErrPeerNotFound)))"

text \<open>The loop that cuts the first equal prefix out of the list.\<close>

fun cut_ip :: "string \<Rightarrow> IPNet list \<Rightarrow> IPNet list" where
  "cut_ip ip [] = []"
| "cut_ip ip (existing # rest) = (if IPNet_String existing = ip then rest else existing # cut_ip ip rest)"

definition kernel_removeAllowedIP ::
  "(string \<Rightarrow> error + bytes) \<Rightarrow> 'k wgctrl \<Rightarrow> string \<Rightarrow> string \<Rightarrow> string \<Rightarrow> 'k \<Rightarrow> error option \<times> 'k" where
  "kernel_removeAllowedIP ParseKey W deviceName peerKey allowedIP k =
     (case ParseCIDR allowedIP of
        Inl err \<Rightarrow> (Some (Wrapf ''parse allowed IP'' err), k)
      | Inr (_, ipNet) \<Rightarrow>
          (case ParseKey peerKey of
             Inl err \<Rightarrow> (Some (Wrapf ''parse peer key'' err), k)
           | Inr key \<Rightarrow>
               (case getPeer W deviceName peerKey k of
                  Inl err \<Rightarrow> (Some (Wrapf ''get peer'' err), k)
                | Inr existingPeer \<Rightarrow>
                    wrap_error ''remove allowed IP'' (configure W deviceName
                      (replace_conf key (cut_ip (IPNet_String ipNet) (wp_AllowedIPs existingPeer))) k))))"

definition kernel_getStats :: "'k wgctrl \<Rightarrow> string \<Rightarrow> string \<Rightarrow> 'k \<Rightarrow> error + WGStats" where
  "kernel_getStats W deviceName peerKey k =
     (case getPeer W deviceName peerKey k of
        Inl err \<Rightarrow> Inl (Wrapf ''get wireguard stats'' err)
      | Inr peer \<Rightarrow>
          Inr \<lparr>LastHandshake = wp_LastHandshakeTime peer, TxBytes = wp_TransmitBytes peer,
               RxBytes = wp_ReceiveBytes peer\<rparr>)"

section \<open>The text a device reports\<close>

text \<open>
  What \<^verbatim>\<open>IpcGet\<close> returns, as the WireGuard cross-platform interface documents it: settings of the
  device, then for every peer its public key, its settings and its allowed addresses.
\<close>

record peer_dump =
  pd_key :: bytes
  pd_settings :: "(string \<times> string) list"
  pd_ips :: "IPNet list"

definition kv :: "string \<times> string \<Rightarrow> string" where
  "kv x = fst x @ ''='' @ snd x"

definition peer_lines :: "peer_dump \<Rightarrow> string list" where
  "peer_lines p = kv (''public_key'', EncodeToString (pd_key p)) # map kv (pd_settings p)
     @ map (\<lambda>n. kv (''allowed_ip'', IPNet_String n)) (pd_ips p)"

definition device_dump :: "(string \<times> string) list \<Rightarrow> peer_dump list \<Rightarrow> string" where
  "device_dump settings peers =
     concat (map (\<lambda>l. l @ [NL]) (map kv settings @ concat (map peer_lines peers)))"

definition no_space :: "string \<Rightarrow> bool" where
  "no_space s \<longleftrightarrow> set s \<inter> set space_chars = {}"

definition setting_ok :: "string \<times> string \<Rightarrow> bool" where
  "setting_ok x \<longleftrightarrow> no_space (kv x) \<and> CHR ''='' \<notin> set (fst x) \<and> fst x \<noteq> ''public_key'' \<and> fst x \<noteq> ''allowed_ip''"

definition dump_ok :: "(string \<times> string) list \<Rightarrow> peer_dump list \<Rightarrow> bool" where
  "dump_ok settings peers \<longleftrightarrow> list_all setting_ok settings
     \<and> list_all (\<lambda>p. list_all setting_ok (pd_settings p) \<and> list_all proper_net (pd_ips p)) peers
     \<and> distinct (map pd_key peers)"

lemma TrimSpace_id: "no_space s \<Longrightarrow> TrimSpace s = s"
proof -
  have drop: "no_space w \<Longrightarrow> dropWhile (\<lambda>c. c \<in> set space_chars) w = w" for w
    by (cases w) (auto simp: no_space_def)
  assume "no_space s"
  then have "no_space (rev s)" by (simp add: no_space_def)
  with \<open>no_space s\<close> show ?thesis unfolding TrimSpace_def by (simp only: drop rev_rev_ident)
qed

lemma Split_lines: "\<forall>l\<in>set ls. NL \<notin> set l \<Longrightarrow> Split NL (concat (map (\<lambda>l. l @ [NL]) ls)) = ls @ ['''']"
  by (induction ls) (simp_all add: Split_append_sep)

lemma kv_prefix:
  assumes "CHR ''='' \<notin> set k" and "CHR ''='' \<notin> set key"
  shows "HasPrefix (kv (k, v)) (key @ ''='') \<longleftrightarrow> k = key"
proof
  assume "HasPrefix (kv (k, v)) (key @ ''='')"
  then obtain t where "k @ ''='' @ v = key @ ''='' @ t" by (auto simp: HasPrefix_iff kv_def)
  then have "takeWhile (\<lambda>c. c \<noteq> CHR ''='') (k @ ''='' @ v) = takeWhile (\<lambda>c. c \<noteq> CHR ''='') (key @ ''='' @ t)" by simp
  moreover have "takeWhile (\<lambda>c. c \<noteq> CHR ''='') (w @ ''='' @ r) = w" if "CHR ''='' \<notin> set w" for w r
    using that by (induction w) auto
  ultimately show "k = key" using assms by metis
qed (simp add: kv_def HasPrefix_iff)

lemma SplitN2_kv: "CHR ''='' \<notin> set k \<Longrightarrow> SplitN2 (kv (k, v)) = (k, v)"
  by (induction k) (auto simp: SplitN2_def kv_def)

lemma no_space_append: "no_space (a @ b) \<longleftrightarrow> no_space a \<and> no_space b"
  by (auto simp: no_space_def)

lemma no_space_NL: "no_space s \<Longrightarrow> NL \<notin> set s"
  by (auto simp: no_space_def)

lemma digit_char_no_space: "d < 16 \<Longrightarrow> digit_char d \<notin> set space_chars"
proof
  assume "d < 16" "digit_char d \<in> set space_chars"
  then have "of_char (digit_char d) \<in> (of_char ` set space_chars :: nat set)" by (metis imageI)
  with \<open>d < 16\<close> show False by (auto simp: of_char_digit_char split: if_splits)
qed

lemma no_space_hex: "no_space (EncodeToString bs)"
proof -
  have "no_space (hex_byte b)" for b
    using digit_char_no_space [of "unat b div 16"] digit_char_no_space [of "unat b mod 16"]
      unsigned_less [of b, where ?'a = nat]
    by (auto simp: hex_byte_def no_space_def)
  then show ?thesis by (induction bs) (auto simp: EncodeToString_def no_space_append no_space_def)
qed

lemma no_space_digits: "\<forall>c\<in>set s. is_digit c \<Longrightarrow> no_space s"
  by (auto simp: no_space_def)

lemma no_space_hexes: "\<forall>c\<in>set s. is_hex c \<or> c = CHR '':'' \<Longrightarrow> no_space s"
proof -
  have "\<not> is_hex c" if "c \<in> set space_chars" for c
    using that by (auto simp: is_hex_def hex_digit_def)
  moreover have "CHR '':'' \<notin> set space_chars" by simp
  moreover assume "\<forall>c\<in>set s. is_hex c \<or> c = CHR '':''"
  ultimately show ?thesis unfolding no_space_def by blast
qed

lemma no_space_net:
  assumes "proper_net n" shows "no_space (IPNet_String n)"
  using assms unfolding proper_net_def
proof (elim disjE exE conjE)
  fix k assume k: "k \<le> 32" and len: "length (net_IP n) = 4" and m: "net_Mask n = CIDRMask k 4"
  obtain a b c d where ip: "net_IP n = [a, b, c, d]"
    using len by (auto simp: length_Suc_conv numeral_eq_Suc)
  have "no_space (dotted (net_IP n))"
    using no_space_digits [OF decimal_digits] by (simp add: ip dotted_def no_space_append) (simp add: no_space_def)
  then show ?thesis
    using k len m simpleMaskLength_CIDRMask [of k 4] no_space_digits [OF decimal_digits, of k]
    by (auto simp: IPNet_String_def networkNumberAndMask_def To4_def IP_String_def no_space_append)
      (simp add: no_space_def)+
next
  fix k assume k: "k \<le> 128" and len: "length (net_IP n) = 16" "To4 (net_IP n) = None"
    and m: "net_Mask n = CIDRMask k 16"
  have "no_space (v6string (net_IP n))" by (rule no_space_hexes) (use v6string_chars in blast)
  then show ?thesis
    using k len m simpleMaskLength_CIDRMask [of k 16] no_space_digits [OF decimal_digits, of k]
    by (auto simp: IPNet_String_def networkNumberAndMask_def IP_String_def no_space_append)
      (simp add: no_space_def)+
qed

lemma no_space_lines:
  "no_space (kv (''public_key'', EncodeToString k))" "proper_net n \<Longrightarrow> no_space (kv (''allowed_ip'', IPNet_String n))"
  using no_space_hex [of k] no_space_net [of n] by (simp_all add: kv_def no_space_append) (simp_all add: no_space_def)

lemma hex_inj: "EncodeToString xs = EncodeToString ys \<longleftrightarrow> xs = ys"
proof
  have len: "length (EncodeToString zs) = 2 * length zs" for zs
    by (induction zs) (simp_all add: EncodeToString_def hex_byte_def)
  assume eq: "EncodeToString xs = EncodeToString ys"
  with len [of xs] len [of ys] have "length xs = length ys" by simp
  then show "xs = ys" using eq by (rule EncodeToString_inj)
qed simp

text \<open>How one line looks to the scanning loops.\<close>

lemma setting_line:
  assumes "setting_ok x"
  shows "TrimSpace (kv x) = kv x" "\<not> HasPrefix (kv x) ''public_key=''" "\<not> HasPrefix (kv x) ''allowed_ip=''"
    "kv x \<noteq> ''public_key='' @ h" "kv x \<noteq> ''allowed_ip='' @ h"
proof -
  obtain k v where x: "x = (k, v)" by fastforce
  have k: "CHR ''='' \<notin> set k" "k \<noteq> ''public_key''" "k \<noteq> ''allowed_ip''" "no_space (kv x)"
    using assms by (simp_all add: setting_ok_def x)
  show "TrimSpace (kv x) = kv x" using k(4) by (rule TrimSpace_id)
  show p: "\<not> HasPrefix (kv x) ''public_key=''" "\<not> HasPrefix (kv x) ''allowed_ip=''"
    using kv_prefix [OF k(1), of "''public_key''" v] kv_prefix [OF k(1), of "''allowed_ip''" v] k(2,3)
    by (simp_all add: x)
  show "kv x \<noteq> ''public_key='' @ h" "kv x \<noteq> ''allowed_ip='' @ h"
    using p HasPrefix_append by metis+
qed

lemma key_line:
  "TrimSpace (kv (''public_key'', EncodeToString k)) = kv (''public_key'', EncodeToString k)"
  "HasPrefix (kv (''public_key'', h)) ''public_key=''" "\<not> HasPrefix (kv (''public_key'', h)) ''allowed_ip=''"
  "kv (''public_key'', h) = ''public_key='' @ h'  \<longleftrightarrow> h = h'" "kv (''public_key'', h) \<noteq> ''allowed_ip='' @ h'"
  using TrimSpace_id [OF no_space_lines(1)] by (simp_all add: kv_def)

lemma ip_line:
  "proper_net n \<Longrightarrow> TrimSpace (kv (''allowed_ip'', IPNet_String n)) = kv (''allowed_ip'', IPNet_String n)"
  "\<not> HasPrefix (kv (''allowed_ip'', h)) ''public_key=''" "HasPrefix (kv (''allowed_ip'', h)) ''allowed_ip=''"
  "kv (''allowed_ip'', h) = ''allowed_ip='' @ h' \<longleftrightarrow> h = h'" "kv (''allowed_ip'', h) \<noteq> ''public_key='' @ h'"
  "TrimPrefix (kv (''allowed_ip'', h)) ''allowed_ip='' = h"
  using TrimSpace_id [OF no_space_lines(2)] TrimPrefix_append [of "''allowed_ip=''" h] by (simp_all add: kv_def)

lemmas line_facts =
  setting_line setting_line(4,5) [unfolded append.simps] key_line(1-3) key_line(4,5) [unfolded append.simps]
  ip_line(1-3,6) ip_line(4,5) [unfolded append.simps]

section \<open>Removing an allowed address from a device's text\<close>

lemma remove_settings:
  "list_all setting_ok xs \<Longrightarrow>
     remove_loop hk ip (map kv xs @ rest) found removed ips = remove_loop hk ip rest found removed ips"
  by (induction xs) (simp_all add: line_facts Let_def)

lemma remove_other_ips:
  "list_all proper_net ns \<Longrightarrow>
     remove_loop hk ip (map (\<lambda>n. kv (''allowed_ip'', IPNet_String n)) ns @ rest) False removed ips
       = remove_loop hk ip rest False removed ips"
  by (induction ns) (simp_all add: line_facts Let_def)

lemma remove_own_ips:
  "list_all proper_net ns \<Longrightarrow>
     remove_loop hk ip (map (\<lambda>n. kv (''allowed_ip'', IPNet_String n)) ns @ rest) True removed ips
       = remove_loop hk ip rest True (removed \<or> (\<exists>n\<in>set ns. IPNet_String n = ip))
           (ips @ filter (\<lambda>n. IPNet_String n \<noteq> ip) ns)"
proof (induction ns arbitrary: removed ips)
  case (Cons n ns)
  obtain a where "ParseCIDR (IPNet_String n) = Inr (a, n)" using ParseCIDR_IPNet_String Cons.prems by auto
  with Cons show ?case by (auto simp: line_facts Let_def)
qed simp

lemma remove_other_peer:
  assumes "list_all setting_ok (pd_settings p)" and "list_all proper_net (pd_ips p)" and "EncodeToString (pd_key p) \<noteq> hk"
  shows "remove_loop hk ip (peer_lines p @ rest) found removed ips = remove_loop hk ip rest False removed ips"
  using assms by (simp add: peer_lines_def line_facts Let_def remove_settings remove_other_ips)

lemma remove_own_peer:
  assumes "list_all setting_ok (pd_settings p)" and "list_all proper_net (pd_ips p)"
  shows "remove_loop (EncodeToString (pd_key p)) ip (peer_lines p @ rest) found removed ips
       = remove_loop (EncodeToString (pd_key p)) ip rest True (removed \<or> (\<exists>n\<in>set (pd_ips p). IPNet_String n = ip))
           (ips @ filter (\<lambda>n. IPNet_String n \<noteq> ip) (pd_ips p))"
  using assms by (simp add: peer_lines_def line_facts Let_def remove_settings remove_own_ips)

lemma remove_other_peers:
  "list_all (\<lambda>p. list_all setting_ok (pd_settings p) \<and> list_all proper_net (pd_ips p)) ps \<Longrightarrow>
   \<forall>p\<in>set ps. EncodeToString (pd_key p) \<noteq> hk \<Longrightarrow>
     remove_loop hk ip (concat (map peer_lines ps) @ rest) found removed ips
       = remove_loop hk ip rest (if ps = [] then found else False) removed ips"
  by (induction ps arbitrary: found) (simp_all add: remove_other_peer)

lemma remove_last_line: "remove_loop hk ip [''''] found removed ips = Inr (removed, ips)"
  by (simp add: TrimSpace_def Let_def)

lemma dump_lines:
  assumes "dump_ok settings peers"
  shows "Split NL (device_dump settings peers) = map kv settings @ concat (map peer_lines peers) @ ['''']"
proof -
  have "NL \<notin> set l" if "l \<in> set (map kv settings @ concat (map peer_lines peers))" for l
    using that assms no_space_lines
    by (intro no_space_NL) (auto simp: dump_ok_def peer_lines_def list_all_iff setting_ok_def)
  then show ?thesis unfolding device_dump_def by (subst Split_lines) auto
qed

lemma remove_dump:
  assumes "dump_ok settings (ps @ p # qs)"
  shows "remove_loop (EncodeToString (pd_key p)) ip (Split NL (device_dump settings (ps @ p # qs))) False False []
       = Inr (\<exists>n\<in>set (pd_ips p). IPNet_String n = ip, filter (\<lambda>n. IPNet_String n \<noteq> ip) (pd_ips p))"
proof -
  have ok: "list_all setting_ok settings" "list_all setting_ok (pd_settings p)" "list_all proper_net (pd_ips p)"
    "list_all (\<lambda>p. list_all setting_ok (pd_settings p) \<and> list_all proper_net (pd_ips p)) ps"
    "list_all (\<lambda>p. list_all setting_ok (pd_settings p) \<and> list_all proper_net (pd_ips p)) qs"
    and other: "\<forall>q\<in>set ps. EncodeToString (pd_key q) \<noteq> EncodeToString (pd_key p)"
      "\<forall>q\<in>set qs. EncodeToString (pd_key q) \<noteq> EncodeToString (pd_key p)"
    using assms by (auto simp: dump_ok_def hex_inj image_iff)
  have "remove_loop (EncodeToString (pd_key p)) ip (Split NL (device_dump settings (ps @ p # qs))) False False []
      = remove_loop (EncodeToString (pd_key p)) ip (peer_lines p @ concat (map peer_lines qs) @ ['''']) False False []"
    using remove_settings [OF ok(1)] remove_other_peers [OF ok(4) other(1)]
    by (simp add: dump_lines [OF assms])
  then show ?thesis
    by (simp add: remove_own_peer [OF ok(2,3)] remove_other_peers [OF ok(5) other(2)] remove_last_line
        del: remove_loop.simps)
qed

section \<open>Finding a peer's settings\<close>

lemma collect_settings:
  "setting_ok x \<Longrightarrow> \<forall>k\<in>set keys. CHR ''='' \<notin> set k \<Longrightarrow>
     gm_get (collect_keys keys found (kv x) m) k =
       (if found \<and> k = fst x \<and> k \<in> set keys then Some (snd x) else gm_get m k)"
proof (induction keys arbitrary: m)
  case (Cons key keys)
  obtain kx v where x: "x = (kx, v)" by fastforce
  have "CHR ''='' \<notin> set kx" using Cons.prems(1) by (simp add: setting_ok_def x)
  with Cons kv_prefix [of kx key v] show ?case by (auto simp: x SplitN2_kv)
qed simp

lemma collect_not_found: "collect_keys keys False line m = m"
  by (induction keys arbitrary: m) simp_all

lemma collect_other_line:
  "\<forall>k\<in>set keys. CHR ''='' \<notin> set k \<Longrightarrow> CHR ''='' \<notin> set h \<Longrightarrow> h \<notin> set keys \<Longrightarrow>
     collect_keys keys found (kv (h, v)) m = m"
  using kv_prefix [of h _ v] by (induction keys arbitrary: m) auto

lemma find_other:
  assumes "list_all setting_ok (pd_settings p)" and "list_all proper_net (pd_ips p)" and "EncodeToString (pd_key p) \<noteq> hk"
  shows "find_loop hk keys (peer_lines p @ rest) False m = find_loop hk keys rest False m"
proof -
  have s: "list_all setting_ok xs \<Longrightarrow> find_loop hk keys (map kv xs @ r) False m = find_loop hk keys r False m" for xs r
    by (induction xs) (simp_all add: line_facts Let_def collect_not_found)
  have i: "list_all proper_net ns \<Longrightarrow>
      find_loop hk keys (map (\<lambda>n. kv (''allowed_ip'', IPNet_String n)) ns @ r) False m = find_loop hk keys r False m" for ns r
    by (induction ns) (simp_all add: line_facts Let_def collect_not_found)
  show ?thesis using assms by (simp add: peer_lines_def line_facts Let_def collect_not_found s i)
qed

lemma find_others:
  "list_all (\<lambda>p. list_all setting_ok (pd_settings p) \<and> list_all proper_net (pd_ips p)) ps \<Longrightarrow>
   \<forall>p\<in>set ps. EncodeToString (pd_key p) \<noteq> hk \<Longrightarrow>
     find_loop hk keys (concat (map peer_lines ps) @ rest) False m = find_loop hk keys rest False m"
  by (induction ps) (simp_all add: find_other)

lemma find_header:
  "list_all setting_ok xs \<Longrightarrow> find_loop hk keys (map kv xs @ rest) False m = find_loop hk keys rest False m"
  by (induction xs) (simp_all add: line_facts Let_def collect_not_found)

lemma find_own_settings:
  "list_all setting_ok xs \<Longrightarrow> \<forall>k\<in>set keys. CHR ''='' \<notin> set k \<Longrightarrow>
     \<exists>m'. (\<forall>rest. find_loop hk keys (map kv xs @ rest) True m = find_loop hk keys rest True m')
        \<and> (\<forall>k\<in>set keys. gm_get m' k = (case map_of (rev xs) k of Some v \<Rightarrow> Some v | None \<Rightarrow> gm_get m k))"
proof (induction xs arbitrary: m)
  case (Cons x xs)
  from Cons.IH [of "collect_keys keys True (kv x) m"] Cons.prems obtain m' where
    m': "\<forall>rest. find_loop hk keys (map kv xs @ rest) True (collect_keys keys True (kv x) m) = find_loop hk keys rest True m'"
      "\<forall>k\<in>set keys. gm_get m' k = (case map_of (rev xs) k of Some v \<Rightarrow> Some v
         | None \<Rightarrow> gm_get (collect_keys keys True (kv x) m) k)" by auto
  have "\<forall>rest. find_loop hk keys (map kv (x # xs) @ rest) True m = find_loop hk keys rest True m'"
    using m'(1) Cons.prems(1) by (simp add: line_facts Let_def)
  moreover have "\<forall>k\<in>set keys. gm_get m' k = (case map_of (rev (x # xs)) k of Some v \<Rightarrow> Some v | None \<Rightarrow> gm_get m k)"
    using m'(2) collect_settings [of x keys True m] Cons.prems
    by (auto simp: map_add_def split: option.splits)
  ultimately show ?case by blast
qed auto

lemma find_own_ips:
  "list_all proper_net ns \<Longrightarrow> \<forall>k\<in>set keys. CHR ''='' \<notin> set k \<Longrightarrow> ''allowed_ip'' \<notin> set keys \<Longrightarrow>
     find_loop hk keys (map (\<lambda>n. kv (''allowed_ip'', IPNet_String n)) ns @ rest) True m = find_loop hk keys rest True m"
  by (induction ns) (simp_all add: line_facts Let_def collect_other_line)

lemma find_stops:
  assumes "\<forall>k\<in>set keys. CHR ''='' \<notin> set k"
  shows "find_loop hk keys (concat (map peer_lines qs) @ ['''']) True m = (True, m)"
proof (cases qs)
  case Nil
  have "collect_keys ks True '''' m = m" for ks
    by (induction ks) (simp_all split: list.splits, metis HasPrefix.simps(2) append_is_Nil_conv list.exhaust not_Cons_self2)
  then show ?thesis by (simp add: Nil TrimSpace_def)
next
  case (Cons q qs)
  then show ?thesis by (simp add: peer_lines_def line_facts)
qed

lemma find_dump:
  assumes "dump_ok settings (ps @ p # qs)" and "\<forall>k\<in>set keys. CHR ''='' \<notin> set k"
    and "''public_key'' \<notin> set keys" and "''allowed_ip'' \<notin> set keys"
  shows "\<exists>m. find_loop (EncodeToString (pd_key p)) keys (Split NL (device_dump settings (ps @ p # qs))) False [] = (True, m)
       \<and> (\<forall>k\<in>set keys. gm_get m k = map_of (rev (pd_settings p)) k)"
proof -
  let ?hk = "EncodeToString (pd_key p)"
  have ok: "list_all setting_ok settings" "list_all setting_ok (pd_settings p)" "list_all proper_net (pd_ips p)"
    "list_all (\<lambda>p. list_all setting_ok (pd_settings p) \<and> list_all proper_net (pd_ips p)) ps"
    and other: "\<forall>q\<in>set ps. EncodeToString (pd_key q) \<noteq> ?hk"
    using assms by (auto simp: dump_ok_def hex_inj image_iff)
  obtain m where m: "\<forall>rest. find_loop ?hk keys (map kv (pd_settings p) @ rest) True [] = find_loop ?hk keys rest True m"
      "\<forall>k\<in>set keys. gm_get m k = map_of (rev (pd_settings p)) k"
  proof -
    have "(case x of None \<Rightarrow> gm_get [] k | Some v \<Rightarrow> Some v) = x" for x :: "string option" and k :: string
      by (cases x) simp_all
    with find_own_settings [OF ok(2) assms(2), of ?hk "[]"] that show thesis by metis
  qed
  have "find_loop ?hk keys (Split NL (device_dump settings (ps @ p # qs))) False []
      = find_loop ?hk keys (peer_lines p @ concat (map peer_lines qs) @ ['''']) False []"
    using find_header [OF ok(1)] find_others [OF ok(4) other] by (simp add: dump_lines [OF assms(1)])
  also have "\<dots> = find_loop ?hk keys (concat (map peer_lines qs) @ ['''']) True m"
    using m(1) find_own_ips [OF ok(3) assms(2,4)] collect_other_line [OF assms(2) _ assms(3)]
    by (simp add: peer_lines_def line_facts Let_def)
  also have "\<dots> = (True, m)" using assms(2) by (rule find_stops)
  finally show ?thesis using m(2) by blast
qed

lemma find_unknown:
  assumes "dump_ok settings peers" and "\<forall>p\<in>set peers. pd_key p \<noteq> key"
  shows "find_loop (EncodeToString key) keys (Split NL (device_dump settings peers)) False [] = (False, [])"
  using assms find_header [of settings] find_others [of peers]
  by (simp add: dump_lines dump_ok_def hex_inj TrimSpace_def Let_def collect_not_found)

lemma ParseInt64_decimal: "n < 2 ^ 63 \<Longrightarrow> ParseInt64 (decimal n) = Inr (int n)"
proof -
  assume n: "n < 2 ^ 63"
  obtain c r where d: "decimal n = c # r" by (cases "decimal n") simp_all
  have digits: "list_all is_digit (decimal n)" using decimal_digits by (simp add: list_all_iff)
  then have "is_digit c" by (simp add: d)
  then have "c \<noteq> CHR ''-''" "c \<noteq> CHR ''+''" by auto
  moreover have "int n < 2 ^ 63" using n by (metis of_nat_less_iff of_nat_numeral of_nat_power)
  moreover have "- (2 ^ 63) \<le> int n" by (rule order_trans [of _ 0]) simp_all
  moreover have "list_all is_digit (c # r)" "dec_val (c # r) = n" using digits d dec_val_decimal [of n] by simp_all
  ultimately show ?thesis unfolding d by (simp add: ParseInt64_def)
qed

section \<open>Properties\<close>

definition demo_net :: "byte \<Rightarrow> IPNet" where
  "demo_net b = \<lparr>net_IP = [10, 0, 0, b], net_Mask = CIDRMask 32 4\<rparr>"

lemma demo_net_proper: "proper_net (demo_net b)"
proof -
  have "(255 :: byte) = - 1" by simp
  then have "b AND 255 = b" by (metis and.right_neutral)
  then show ?thesis
    unfolding proper_net_def
    by (intro disjI1 exI [of _ 32]) (simp add: demo_net_def IP_Mask_def numeral_eq_Suc)
qed

definition demo_peer :: "byte \<Rightarrow> byte list \<Rightarrow> peer_dump" where
  "demo_peer k ips = \<lparr>pd_key = replicate 32 k,
     pd_settings = [(''last_handshake_time_sec'', decimal 7), (''last_handshake_time_nsec'', decimal 8),
       (''tx_bytes'', decimal 100), (''rx_bytes'', decimal 200)], pd_ips = map demo_net ips\<rparr>"

lemma no_space_setting:
  assumes "no_space k" shows "no_space (kv (k, decimal n))"
proof -
  have "no_space ''=''" by (simp add: no_space_def)
  then show ?thesis using assms no_space_digits [OF decimal_digits, of n] by (simp only: kv_def no_space_append fst_conv snd_conv)
qed

lemma demo_dump_ok: "dump_ok [] [demo_peer 1 [1], demo_peer 2 [2, 3], demo_peer 3 []]"
proof -
  have "list_all setting_ok (pd_settings (demo_peer k ips))" for k ips
    unfolding demo_peer_def peer_dump.simps list.pred_inject setting_ok_def
    by (intro conjI no_space_setting) (simp_all add: no_space_def)
  then show ?thesis by (simp add: dump_ok_def demo_net_proper) (simp add: demo_peer_def demo_net_proper)
qed

definition text_device :: "(string \<times> string list) wgDevice" where
  "text_device = \<lparr>IpcSet = (\<lambda>s d. (None, (fst d, snd d @ [s]))), IpcGet = (\<lambda>d. Inr (fst d))\<rparr>"

definition demo_dump :: string where
  "demo_dump = device_dump [] ([demo_peer 1 [1]] @ demo_peer 2 [2, 3] # [demo_peer 3 []])"

text \<open>C25. Removing an allowed address in user space: on a device that reports its peers in the
  documented form, the peer's allowed addresses are replaced by exactly the others it had, in their
  order, and those of other peers, which may hold the same address, are neither read nor sent; when
  the peer does not have the address nothing is sent and the error says so.\<close>

theorem removeAllowedIP_removes_one:
  assumes "IpcGet V d = Inr (device_dump settings (ps @ p # qs))" and "dump_ok settings (ps @ p # qs)"
    and "ParseKey peerKey = Inr (pd_key p)"
  shows "usp_removeAllowedIP ParseKey V peerKey ip d =
     (if \<exists>n\<in>set (pd_ips p). IPNet_String n = ip
      then IpcSet V (toWgUserspaceString (replace_conf (pd_key p)
             (filter (\<lambda>n. IPNet_String n \<noteq> ip) (pd_ips p)))) d
      else (Some ErrAllowedIPNotFound, d))"
  using assms remove_dump [OF assms(2), of ip] by (simp add: usp_removeAllowedIP_def del: remove_loop.simps)

theorem removeAllowedIP_removes_one_witness:
  "usp_removeAllowedIP (\<lambda>_. Inr (replicate 32 2)) text_device ''k'' (IPNet_String (demo_net 2)) (demo_dump, [])
     = (None, (demo_dump, [toWgUserspaceString (replace_conf (replicate 32 2)
          (filter (\<lambda>n. IPNet_String n \<noteq> IPNet_String (demo_net 2)) [demo_net 2, demo_net 3]))]))"
proof -
  have "IpcGet text_device (demo_dump, []) = Inr (device_dump [] ([demo_peer 1 [1]] @ demo_peer 2 [2, 3] # [demo_peer 3 []]))"
    by (simp add: text_device_def demo_dump_def)
  moreover have "dump_ok [] ([demo_peer 1 [1]] @ demo_peer 2 [2, 3] # [demo_peer 3 []])" using demo_dump_ok by simp
  moreover have "(\<lambda>_. Inr (replicate 32 2)) ''k'' = Inr (pd_key (demo_peer 2 [2, 3]))" by (simp add: demo_peer_def)
  ultimately have "usp_removeAllowedIP (\<lambda>_. Inr (replicate 32 2)) text_device ''k'' (IPNet_String (demo_net 2)) (demo_dump, [])
      = (if \<exists>n\<in>set (pd_ips (demo_peer 2 [2, 3])). IPNet_String n = IPNet_String (demo_net 2)
         then IpcSet text_device (toWgUserspaceString (replace_conf (pd_key (demo_peer 2 [2, 3]))
             (filter (\<lambda>n. IPNet_String n \<noteq> IPNet_String (demo_net 2)) (pd_ips (demo_peer 2 [2, 3]))))) (demo_dump, [])
         else (Some ErrAllowedIPNotFound, (demo_dump, [])))"
    by (rule removeAllowedIP_removes_one)
  moreover have "pd_ips (demo_peer 2 [2, 3]) = [demo_net 2, demo_net 3]" "pd_key (demo_peer 2 [2, 3]) = replicate 32 2"
    by (simp_all only: demo_peer_def peer_dump.simps list.map)
  ultimately show ?thesis by (simp only: list.set bex_simps simp_thms if_True) (simp add: text_device_def)
qed

text \<open>The statistics of a peer are its own: on a device that reports its peers in the documented
  form, the handshake time and the byte counts returned are the ones reported for that very peer,
  whatever the peers before and after it report, and asking for a peer the device does not have is
  an error about the first missing setting, not the error for an unknown peer.\<close>

theorem getStats_reads_own_peer:
  assumes "IpcGet V d = Inr (device_dump settings peers)" and "dump_ok settings peers"
    and "ParseKey peerKey = Inr key"
  shows "(\<forall>p\<in>set peers. \<forall>sec nsec tx rx. pd_key p = key \<longrightarrow> sec < 2 ^ 63 \<longrightarrow> nsec < 2 ^ 63 \<longrightarrow> tx < 2 ^ 63 \<longrightarrow> rx < 2 ^ 63 \<longrightarrow>
            map_of (rev (pd_settings p)) ''last_handshake_time_sec'' = Some (decimal sec) \<longrightarrow>
            map_of (rev (pd_settings p)) ''last_handshake_time_nsec'' = Some (decimal nsec) \<longrightarrow>
            map_of (rev (pd_settings p)) ''tx_bytes'' = Some (decimal tx) \<longrightarrow>
            map_of (rev (pd_settings p)) ''rx_bytes'' = Some (decimal rx) \<longrightarrow>
            usp_getStats ParseKey V peerKey d =
              Inr \<lparr>LastHandshake = (int sec, int nsec), TxBytes = int tx, RxBytes = int rx\<rparr>)
       \<and> ((\<forall>p\<in>set peers. pd_key p \<noteq> key) \<longrightarrow>
            usp_getStats ParseKey V peerKey d =
              Inl (Wrapf ''find peer info'' (Errorf ''config key not found: last_handshake_time_sec'')))"
proof (intro conjI ballI allI impI)
  let ?keys = "[''last_handshake_time_sec'', ''last_handshake_time_nsec'', ''tx_bytes'', ''rx_bytes'']"
  fix p sec nsec tx rx
  assume p: "p \<in> set peers" "pd_key p = key" and small: "sec < 2 ^ 63" "nsec < 2 ^ 63" "tx < 2 ^ 63" "rx < 2 ^ 63"
    and vals: "map_of (rev (pd_settings p)) ''last_handshake_time_sec'' = Some (decimal sec)"
      "map_of (rev (pd_settings p)) ''last_handshake_time_nsec'' = Some (decimal nsec)"
      "map_of (rev (pd_settings p)) ''tx_bytes'' = Some (decimal tx)"
      "map_of (rev (pd_settings p)) ''rx_bytes'' = Some (decimal rx)"
  obtain ps qs where peers: "peers = ps @ p # qs" using split_list [OF p(1)] by blast
  obtain m where m: "find_loop (EncodeToString key) ?keys (Split NL (device_dump settings peers)) False [] = (True, m)"
      "\<forall>k\<in>set ?keys. gm_get m k = map_of (rev (pd_settings p)) k"
    using find_dump [OF assms(2) [unfolded peers], of ?keys] p(2) by (auto simp: peers)
  have "gm_get m ''last_handshake_time_sec'' = Some (decimal sec)" "gm_get m ''last_handshake_time_nsec'' = Some (decimal nsec)"
    "gm_get m ''tx_bytes'' = Some (decimal tx)" "gm_get m ''rx_bytes'' = Some (decimal rx)"
    using m(2) vals by simp_all
  with m(1) assms(1,3) ParseInt64_decimal [OF small(1)] ParseInt64_decimal [OF small(2)]
    ParseInt64_decimal [OF small(3)] ParseInt64_decimal [OF small(4)]
  show "usp_getStats ParseKey V peerKey d = Inr \<lparr>LastHandshake = (int sec, int nsec), TxBytes = int tx, RxBytes = int rx\<rparr>"
    by (simp add: usp_getStats_def findPeerInfo_def map_at_def del: find_loop.simps)
next
  assume "\<forall>p\<in>set peers. pd_key p \<noteq> key"
  from find_unknown [OF assms(2) this] assms(1,3)
  show "usp_getStats ParseKey V peerKey d =
      Inl (Wrapf ''find peer info'' (Errorf ''config key not found: last_handshake_time_sec''))"
    by (simp add: usp_getStats_def findPeerInfo_def del: find_loop.simps)
qed

theorem getStats_reads_own_peer_witness:
  "usp_getStats (\<lambda>_. Inr (replicate 32 2)) text_device ''k'' (demo_dump, [])
     = Inr \<lparr>LastHandshake = (7, 8), TxBytes = 100, RxBytes = 200\<rparr>"
proof -
  let ?peers = "[demo_peer 1 [1], demo_peer 2 [2, 3], demo_peer 3 []]"
  have "IpcGet text_device (demo_dump, []) = Inr (device_dump [] ?peers)" by (simp add: text_device_def demo_dump_def)
  from getStats_reads_own_peer [where V = text_device and peerKey = "''k''" and key = "replicate 32 2", OF this demo_dump_ok, THEN conjunct1,
      THEN bspec [of _ _ "demo_peer 2 [2, 3]"], THEN spec [of _ 7], THEN spec [of _ 8], THEN spec [of _ 100], THEN spec [of _ 200]]
  show ?thesis by (simp add: demo_peer_def)
qed

end
