(* ===== verification/Device_Wrapper.thy ===== *)
theory Device_Wrapper
  imports Punch_Prelude
begin

text \<open>
  The filtering TUN device (\<^verbatim>\<open>iface/device_wrapper.go\<close>).  The packet buffers belong to the caller and
  are shared, so a buffer is a reference and its content is a function of it; the caller's slice
  of buffers is the array behind it, which the in-place deletions of \<^verbatim>\<open>Read\<close> write to.  The wrapped
  device and the packet filter are parameters.
\<close>

section \<open>Definitions\<close>

record PacketFilter =
  DropOutgoing :: "bytes \<Rightarrow> bool"
  DropIncoming :: "bytes \<Rightarrow> bool"

record DeviceWrapper =
  dw_filter :: "PacketFilter option"

definition newDeviceWrapper :: DeviceWrapper where
  "newDeviceWrapper = \<lparr>dw_filter = None\<rparr>"

definition SetFilter :: "PacketFilter option \<Rightarrow> DeviceWrapper \<Rightarrow> DeviceWrapper" where
  "SetFilter f d = d\<lparr>dw_filter := f\<rparr>"

text \<open>
  \<^verbatim>\<open>append(s[:i], s[i+1:]...)\<close> on a slice of length \<open>len\<close> over the array \<open>arr\<close>: the elements after
  \<open>i\<close> move down one place and the last place keeps its value.
\<close>

definition delete_at :: "nat \<Rightarrow> nat \<Rightarrow> 'a list \<Rightarrow> 'a list" where
  "delete_at i len arr = take i arr @ drop (Suc i) (take len arr) @ drop (len - 1) arr"

text \<open>
  The loop of \<^verbatim>\<open>Read\<close>: \<open>i\<close> is the loop variable, \<open>n\<close> the number of packets, \<open>len\<close> the length of both
  slices.  A packet outside its buffer panics.
\<close>

function read_loop ::
  "PacketFilter \<Rightarrow> (nat \<Rightarrow> bytes) \<Rightarrow> nat \<Rightarrow> nat \<Rightarrow> nat \<Rightarrow> nat \<Rightarrow> nat list \<Rightarrow> int list
     \<Rightarrow> error + nat \<times> nat list \<times> int list" where
  "read_loop f content offset i n len bufs sizes =
     (if i < n
      then if len \<le> i \<or> sizes ! i < 0 \<or> int (length (content (bufs ! i))) < int offset + sizes ! i
           then Inl (Panic ''slice bounds out of range'')
           else if DropOutgoing f (take (nat (sizes ! i)) (drop offset (content (bufs ! i))))
           then read_loop f content offset i (n - 1) (len - 1) (delete_at i len bufs) (delete_at i len sizes)
           else read_loop f content offset (Suc i) n len bufs sizes
      else Inr (n, bufs, sizes))"
  by auto
termination
  by (relation "measure (\<lambda>(_, _, _, i, n, _). n - i)") auto

declare read_loop.simps [simp del]

text \<open>\<open>res\<close> is what the device's \<^verbatim>\<open>Read\<close> returned: the count, and the contents and sizes it filled in.\<close>

definition wrapper_Read ::
  "DeviceWrapper \<Rightarrow> nat \<Rightarrow> nat list \<Rightarrow> (error + nat \<times> (nat \<Rightarrow> bytes) \<times> int list)
     \<Rightarrow> error + nat \<times> nat list \<times> int list" where
  "wrapper_Read d offset bufs res =
     (case res of
        Inl err \<Rightarrow> Inl err
      | Inr (n, content, sizes) \<Rightarrow>
          (case dw_filter d of
             None \<Rightarrow> Inr (n, bufs, sizes)
           | Some f \<Rightarrow> read_loop f content offset 0 n (length bufs) bufs sizes))"

fun write_loop ::
  "PacketFilter \<Rightarrow> nat \<Rightarrow> bytes list \<Rightarrow> bytes list \<Rightarrow> nat \<Rightarrow> error + bytes list \<times> nat" where
  "write_loop f offset [] filteredBufs dropped = Inr (filteredBufs, dropped)"
| "write_loop f offset (buf # bufs) filteredBufs dropped =
     (if length buf < offset then Inl (Panic ''slice bounds out of range'')
      else if \<not> DropIncoming f (drop offset buf)
      then write_loop f offset bufs (filteredBufs @ [buf]) (Suc dropped)
      else write_loop f offset bufs filteredBufs dropped)"

text \<open>\<open>Write\<close> is the device's; the result is the count with the error, and the device.\<close>

definition wrapper_Write ::
  "(bytes list \<Rightarrow> nat \<Rightarrow> 's \<Rightarrow> (int \<times> error option) \<times> 's) \<Rightarrow> DeviceWrapper \<Rightarrow> bytes list \<Rightarrow> nat \<Rightarrow> 's
     \<Rightarrow> error + (int \<times> error option) \<times> 's" where
  "wrapper_Write Write d bufs offset s =
     (case dw_filter d of
        None \<Rightarrow> Inr (Write bufs offset s)
      | Some f \<Rightarrow>
          (case write_loop f offset bufs [] 0 of
             Inl err \<Rightarrow> Inl err
           | Inr (filteredBufs, dropped) \<Rightarrow>
               let ((n, err), s) = Write filteredBufs offset s
               in Inr ((n + int dropped, err), s)))"

section \<open>Lemmas\<close>

text \<open>A packet of the batch: its buffer and its size.\<close>

definition kept :: "PacketFilter \<Rightarrow> (nat \<Rightarrow> bytes) \<Rightarrow> nat \<Rightarrow> nat \<times> int \<Rightarrow> bool" where
  "kept f content offset = (\<lambda>(b, s). \<not> DropOutgoing f (take (nat s) (drop offset (content b))))"

definition in_buffer :: "(nat \<Rightarrow> bytes) \<Rightarrow> nat \<Rightarrow> nat \<times> int \<Rightarrow> bool" where
  "in_buffer content offset = (\<lambda>(b, s). 0 \<le> s \<and> int offset + s \<le> int (length (content b)))"

lemma length_delete_at [simp]: "i < len \<Longrightarrow> len \<le> length arr \<Longrightarrow> length (delete_at i len arr) = length arr"
  by (simp add: delete_at_def)

lemma take_delete_at:
  "i < n \<Longrightarrow> n \<le> len \<Longrightarrow> len \<le> length arr \<Longrightarrow>
     take (n - 1) (delete_at i len arr) = take i arr @ drop (Suc i) (take n arr)"
  by (cases "n = Suc i") (auto simp: delete_at_def min_def drop_take)

lemma last_delete_at:
  "i < len \<Longrightarrow> len \<le> length arr \<Longrightarrow> delete_at i len arr ! (length arr - 1) = arr ! (length arr - 1)"
  by (auto simp: delete_at_def nth_append)

lemma drop_packet:
  assumes "i < n" and "n \<le> len" and "len \<le> length bufs" and "length sizes = length bufs"
  shows "drop i (take (n - 1) (zip (delete_at i len bufs) (delete_at i len sizes)))
       = drop (Suc i) (take n (zip bufs sizes))"
    and "take i (zip (delete_at i len bufs) (delete_at i len sizes)) = take i (zip bufs sizes)"
  using assms take_delete_at [of i n len bufs] take_delete_at [of i n len sizes]
  by (simp_all add: take_zip drop_zip delete_at_def)

lemma read_loop_spec:
  assumes "i \<le> n" and "n \<le> len" and "len \<le> length bufs" and "length sizes = length bufs"
    and "list_all (in_buffer content offset) (drop i (take n (zip bufs sizes)))"
  shows "\<exists>n' bufs' sizes'. read_loop f content offset i n len bufs sizes = Inr (n', bufs', sizes')
       \<and> length bufs' = length bufs \<and> length sizes' = length bufs
       \<and> n' = i + length (filter (kept f content offset) (drop i (take n (zip bufs sizes))))
       \<and> take n' (zip bufs' sizes')
         = take i (zip bufs sizes) @ filter (kept f content offset) (drop i (take n (zip bufs sizes)))
       \<and> bufs' ! (length bufs - 1) = bufs ! (length bufs - 1)"
  using assms
proof (induction f content offset i n len bufs sizes rule: read_loop.induct)
  case (1 f content offset i n len bufs sizes)
  show ?case
  proof (cases "i < n")
    case False
    then show ?thesis using "1.prems" by (subst read_loop.simps) auto
  next
    case True
    have hd: "drop i (take n (zip bufs sizes)) = (bufs ! i, sizes ! i) # drop (Suc i) (take n (zip bufs sizes))"
      using True "1.prems" by (simp add: Cons_nth_drop_Suc [symmetric])
    have ok: "\<not> (len \<le> i \<or> sizes ! i < 0 \<or> int (length (content (bufs ! i))) < int offset + sizes ! i)"
      using True "1.prems" by (auto simp: hd in_buffer_def)
    show ?thesis
    proof (cases "DropOutgoing f (take (nat (sizes ! i)) (drop offset (content (bufs ! i))))")
      case drop: True
      note step = drop_packet [OF True "1.prems"(2-4), unfolded One_nat_def]
      have "list_all (in_buffer content offset)
          (List.drop i (take (n - 1) (zip (delete_at i len bufs) (delete_at i len sizes))))"
        using "1.prems"(5) by (simp only: One_nat_def step hd list.pred_inject)
      moreover have "i \<le> n - 1" "n - 1 \<le> len - 1" "len - 1 \<le> length bufs"
        using True "1.prems" by linarith+
      ultimately show ?thesis
        using "1.IH"(1) [OF True ok drop] True "1.prems" ok drop
        by (subst read_loop.simps) (simp add: step hd kept_def last_delete_at [unfolded One_nat_def])
    next
      case keep: False
      have "take (Suc i) (zip bufs sizes) = take i (zip bufs sizes) @ [(bufs ! i, sizes ! i)]"
        using True "1.prems" by (simp add: take_Suc_conv_app_nth)
      with "1.IH"(2) [OF True ok keep] True "1.prems" ok keep show ?thesis
        by (subst read_loop.simps) (simp add: hd kept_def)
    qed
  qed
qed

lemma write_loop_eq:
  "list_all (\<lambda>b. offset \<le> length b) bufs \<Longrightarrow>
     write_loop f offset bufs acc k =
       Inr (acc @ filter (\<lambda>b. \<not> DropIncoming f (drop offset b)) bufs,
            k + length (filter (\<lambda>b. \<not> DropIncoming f (drop offset b)) bufs))"
  by (induction f offset bufs acc k rule: write_loop.induct) auto

section \<open>Properties\<close>

text \<open>C23. Reading through the filter hands over exactly the packets that are not dropped: the
  returned count is their number, and the front of the caller's slices holds their buffers and
  sizes in their order.\<close>

theorem wrapper_Read_filters:
  assumes "dw_filter d = Some f" and "n \<le> length bufs" and "length sizes = length bufs"
    and "list_all (in_buffer content offset) (take n (zip bufs sizes))"
  shows "\<exists>n' bufs' sizes'. wrapper_Read d offset bufs (Inr (n, content, sizes)) = Inr (n', bufs', sizes')
       \<and> n' = length (filter (kept f content offset) (take n (zip bufs sizes)))
       \<and> take n' (zip bufs' sizes') = filter (kept f content offset) (take n (zip bufs sizes))"
  using read_loop_spec [of 0 n "length bufs" bufs sizes content offset f] assms
  by (auto simp: wrapper_Read_def)

definition drop_ones :: PacketFilter where
  "drop_ones = \<lparr>DropOutgoing = (\<lambda>b. b = [1]), DropIncoming = (\<lambda>b. b = [1])\<rparr>"

theorem wrapper_Read_filters_witness:
  "\<exists>bufs' sizes'. wrapper_Read \<lparr>dw_filter = Some drop_ones\<rparr> 1 [10, 11, 12]
       (Inr (3, (\<lambda>r. if r = 11 then [0, 1] else [0, 2]), [1, 1, 1])) = Inr (2, bufs', sizes')
     \<and> take 2 (zip bufs' sizes') = [(10, 1), (12, 1)]"
  using wrapper_Read_filters [of "\<lparr>dw_filter = Some drop_ones\<rparr>" drop_ones 3 "[10, 11, 12]" "[1, 1, 1]"
      "\<lambda>r. if r = 11 then [0, 1] else [0, 2]" 1]
  by (simp add: in_buffer_def kept_def drop_ones_def numeral_eq_Suc)

text \<open>Dropping a packet leaves one buffer in the caller's slice twice: when a full batch is read,
  its last packet is kept and another one is dropped, the buffer of the last packet is both where
  its packet is now reported and at the end of the slice, so the next read can overwrite a packet
  that is still being processed.\<close>

theorem dropped_packet_duplicates_buffer:
  assumes "dw_filter d = Some f" and "length sizes = length bufs" and "bufs \<noteq> []"
    and "list_all (in_buffer content offset) (zip bufs sizes)"
    and "kept f content offset (last bufs, last sizes)"
    and "\<not> list_all (kept f content offset) (zip bufs sizes)"
  shows "\<exists>n' bufs' sizes'. wrapper_Read d offset bufs (Inr (length bufs, content, sizes)) = Inr (n', bufs', sizes')
       \<and> 0 < n' \<and> n' < length bufs'
       \<and> bufs' ! (n' - 1) = last bufs \<and> bufs' ! (length bufs' - 1) = last bufs"
proof -
  let ?z = "zip bufs sizes" and ?k = "kept f content offset"
  have len: "length ?z = length bufs" using assms(2) by simp
  obtain n' bufs' sizes' where r: "wrapper_Read d offset bufs (Inr (length bufs, content, sizes)) = Inr (n', bufs', sizes')"
      "length bufs' = length bufs" "length sizes' = length bufs" "n' = length (filter ?k ?z)"
      "take n' (zip bufs' sizes') = filter ?k ?z" "bufs' ! (length bufs - 1) = bufs ! (length bufs - 1)"
    using read_loop_spec [of 0 "length bufs" "length bufs" bufs sizes content offset f] assms len
    by (auto simp: wrapper_Read_def)
  have "?z \<noteq> []" using len assms(3) by auto
  moreover have "last ?z = (last bufs, last sizes)"
    using assms(2,3) by (metis last_zip length_0_conv)
  ultimately have last: "filter ?k ?z \<noteq> []" "last (filter ?k ?z) = (last bufs, last sizes)"
    using assms(5) by (metis append_butlast_last_id filter.simps(1,2) filter_append last_snoc snoc_eq_iff_butlast)+
  obtain x where "x \<in> set ?z" "\<not> ?k x" using assms(6) by (auto simp: list_all_iff)
  then have n': "0 < n'" "n' < length bufs"
    using last(1) r(4) length_filter_less [of x ?z ?k] unfolding len by simp_all
  have "take n' (zip bufs' sizes') ! (n' - 1) = (last bufs, last sizes)"
    using last r(4,5) by (simp add: last_conv_nth)
  then have "bufs' ! (n' - 1) = last bufs" using n' r(2,3) by simp
  moreover have "bufs ! (length bufs - 1) = last bufs" using assms(3) by (simp add: last_conv_nth)
  ultimately show ?thesis using r n' by (intro exI [of _ n'] exI [of _ bufs'] exI [of _ sizes']) simp
qed

theorem dropped_packet_duplicates_buffer_witness:
  "\<exists>n' bufs' sizes'. wrapper_Read \<lparr>dw_filter = Some drop_ones\<rparr> 1 [10, 11, 12]
       (Inr (length [10, 11, 12 :: nat], (\<lambda>r. if r = 11 then [0, 1] else [0, 2]), [1, 1, 1])) = Inr (n', bufs', sizes')
     \<and> bufs' ! (n' - 1) = 12 \<and> bufs' ! (length bufs' - 1) = 12 \<and> n' < length bufs'"
  using dropped_packet_duplicates_buffer [of "\<lparr>dw_filter = Some drop_ones\<rparr>" drop_ones "[1, 1, 1]" "[10, 11, 12]"
      "\<lambda>r. if r = 11 then [0, 1] else [0, 2]" 1]
  by (auto simp: in_buffer_def kept_def drop_ones_def)

text \<open>C24. Writing through the filter passes exactly the packets that are not dropped to the device,
  in order; but the count reported is the device's plus the number of packets passed on, not the
  number dropped, so with a device that writes everything it is twice the number written.\<close>

theorem wrapper_Write_filters:
  assumes "dw_filter d = Some f" and "list_all (\<lambda>b. offset \<le> length b) bufs"
    and "passed = filter (\<lambda>b. \<not> DropIncoming f (drop offset b)) bufs"
    and "Write passed offset s = ((n, err), s')"
  shows "wrapper_Write Write d bufs offset s = Inr ((n + int (length passed), err), s')"
  using assms write_loop_eq [OF assms(2), of f "[]" 0] by (simp add: wrapper_Write_def)

theorem wrapper_Write_filters_witness:
  "wrapper_Write (\<lambda>bs _ s. ((int (length bs), None), s @ bs)) \<lparr>dw_filter = Some drop_ones\<rparr> [[2], [1], [3]] 0 []
     = Inr ((4, None), [[2], [3]])"
  using wrapper_Write_filters [of "\<lparr>dw_filter = Some drop_ones\<rparr>" drop_ones 0 "[[2], [1], [3]]" "[[2], [3]]"
      "\<lambda>bs _ s. ((int (length bs), None), s @ bs)" "[]" 2 None "[[2], [3]]"]
  by (simp add: drop_ones_def)

end
