(* ===== verification/Wg_Iface.thy ===== *)
theory Wg_Iface
  imports Wg_Configurer Device_Wrapper
begin

text \<open>
  The WireGuard interface object (\<^verbatim>\<open>iface/iface.go\<close>, \<^verbatim>\<open>iface/iface_create.go\<close>, \<^verbatim>\<open>iface/iface_unix.go\<close>):
  a tunnel device, the configurer the device hands out when it is created, and the packet filter.
  The device and the configurer are Go interfaces, so each is a record of operations on its state.
  Every method but \<^verbatim>\<open>GetStats\<close> holds the mutex from start to end, which makes it one step.
\<close>

section \<open>The Go interfaces\<close>

record ('t, 'c, 'u) wgTunDevice =
  tun_Create :: "'t \<Rightarrow> (error + 'c) \<times> 't"
  tun_Up :: "'t \<Rightarrow> (error + 'u) \<times> 't"
  tun_UpdateAddr :: "WGAddress \<Rightarrow> 't \<Rightarrow> error option \<times> 't"
  tun_WgAddress :: "'t \<Rightarrow> WGAddress"
  tun_DeviceName :: "'t \<Rightarrow> string"
  tun_Close :: "'t \<Rightarrow> error option \<times> 't"
  tun_Wrapper :: "'t \<Rightarrow> DeviceWrapper option"
  tun_set_Wrapper :: "DeviceWrapper \<Rightarrow> 't \<Rightarrow> 't"

record 'c wgConfigurer =
  cfg_updatePeer :: "string \<Rightarrow> string \<Rightarrow> int \<Rightarrow> UDPAddr option \<Rightarrow> bytes option \<Rightarrow> 'c \<Rightarrow> error option \<times> 'c"
  cfg_removePeer :: "string \<Rightarrow> 'c \<Rightarrow> error option \<times> 'c"
  cfg_addAllowedIP :: "string \<Rightarrow> string \<Rightarrow> 'c \<Rightarrow> error option \<times> 'c"
  cfg_removeAllowedIP :: "string \<Rightarrow> string \<Rightarrow> 'c \<Rightarrow> error option \<times> 'c"
  cfg_getStats :: "string \<Rightarrow> 'c \<Rightarrow> error + WGStats"

text \<open>The two implementations of the configurer.\<close>

definition usp_configurer :: "(string \<Rightarrow> error + bytes) \<Rightarrow> 'd wgDevice \<Rightarrow> 'd wgConfigurer" where
  "usp_configurer ParseKey V =
     \<lparr>cfg_updatePeer = usp_updatePeer ParseKey V, cfg_removePeer = usp_removePeer ParseKey V,
      cfg_addAllowedIP = usp_addAllowedIP ParseKey V, cfg_removeAllowedIP = usp_removeAllowedIP ParseKey V,
      cfg_getStats = usp_getStats ParseKey V\<rparr>"

definition kernel_configurer ::
  "(string \<Rightarrow> error + bytes) \<Rightarrow> 'k wgctrl \<Rightarrow> string \<Rightarrow> 'k wgConfigurer" where
  "kernel_configurer ParseKey W deviceName =
     \<lparr>cfg_updatePeer = kernel_updatePeer ParseKey W deviceName,
      cfg_removePeer = kernel_removePeer ParseKey W deviceName,
      cfg_addAllowedIP = kernel_addAllowedIP ParseKey W deviceName,
      cfg_removeAllowedIP = kernel_removeAllowedIP ParseKey W deviceName,
      cfg_getStats = kernel_getStats W deviceName\<rparr>"

section \<open>The interface object\<close>

text \<open>\<open>iface_network\<close> is the network given to the filter by \<^verbatim>\<open>SetNetwork\<close>.\<close>

record ('t, 'c) WGIface =
  tun :: 't
  userspaceBind :: bool
  configurer :: "'c option"
  iface_filter :: "PacketFilter option"
  iface_network :: "IPNet option"

definition DefaultMTU :: int where "DefaultMTU = 1280"

record 't tun_devices =
  newTunNetstackDevice :: "string \<Rightarrow> WGAddress \<Rightarrow> int \<Rightarrow> string \<Rightarrow> int \<Rightarrow> 't"
  newTunDevice :: "string \<Rightarrow> WGAddress \<Rightarrow> int \<Rightarrow> string \<Rightarrow> int \<Rightarrow> 't"
  newTunUSPDevice :: "string \<Rightarrow> WGAddress \<Rightarrow> int \<Rightarrow> string \<Rightarrow> int \<Rightarrow> 't"
  netstack_IsEnabled :: bool
  WireGuardModuleIsLoaded :: bool
  tunModuleIsLoaded :: bool

definition new_iface :: "'t \<Rightarrow> bool \<Rightarrow> ('t, 'c) WGIface" where
  "new_iface t userspace =
     \<lparr>tun = t, userspaceBind = userspace, configurer = None, iface_filter = None, iface_network = None\<rparr>"

definition NewWGIFace ::
  "'t tun_devices \<Rightarrow> string \<Rightarrow> string \<Rightarrow> int \<Rightarrow> string \<Rightarrow> int \<Rightarrow> error + ('t, 'c) WGIface" where
  "NewWGIFace D iFaceName address wgPort wgPrivKey mtu =
     (case parseWGAddress address of
        Inl err \<Rightarrow> Inl err
      | Inr wgAddress \<Rightarrow>
          if netstack_IsEnabled D
          then Inr (new_iface (newTunNetstackDevice D iFaceName wgAddress wgPort wgPrivKey mtu) True)
          else if WireGuardModuleIsLoaded D
          then Inr (new_iface (newTunDevice D iFaceName wgAddress wgPort wgPrivKey mtu) False)
          else if \<not> tunModuleIsLoaded D
          then Inl (Errorf ''couldn't check or load tun module'')
          else Inr (new_iface (newTunUSPDevice D iFaceName wgAddress wgPort wgPrivKey mtu) True))"

definition unix_CreateOnAndroid ::
  "string \<Rightarrow> string list \<Rightarrow> string \<Rightarrow> string list \<Rightarrow> ('t, 'c) WGIface \<Rightarrow> error option \<times> ('t, 'c) WGIface" where
  "unix_CreateOnAndroid goos routes dns searchDomains w =
     (Some (Errorf (''CreateOnAndroid function has not implemented on '' @ goos @ '' platform'')), w)"

definition IsUserspaceBind :: "('t, 'c) WGIface \<Rightarrow> bool" where
  "IsUserspaceBind w = userspaceBind w"

definition iface_Name :: "('t, 'c, 'u) wgTunDevice \<Rightarrow> ('t, 'c) WGIface \<Rightarrow> string" where
  "iface_Name T w = tun_DeviceName T (tun w)"

definition iface_Address :: "('t, 'c, 'u) wgTunDevice \<Rightarrow> ('t, 'c) WGIface \<Rightarrow> WGAddress" where
  "iface_Address T w = tun_WgAddress T (tun w)"

definition iface_Create ::
  "('t, 'c, 'u) wgTunDevice \<Rightarrow> ('t, 'c) WGIface \<Rightarrow> error option \<times> ('t, 'c) WGIface" where
  "iface_Create T w =
     (case tun_Create T (tun w) of
        (Inl err, t) \<Rightarrow> (Some err, w\<lparr>tun := t\<rparr>)
      | (Inr cfgr, t) \<Rightarrow> (None, w\<lparr>tun := t, configurer := Some cfgr\<rparr>))"

definition iface_Up ::
  "('t, 'c, 'u) wgTunDevice \<Rightarrow> ('t, 'c) WGIface \<Rightarrow> (error + 'u) \<times> ('t, 'c) WGIface" where
  "iface_Up T w = (let (r, t) = tun_Up T (tun w) in (r, w\<lparr>tun := t\<rparr>))"

definition iface_UpdateAddr ::
  "('t, 'c, 'u) wgTunDevice \<Rightarrow> string \<Rightarrow> ('t, 'c) WGIface \<Rightarrow> error option \<times> ('t, 'c) WGIface" where
  "iface_UpdateAddr T newAddr w =
     (case parseWGAddress newAddr of
        Inl err \<Rightarrow> (Some err, w)
      | Inr addr \<Rightarrow> (let (r, t) = tun_UpdateAddr T addr (tun w) in (r, w\<lparr>tun := t\<rparr>)))"

text \<open>A call on the configurer: a nil interface value before \<^verbatim>\<open>Create\<close> has succeeded.\<close>

definition on_configurer ::
  "('c \<Rightarrow> error option \<times> 'c) \<Rightarrow> ('t, 'c) WGIface \<Rightarrow> error option \<times> ('t, 'c) WGIface" where
  "on_configurer f w =
     (case configurer w of
        None \<Rightarrow> (Some (Panic ''nil pointer dereference''), w)
      | Some c \<Rightarrow> (let (r, c) = f c in (r, w\<lparr>configurer := Some c\<rparr>)))"

definition iface_UpdatePeer ::
  "'c wgConfigurer \<Rightarrow> string \<Rightarrow> string \<Rightarrow> int \<Rightarrow> UDPAddr option \<Rightarrow> bytes option \<Rightarrow> ('t, 'c) WGIface
     \<Rightarrow> error option \<times> ('t, 'c) WGIface" where
  "iface_UpdatePeer C peerKey allowedIps keepAlive endpoint preSharedKey =
     on_configurer (cfg_updatePeer C peerKey allowedIps keepAlive endpoint preSharedKey)"

definition iface_RemovePeer ::
  "'c wgConfigurer \<Rightarrow> string \<Rightarrow> ('t, 'c) WGIface \<Rightarrow> error option \<times> ('t, 'c) WGIface" where
  "iface_RemovePeer C peerKey = on_configurer (cfg_removePeer C peerKey)"

definition iface_AddAllowedIP ::
  "'c wgConfigurer \<Rightarrow> string \<Rightarrow> string \<Rightarrow> ('t, 'c) WGIface \<Rightarrow> error option \<times> ('t, 'c) WGIface" where
  "iface_AddAllowedIP C peerKey allowedIP = on_configurer (cfg_addAllowedIP C peerKey allowedIP)"

definition iface_RemoveAllowedIP ::
  "'c wgConfigurer \<Rightarrow> string \<Rightarrow> string \<Rightarrow> ('t, 'c) WGIface \<Rightarrow> error option \<times> ('t, 'c) WGIface" where
  "iface_RemoveAllowedIP C peerKey allowedIP = on_configurer (cfg_removeAllowedIP C peerKey allowedIP)"

definition iface_Close ::
  "('t, 'c, 'u) wgTunDevice \<Rightarrow> ('t, 'c) WGIface \<Rightarrow> error option \<times> ('t, 'c) WGIface" where
  "iface_Close T w = (let (r, t) = tun_Close T (tun w) in (r, w\<lparr>tun := t\<rparr>))"

definition iface_SetFilter ::
  "('t, 'c, 'u) wgTunDevice \<Rightarrow> PacketFilter \<Rightarrow> ('t, 'c) WGIface \<Rightarrow> error option \<times> ('t, 'c) WGIface" where
  "iface_SetFilter T f w =
     (case tun_Wrapper T (tun w) of
        None \<Rightarrow> (Some (Errorf ''userspace packet filtering not handled on this device''), w)
      | Some wrapper \<Rightarrow>
          (None, w\<lparr>iface_filter := Some f, iface_network := Some (wga_Network (tun_WgAddress T (tun w))),
                   tun := tun_set_Wrapper T (SetFilter (Some f) wrapper) (tun w)\<rparr>))"

definition iface_GetFilter :: "('t, 'c) WGIface \<Rightarrow> PacketFilter option" where
  "iface_GetFilter w = iface_filter w"

definition iface_GetDevice :: "('t, 'c, 'u) wgTunDevice \<Rightarrow> ('t, 'c) WGIface \<Rightarrow> DeviceWrapper option" where
  "iface_GetDevice T w = tun_Wrapper T (tun w)"

definition iface_GetStats :: "'c wgConfigurer \<Rightarrow> string \<Rightarrow> ('t, 'c) WGIface \<Rightarrow> error + WGStats" where
  "iface_GetStats C peerKey w =
     (case configurer w of
        None \<Rightarrow> Inl (Panic ''nil pointer dereference'')
      | Some c \<Rightarrow> cfg_getStats C peerKey c)"

section \<open>What a configurer sends\<close>

text \<open>
  The contract of both configurers for adding a peer: the device gets one configuration (\<open>send\<close>) that
  names the peer by its key, replaces its allowed addresses by the one network given, and sets its
  endpoint, its keep-alive interval and its preshared key.
\<close>

definition peer_conf :: "bytes \<Rightarrow> IPNet \<Rightarrow> int \<Rightarrow> UDPAddr option \<Rightarrow> bytes option \<Rightarrow> WgConf" where
  "peer_conf key net keepAlive endpoint psk =
     \<lparr>cfg_PrivateKey = None, cfg_ListenPort = None, cfg_FirewallMark = None, cfg_ReplacePeers = False,
      cfg_Peers = [\<lparr>pc_PublicKey = key, pc_Remove = False, pc_UpdateOnly = False, pc_PresharedKey = psk,
        pc_Endpoint = endpoint, pc_PersistentKeepaliveInterval = Some keepAlive,
        pc_ReplaceAllowedIPs = True, pc_AllowedIPs = [net]\<rparr>]\<rparr>"

locale peer_configurer =
  fixes C :: "'c wgConfigurer" and ParseKey :: "string \<Rightarrow> error + bytes"
    and send :: "WgConf \<Rightarrow> 'c \<Rightarrow> error option \<times> 'c"
  assumes updatePeer_sends:
    "ParseCIDR ips = Inr (ip, net) \<Longrightarrow> ParseKey peerKey = Inr key \<Longrightarrow>
       cfg_updatePeer C peerKey ips keepAlive endpoint psk c = send (peer_conf key net keepAlive endpoint psk) c"
begin

lemma iface_UpdatePeer_sends:
  assumes "ParseCIDR ips = Inr (ip, net)" and "ParseKey peerKey = Inr key" and "configurer w = Some c"
  shows "iface_UpdatePeer C peerKey ips keepAlive endpoint psk w =
    (fst (send (peer_conf key net keepAlive endpoint psk) c),
     w\<lparr>configurer := Some (snd (send (peer_conf key net keepAlive endpoint psk) c))\<rparr>)"
  using assms by (simp add: iface_UpdatePeer_def on_configurer_def updatePeer_sends case_prod_beta Let_def)

end

interpretation uspc: peer_configurer "usp_configurer ParseKey D" ParseKey "\<lambda>conf. IpcSet D (toWgUserspaceString conf)"
  for ParseKey D
  by unfold_locales
    (simp add: usp_configurer_def usp_updatePeer_def update_conf_def peer_conf_def zero_WgConf_def zero_PeerConf_def)

interpretation kernc: peer_configurer "kernel_configurer ParseKey W deviceName" ParseKey
    "\<lambda>conf k. wrap_error ''updating peer'' (configure W deviceName conf k)"
  for ParseKey W deviceName
  by unfold_locales
    (simp add: kernel_configurer_def kernel_updatePeer_def update_conf_def peer_conf_def zero_WgConf_def zero_PeerConf_def)

text \<open>
  The same configuration in the text protocol of the user space device, for an IPv4 host and a
  keep-alive of two seconds.
\<close>

lemma IPNet_String_host:
  assumes "length vpn = 4"
  shows "IPNet_String \<lparr>net_IP = vpn, net_Mask = CIDRMask 32 4\<rparr> = dotted vpn @ ''/32''"
  using assms simpleMaskLength_CIDRMask [of 32 4]
  by (auto simp: IPNet_String_def networkNumberAndMask_def To4_def IP_String_def decimal.simps digit_char_def char_of_eq_iff)

lemma ParseCIDR_host:
  assumes "length vpn = 4"
  shows "\<exists>ip. ParseCIDR (dotted vpn @ ''/32'') = Inr (ip, \<lparr>net_IP = vpn, net_Mask = CIDRMask 32 4\<rparr>)"
proof -
  have "(255 :: byte) = - 1" by simp
  then have "b AND 255 = b" for b :: byte by (metis and.right_neutral)
  then have "proper_net \<lparr>net_IP = vpn, net_Mask = CIDRMask 32 4\<rparr>"
    unfolding proper_net_def using assms
    by (intro disjI1 exI [of _ 32]) (auto simp: IP_Mask_def numeral_eq_Suc length_Suc_conv)
  from ParseCIDR_IPNet_String [OF this] show ?thesis by (simp add: IPNet_String_host [OF assms])
qed

definition peer_text :: "bytes \<Rightarrow> IP \<Rightarrow> UDPAddr \<Rightarrow> string" where
  "peer_text key vpn addr =
     ''public_key='' @ EncodeToString key @ [NL] @ ''replace_allowed_ips=true'' @ [NL]
   @ ''allowed_ip='' @ dotted vpn @ ''/32'' @ [NL] @ ''endpoint='' @ UDPAddr_String addr @ [NL]
   @ ''persistent_keepalive_interval=2'' @ [NL]"

lemma peer_conf_text:
  assumes "length vpn = 4"
  shows "toWgUserspaceString (peer_conf key \<lparr>net_IP = vpn, net_Mask = CIDRMask 32 4\<rparr> 2000000000 (Some addr) None)
     = peer_text key vpn addr"
proof -
  have "Itoa (seconds_trunc 2000000000) = ''2''"
    by (simp add: seconds_trunc_def Itoa_def decimal.simps digit_char_def char_of_eq_iff)
  then show ?thesis
    using assms
    by (simp add: toWgUserspaceString_def peer_string_def peer_conf_def kv_line_def peer_text_def IPNet_String_host del: CIDRMask.simps)
qed

end
