(* ===== verification/Ebpf_Manager.thy ===== *)
theory Ebpf_Manager
  imports Net_Addr
begin

text \<open>
  The eBPF manager (\<^verbatim>\<open>client/internal/ebpf/ebpf\<close>): one XDP program attached to the loopback
  interface, with two features switched by bits of a map shared with the kernel, and the program
  itself (\<^verbatim>\<open>src/prog.c\<close>, \<^verbatim>\<open>src/wg_proxy.c\<close>, \<^verbatim>\<open>src/dns_fwd.c\<close>), whose maps and globals are part of
  the loaded objects.  What the kernel answers is the argument \<open>ebpf_env\<close> of an operation.
\<close>

unbundle bit_operations_syntax

section \<open>State\<close>

definition mapKeyFeatures :: u32 where "mapKeyFeatures = 0"
definition mapKeyProxyPort :: u32 where "mapKeyProxyPort = 0"
definition mapKeyWgPort :: u32 where "mapKeyWgPort = 1"
definition mapKeyDNSIP :: u32 where "mapKeyDNSIP = 0"
definition mapKeyDNSPort :: u32 where "mapKeyDNSPort = 1"
definition featureFlagWGProxy :: u16 where "featureFlagWGProxy = 1"
definition featureFlagDnsForwarder :: u16 where "featureFlagDnsForwarder = 2"

text \<open>
  The maps are BPF arrays of ten zero-initialised entries; only the keys above are used.  The
  last four fields are the globals of the C program.
\<close>

record bpfObjects =
  NbFeatures :: "u32 \<Rightarrow> u16"
  NbWgProxySettingsMap :: "u32 \<Rightarrow> u16"
  NbMapDnsIp :: "u32 \<Rightarrow> u32"
  NbMapDnsPort :: "u32 \<Rightarrow> u16"
  g_dns_ip :: u32
  g_dns_port :: u16
  g_proxy_port :: u16
  g_wg_port :: u16

definition fresh_objects :: bpfObjects where
  "fresh_objects =
     \<lparr>NbFeatures = (\<lambda>_. 0), NbWgProxySettingsMap = (\<lambda>_. 0), NbMapDnsIp = (\<lambda>_. 0),
      NbMapDnsPort = (\<lambda>_. 0), g_dns_ip = 0, g_dns_port = 0, g_proxy_port = 0, g_wg_port = 0\<rparr>"

record GeneralManager =
  link :: bool
  featureFlags :: u16
  bpfObjs :: bpfObjects

definition new_GeneralManager :: GeneralManager where
  "new_GeneralManager = \<lparr>link = False, featureFlags = 0, bpfObjs = fresh_objects\<rparr>"

definition GetEbpfManagerInstance :: "GeneralManager option \<Rightarrow> GeneralManager" where
  "GetEbpfManagerInstance singleton =
     (case singleton of Some tf \<Rightarrow> tf | None \<Rightarrow> new_GeneralManager)"

text \<open>The package that hides the manager: on other systems there is none.\<close>

definition instantiate_linux :: "GeneralManager option \<Rightarrow> error + GeneralManager" where
  "instantiate_linux singleton = Inr (GetEbpfManagerInstance singleton)"

definition instantiate_nonlinux :: "error + GeneralManager" where
  "instantiate_nonlinux = Inl (Panic ''unsupported os'')"

record ebpf_env =
  RemoveMemlock :: "error option"
  InterfaceByName :: "error option"
  loadBpfObjects :: "error option"
  AttachXDP :: "error option"
  map_Put :: "nat \<Rightarrow> error option"
  objs_Close :: "error option"
  link_Close :: "error option"

definition env_ok :: ebpf_env where
  "env_ok = \<lparr>RemoveMemlock = None, InterfaceByName = None, loadBpfObjects = None, AttachXDP = None,
     map_Put = (\<lambda>_. None), objs_Close = None, link_Close = None\<rparr>"

section \<open>Operations\<close>

definition setFeatureFlag :: "u16 \<Rightarrow> GeneralManager \<Rightarrow> GeneralManager" where
  "setFeatureFlag feature tf = tf\<lparr>featureFlags := featureFlags tf OR feature\<rparr>"

definition loadXdp :: "ebpf_env \<Rightarrow> GeneralManager \<Rightarrow> error option \<times> GeneralManager" where
  "loadXdp e tf =
     (if link tf then (None, tf)
      else case RemoveMemlock e of
        Some err \<Rightarrow> (Some err, tf)
      | None \<Rightarrow>
      (case InterfaceByName e of
        Some err \<Rightarrow> (Some err, tf)
      | None \<Rightarrow>
      (case loadBpfObjects e of
        Some err \<Rightarrow> (Some err, tf)
      | None \<Rightarrow>
          let tf = tf\<lparr>bpfObjs := fresh_objects\<rparr>
          in case AttachXDP e of
               Some err \<Rightarrow> (Some err, tf\<lparr>link := False\<rparr>)
             | None \<Rightarrow> (None, tf\<lparr>link := True\<rparr>))))"

text \<open>\<^verbatim>\<open>close\<close>: only the error of the link is returned.\<close>

definition manager_close :: "ebpf_env \<Rightarrow> GeneralManager \<Rightarrow> error option \<times> GeneralManager" where
  "manager_close e tf = (link_Close e, tf\<lparr>link := False\<rparr>)"

definition Put_features :: "ebpf_env \<Rightarrow> nat \<Rightarrow> GeneralManager \<Rightarrow> error option \<times> GeneralManager" where
  "Put_features e i tf =
     (case map_Put e i of
        Some err \<Rightarrow> (Some err, tf)
      | None \<Rightarrow> (None, tf\<lparr>bpfObjs := (bpfObjs tf)
                   \<lparr>NbFeatures := (NbFeatures (bpfObjs tf))(mapKeyFeatures := featureFlags tf)\<rparr>\<rparr>))"

definition unsetFeatureFlag ::
  "ebpf_env \<Rightarrow> u16 \<Rightarrow> GeneralManager \<Rightarrow> error option \<times> GeneralManager" where
  "unsetFeatureFlag e feature tf =
     (let tf = tf\<lparr>featureFlags := featureFlags tf AND NOT feature\<rparr>
      in if \<not> link tf then (None, tf)
         else if featureFlags tf = 0 then manager_close e tf
         else Put_features e 0 tf)"

definition LoadWgProxy ::
  "ebpf_env \<Rightarrow> int \<Rightarrow> int \<Rightarrow> GeneralManager \<Rightarrow> error option \<times> GeneralManager" where
  "LoadWgProxy e proxyPort wgPort tf =
     (case loadXdp e tf of
        (Some err, tf) \<Rightarrow> (Some err, tf)
      | (None, tf) \<Rightarrow>
      (case map_Put e 0 of
        Some err \<Rightarrow> (Some err, tf)
      | None \<Rightarrow>
      let tf = tf\<lparr>bpfObjs := (bpfObjs tf)\<lparr>NbWgProxySettingsMap :=
                  (NbWgProxySettingsMap (bpfObjs tf))(mapKeyProxyPort := word_of_int proxyPort)\<rparr>\<rparr>
      in case map_Put e 1 of
        Some err \<Rightarrow> (Some err, tf)
      | None \<Rightarrow>
      let tf = tf\<lparr>bpfObjs := (bpfObjs tf)\<lparr>NbWgProxySettingsMap :=
                  (NbWgProxySettingsMap (bpfObjs tf))(mapKeyWgPort := word_of_int wgPort)\<rparr>\<rparr>;
          tf = setFeatureFlag featureFlagWGProxy tf
      in Put_features e 2 tf))"

definition FreeWGProxy :: "ebpf_env \<Rightarrow> GeneralManager \<Rightarrow> error option \<times> GeneralManager" where
  "FreeWGProxy e tf = unsetFeatureFlag e featureFlagWGProxy tf"

text \<open>\<^verbatim>\<open>ip2int\<close> reads four bytes of \<^verbatim>\<open>To4()\<close> and panics when the string is not an IPv4 address.\<close>

definition BigEndian_Uint32 :: "bytes \<Rightarrow> u32" where
  "BigEndian_Uint32 b = word_cat (Uint16 b) (Uint16 (drop 2 b))"

definition ip2int :: "string \<Rightarrow> error + u32" where
  "ip2int ipString =
     (case ParseIP ipString of
        None \<Rightarrow> Inl (Panic ''index out of range'')
      | Some ip \<Rightarrow>
          (case To4 ip of
             None \<Rightarrow> Inl (Panic ''index out of range'')
           | Some ip4 \<Rightarrow> Inr (BigEndian_Uint32 ip4)))"

definition LoadDNSFwd ::
  "ebpf_env \<Rightarrow> string \<Rightarrow> int \<Rightarrow> GeneralManager \<Rightarrow> error option \<times> GeneralManager" where
  "LoadDNSFwd e ip dnsPort tf =
     (case loadXdp e tf of
        (Some err, tf) \<Rightarrow> (Some err, tf)
      | (None, tf) \<Rightarrow>
      (case ip2int ip of
        Inl err \<Rightarrow> (Some err, tf)
      | Inr ipv \<Rightarrow>
      (case map_Put e 0 of
        Some err \<Rightarrow> (Some err, tf)
      | None \<Rightarrow>
      let tf = tf\<lparr>bpfObjs := (bpfObjs tf)\<lparr>NbMapDnsIp := (NbMapDnsIp (bpfObjs tf))(mapKeyDNSIP := ipv)\<rparr>\<rparr>
      in case map_Put e 1 of
        Some err \<Rightarrow> (Some err, tf)
      | None \<Rightarrow>
      let tf = tf\<lparr>bpfObjs := (bpfObjs tf)\<lparr>NbMapDnsPort :=
                  (NbMapDnsPort (bpfObjs tf))(mapKeyDNSPort := word_of_int dnsPort)\<rparr>\<rparr>;
          tf = setFeatureFlag featureFlagDnsForwarder tf
      in Put_features e 2 tf)))"

definition FreeDNSFwd :: "ebpf_env \<Rightarrow> GeneralManager \<Rightarrow> error option \<times> GeneralManager" where
  "FreeDNSFwd e tf = unsetFeatureFlag e featureFlagDnsForwarder tf"

section \<open>The XDP program\<close>

text \<open>
  Header fields are the raw words the program loads on a little-endian host, so a port \<open>p\<close> is
  carried as \<open>htons p\<close>.
\<close>

definition htons :: "u16 \<Rightarrow> u16" where
  "htons w = push_bit 8 w OR drop_bit 8 w"

definition htonl :: "u32 \<Rightarrow> u32" where
  "htonl w = word_cat (htons (ucast w)) (htons (ucast (drop_bit 16 w)))"

record xdp_packet =
  packet_len :: nat
  h_proto :: u16
  ip_protocol :: byte
  ip_saddr :: u32
  ip_daddr :: u32
  udp_source :: u16
  udp_dest :: u16

definition read_port_settings :: "bpfObjects \<Rightarrow> bpfObjects" where
  "read_port_settings objs =
     objs\<lparr>g_proxy_port := NbWgProxySettingsMap objs mapKeyProxyPort,
          g_wg_port := htons (NbWgProxySettingsMap objs mapKeyWgPort)\<rparr>"

definition xdp_wg_proxy :: "bpfObjects \<Rightarrow> xdp_packet \<Rightarrow> bpfObjects \<times> xdp_packet" where
  "xdp_wg_proxy objs p =
     (let objs = (if g_proxy_port objs = 0 \<or> g_wg_port objs = 0 then read_port_settings objs else objs)
      in if ip_daddr p \<noteq> htonl 2130706433 then (objs, p)
         else if udp_source p \<noteq> g_wg_port objs then (objs, p)
         else (objs, p\<lparr>udp_dest := htons (g_proxy_port objs), udp_source := udp_dest p\<rparr>))"

definition GENERAL_DNS_PORT :: u16 where "GENERAL_DNS_PORT = 13568"

definition read_settings :: "bpfObjects \<Rightarrow> bpfObjects" where
  "read_settings objs =
     objs\<lparr>g_dns_ip := htonl (NbMapDnsIp objs mapKeyDNSIP),
          g_dns_port := htons (NbMapDnsPort objs mapKeyDNSPort)\<rparr>"

definition xdp_dns_fwd :: "bpfObjects \<Rightarrow> xdp_packet \<Rightarrow> bpfObjects \<times> xdp_packet" where
  "xdp_dns_fwd objs p =
     (let objs = (if g_dns_port objs = 0 then read_settings objs else objs)
      in if udp_dest p = GENERAL_DNS_PORT \<and> ip_daddr p = g_dns_ip objs
         then (objs, p\<lparr>udp_dest := g_dns_port objs\<rparr>)
         else if udp_source p = g_dns_port objs \<and> ip_saddr p = g_dns_ip objs
         then (objs, p\<lparr>udp_source := GENERAL_DNS_PORT\<rparr>)
         else (objs, p))"

text \<open>42 is the size of the Ethernet, IPv4 and UDP headers, \<open>0x0800\<close> is \<^verbatim>\<open>ETH_P_IP\<close>, 17 is
  \<^verbatim>\<open>IPPROTO_UDP\<close>.\<close>

definition nb_xdp_prog :: "bpfObjects \<Rightarrow> xdp_packet \<Rightarrow> bpfObjects \<times> xdp_packet" where
  "nb_xdp_prog objs p =
     (let features = NbFeatures objs mapKeyFeatures
      in if packet_len p < 42 then (objs, p)
         else if h_proto p \<noteq> htons 0x0800 then (objs, p)
         else if ip_protocol p \<noteq> 17 then (objs, p)
         else let (objs, p) = (if features AND 2 \<noteq> 0 then xdp_dns_fwd objs p else (objs, p));
                  (objs, p) = (if features AND 1 \<noteq> 0 then xdp_wg_proxy objs p else (objs, p))
              in (objs, p))"

section \<open>Interface of the manager\<close>

text \<open>
  The Go interface \<^verbatim>\<open>manager.Manager\<close>, as far as the WireGuard proxy uses it, and what it
  promises: after a successful load the redirection is active with the ports given, cut to 16
  bits, and after a successful free it is not active.
\<close>

record 'm Manager =
  mgr_LoadWgProxy :: "int \<Rightarrow> int \<Rightarrow> 'm \<Rightarrow> error option \<times> 'm"
  mgr_FreeWGProxy :: "'m \<Rightarrow> error option \<times> 'm"

locale wg_redirect =
  fixes M :: "'m Manager"
    and active :: "'m \<Rightarrow> bool"
    and ports :: "'m \<Rightarrow> u16 \<times> u16"
  assumes load_active: "mgr_LoadWgProxy M pp wp m = (None, m') \<Longrightarrow> active m'"
    and load_ports: "mgr_LoadWgProxy M pp wp m = (None, m') \<Longrightarrow> ports m' = (word_of_int pp, word_of_int wp)"
    and free_inactive: "mgr_FreeWGProxy M m = (None, m') \<Longrightarrow> \<not> active m'"
begin

lemma load_then_free:
  assumes "mgr_LoadWgProxy M pp wp m = (None, m1)" and "mgr_FreeWGProxy M m1 = (None, m2)"
  shows "active m1 \<and> \<not> active m2"
  using assms load_active free_inactive by blast

end

definition general_manager :: "ebpf_env \<Rightarrow> GeneralManager Manager" where
  "general_manager e = \<lparr>mgr_LoadWgProxy = LoadWgProxy e, mgr_FreeWGProxy = FreeWGProxy e\<rparr>"

definition wg_active :: "GeneralManager \<Rightarrow> bool" where
  "wg_active tf \<longleftrightarrow> link tf \<and> NbFeatures (bpfObjs tf) mapKeyFeatures AND 1 \<noteq> 0"

definition wg_ports :: "GeneralManager \<Rightarrow> u16 \<times> u16" where
  "wg_ports tf = (NbWgProxySettingsMap (bpfObjs tf) mapKeyProxyPort,
                  NbWgProxySettingsMap (bpfObjs tf) mapKeyWgPort)"

lemma flag_set: "(w OR 1) AND 1 \<noteq> (0 :: u16)" "(w OR 2) AND 2 \<noteq> (0 :: u16)"
  by (simp_all add: bit.conj_disj_distrib2)

lemma flag_other: "(w OR 1) AND 2 = w AND (2 :: u16)" "(w OR 2) AND 1 = w AND (1 :: u16)"
  by (simp_all add: bit.conj_disj_distrib2)

lemma flag_unset: "(w AND NOT 1) AND 1 = (0 :: u16)" "(w AND NOT 2) AND 2 = (0 :: u16)"
  by (simp_all only: and.assoc) (simp_all add: bit.conj_cancel_left)

lemma and_minus_2: "((w :: u16) AND - 2) AND 1 = 0"
  by (simp add: and.assoc)

lemma loadXdp_link: "loadXdp e tf = (None, tf') \<Longrightarrow> link tf'"
  by (auto simp: loadXdp_def Let_def split: if_splits option.splits)

lemma loadXdp_keeps_flags: "loadXdp e tf = (err, tf') \<Longrightarrow> featureFlags tf' = featureFlags tf"
  by (auto simp: loadXdp_def Let_def split: if_splits option.splits)

lemma LoadWgProxy_ok:
  assumes "LoadWgProxy e pp wp tf = (None, tf')"
  shows "link tf' \<and> featureFlags tf' = featureFlags tf OR 1
       \<and> NbFeatures (bpfObjs tf') mapKeyFeatures = featureFlags tf'
       \<and> wg_ports tf' = (word_of_int pp, word_of_int wp)"
  using assms unfolding LoadWgProxy_def Put_features_def setFeatureFlag_def
  by (auto dest: loadXdp_link loadXdp_keeps_flags simp: Let_def wg_ports_def mapKeyProxyPort_def mapKeyWgPort_def
      featureFlagWGProxy_def split: prod.splits option.splits)

lemma FreeWGProxy_ok:
  "FreeWGProxy e tf = (None, tf') \<Longrightarrow> \<not> wg_active tf'"
  by (auto simp: FreeWGProxy_def unsetFeatureFlag_def manager_close_def Put_features_def wg_active_def
      Let_def featureFlagWGProxy_def and_minus_2 split: if_splits option.splits)

interpretation gm: wg_redirect "general_manager e" wg_active wg_ports
  for e
proof
  fix pp wp m m'
  assume "mgr_LoadWgProxy (general_manager e) pp wp m = (None, m')"
  then have "LoadWgProxy e pp wp m = (None, m')" by (simp add: general_manager_def)
  note ok = LoadWgProxy_ok [OF this]
  show "wg_active m'" using ok by (simp add: wg_active_def flag_set)
  show "wg_ports m' = (word_of_int pp, word_of_int wp)" using ok by simp
next
  fix m m' assume "mgr_FreeWGProxy (general_manager e) m = (None, m')"
  then show "\<not> wg_active m'" by (simp add: general_manager_def FreeWGProxy_ok)
qed

section \<open>The manager as a set of features\<close>

datatype feature = WGProxy | DnsForwarder

datatype manager_op = Load_WG int int | Free_WG | Load_DNS string int | Free_DNS

fun run_op :: "manager_op \<Rightarrow> GeneralManager \<Rightarrow> error option \<times> GeneralManager" where
  "run_op (Load_WG pp wp) tf = LoadWgProxy env_ok pp wp tf"
| "run_op Free_WG tf = FreeWGProxy env_ok tf"
| "run_op (Load_DNS ip port) tf = LoadDNSFwd env_ok ip port tf"
| "run_op Free_DNS tf = FreeDNSFwd env_ok tf"

fun op_valid :: "manager_op \<Rightarrow> bool" where
  "op_valid (Load_DNS ip port) = (\<not> isl (ip2int ip))"
| "op_valid _ = True"

fun spec_op :: "manager_op \<Rightarrow> feature set \<Rightarrow> feature set" where
  "spec_op (Load_WG pp wp) F = insert WGProxy F"
| "spec_op Free_WG F = F - {WGProxy}"
| "spec_op (Load_DNS ip port) F = insert DnsForwarder F"
| "spec_op Free_DNS F = F - {DnsForwarder}"

definition flag_of :: "feature \<Rightarrow> u16" where
  "flag_of f = (case f of WGProxy \<Rightarrow> 1 | DnsForwarder \<Rightarrow> 2)"

definition feats :: "GeneralManager \<Rightarrow> feature set" where
  "feats tf = {f. featureFlags tf AND flag_of f \<noteq> 0}"

definition manager_inv :: "GeneralManager \<Rightarrow> bool" where
  "manager_inv tf \<longleftrightarrow> featureFlags tf \<in> {0, 1, 2, 3}
     \<and> (link tf \<longleftrightarrow> featureFlags tf \<noteq> 0)
     \<and> (link tf \<longrightarrow> NbFeatures (bpfObjs tf) mapKeyFeatures = featureFlags tf)"

lemma feats_flags:
  "featureFlags tf = 0 \<Longrightarrow> feats tf = {}" "featureFlags tf = 1 \<Longrightarrow> feats tf = {WGProxy}"
  "featureFlags tf = 2 \<Longrightarrow> feats tf = {DnsForwarder}"
  "featureFlags tf = 3 \<Longrightarrow> feats tf = {WGProxy, DnsForwarder}"
  by (auto simp: feats_def flag_of_def split: feature.splits intro: feature.exhaust)

lemma load_flags:
  "w \<in> {0, 1, 2, 3} \<Longrightarrow> w OR 1 \<in> {0, 1, 2, 3 :: u16}" "w \<in> {0, 1, 2, 3} \<Longrightarrow> w OR 2 \<in> {0, 1, 2, 3 :: u16}"
  by auto

lemma run_op_refines:
  assumes "manager_inv tf" and "op_valid op"
  shows "manager_inv (snd (run_op op tf)) \<and> feats (snd (run_op op tf)) = spec_op op (feats tf)
       \<and> fst (run_op op tf) = None"
proof -
  note defs = env_ok_def LoadWgProxy_def FreeWGProxy_def LoadDNSFwd_def FreeDNSFwd_def
    unsetFeatureFlag_def loadXdp_def manager_close_def Put_features_def setFeatureFlag_def Let_def
    featureFlagWGProxy_def featureFlagDnsForwarder_def
  consider "featureFlags tf = 0" | "featureFlags tf = 1" | "featureFlags tf = 2" | "featureFlags tf = 3"
    using assms(1) by (auto simp: manager_inv_def)
  then show ?thesis
    using assms
    by cases (cases op, auto simp: defs manager_inv_def feats_flags split: sum.splits)+
qed

section \<open>The packets the program sees\<close>

lemma htons_htons [simp]: "htons (htons w) = w"
  by (rule bit_word_eqI) (auto simp: htons_def bit_simps)

lemma htons_eq_iff [simp]: "htons a = htons b \<longleftrightarrow> a = b"
  by (metis htons_htons)

text \<open>What the proxy needs done to a packet, with no reference to the program's globals.\<close>

definition redirect :: "u16 \<Rightarrow> u16 \<Rightarrow> xdp_packet \<Rightarrow> xdp_packet" where
  "redirect proxy wg p =
     (if 42 \<le> packet_len p \<and> h_proto p = htons 0x0800 \<and> ip_protocol p = 17
         \<and> ip_daddr p = htonl 2130706433 \<and> udp_source p = htons wg
      then p\<lparr>udp_source := udp_dest p, udp_dest := htons proxy\<rparr> else p)"

fun xdp_run :: "bpfObjects \<Rightarrow> xdp_packet list \<Rightarrow> bpfObjects \<times> xdp_packet list" where
  "xdp_run objs [] = (objs, [])"
| "xdp_run objs (p # ps) =
     (let (objs, p) = nb_xdp_prog objs p; (objs, ps) = xdp_run objs ps in (objs, p # ps))"

definition settled :: "u16 \<Rightarrow> u16 \<Rightarrow> bpfObjects \<Rightarrow> bool" where
  "settled proxy wg objs \<longleftrightarrow> NbFeatures objs mapKeyFeatures = 1
     \<and> NbWgProxySettingsMap objs mapKeyProxyPort = proxy \<and> NbWgProxySettingsMap objs mapKeyWgPort = wg
     \<and> (g_proxy_port objs, g_wg_port objs) \<in> {(0, 0), (proxy, htons wg)}"

lemma nb_xdp_prog_settled:
  assumes "settled proxy wg objs"
  shows "settled proxy wg (fst (nb_xdp_prog objs p)) \<and> snd (nb_xdp_prog objs p) = redirect proxy wg p"
  using assms
  by (auto simp: settled_def nb_xdp_prog_def xdp_wg_proxy_def read_port_settings_def redirect_def Let_def)

lemma xdp_run_settled: "settled proxy wg objs \<Longrightarrow> snd (xdp_run objs ps) = map (redirect proxy wg) ps"
proof (induction ps arbitrary: objs)
  case (Cons p ps)
  obtain objs' p' where step: "nb_xdp_prog objs p = (objs', p')" by fastforce
  from nb_xdp_prog_settled [OF Cons.prems, of p] have "settled proxy wg objs'" "p' = redirect proxy wg p"
    by (simp_all add: step)
  with Cons.IH [of objs'] show ?case by (simp add: step case_prod_beta)
qed simp

lemma LoadWgProxy_settled:
  assumes "LoadWgProxy e pp wp tf = (None, tf')" and "\<not> link tf" and "featureFlags tf = 0"
  shows "settled (word_of_int pp) (word_of_int wp) (bpfObjs tf')"
  using assms unfolding LoadWgProxy_def Put_features_def setFeatureFlag_def loadXdp_def
  by (auto simp: Let_def settled_def mapKeyProxyPort_def mapKeyWgPort_def featureFlagWGProxy_def
      fresh_objects_def split: option.splits)

section \<open>Properties\<close>

lemma ip2int_loopback: "\<not> isl (ip2int ''127.0.0.1'')"
  by (simp add: ip2int_def ParseIP_def parseIPv4_def parse_octet_def dec_val_def char_digit_def To4_def To16_def
      v4InV6Prefix_def numeral_eq_Suc)



text \<open>Once the WireGuard proxy is loaded into a fresh program, the program redirects every
  packet of every sequence of packets as the proxy needs it: a UDP packet WireGuard sends from
  its own port to a port of 127.0.0.1 arrives at the proxy's port, with the port it was meant for
  as its source, and every other packet is untouched.\<close>

theorem xdp_redirects_wireguard:
  assumes "LoadWgProxy e pp wp tf = (None, tf')" and "\<not> link tf" and "featureFlags tf = 0"
  shows "snd (xdp_run (bpfObjs tf') ps) = map (redirect (word_of_int pp) (word_of_int wp)) ps"
  using LoadWgProxy_settled [OF assms] by (rule xdp_run_settled)

theorem xdp_redirects_wireguard_witness:
  "\<forall>ps. snd (xdp_run (bpfObjs (snd (LoadWgProxy env_ok 3128 51820 new_GeneralManager))) ps)
     = map (redirect 3128 51820) ps"
proof -
  have load: "LoadWgProxy env_ok 3128 51820 new_GeneralManager
      = (None, snd (LoadWgProxy env_ok 3128 51820 new_GeneralManager))"
    by (simp add: LoadWgProxy_def env_ok_def loadXdp_def new_GeneralManager_def Put_features_def Let_def)
  show ?thesis
    using xdp_redirects_wireguard [OF load] by (simp add: new_GeneralManager_def)
qed

text \<open>The program reads the ports once: when it stays attached for the other feature and the
  proxy is loaded again with other ports, the new ports are stored in the map, but packets are
  still matched with the old WireGuard port and sent to the old proxy port.\<close>

theorem reloaded_ports_are_ignored:
  assumes "link tf" and "g_proxy_port (bpfObjs tf) \<noteq> 0" and "g_wg_port (bpfObjs tf) \<noteq> 0"
    and "LoadWgProxy e pp wp tf = (None, tf')"
  shows "wg_ports tf' = (word_of_int pp, word_of_int wp)
       \<and> snd (xdp_wg_proxy (bpfObjs tf') p) =
         (if ip_daddr p = htonl 2130706433 \<and> udp_source p = g_wg_port (bpfObjs tf)
          then p\<lparr>udp_dest := htons (g_proxy_port (bpfObjs tf)), udp_source := udp_dest p\<rparr> else p)"
proof -
  have "g_proxy_port (bpfObjs tf') = g_proxy_port (bpfObjs tf)" "g_wg_port (bpfObjs tf') = g_wg_port (bpfObjs tf)"
    using assms(1,4) unfolding LoadWgProxy_def Put_features_def setFeatureFlag_def loadXdp_def
    by (auto simp: Let_def split: option.splits)
  with assms LoadWgProxy_ok [OF assms(4)] show ?thesis by (auto simp: xdp_wg_proxy_def Let_def)
qed

theorem reloaded_ports_are_ignored_witness:
  "\<exists>tf tf'. LoadWgProxy env_ok 3129 51821 tf = (None, tf') \<and> wg_ports tf' = (3129, 51821)
     \<and> (\<forall>p. udp_dest (snd (xdp_wg_proxy (bpfObjs tf')
              (p\<lparr>ip_daddr := htonl 2130706433, udp_source := htons 51820\<rparr>))) = htons 3128)"
proof -
  define tf where "tf = \<lparr>link = True, featureFlags = 2,
    bpfObjs = fresh_objects\<lparr>g_proxy_port := 3128, g_wg_port := htons 51820\<rparr>\<rparr>"
  define tf' where "tf' = snd (LoadWgProxy env_ok 3129 51821 tf)"
  have "LoadWgProxy env_ok 3129 51821 tf = (None, tf')"
    by (simp add: tf'_def LoadWgProxy_def env_ok_def loadXdp_def tf_def Put_features_def Let_def)
  moreover have "link tf" "g_proxy_port (bpfObjs tf) \<noteq> 0" "g_wg_port (bpfObjs tf) \<noteq> 0"
    by (simp_all add: tf_def htons_def)
  ultimately show ?thesis
    using reloaded_ports_are_ignored [of tf env_ok 3129 51821 tf']
    by (intro exI [of _ tf] exI [of _ tf']) (simp add: tf_def)
qed

end
