(* ===== verification/Wg_Proxy.thy ===== *)
theory Wg_Proxy
  imports Ebpf_Manager
begin

text \<open>
  The proxies between a relayed (TURN) connection and the local WireGuard interface
  (\<^verbatim>\<open>client/internal/wgproxy\<close>): the eBPF proxy, which gives every connection a fake local port and
  lets the XDP program redirect WireGuard's packets, the user space proxy, and the factory that
  chooses between them.  Connections are references; what a read, a write, a dial or a close
  returns is a parameter.
\<close>

section \<open>Port lookup\<close>

definition portRangeStart :: int where "portRangeStart = 3128"
definition portRangeEnd :: int where "portRangeEnd = 3228"

text \<open>\<open>ListenPacket\<close> is \<^verbatim>\<open>net.ListenPacket("udp", _)\<close>; the listener is closed at once.\<close>

definition tryToBind :: "(string \<Rightarrow> error option) \<Rightarrow> int \<Rightarrow> error option" where
  "tryToBind ListenPacket port = ListenPacket ('':'' @ Itoa port)"

function search_from :: "(string \<Rightarrow> error option) \<Rightarrow> int \<Rightarrow> error + int" where
  "search_from ListenPacket i =
     (if i \<le> portRangeEnd
      then if tryToBind ListenPacket i = None then Inr i else search_from ListenPacket (i + 1)
      else Inl (Errorf ''failed to bind free port for eBPF proxy''))"
  by auto
termination
  by (relation "measure (\<lambda>(_, i). nat (portRangeEnd + 1 - i))") auto

declare search_from.simps [simp del]

definition searchFreePort :: "(string \<Rightarrow> error option) \<Rightarrow> error + int" where
  "searchFreePort ListenPacket = search_from ListenPacket portRangeStart"

section \<open>The eBPF proxy\<close>

text \<open>
  \<open>local_workers\<close> are the running \<^verbatim>\<open>proxyToLocal\<close> goroutines, \<open>closed\<close> the connections closed so
  far, \<open>leaked\<close> the raw descriptors that are neither closed nor owned by a file.
\<close>

record 'm WGEBPFProxy =
  ebpfManager :: 'm
  lastUsedPort :: u16
  localWGListenPort :: int
  turnConnStore :: "(u16, nat) gomap"
  rawConn :: "nat option"
  proxy_conn :: "nat option"
  local_workers :: "(u16 \<times> nat) list"
  closed :: "nat list"
  leaked :: "nat list"

definition NewWGEBPFProxy :: "'m \<Rightarrow> int \<Rightarrow> 'm WGEBPFProxy" where
  "NewWGEBPFProxy mgr wgPort =
     \<lparr>ebpfManager = mgr, lastUsedPort = 0, localWGListenPort = wgPort, turnConnStore = [],
      rawConn = None, proxy_conn = None, local_workers = [], closed = [], leaked = []\<rparr>"

record sock_env =
  sys_Socket :: "error + nat"
  set_HDRINCL :: "error option"
  bind_to_lo :: "error option"
  nb_SetSocketOpt :: "error option"
  NewFile_nil :: bool
  FilePacketConn :: "error + nat"

definition prepareSenderRawSocket :: "sock_env \<Rightarrow> 'm WGEBPFProxy \<Rightarrow> (error + nat) \<times> 'm WGEBPFProxy" where
  "prepareSenderRawSocket e p =
     (case sys_Socket e of
        Inl err \<Rightarrow> (Inl (Wrapf ''creating raw socket failed'' err), p)
      | Inr fd \<Rightarrow>
      let p = p\<lparr>leaked := fd # leaked p\<rparr>
      in case set_HDRINCL e of
        Some err \<Rightarrow> (Inl (Wrapf ''setting IP_HDRINCL failed'' err), p)
      | None \<Rightarrow>
      (case bind_to_lo e of
        Some err \<Rightarrow> (Inl (Wrapf ''binding to lo interface failed'' err), p)
      | None \<Rightarrow>
      (case nb_SetSocketOpt e of
        Some err \<Rightarrow> (Inl (Wrapf ''setting fwmark failed'' err), p)
      | None \<Rightarrow>
      if NewFile_nil e then (Inl (Errorf ''converting fd to file failed''), p)
      else let p = p\<lparr>leaked := tl (leaked p)\<rparr>
           in case FilePacketConn e of
                Inl err \<Rightarrow> (Inl (Wrapf ''converting file to packet conn failed'' err), p)
              | Inr conn \<Rightarrow> (Inr conn, p))))"

text \<open>\<open>Close\<close> gives what closing a connection returns.\<close>

definition close_conn :: "nat option \<Rightarrow> 'm WGEBPFProxy \<Rightarrow> 'm WGEBPFProxy" where
  "close_conn c p = (case c of None \<Rightarrow> p | Some r \<Rightarrow> p\<lparr>closed := r # closed p\<rparr>)"

definition ebpf_Free ::
  "'m Manager \<Rightarrow> (nat \<Rightarrow> error option) \<Rightarrow> 'm WGEBPFProxy \<Rightarrow> error option \<times> 'm WGEBPFProxy" where
  "ebpf_Free M Close p =
     (let err1 = (case proxy_conn p of None \<Rightarrow> None | Some c \<Rightarrow> Close c);
          p = close_conn (proxy_conn p) p;
          (err2, m) = mgr_FreeWGProxy M (ebpfManager p);
          p = p\<lparr>ebpfManager := m\<rparr>;
          err3 = (case rawConn p of None \<Rightarrow> None | Some c \<Rightarrow> Close c);
          p = close_conn (rawConn p) p
      in if err1 \<noteq> None then (err1, p) else if err2 \<noteq> None then (err2, p) else (err3, p))"

definition loopback_ip :: IP where "loopback_ip = v4InV6Prefix @ [127, 0, 0, 1]"

definition listen ::
  "'m Manager \<Rightarrow> sock_env \<Rightarrow> (string \<Rightarrow> error option) \<Rightarrow> (UDPAddr \<Rightarrow> error + nat) \<Rightarrow> (nat \<Rightarrow> error option)
     \<Rightarrow> 'm WGEBPFProxy \<Rightarrow> error option \<times> 'm WGEBPFProxy" where
  "listen M e ListenPacket ListenUDP Close p =
     (case searchFreePort ListenPacket of
        Inl err \<Rightarrow> (Some err, p)
      | Inr wgPorxyPort \<Rightarrow>
      (case prepareSenderRawSocket e p of
        (Inl err, p) \<Rightarrow> (Some err, p\<lparr>rawConn := None\<rparr>)
      | (Inr raw, p) \<Rightarrow>
      let p = p\<lparr>rawConn := Some raw\<rparr>
      in case mgr_LoadWgProxy M wgPorxyPort (localWGListenPort p) (ebpfManager p) of
        (Some err, m) \<Rightarrow> (Some err, p\<lparr>ebpfManager := m\<rparr>)
      | (None, m) \<Rightarrow>
      let p = p\<lparr>ebpfManager := m\<rparr>
      in case ListenUDP \<lparr>IP = loopback_ip, Port = wgPorxyPort, Zone = ''''\<rparr> of
           Inl err \<Rightarrow> (Some err, snd (ebpf_Free M Close p))
         | Inr conn \<Rightarrow> (None, p\<lparr>proxy_conn := Some conn\<rparr>)))"

text \<open>
  The \<^verbatim>\<open>goto\<close> loop of \<^verbatim>\<open>nextFreePort\<close>: it ends only at a port that is not in the store, so it is
  a partial function and not returning is \<open>None\<close>.
\<close>

partial_function (option) generatePort :: "(u16, nat) gomap \<Rightarrow> u16 \<Rightarrow> u16 option" where
  "generatePort store lastUsed =
     (let port = (if lastUsed = 65535 then 1 else lastUsed + 1)
      in case gm_get store port of
           Some _ \<Rightarrow> generatePort store port
         | None \<Rightarrow> Some port)"

definition nextFreePort :: "'m WGEBPFProxy \<Rightarrow> ((error + u16) \<times> 'm WGEBPFProxy) option" where
  "nextFreePort p =
     (if length (turnConnStore p) = 65535
      then Some (Inl (Errorf ''reached maximum turn connection numbers''), p)
      else case generatePort (turnConnStore p) (lastUsedPort p) of
             None \<Rightarrow> None
           | Some port \<Rightarrow> Some (Inr port, p\<lparr>lastUsedPort := port\<rparr>))"

definition storeTurnConn :: "nat \<Rightarrow> 'm WGEBPFProxy \<Rightarrow> ((error + u16) \<times> 'm WGEBPFProxy) option" where
  "storeTurnConn turnConn p =
     (case nextFreePort p of
        None \<Rightarrow> None
      | Some (Inl err, p) \<Rightarrow> Some (Inl err, p)
      | Some (Inr np, p) \<Rightarrow> Some (Inr np, p\<lparr>turnConnStore := gm_put np turnConn (turnConnStore p)\<rparr>))"

definition removeTurnConn :: "u16 \<Rightarrow> 'm WGEBPFProxy \<Rightarrow> 'm WGEBPFProxy" where
  "removeTurnConn turnConnID p = p\<lparr>turnConnStore := gm_del turnConnID (turnConnStore p)\<rparr>"

definition ebpf_AddTurnConn ::
  "nat \<Rightarrow> 'm WGEBPFProxy \<Rightarrow> ((error + UDPAddr) \<times> 'm WGEBPFProxy) option" where
  "ebpf_AddTurnConn turnConn p =
     (case storeTurnConn turnConn p of
        None \<Rightarrow> None
      | Some (Inl err, p) \<Rightarrow> Some (Inl err, p)
      | Some (Inr np, p) \<Rightarrow>
          Some (Inr \<lparr>IP = loopback_ip, Port = uint np, Zone = ''''\<rparr>,
                p\<lparr>local_workers := local_workers p @ [(np, turnConn)]\<rparr>))"

definition ebpf_CloseConn :: "'m WGEBPFProxy \<Rightarrow> error option \<times> 'm WGEBPFProxy" where
  "ebpf_CloseConn p = (None, p)"

section \<open>Moving packets\<close>

record IPv4 = DstIP :: IP  SrcIP :: IP  Version :: byte  TTL :: byte  Protocol :: byte
record UDPlayer = SrcPort :: u16  DstPort :: u16

record 'w net_world =
  conn_Write :: "nat \<Rightarrow> bytes \<Rightarrow> 'w \<Rightarrow> (error + nat) \<times> 'w"
  raw_WriteTo :: "nat \<Rightarrow> bytes \<Rightarrow> IP \<Rightarrow> 'w \<Rightarrow> (error + nat) \<times> 'w"
  SetNetworkLayer :: "IPv4 \<Rightarrow> error option"
  SerializeLayers :: "IPv4 \<Rightarrow> UDPlayer \<Rightarrow> bytes \<Rightarrow> error + bytes"

definition sendPkg ::
  "'w net_world \<Rightarrow> 'm WGEBPFProxy \<Rightarrow> bytes \<Rightarrow> u16 \<Rightarrow> 'w \<Rightarrow> error option \<times> 'w" where
  "sendPkg N p data port w =
     (let ipH = \<lparr>DstIP = loopback_ip, SrcIP = loopback_ip, Version = 4, TTL = 64, Protocol = 17\<rparr>;
          udpH = \<lparr>SrcPort = port, DstPort = word_of_int (localWGListenPort p)\<rparr>
      in case SetNetworkLayer N ipH of
           Some err \<Rightarrow> (Some (Wrapf ''set network layer for checksum'' err), w)
         | None \<Rightarrow>
             (case SerializeLayers N ipH udpH data of
                Inl err \<Rightarrow> (Some (Wrapf ''serialize layers'' err), w)
              | Inr b \<Rightarrow>
                  (case rawConn p of
                     None \<Rightarrow> (Some (Panic ''nil pointer dereference''), w)
                   | Some raw \<Rightarrow>
                       (case raw_WriteTo N raw b loopback_ip w of
                          (Inl err, w) \<Rightarrow> (Some (Wrapf ''write to raw conn'' err), w)
                        | (Inr _, w) \<Rightarrow> (None, w)))))"

text \<open>
  The loops run over the results of their reads, the count and the buffer, until the list ends,
  which is the context being done.  \<open>proxyToLocal\<close> returns at the first failed read, and the
  connection then leaves the store.
\<close>

fun proxyToLocal_loop ::
  "'w net_world \<Rightarrow> 'm WGEBPFProxy \<Rightarrow> u16 \<Rightarrow> (error + nat \<times> bytes) list \<Rightarrow> 'w \<Rightarrow> 'w" where
  "proxyToLocal_loop N p port [] w = w"
| "proxyToLocal_loop N p port (Inl _ # rs) w = w"
| "proxyToLocal_loop N p port (Inr (n, buf) # rs) w =
     proxyToLocal_loop N p port rs (snd (sendPkg N p (take n buf) port w))"

definition exit_worker :: "u16 \<Rightarrow> nat \<Rightarrow> 'm WGEBPFProxy \<Rightarrow> 'm WGEBPFProxy" where
  "exit_worker endpointPort remoteConn p =
     removeTurnConn endpointPort (p\<lparr>local_workers := removeAll (endpointPort, remoteConn) (local_workers p)\<rparr>)"

definition ebpf_proxyToLocal ::
  "'w net_world \<Rightarrow> u16 \<Rightarrow> nat \<Rightarrow> (error + nat \<times> bytes) list \<Rightarrow> 'w \<Rightarrow> 'm WGEBPFProxy \<Rightarrow> 'w \<times> 'm WGEBPFProxy" where
  "ebpf_proxyToLocal N endpointPort remoteConn rs w p =
     (proxyToLocal_loop N p endpointPort rs w, exit_worker endpointPort remoteConn p)"

definition proxyToRemote_iter ::
  "'w net_world \<Rightarrow> 'm WGEBPFProxy \<Rightarrow> nat \<times> bytes \<times> UDPAddr \<Rightarrow> 'w \<Rightarrow> 'w" where
  "proxyToRemote_iter N p r w =
     (case r of (n, buf, addr) \<Rightarrow>
        (case gm_get (turnConnStore p) (word_of_int (Port addr)) of
           None \<Rightarrow> w
         | Some conn \<Rightarrow> snd (conn_Write N conn (take n buf) w)))"

fun ebpf_proxyToRemote ::
  "'w net_world \<Rightarrow> 'm WGEBPFProxy \<Rightarrow> (error + nat \<times> bytes \<times> UDPAddr) list \<Rightarrow> 'w \<Rightarrow> 'w" where
  "ebpf_proxyToRemote N p [] w = w"
| "ebpf_proxyToRemote N p (Inl _ # rs) w = w"
| "ebpf_proxyToRemote N p (Inr r # rs) w = ebpf_proxyToRemote N p rs (proxyToRemote_iter N p r w)"

section \<open>The user space proxy\<close>

record WGUserSpaceProxy =
  us_localWGListenPort :: int
  us_cancelled :: bool
  us_remoteConn :: "nat option"
  us_localConn :: "nat option"

definition NewWGUserSpaceProxy :: "int \<Rightarrow> WGUserSpaceProxy" where
  "NewWGUserSpaceProxy wgPort =
     \<lparr>us_localWGListenPort = wgPort, us_cancelled = False, us_remoteConn = None, us_localConn = None\<rparr>"

text \<open>\<open>Dial\<close> is the dialer of \<^verbatim>\<open>util/net\<close> on \<^verbatim>\<open>"udp"\<close>; a failed dial leaves a nil connection.\<close>

definition us_AddTurnConn ::
  "(string \<Rightarrow> error + nat) \<Rightarrow> (nat \<Rightarrow> Addr) \<Rightarrow> nat \<Rightarrow> WGUserSpaceProxy \<Rightarrow> (error + Addr) \<times> WGUserSpaceProxy" where
  "us_AddTurnConn Dial LocalAddr turnConn p =
     (let p = p\<lparr>us_remoteConn := Some turnConn\<rparr>
      in case Dial ('':'' @ Itoa (us_localWGListenPort p)) of
           Inl err \<Rightarrow> (Inl err, p\<lparr>us_localConn := None\<rparr>)
         | Inr conn \<Rightarrow> (Inr (LocalAddr conn), p\<lparr>us_localConn := Some conn\<rparr>))"

definition us_CloseConn ::
  "(nat \<Rightarrow> error option) \<Rightarrow> WGUserSpaceProxy \<Rightarrow> error option \<times> WGUserSpaceProxy" where
  "us_CloseConn Close p =
     (let p = p\<lparr>us_cancelled := True\<rparr>
      in case us_localConn p of None \<Rightarrow> (None, p) | Some c \<Rightarrow> (Close c, p))"

definition us_Free :: "WGUserSpaceProxy \<Rightarrow> error option \<times> WGUserSpaceProxy" where
  "us_Free p = (None, p)"

text \<open>Both loops of the user space proxy copy what is read from one connection to the other and
  go on after an error; \<open>dst\<close> is the connection written to.  They are started once both
  connections are set, so the \<open>None\<close> branches below are not reached.\<close>

fun us_pump :: "'w net_world \<Rightarrow> nat \<Rightarrow> (error + nat \<times> bytes) list \<Rightarrow> 'w \<Rightarrow> 'w" where
  "us_pump N dst [] w = w"
| "us_pump N dst (Inl _ # rs) w = us_pump N dst rs w"
| "us_pump N dst (Inr (n, buf) # rs) w = us_pump N dst rs (snd (conn_Write N dst (take n buf) w))"

definition us_proxyToRemote ::
  "'w net_world \<Rightarrow> WGUserSpaceProxy \<Rightarrow> (error + nat \<times> bytes) list \<Rightarrow> 'w \<Rightarrow> 'w" where
  "us_proxyToRemote N p rs w =
     (case us_remoteConn p of None \<Rightarrow> w | Some c \<Rightarrow> us_pump N c rs w)"

definition us_proxyToLocal ::
  "'w net_world \<Rightarrow> WGUserSpaceProxy \<Rightarrow> (error + nat \<times> bytes) list \<Rightarrow> 'w \<Rightarrow> 'w" where
  "us_proxyToLocal N p rs w =
     (case us_localConn p of None \<Rightarrow> w | Some c \<Rightarrow> us_pump N c rs w)"

section \<open>The factory\<close>

record 'm Factory =
  wgPort :: int
  ebpfProxy :: "'m WGEBPFProxy option"

datatype 'm Proxy = EBPF_Proxy "'m WGEBPFProxy" | UserSpace_Proxy WGUserSpaceProxy

definition NewFactory ::
  "'m Manager \<Rightarrow> 'm \<Rightarrow> sock_env \<Rightarrow> (string \<Rightarrow> error option) \<Rightarrow> (UDPAddr \<Rightarrow> error + nat) \<Rightarrow> (nat \<Rightarrow> error option)
     \<Rightarrow> bool \<Rightarrow> int \<Rightarrow> 'm Factory" where
  "NewFactory M mgr e ListenPacket ListenUDP Close userspace port =
     (if userspace then \<lparr>wgPort = port, ebpfProxy = None\<rparr>
      else case listen M e ListenPacket ListenUDP Close (NewWGEBPFProxy mgr port) of
             (Some _, _) \<Rightarrow> \<lparr>wgPort = port, ebpfProxy = None\<rparr>
           | (None, p) \<Rightarrow> \<lparr>wgPort = port, ebpfProxy = Some p\<rparr>)"

definition NewFactory_nonlinux :: "bool \<Rightarrow> int \<Rightarrow> 'm Factory" where
  "NewFactory_nonlinux userspace port = \<lparr>wgPort = port, ebpfProxy = None\<rparr>"

definition GetProxy :: "'m Factory \<Rightarrow> 'm Proxy" where
  "GetProxy f =
     (case ebpfProxy f of
        Some p \<Rightarrow> EBPF_Proxy p | None \<Rightarrow> UserSpace_Proxy (NewWGUserSpaceProxy (wgPort f)))"

definition factory_Free ::
  "'m Manager \<Rightarrow> (nat \<Rightarrow> error option) \<Rightarrow> 'm Factory \<Rightarrow> error option \<times> 'm Factory" where
  "factory_Free M Close f =
     (case ebpfProxy f of
        Some p \<Rightarrow> (let (err, p) = ebpf_Free M Close p in (err, f\<lparr>ebpfProxy := Some p\<rparr>))
      | None \<Rightarrow> (None, f))"

section \<open>The loops end\<close>

lemma search_from_ok:
  "search_from L i = Inr port \<Longrightarrow>
     i \<le> port \<and> port \<le> portRangeEnd \<and> tryToBind L port = None
   \<and> (\<forall>j. i \<le> j \<and> j < port \<longrightarrow> tryToBind L j \<noteq> None)"
proof (induction L i rule: search_from.induct)
  case (1 L i)
  show ?case
  proof (cases "i \<le> portRangeEnd \<and> tryToBind L i \<noteq> None")
    case True
    then have "search_from L (i + 1) = Inr port"
      using "1.prems" by (subst (asm) search_from.simps) auto
    from "1.IH" [OF _ _ this] True have
      IH: "i + 1 \<le> port" "port \<le> portRangeEnd" "tryToBind L port = None"
        "\<forall>j. i + 1 \<le> j \<and> j < port \<longrightarrow> tryToBind L j \<noteq> None" by auto
    have "tryToBind L j \<noteq> None" if "i \<le> j" "j < port" for j
      using IH(4) True that by (cases "j = i") simp_all
    with IH show ?thesis by simp
  next
    case False
    then show ?thesis using "1.prems" by (subst (asm) search_from.simps) (auto split: if_splits)
  qed
qed

lemma search_from_fails:
  "search_from L i = Inl err \<Longrightarrow> i \<le> j \<Longrightarrow> j \<le> portRangeEnd \<Longrightarrow> tryToBind L j \<noteq> None"
proof (induction L i rule: search_from.induct)
  case (1 L i)
  then have bound: "i \<le> portRangeEnd" by simp
  then have "tryToBind L i \<noteq> None" "search_from L (i + 1) = Inl err"
    using "1.prems"(1) by (subst (asm) search_from.simps, simp split: if_splits)+
  with "1.IH" [OF bound] "1.prems" show ?case by (cases "j = i") simp_all
qed

definition next_port :: "u16 \<Rightarrow> u16" where
  "next_port p = (if p = 65535 then 1 else p + 1)"

definition steps_to :: "u16 \<Rightarrow> u16 \<Rightarrow> nat" where
  "steps_to q p = (if unat p < unat q then unat q - unat p else 65535 - unat p + unat q)"

lemma unat_u16_bound: "unat (p :: u16) \<le> 65535"
  using unsigned_less [of p, where ?'a = nat] by simp

lemma unat_next_port: "unat (next_port p) = (if unat p = 65535 then 1 else Suc (unat p))"
proof (cases "p = 65535")
  case False
  have "unat p \<noteq> 65535"
  proof
    assume "unat p = 65535"
    then have "unat p = unat (65535 :: u16)" by simp
    with False show False by (simp only: word_unat_eq_iff)
  qed
  moreover have "unat (p + 1) = Suc (unat p)"
    using calculation unat_u16_bound [of p] by (simp add: unat_word_ariths)
  ultimately show ?thesis using False by (simp add: next_port_def)
qed (simp add: next_port_def)

lemma next_port_nonzero: "next_port p \<noteq> 0"
  using unat_next_port [of p] by (auto split: if_splits)

lemma steps_to_next:
  assumes "q \<noteq> 0" and "next_port p \<noteq> q"
  shows "steps_to q (next_port p) < steps_to q p"
proof -
  have "unat q \<noteq> 0" using assms(1) by (simp add: unat_eq_0)
  moreover have "unat (next_port p) \<noteq> unat q" using assms(2) by (simp only: word_unat_eq_iff not_False_eq_True)
  moreover note unat_next_port [of p] unat_u16_bound [of p] unat_u16_bound [of q]
  ultimately show ?thesis
    unfolding steps_to_def by (cases "unat p = 65535") (simp_all split: if_split, linarith+)
qed

lemma generatePort_returns:
  assumes "q \<noteq> 0" and "gm_get store q = None"
  shows "\<exists>port. generatePort store p = Some port \<and> gm_get store port = None \<and> port \<noteq> 0"
proof (induction "steps_to q p" arbitrary: p rule: less_induct)
  case less
  have unfold: "generatePort store p =
      (case gm_get store (next_port p) of Some _ \<Rightarrow> generatePort store (next_port p) | None \<Rightarrow> Some (next_port p))"
    by (subst generatePort.simps) (simp only: next_port_def Let_def)
  show ?case
  proof (cases "gm_get store (next_port p)")
    case None
    then show ?thesis by (simp add: unfold next_port_nonzero)
  next
    case (Some c)
    with assms(2) have "next_port p \<noteq> q" by auto
    from less [OF steps_to_next [OF assms(1) this]] show ?thesis by (simp add: unfold Some)
  qed
qed

lemma card_nonzero_u16: "card (UNIV - {0 :: u16}) = 65535"
  by (simp add: card_Diff_singleton card_word)

lemma free_port_exists:
  assumes "length store < 65535"
  shows "\<exists>q. q \<noteq> 0 \<and> gm_get (store :: (u16, nat) gomap) q = None"
proof (rule ccontr)
  assume "\<not> ?thesis"
  then have "UNIV - {0} \<subseteq> fst ` set store" by (auto simp: map_of_eq_None_iff)
  then have "card (UNIV - {0 :: u16}) \<le> card (fst ` set store)" by (intro card_mono) simp_all
  also have "\<dots> \<le> length store" by (metis card_length length_map set_map)
  finally show False using assms by (simp add: card_nonzero_u16)
qed

section \<open>Invariant of the eBPF proxy\<close>

definition proxy_inv :: "'m WGEBPFProxy \<Rightarrow> bool" where
  "proxy_inv p \<longleftrightarrow> gm_wf (turnConnStore p) \<and> gm_get (turnConnStore p) 0 = None
     \<and> (\<forall>q c. gm_get (turnConnStore p) q = Some c \<longleftrightarrow> (q, c) \<in> set (local_workers p))"

inductive ebpf_step :: "'m Manager \<Rightarrow> 'm WGEBPFProxy \<Rightarrow> 'm WGEBPFProxy \<Rightarrow> bool" for M where
  step_add: "ebpf_AddTurnConn c p = Some (res, p') \<Longrightarrow> ebpf_step M p p'"
| step_exit: "(port, c) \<in> set (local_workers p) \<Longrightarrow>
     ebpf_step M p (exit_worker port c p)"
| step_free: "ebpf_step M p (snd (ebpf_Free M Close p))"

inductive ebpf_reachable :: "'m Manager \<Rightarrow> 'm WGEBPFProxy \<Rightarrow> bool" for M where
  ebpf_start: "ebpf_reachable M (NewWGEBPFProxy mgr port)"
| ebpf_listen: "ebpf_reachable M (snd (listen M e L LU Close (NewWGEBPFProxy mgr port)))"
| ebpf_next: "ebpf_reachable M p \<Longrightarrow> ebpf_step M p p' \<Longrightarrow> ebpf_reachable M p'"

lemma proxy_store_small:
  assumes "proxy_inv p" shows "length (turnConnStore p) \<le> 65535"
proof -
  have "fst ` set (turnConnStore p) \<subseteq> UNIV - {0}"
    using assms by (auto simp: proxy_inv_def map_of_eq_None_iff)
  then have "card (fst ` set (turnConnStore p)) \<le> 65535"
    using card_mono [of "UNIV - {0 :: u16}"] by (simp add: card_nonzero_u16)
  moreover have "card (fst ` set (turnConnStore p)) = length (turnConnStore p)"
    using assms by (metis distinct_card gm_wf_def length_map proxy_inv_def set_map)
  ultimately show ?thesis by simp
qed

lemma storeTurnConn_returns:
  assumes "proxy_inv p" and "length (turnConnStore p) \<noteq> 65535"
  shows "\<exists>port. storeTurnConn c p = Some (Inr port,
             p\<lparr>lastUsedPort := port, turnConnStore := gm_put port c (turnConnStore p)\<rparr>)
           \<and> port \<noteq> 0 \<and> gm_get (turnConnStore p) port = None"
proof -
  have "length (turnConnStore p) < 65535" using assms proxy_store_small [of p] by simp
  then obtain q where "q \<noteq> 0" "gm_get (turnConnStore p) q = None" using free_port_exists by blast
  from generatePort_returns [OF this, of "lastUsedPort p"] show ?thesis
    using assms(2) by (auto simp: storeTurnConn_def nextFreePort_def)
qed

lemma AddTurnConn_cases:
  assumes "proxy_inv p"
  shows "(length (turnConnStore p) = 65535 \<and>
            ebpf_AddTurnConn c p = Some (Inl (Errorf ''reached maximum turn connection numbers''), p))
       \<or> (\<exists>port. port \<noteq> 0 \<and> gm_get (turnConnStore p) port = None
            \<and> ebpf_AddTurnConn c p = Some (Inr \<lparr>IP = loopback_ip, Port = uint port, Zone = ''''\<rparr>,
                p\<lparr>lastUsedPort := port, turnConnStore := gm_put port c (turnConnStore p),
                  local_workers := local_workers p @ [(port, c)]\<rparr>))"
proof (cases "length (turnConnStore p) = 65535")
  case True
  then show ?thesis by (simp add: ebpf_AddTurnConn_def storeTurnConn_def nextFreePort_def)
next
  case False
  from storeTurnConn_returns [OF assms False, of c] show ?thesis
    by (auto simp: ebpf_AddTurnConn_def)
qed

lemma proxy_inv_iff:
  "proxy_inv p \<Longrightarrow> gm_get (turnConnStore p) q = Some c \<longleftrightarrow> (q, c) \<in> set (local_workers p)"
  by (simp add: proxy_inv_def)

lemma proxy_inv_add:
  assumes inv: "proxy_inv p" and "port \<noteq> 0" and "gm_get (turnConnStore p) port = None"
  shows "proxy_inv (p\<lparr>lastUsedPort := port, turnConnStore := gm_put port c (turnConnStore p),
           local_workers := local_workers p @ [(port, c)]\<rparr>)"
proof -
  have "(port, d) \<notin> set (local_workers p)" for d
    using assms proxy_inv_iff [OF inv, of port d] by simp
  then show ?thesis using assms
    by (simp add: proxy_inv_def) (metis option.inject)
qed

lemma AddTurnConn_inv:
  assumes "proxy_inv p" and "ebpf_AddTurnConn c p = Some (res, p')"
  shows "proxy_inv p'"
  using AddTurnConn_cases [OF assms(1), of c] assms proxy_inv_add [OF assms(1)]
  by (elim disjE exE conjE) auto

lemma exit_worker_inv:
  assumes "proxy_inv p" and "(port, c) \<in> set (local_workers p)"
  shows "proxy_inv (exit_worker port c p)"
proof -
  have "(port, d) \<in> set (local_workers p) \<Longrightarrow> d = c" for d
    using assms(2) proxy_inv_iff [OF assms(1), of port c] proxy_inv_iff [OF assms(1), of port d] by simp
  then have others: "(q, d) \<in> set (removeAll (port, c) (local_workers p)) \<longleftrightarrow>
      q \<noteq> port \<and> gm_get (turnConnStore p) q = Some d" for q d
    using proxy_inv_iff [OF assms(1), of q d] by auto
  show ?thesis
    using assms(1) unfolding proxy_inv_def exit_worker_def removeTurnConn_def
    by (simp add: others del: set_removeAll)
qed

lemma close_conn_fields [simp]:
  "turnConnStore (close_conn c p) = turnConnStore p" "local_workers (close_conn c p) = local_workers p"
  "ebpfManager (close_conn c p) = ebpfManager p" "rawConn (close_conn c p) = rawConn p"
  "proxy_conn (close_conn c p) = proxy_conn p"
  "set (closed (close_conn c p)) = set_option c \<union> set (closed p)"
  by (simp_all add: close_conn_def split: option.split)

lemma ebpf_Free_fields [simp]:
  "turnConnStore (snd (ebpf_Free M Close p)) = turnConnStore p"
  "local_workers (snd (ebpf_Free M Close p)) = local_workers p"
  by (simp_all add: ebpf_Free_def Let_def case_prod_beta)

lemma proxy_inv_cong:
  "turnConnStore p' = turnConnStore p \<Longrightarrow> local_workers p' = local_workers p \<Longrightarrow> proxy_inv p' = proxy_inv p"
  by (simp add: proxy_inv_def)

lemma prepare_fields:
  "prepareSenderRawSocket e p = (res, p') \<Longrightarrow>
     turnConnStore p' = turnConnStore p \<and> local_workers p' = local_workers p
   \<and> localWGListenPort p' = localWGListenPort p \<and> ebpfManager p' = ebpfManager p"
  by (auto simp: prepareSenderRawSocket_def Let_def split: sum.splits option.splits if_splits)

lemma listen_fields:
  "listen M e L LU Close p = (res, p') \<Longrightarrow> turnConnStore p' = turnConnStore p \<and> local_workers p' = local_workers p"
  by (auto simp: listen_def Let_def dest!: prepare_fields split: sum.splits option.splits prod.splits)

lemma ebpf_reachable_inv: "ebpf_reachable M p \<Longrightarrow> proxy_inv p"
proof (induction rule: ebpf_reachable.induct)
  case (ebpf_start mgr port)
  show ?case by (simp add: NewWGEBPFProxy_def proxy_inv_def)
next
  case (ebpf_listen e L LU Close mgr port)
  obtain res p' where "listen M e L LU Close (NewWGEBPFProxy mgr port) = (res, p')" by fastforce
  with listen_fields [OF this] show ?case by (simp add: proxy_inv_def NewWGEBPFProxy_def)
next
  case (ebpf_next p p')
  from ebpf_next.hyps(2) ebpf_next.IH show ?case
    by cases (auto intro: AddTurnConn_inv exit_worker_inv simp: proxy_inv_cong [of "snd (ebpf_Free M _ p)" p])
qed

section \<open>Against the manager's contract\<close>

lemma ebpf_Free_closes:
  "set_option (proxy_conn p) \<union> set_option (rawConn p) \<subseteq> set (closed (snd (ebpf_Free M Close p)))"
  "ebpfManager (snd (ebpf_Free M Close p)) = snd (mgr_FreeWGProxy M (ebpfManager p))"
  by (auto simp: ebpf_Free_def Let_def case_prod_beta)

context wg_redirect
begin

lemma listen_ok:
  assumes "listen M e L LU Close p = (None, p')"
  shows "\<exists>port conn raw. searchFreePort L = Inr port \<and> LU \<lparr>IP = loopback_ip, Port = port, Zone = ''''\<rparr> = Inr conn
       \<and> proxy_conn p' = Some conn \<and> rawConn p' = Some raw
       \<and> active (ebpfManager p') \<and> ports (ebpfManager p') = (word_of_int port, word_of_int (localWGListenPort p))"
  using assms
  by (auto simp: listen_def Let_def dest!: prepare_fields intro: load_active load_ports
      split: sum.splits option.splits prod.splits)

lemma Free_ok:
  assumes "ebpf_Free M Close p = (None, p')"
  shows "\<not> active (ebpfManager p')"
proof -
  obtain m' where "mgr_FreeWGProxy M (ebpfManager p) = (None, m')"
    using assms by (auto simp: ebpf_Free_def Let_def split: prod.splits if_splits)
  with assms ebpf_Free_closes(2) [of M Close p] free_inactive show ?thesis by auto
qed

end

section \<open>An instance\<close>

definition sock_ok :: sock_env where
  "sock_ok = \<lparr>sys_Socket = Inr 7, set_HDRINCL = None, bind_to_lo = None, nb_SetSocketOpt = None,
     NewFile_nil = False, FilePacketConn = Inr 8\<rparr>"

definition only_3130 :: "string \<Rightarrow> error option" where
  "only_3130 s = (if s = '':3130'' then None else Some (EnvErr ''in use''))"

definition proxy0 :: "GeneralManager WGEBPFProxy" where
  "proxy0 = NewWGEBPFProxy new_GeneralManager 51820"

definition proxy1 :: "GeneralManager WGEBPFProxy" where
  "proxy1 = snd (listen (general_manager env_ok) sock_ok only_3130 (\<lambda>_. Inr 9) (\<lambda>_. None) proxy0)"

lemma only_3130_port: "searchFreePort only_3130 = Inr 3130"
proof -
  have itoa: "Itoa 3128 = ''3128''" "Itoa 3129 = ''3129''" "Itoa 3130 = ''3130''"
    by (simp_all add: Itoa_def digit_char_def decimal.simps char_of_eq_iff)
  have "search_from only_3130 3130 = Inr 3130"
    by (subst search_from.simps) (simp add: only_3130_def tryToBind_def itoa portRangeEnd_def)
  then have "search_from only_3130 3129 = Inr 3130"
    by (subst search_from.simps) (simp add: only_3130_def tryToBind_def itoa portRangeEnd_def)
  then show ?thesis
    unfolding searchFreePort_def portRangeStart_def
    by (subst search_from.simps) (simp add: only_3130_def tryToBind_def itoa portRangeEnd_def)
qed

section \<open>Properties\<close>

lemma proxy1_listen:
  "listen (general_manager env_ok) sock_ok only_3130 (\<lambda>_. Inr 9) (\<lambda>_. None) proxy0 = (None, proxy1)"
  by (simp add: proxy1_def listen_def only_3130_port prepareSenderRawSocket_def sock_ok_def
      general_manager_def proxy0_def NewWGEBPFProxy_def LoadWgProxy_def env_ok_def loadXdp_def
      new_GeneralManager_def Put_features_def Let_def)

lemma proxy1_reachable: "ebpf_reachable (general_manager env_ok) proxy1"
  unfolding proxy1_def proxy0_def by (rule ebpf_listen)

lemma proxy1_store: "turnConnStore proxy1 = []"
  using listen_fields [OF proxy1_listen] by (simp add: proxy0_def NewWGEBPFProxy_def)

text \<open>C16. In every state the eBPF proxy can reach, adding a connection returns: the search for a
  free port ends although it has no bound, with an error exactly when all 65535 ports are taken,
  and otherwise with a port that is not zero and that no other connection has; the connection is
  then the one stored under that port, every other connection keeps its port, and the ports in
  use are exactly those of the running \<^verbatim>\<open>proxyToLocal\<close> goroutines.\<close>

theorem AddTurnConn_allocates:
  assumes "ebpf_reachable M p"
  shows "\<exists>res p'. ebpf_AddTurnConn c p = Some (res, p')
       \<and> (isl res \<longleftrightarrow> length (turnConnStore p) = 65535)
       \<and> (\<forall>addr. res = Inr addr \<longrightarrow>
            (\<exists>port. port \<noteq> 0 \<and> Port addr = uint port \<and> gm_get (turnConnStore p) port = None
              \<and> (\<forall>q. gm_get (turnConnStore p') q = (if q = port then Some c else gm_get (turnConnStore p) q))))
       \<and> (\<forall>q d. gm_get (turnConnStore p') q = Some d \<longleftrightarrow> (q, d) \<in> set (local_workers p'))"
proof -
  have inv: "proxy_inv p" using assms by (rule ebpf_reachable_inv)
  obtain res p' where add: "ebpf_AddTurnConn c p = Some (res, p')"
    using AddTurnConn_cases [OF inv, of c] by blast
  have inv': "proxy_inv p'" using inv add by (rule AddTurnConn_inv)
  show ?thesis
  proof (intro exI conjI allI)
    show "isl res \<longleftrightarrow> length (turnConnStore p) = 65535"
      using AddTurnConn_cases [OF inv, of c] add
      by (auto simp: ebpf_AddTurnConn_def storeTurnConn_def nextFreePort_def)
    fix q d addr
    show "gm_get (turnConnStore p') q = Some d \<longleftrightarrow> (q, d) \<in> set (local_workers p')"
      using inv' by (rule proxy_inv_iff)
    show "res = Inr addr \<longrightarrow> (\<exists>port. port \<noteq> 0 \<and> Port addr = uint port \<and> gm_get (turnConnStore p) port = None
              \<and> (\<forall>q. gm_get (turnConnStore p') q = (if q = port then Some c else gm_get (turnConnStore p) q)))"
      using AddTurnConn_cases [OF inv, of c] add by auto
  qed (rule add)
qed

theorem AddTurnConn_allocates_witness:
  "\<exists>addr p'. ebpf_AddTurnConn 4 proxy1 = Some (Inr addr, p') \<and> Port addr \<noteq> 0"
proof -
  obtain res p' where add: "ebpf_AddTurnConn 4 proxy1 = Some (res, p')"
    and full: "isl res \<longleftrightarrow> length (turnConnStore proxy1) = 65535"
    and addr: "\<forall>addr. res = Inr addr \<longrightarrow> (\<exists>port. port \<noteq> (0 :: u16) \<and> Port addr = uint port)"
    using AddTurnConn_allocates [OF proxy1_reachable, of 4] by blast
  then obtain a where "res = Inr a" by (cases res) (auto simp: proxy1_store)
  with add addr show ?thesis by (auto simp: uint_0_iff)
qed



text \<open>Starting and freeing the eBPF proxy: a successful start listens on the lowest port of
  3128 to 3228 that can be bound, with the kernel redirection active between WireGuard's port and
  that port; freeing it closes both sockets whatever fails on the way, and when it reports no
  error the redirection is off.\<close>

theorem listen_then_Free:
  assumes "listen (general_manager e) se L LU Close p = (None, p1)"
    and "ebpf_Free (general_manager e') Close p1 = (err, p2)"
  shows "(\<exists>port. 3128 \<le> port \<and> port \<le> 3228 \<and> tryToBind L port = None
          \<and> (\<forall>j. 3128 \<le> j \<and> j < port \<longrightarrow> tryToBind L j \<noteq> None)
          \<and> wg_active (ebpfManager p1)
          \<and> wg_ports (ebpfManager p1) = (word_of_int port, word_of_int (localWGListenPort p)))
       \<and> (set_option (proxy_conn p1) \<union> set_option (rawConn p1) \<subseteq> set (closed p2)
          \<and> proxy_conn p1 \<noteq> None \<and> rawConn p1 \<noteq> None)
       \<and> (err = None \<longrightarrow> \<not> wg_active (ebpfManager p2))"
proof (intro impI conjI [where P = "\<exists>port. _ port"] conjI [where Q = "_ \<longrightarrow> _"])
  from gm.listen_ok [OF assms(1)] obtain port conn raw where
    ok: "searchFreePort L = Inr port" "proxy_conn p1 = Some conn" "rawConn p1 = Some raw"
      "wg_active (ebpfManager p1)"
      "wg_ports (ebpfManager p1) = (word_of_int port, word_of_int (localWGListenPort p))" by blast
  from search_from_ok [OF ok(1) [unfolded searchFreePort_def]] ok(4,5)
  show "\<exists>port. 3128 \<le> port \<and> port \<le> 3228 \<and> tryToBind L port = None
          \<and> (\<forall>j. 3128 \<le> j \<and> j < port \<longrightarrow> tryToBind L j \<noteq> None)
          \<and> wg_active (ebpfManager p1)
          \<and> wg_ports (ebpfManager p1) = (word_of_int port, word_of_int (localWGListenPort p))"
    by (auto simp: portRangeStart_def portRangeEnd_def)
  show "set_option (proxy_conn p1) \<union> set_option (rawConn p1) \<subseteq> set (closed p2)
       \<and> proxy_conn p1 \<noteq> None \<and> rawConn p1 \<noteq> None"
    using ok ebpf_Free_closes(1) [of p1 "general_manager e'" Close] assms(2) by simp
  show "\<not> wg_active (ebpfManager p2)" if "err = None"
    using gm.Free_ok assms(2) that by blast
qed

theorem listen_then_Free_witness:
  "wg_active (ebpfManager proxy1)
   \<and> \<not> wg_active (ebpfManager (snd (ebpf_Free (general_manager env_ok) (\<lambda>_. None) proxy1)))"
proof -
  obtain err p2 where free: "ebpf_Free (general_manager env_ok) (\<lambda>_. None) proxy1 = (err, p2)" by fastforce
  have "err = None"
    using free by (auto simp: ebpf_Free_def Let_def general_manager_def FreeWGProxy_def unsetFeatureFlag_def
        manager_close_def Put_features_def env_ok_def split: option.splits if_splits)
  with listen_then_Free [OF proxy1_listen free] free show ?thesis by auto
qed

text \<open>A raw socket leaks when it cannot be configured: whichever option is refused, the
  error is reported but the descriptor just opened is never closed.\<close>

theorem raw_socket_leaks:
  assumes "sys_Socket e = Inr fd"
    and "set_HDRINCL e \<noteq> None \<or> bind_to_lo e \<noteq> None \<or> nb_SetSocketOpt e \<noteq> None"
  shows "isl (fst (prepareSenderRawSocket e p)) \<and> fd \<in> set (leaked (snd (prepareSenderRawSocket e p)))
       \<and> closed (snd (prepareSenderRawSocket e p)) = closed p"
  using assms by (auto simp: prepareSenderRawSocket_def Let_def split: option.splits)

theorem raw_socket_leaks_witness:
  "7 \<in> set (leaked (snd (prepareSenderRawSocket (sock_ok\<lparr>bind_to_lo := Some (EnvErr ''EPERM'')\<rparr>) proxy0)))"
  using raw_socket_leaks [of "sock_ok\<lparr>bind_to_lo := Some (EnvErr ''EPERM'')\<rparr>" 7 proxy0]
  by (simp add: sock_ok_def)

fun good_reads :: "(error + nat \<times> bytes) list \<Rightarrow> bytes list" where
  "good_reads [] = []"
| "good_reads (Inl _ # rs) = good_reads rs"
| "good_reads (Inr (n, buf) # rs) = take n buf # good_reads rs"

text \<open>The user space proxy relays faithfully: whatever reads and writes fail, everything read
  from one connection is written to the other, once, in order and cut to the length read; the eBPF
  proxy does the same up to its first failed read.\<close>

theorem proxies_relay_in_order:
  "us_pump N dst rs w = fold (\<lambda>d. snd \<circ> conn_Write N dst d) (good_reads rs) w
   \<and> proxyToLocal_loop N p port rs w
     = fold (\<lambda>d. snd \<circ> (\<lambda>w. sendPkg N p d port w)) (good_reads (takeWhile (\<lambda>r. \<not> isl r) rs)) w"
proof
  show "us_pump N dst rs w = fold (\<lambda>d. snd \<circ> conn_Write N dst d) (good_reads rs) w"
    by (induction N dst rs w rule: us_pump.induct) simp_all
  show "proxyToLocal_loop N p port rs w
     = fold (\<lambda>d. snd \<circ> (\<lambda>w. sendPkg N p d port w)) (good_reads (takeWhile (\<lambda>r. \<not> isl r) rs)) w"
    by (induction N p port rs w rule: proxyToLocal_loop.induct) simp_all
qed

end
