(* ===== verification/Util_Files.thy ===== *)
theory Util_Files
  imports Punch_Prelude
begin

text \<open>
  The utilities of the client (\<^verbatim>\<open>util/common.go\<close>, \<^verbatim>\<open>util/file.go\<close>, \<^verbatim>\<open>util/retry.go\<close>).  The file
  system is a map from paths to contents; what the system calls answer is the argument \<open>fs_env\<close>,
  and an operation returns every state the file system goes through, the last one last.
\<close>

section \<open>Slices and pointers\<close>

definition mapY :: "string list \<Rightarrow> (string, unit) gomap" where
  "mapY y = fold (\<lambda>val m. gm_put val () m) y []"

fun diff_loop :: "(string, unit) gomap \<Rightarrow> string list \<Rightarrow> string list \<Rightarrow> string list" where
  "diff_loop m [] diff = diff"
| "diff_loop m (val # x) diff = diff_loop m x (if gm_get m val = None then diff @ [val] else diff)"

definition SliceDiff :: "string list \<Rightarrow> string list \<Rightarrow> string list" where
  "SliceDiff x y = diff_loop (mapY y) x []"

definition ReturnBoolWithDefaultFalse :: "bool option \<Rightarrow> bool" where
  "ReturnBoolWithDefaultFalse b = (case b of Some v \<Rightarrow> v | None \<Rightarrow> False)"

definition ReturnBoolWithDefaultTrue :: "bool option \<Rightarrow> bool" where
  "ReturnBoolWithDefaultTrue b = (case b of Some v \<Rightarrow> v | None \<Rightarrow> True)"

text \<open>The pointers to constants, the test for an administrator on Unix and on Windows, and the hook of the system
  log, which is added even when it could not be made.\<close>

definition util_True :: "bool option" where "util_True = Some True"
definition util_False :: "bool option" where "util_False = Some False"

definition IsAdmin :: "int \<Rightarrow> bool" where
  "IsAdmin euid \<longleftrightarrow> euid = 0"

definition IsAdmin_windows :: "error + bool \<Rightarrow> bool" where
  "IsAdmin_windows IsAdminDesktop \<longleftrightarrow> (case IsAdminDesktop of Inr adminDesktop \<Rightarrow> adminDesktop | Inl _ \<Rightarrow> False)"

definition AddSyslogHook :: "'h \<times> error option \<Rightarrow> 'h list \<Rightarrow> 'h list" where
  "AddSyslogHook NewSyslogHook hooks = (let (hook, err) = NewSyslogHook in hooks @ [hook])"

definition AddSyslogHook_windows :: "'h list \<Rightarrow> 'h list" where "AddSyslogHook_windows hooks = hooks"

section \<open>Files\<close>

type_synonym fs = "string \<rightharpoonup> bytes"

record fs_env =
  MkdirAll :: "string \<Rightarrow> error option"
  CreateTemp :: "error + string"
  tempFile_Close :: "error option"
  WriteFile :: "error option"
  WriteFile_partial :: bytes
  os_Rename :: "error option"
  os_Remove :: "error option"
  os_Stat :: "error option"
  os_Open :: "error option"
  os_Create :: "error option"
  file_Chmod :: "error option"
  file_Truncate :: "error option"
  file_Write :: "error option"
  file_Write_partial :: bytes
  file_Close :: "error option"
  ReadAll :: "error option"
  io_Copy :: "error option"
  file_Sync :: "error option"

text \<open>\<^verbatim>\<open>filepath.Split\<close> cuts after the last slash.\<close>

definition filepath_Split :: "string \<Rightarrow> string \<times> string" where
  "filepath_Split path =
     (rev (dropWhile (\<lambda>c. c \<noteq> CHR ''/'') (rev path)), rev (takeWhile (\<lambda>c. c \<noteq> CHR ''/'') (rev path)))"

text \<open>For a path without a slash \<^verbatim>\<open>filepath.Dir\<close> is \<^verbatim>\<open>"."\<close>.\<close>

definition prepareConfigFileDir :: "fs_env \<Rightarrow> string \<Rightarrow> (string \<times> string) \<times> error option" where
  "prepareConfigFileDir e file =
     (let (configDir, configFileName) = filepath_Split file
      in if configDir = '''' then ((''.'', configFileName), None)
         else ((configDir, configFileName), MkdirAll e configDir))"

text \<open>The deferred removal of the temporary file.\<close>

definition remove_temp :: "fs_env \<Rightarrow> string \<Rightarrow> fs \<Rightarrow> fs" where
  "remove_temp e tmp st = (if st tmp \<noteq> None \<and> os_Remove e = None then st(tmp := None) else st)"

definition WriteJson ::
  "fs_env \<Rightarrow> ('o \<Rightarrow> error + bytes) \<Rightarrow> string \<Rightarrow> 'o \<Rightarrow> fs \<Rightarrow> error option \<times> fs list" where
  "WriteJson e MarshalIndent file obj st =
     (case snd (prepareConfigFileDir e file) of
        Some err \<Rightarrow> (Some err, [st])
      | None \<Rightarrow>
      (case MarshalIndent obj of
        Inl err \<Rightarrow> (Some err, [st])
      | Inr bs \<Rightarrow>
      (case CreateTemp e of
        Inl err \<Rightarrow> (Some err, [st])
      | Inr tempFileName \<Rightarrow>
      let st1 = st(tempFileName \<mapsto> [])
      in case tempFile_Close e of
        Some err \<Rightarrow> (Some err, [st, st1])
      | None \<Rightarrow>
      (case WriteFile e of
        Some err \<Rightarrow>
          let st2 = st1(tempFileName \<mapsto> WriteFile_partial e)
          in (Some err, [st, st1, st2, remove_temp e tempFileName st2])
      | None \<Rightarrow>
      let st2 = st1(tempFileName \<mapsto> bs)
      in case os_Rename e of
        Some err \<Rightarrow> (Some err, [st, st1, st2, remove_temp e tempFileName st2])
      | None \<Rightarrow>
      let st3 = st2(file \<mapsto> bs, tempFileName := None)
      in (None, [st, st1, st2, st3, remove_temp e tempFileName st3])))))"

definition openOrCreateFile :: "fs_env \<Rightarrow> string \<Rightarrow> fs \<Rightarrow> error option \<times> fs" where
  "openOrCreateFile e file st =
     (case os_Stat e of
        Some err \<Rightarrow> (Some err, st)
      | None \<Rightarrow>
          if st file \<noteq> None then (os_Open e, st)
          else (case os_Create e of
                  Some err \<Rightarrow> (Some err, st)
                | None \<Rightarrow>
                    let st = st(file \<mapsto> [])
                    in case file_Chmod e of Some err \<Rightarrow> (Some err, st) | None \<Rightarrow> (None, st)))"

text \<open>\<open>os_Stat\<close> is the error of a \<^verbatim>\<open>Stat\<close> that fails for another reason than a missing file.\<close>

definition DirectWriteJson ::
  "fs_env \<Rightarrow> ('o \<Rightarrow> error + bytes) \<Rightarrow> string \<Rightarrow> 'o \<Rightarrow> fs \<Rightarrow> error option \<times> fs list" where
  "DirectWriteJson e MarshalIndent file obj st =
     (case snd (prepareConfigFileDir e file) of
        Some err \<Rightarrow> (Some err, [st])
      | None \<Rightarrow>
      (case openOrCreateFile e file st of
        (Some err, st1) \<Rightarrow> (Some err, [st, st1])
      | (None, st1) \<Rightarrow>
      (case MarshalIndent obj of
        Inl err \<Rightarrow> (Some err, [st, st1])
      | Inr bs \<Rightarrow>
      (case file_Truncate e of
        Some err \<Rightarrow> (Some err, [st, st1])
      | None \<Rightarrow>
      let st2 = st1(file \<mapsto> [])
      in case file_Write e of
        Some err \<Rightarrow> (Some err, [st, st1, st2, st2(file \<mapsto> file_Write_partial e)])
      | None \<Rightarrow> (None, [st, st1, st2, st2(file \<mapsto> bs)])))))"

definition ReadJson :: "fs_env \<Rightarrow> (bytes \<Rightarrow> error + 'o) \<Rightarrow> string \<Rightarrow> fs \<Rightarrow> error + 'o" where
  "ReadJson e Unmarshal file st =
     (case st file of
        None \<Rightarrow> Inl (EnvErr ''no such file or directory'')
      | Some bs \<Rightarrow>
          (case os_Open e of
             Some err \<Rightarrow> Inl err
           | None \<Rightarrow> (case ReadAll e of Some err \<Rightarrow> Inl err | None \<Rightarrow> Unmarshal bs)))"

text \<open>The source is opened before the destination is created; a failed copy leaves a prefix.\<close>

definition CopyFileContents :: "fs_env \<Rightarrow> string \<Rightarrow> string \<Rightarrow> fs \<Rightarrow> error option \<times> fs" where
  "CopyFileContents e src dst st =
     (case st src of
        None \<Rightarrow> (Some (EnvErr ''no such file or directory''), st)
      | Some _ \<Rightarrow>
      (case os_Open e of
        Some err \<Rightarrow> (Some err, st)
      | None \<Rightarrow>
      (case os_Create e of
        Some err \<Rightarrow> (Some err, st)
      | None \<Rightarrow>
      let st1 = st(dst \<mapsto> [])
      in case io_Copy e of
        Some err \<Rightarrow> (Some err, st1(dst \<mapsto> take (length (file_Write_partial e)) (the (st1 src))))
      | None \<Rightarrow>
      let st2 = st1(dst \<mapsto> the (st1 src))
      in case file_Sync e of
        Some err \<Rightarrow> (Some err, st2)
      | None \<Rightarrow> (file_Close e, st2))))"

section \<open>Retry\<close>

text \<open>
  \<open>toExec i\<close> is the result of the \<open>i\<close>-th call; the flag marks an error of type \<^verbatim>\<open>stop\<close>.  \<open>rand i\<close>
  is what \<^verbatim>\<open>rand.Int63n\<close> draws, which panics on a bound that is not positive.  The result is the
  error returned, the number of calls, and the errors passed to \<^verbatim>\<open>onError\<close>.
\<close>

function Retry ::
  "(nat \<Rightarrow> (error \<times> bool) option) \<Rightarrow> (nat \<Rightarrow> int) \<Rightarrow> nat \<Rightarrow> int \<Rightarrow> int \<Rightarrow> error option \<times> nat \<times> error list" where
  "Retry toExec rand i attempts sleep =
     (case toExec i of
        None \<Rightarrow> (None, Suc i, [])
      | Some (err, is_stop) \<Rightarrow>
          if is_stop then (Some err, Suc i, [])
          else if 0 < attempts - 1
          then if sleep \<le> 0 then (Some (Panic ''invalid argument to Int63n''), Suc i, [])
               else let jitter = rand i mod sleep;
                        sleep = sleep + jitter div 2;
                        (res, n, log) = Retry toExec rand (Suc i) (attempts - 1) (2 * sleep)
                    in (res, n, err # log)
          else (Some err, Suc i, []))"
  by auto
termination
  by (relation "measure (\<lambda>(_, _, _, attempts, _). nat attempts)") auto

declare Retry.simps [simp del]

section \<open>Lemmas\<close>

lemma mapY_get: "gm_get (mapY y) v = (if v \<in> set y then Some () else None)"
proof -
  have "gm_get (fold (\<lambda>val m. gm_put val () m) y m) v = (if v \<in> set y then Some () else gm_get m v)" for m
    by (induction y arbitrary: m) simp_all
  then show ?thesis by (simp add: mapY_def)
qed

lemma diff_loop_eq: "diff_loop m x acc = acc @ filter (\<lambda>v. gm_get m v = None) x"
  by (induction m x acc rule: diff_loop.induct) simp_all

lemma SliceDiff_eq: "SliceDiff x y = filter (\<lambda>v. v \<notin> set y) x"
  by (simp add: SliceDiff_def diff_loop_eq mapY_get)

lemma remove_temp_other: "p \<noteq> tmp \<Longrightarrow> remove_temp e tmp st p = st p"
  by (simp add: remove_temp_def)

lemma WriteJson_success:
  assumes "WriteJson e M file obj st = (None, trace)"
  shows "\<exists>bs tmp. M obj = Inr bs \<and> CreateTemp e = Inr tmp
       \<and> last trace = (st(file \<mapsto> bs))(tmp := None)"
  using assms
  by (auto simp: WriteJson_def Let_def remove_temp_def fun_upd_twist split: option.splits sum.splits)

section \<open>Properties\<close>

text \<open>C21. \<^const>\<open>WriteJson\<close> replaces a file atomically: whichever system call fails, and in every
  state the file system goes through, the target file holds either its old content or the complete
  new one, the latter only on success, and no file but it and the temporary one is ever touched;
  unless closing or removing the temporary file fails, nothing of it is left at the end.\<close>

theorem WriteJson_atomic:
  assumes "CreateTemp e = Inr tmp" and "st tmp = None" and "tmp \<noteq> file"
    and "WriteJson e MarshalIndent file obj st = (err, trace)"
  shows "(\<forall>st' \<in> set trace. (st' file = st file \<or> (err = None \<and> (\<exists>bs. MarshalIndent obj = Inr bs \<and> st' file = Some bs)))
            \<and> (\<forall>p. p \<noteq> file \<longrightarrow> p \<noteq> tmp \<longrightarrow> st' p = st p))
       \<and> (err = None \<longrightarrow> last trace file = (case MarshalIndent obj of Inr bs \<Rightarrow> Some bs | Inl _ \<Rightarrow> None))
       \<and> (tempFile_Close e = None \<longrightarrow> os_Remove e = None \<longrightarrow> last trace tmp = None)"
  using assms
  by (auto simp: WriteJson_def Let_def remove_temp_def split: option.splits sum.splits if_splits)

definition fs_ok :: fs_env where
  "fs_ok = \<lparr>MkdirAll = (\<lambda>_. None), CreateTemp = Inr ''.1c'', tempFile_Close = None, WriteFile = None,
     WriteFile_partial = [], os_Rename = None, os_Remove = None, os_Stat = None, os_Open = None,
     os_Create = None, file_Chmod = None, file_Truncate = None, file_Write = None,
     file_Write_partial = [], file_Close = None, ReadAll = None, io_Copy = None, file_Sync = None\<rparr>"

theorem WriteJson_atomic_witness:
  "let (err, trace) = WriteJson (fs_ok\<lparr>os_Rename := Some (EnvErr ''EXDEV'')\<rparr>) Inr ''c'' [2] [''c'' \<mapsto> [1]]
   in list_all (\<lambda>st'. st' ''c'' = Some [1]) trace"
proof -
  let ?e = "fs_ok\<lparr>os_Rename := Some (EnvErr ''EXDEV'')\<rparr>"
  obtain err trace where w: "WriteJson ?e Inr ''c'' [2] [''c'' \<mapsto> [1]] = (err, trace)" by fastforce
  have "err \<noteq> None" using w
    by (auto simp: WriteJson_def fs_ok_def Let_def prepareConfigFileDir_def filepath_Split_def)
  with WriteJson_atomic [OF _ _ _ w, of "''.1c''"] show ?thesis
    unfolding w by (simp add: fs_ok_def list_all_iff)
qed

lemma Retry_again:
  assumes "toExec i = Some (err, False)" and "1 < attempts" and "0 < sleep"
    and "Retry toExec rand (Suc i) (attempts - 1) (2 * (sleep + rand i mod sleep div 2)) = (res, n, log)"
  shows "Retry toExec rand i attempts sleep = (res, n, err # log)"
  using assms by (subst Retry.simps) (simp add: Let_def)

lemma Retry_last:
  assumes "\<nexists>err. toExec i = Some (err, False) \<and> 1 < attempts"
  shows "Retry toExec rand i attempts sleep = (map_option fst (toExec i), Suc i, [])"
  using assms by (subst Retry.simps) (auto split: option.splits)

lemma Retry_spec:
  "0 < sleep \<Longrightarrow> Retry toExec rand i attempts sleep = (res, n, log) \<Longrightarrow>
     i < n \<and> int (n - i) \<le> max 1 attempts
   \<and> res = map_option fst (toExec (n - 1))
   \<and> log = map (\<lambda>j. fst (the (toExec j))) [i..<n - 1]
   \<and> (\<forall>j. i \<le> j \<longrightarrow> j < n - 1 \<longrightarrow> (\<exists>err. toExec j = Some (err, False)))"
proof (induction "nat attempts" arbitrary: i attempts sleep res n log rule: less_induct)
  case less
  show ?case
  proof (cases "\<exists>err. toExec i = Some (err, False) \<and> 1 < attempts")
    case False
    from Retry_last [of toExec i attempts rand sleep] False less.prems(2) show ?thesis by auto
  next
    case True
    then obtain err where ex: "toExec i = Some (err, False)" and att: "1 < attempts" by blast
    define sleep' where "sleep' = 2 * (sleep + rand i mod sleep div 2)"
    have "0 \<le> rand i mod sleep div 2" using less.prems(1) by (simp add: pos_imp_zdiv_nonneg_iff)
    then have pos: "0 < sleep'" using less.prems(1) unfolding sleep'_def by (intro mult_pos_pos add_pos_nonneg) simp_all
    obtain res' n' log' where rec: "Retry toExec rand (Suc i) (attempts - 1) sleep' = (res', n', log')"
      by (metis prod_cases3)
    have eq: "res = res'" "n = n'" "log = err # log'"
      using Retry_again [OF ex att less.prems(1) rec [unfolded sleep'_def]] less.prems(2) by simp_all
    have "nat (attempts - 1) < nat attempts" using att by simp
    from less.hyps [OF this pos rec]
    have IH: "Suc i < n'" "int (n' - Suc i) \<le> max 1 (attempts - 1)" "res' = map_option fst (toExec (n' - 1))"
      "log' = map (\<lambda>j. fst (the (toExec j))) [Suc i..<n' - 1]"
      "\<forall>j. Suc i \<le> j \<longrightarrow> j < n' - 1 \<longrightarrow> (\<exists>err. toExec j = Some (err, False))" by blast+
    have upt: "[i..<n' - 1] = i # [Suc i..<n' - 1]" using IH(1) by (intro upt_conv_Cons) linarith
    have "\<exists>err. toExec j = Some (err, False)" if "i \<le> j" "j < n' - 1" for j
      using IH(5) ex that by (cases "j = i") simp_all
    moreover have "int (n' - i) \<le> max 1 attempts" using IH(1,2) att by linarith
    moreover have "err # log' = map (\<lambda>j. fst (the (toExec j))) [i..<n' - 1]"
      unfolding upt IH(4) by (simp add: ex)
    ultimately show ?thesis unfolding eq using IH(1,3) by (intro conjI) simp_all
  qed
qed

text \<open>\<^const>\<open>Retry\<close> gives up: it calls the function at most as often as it is told to (and at
  least once), stops at the first success or the first error marked as final, reports every other
  failed attempt but the last, and returns nil exactly when the last call succeeded.\<close>

theorem Retry_gives_up:
  assumes "0 < sleep" and "Retry toExec rand 0 attempts sleep = (res, n, log)"
  shows "0 < n \<and> int n \<le> max 1 attempts
     \<and> res = map_option fst (toExec (n - 1))
     \<and> log = map (\<lambda>j. fst (the (toExec j))) [0..<n - 1]
     \<and> (\<forall>j<n - 1. \<exists>err. toExec j = Some (err, False))"
  using Retry_spec [OF assms] by simp

theorem Retry_gives_up_witness:
  "\<exists>n log. Retry (\<lambda>i. if i = 2 then None else Some (EOF, False)) (\<lambda>_. 0) 0 5 1 = (None, n, log)
     \<and> log = [EOF, EOF]"
proof -
  have r: "Retry (\<lambda>i. if i = 2 then None else Some (EOF, False)) (\<lambda>_. 0) 0 5 1 = (None, 3, [EOF, EOF])"
    by (simp add: Retry.simps Let_def)
  from Retry_gives_up [OF _ r] r show ?thesis by simp
qed

end
