(* ===== verification/Client_Config.thy ===== *)
theory Client_Config
  imports Util_Files
begin

text \<open>
  The client's configuration (\<^verbatim>\<open>client/internal/config.go\<close>).  Key generation, the JSON codec and URL
  parsing are parameters; \<open>E i\<close> is what the system answers to the \<open>i\<close>-th file operation of a call.
\<close>

section \<open>Data\<close>

definition WgInterfaceDefault :: string where "WgInterfaceDefault = ''wt0''"
definition DefaultWgPort :: int where "DefaultWgPort = 51822"

definition defaultInterfaceBlacklist :: "string list" where
  "defaultInterfaceBlacklist =
     [WgInterfaceDefault, ''wt'', ''utun'', ''tun0'', ''zt'', ''ZeroTier'', ''wg'', ''ts'',
      ''Tailscale'', ''tailscale'', ''docker'', ''veth'', ''br-'', ''lo'']"

record ConfigInput =
  ManagementURL :: string
  AdminURL :: string
  ConfigPath :: string
  in_NATExternalIPs :: "string list"
  in_CustomDNSAddress :: bytes
  InterfaceName :: "string option"
  WireguardPort :: "int option"
  ExtraIFaceBlackList :: "string list"

record Config =
  PrivateKey :: string
  PreSharedKey :: string
  WgIface :: string
  WgPort :: int
  NetworkMonitor :: "bool option"
  IFaceBlackList :: "string list"
  SSHKey :: string
  NATExternalIPs :: "string list"
  CustomDNSAddress :: string
  DisableAutoConnect :: bool
  DNSRouteInterval :: int

definition zero_ConfigInput :: ConfigInput where
  "zero_ConfigInput = \<lparr>ManagementURL = '''', AdminURL = '''', ConfigPath = '''', in_NATExternalIPs = [],
     in_CustomDNSAddress = [], InterfaceName = None, WireguardPort = None, ExtraIFaceBlackList = []\<rparr>"

definition zero_Config :: Config where
  "zero_Config = \<lparr>PrivateKey = '''', PreSharedKey = '''', WgIface = '''', WgPort = 0, NetworkMonitor = None,
     IFaceBlackList = [], SSHKey = '''', NATExternalIPs = [], CustomDNSAddress = '''',
     DisableAutoConnect = False, DNSRouteInterval = 0\<rparr>"

record config_json =
  Config_MarshalIndent :: "Config \<Rightarrow> error + bytes"
  Config_Unmarshal :: "bytes \<Rightarrow> error + Config"

section \<open>Applying an input\<close>

text \<open>\<open>GeneratePrivateKey\<close> is the key it generates as text, or its error, which panics.\<close>

definition generateKey :: "(error + string) \<Rightarrow> error + string" where
  "generateKey GeneratePrivateKey =
     (case GeneratePrivateKey of Inl _ \<Rightarrow> Inl (Panic ''GeneratePrivateKey'') | Inr key \<Rightarrow> Inr key)"

definition apply_key :: "(error + string) \<Rightarrow> bool \<times> Config \<Rightarrow> error + bool \<times> Config" where
  "apply_key G = (\<lambda>(updated, config).
     if PrivateKey config = ''''
     then (case generateKey G of Inl err \<Rightarrow> Inl err | Inr key \<Rightarrow> Inr (True, config\<lparr>PrivateKey := key\<rparr>))
     else Inr (updated, config))"

definition apply_port :: "ConfigInput \<Rightarrow> bool \<times> Config \<Rightarrow> bool \<times> Config" where
  "apply_port input = (\<lambda>(updated, config).
     if WireguardPort input \<noteq> None \<and> the (WireguardPort input) \<noteq> WgPort config
     then (True, config\<lparr>WgPort := the (WireguardPort input)\<rparr>)
     else if WgPort config = 0 then (True, config\<lparr>WgPort := DefaultWgPort\<rparr>)
     else (updated, config))"

definition apply_iface :: "ConfigInput \<Rightarrow> bool \<times> Config \<Rightarrow> bool \<times> Config" where
  "apply_iface input = (\<lambda>(updated, config).
     if InterfaceName input \<noteq> None \<and> the (InterfaceName input) \<noteq> WgIface config
     then (True, config\<lparr>WgIface := the (InterfaceName input)\<rparr>)
     else if WgIface config = '''' then (True, config\<lparr>WgIface := WgInterfaceDefault\<rparr>)
     else (updated, config))"

definition apply_blacklist :: "ConfigInput \<Rightarrow> bool \<times> Config \<Rightarrow> bool \<times> Config" where
  "apply_blacklist input = (\<lambda>(updated, config).
     let (updated, config) =
           (if length (IFaceBlackList config) = 0
            then (True, config\<lparr>IFaceBlackList := IFaceBlackList config @ defaultInterfaceBlacklist\<rparr>)
            else (updated, config))
     in if 0 < length (ExtraIFaceBlackList input)
        then fold (\<lambda>iFace (_, config). (True, config\<lparr>IFaceBlackList := IFaceBlackList config @ [iFace]\<rparr>))
               (SliceDiff (ExtraIFaceBlackList input) (IFaceBlackList config)) (updated, config)
        else (updated, config))"

definition config_apply :: "(error + string) \<Rightarrow> ConfigInput \<Rightarrow> Config \<Rightarrow> error + bool \<times> Config" where
  "config_apply G input config =
     (case apply_key G (False, config) of
        Inl err \<Rightarrow> Inl err
      | Inr uc \<Rightarrow> Inr (apply_blacklist input (apply_iface input (apply_port input uc))))"

section \<open>Reading and writing\<close>

text \<open>Any \<^verbatim>\<open>Stat\<close> error but a missing file counts as the file existing.\<close>

definition configFileIsExists :: "fs_env \<Rightarrow> string \<Rightarrow> fs \<Rightarrow> bool" where
  "configFileIsExists e path st \<longleftrightarrow> os_Stat e \<noteq> None \<or> st path \<noteq> None"

definition WriteOutConfig ::
  "fs_env \<Rightarrow> config_json \<Rightarrow> string \<Rightarrow> Config \<Rightarrow> fs \<Rightarrow> error option \<times> fs" where
  "WriteOutConfig e J path config st =
     (let (err, trace) = WriteJson e (Config_MarshalIndent J) path config st in (err, last trace))"

definition createNewConfig ::
  "(nat \<Rightarrow> fs_env) \<Rightarrow> config_json \<Rightarrow> (error + string) \<Rightarrow> ConfigInput \<Rightarrow> fs \<Rightarrow> (error + Config) \<times> fs" where
  "createNewConfig E J G input st =
     (if configFileIsExists (E 0) (ConfigPath input) st
      then case ReadJson (E 1) (Config_Unmarshal J) (ConfigPath input) st of
             Inl err \<Rightarrow> (Inl err, st)
           | Inr config \<Rightarrow>
               (case config_apply G input config of
                  Inl err \<Rightarrow> (Inl err, st)
                | Inr (_, config) \<Rightarrow> (Inr config, st))
      else case config_apply G input zero_Config of
             Inl err \<Rightarrow> (Inl err, st)
           | Inr (_, config) \<Rightarrow>
               (case WriteOutConfig (E 1) J (ConfigPath input) config st of
                  (Some err, st) \<Rightarrow> (Inl err, st)
                | (None, st) \<Rightarrow> (Inr config, st)))"

definition CreateInMemoryConfig ::
  "(nat \<Rightarrow> fs_env) \<Rightarrow> config_json \<Rightarrow> (error + string) \<Rightarrow> ConfigInput \<Rightarrow> fs \<Rightarrow> (error + Config) \<times> fs" where
  "CreateInMemoryConfig E J G input st = createNewConfig E J G input st"

definition update ::
  "(nat \<Rightarrow> fs_env) \<Rightarrow> config_json \<Rightarrow> (error + string) \<Rightarrow> ConfigInput \<Rightarrow> fs \<Rightarrow> (error + Config) \<times> fs" where
  "update E J G input st =
     (case ReadJson (E 0) (Config_Unmarshal J) (ConfigPath input) st of
        Inl err \<Rightarrow> (Inl err, st)
      | Inr config \<Rightarrow>
          (case config_apply G input config of
             Inl err \<Rightarrow> (Inl err, st)
           | Inr (updated, config) \<Rightarrow>
               if updated
               then case WriteOutConfig (E 1) J (ConfigPath input) config st of
                      (Some err, st) \<Rightarrow> (Inl err, st)
                    | (None, st) \<Rightarrow> (Inr config, st)
               else (Inr config, st)))"

definition ReadConfig ::
  "(nat \<Rightarrow> fs_env) \<Rightarrow> config_json \<Rightarrow> (error + string) \<Rightarrow> string \<Rightarrow> fs \<Rightarrow> (error + Config) \<times> fs" where
  "ReadConfig E J G configPath st =
     (if configFileIsExists (E 0) configPath st
      then case ReadJson (E 1) (Config_Unmarshal J) configPath st of
             Inl err \<Rightarrow> (Inl err, st)
           | Inr config \<Rightarrow>
               (case config_apply G zero_ConfigInput config of
                  Inl err \<Rightarrow> (Inl err, st)
                | Inr (changed, config) \<Rightarrow>
                    if changed
                    then case WriteOutConfig (E 2) J configPath config st of
                           (Some err, st) \<Rightarrow> (Inl err, st)
                         | (None, st) \<Rightarrow> (Inr config, st)
                    else (Inr config, st))
      else case createNewConfig (\<lambda>i. E (i + 1)) J G (zero_ConfigInput\<lparr>ConfigPath := configPath\<rparr>) st of
             (Inl err, st) \<Rightarrow> (Inl err, st)
           | (Inr cfg, st) \<Rightarrow>
               (case WriteOutConfig (E 3) J configPath cfg st of
                  (Some err, st) \<Rightarrow> (Inl err, st)
                | (None, st) \<Rightarrow> (Inr cfg, st)))"

definition UpdateConfig ::
  "(nat \<Rightarrow> fs_env) \<Rightarrow> config_json \<Rightarrow> (error + string) \<Rightarrow> ConfigInput \<Rightarrow> fs \<Rightarrow> (error + Config) \<times> fs" where
  "UpdateConfig E J G input st =
     (if \<not> configFileIsExists (E 0) (ConfigPath input) st
      then (Inl (Errorf ''config file doesn't exist''), st)
      else update (\<lambda>i. E (i + 1)) J G input st)"

definition UpdateOrCreateConfig ::
  "(nat \<Rightarrow> fs_env) \<Rightarrow> config_json \<Rightarrow> (error + string) \<Rightarrow> ConfigInput \<Rightarrow> fs \<Rightarrow> (error + Config) \<times> fs" where
  "UpdateOrCreateConfig E J G input st =
     (if \<not> configFileIsExists (E 0) (ConfigPath input) st
      then case createNewConfig (\<lambda>i. E (i + 1)) J G input st of
             (Inl err, st) \<Rightarrow> (Inl err, st)
           | (Inr cfg, st) \<Rightarrow>
               (case WriteOutConfig (E 3) J (ConfigPath input) cfg st of
                  (Some err, st) \<Rightarrow> (Inl err, st)
                | (None, st) \<Rightarrow> (Inr cfg, st))
      else update (\<lambda>i. E (i + 1)) J G input st)"

section \<open>Service URLs\<close>

record URL =
  Scheme :: string
  Host :: string

text \<open>\<open>ParseRequestURI\<close> and \<open>url_Port\<close>, the port of a host, are \<^verbatim>\<open>net/url\<close>'s.\<close>

definition parseURL ::
  "(string \<Rightarrow> error + URL) \<Rightarrow> (string \<Rightarrow> string) \<Rightarrow> string \<Rightarrow> string \<Rightarrow> error + URL" where
  "parseURL ParseRequestURI url_Port serviceName serviceURL =
     (case ParseRequestURI serviceURL of
        Inl err \<Rightarrow> Inl err
      | Inr u \<Rightarrow>
          if Scheme u \<noteq> ''https'' \<and> Scheme u \<noteq> ''http''
          then Inl (Errorf (''invalid '' @ serviceName @ '' URL provided '' @ serviceURL
                 @ ''. Supported format [http|https]://[host]:[port]''))
          else if url_Port (Host u) = ''''
          then if Scheme u = ''https'' then Inr (u\<lparr>Host := Host u @ '':443''\<rparr>)
               else Inr (u\<lparr>Host := Host u @ '':80''\<rparr>)
          else Inr u)"

section \<open>What applying an input does\<close>

definition new_port :: "ConfigInput \<Rightarrow> int \<Rightarrow> int" where
  "new_port input port =
     (case WireguardPort input of
        Some p \<Rightarrow> if p \<noteq> port then p else if port = 0 then DefaultWgPort else port
      | None \<Rightarrow> if port = 0 then DefaultWgPort else port)"

definition chosen_iface :: "ConfigInput \<Rightarrow> string \<Rightarrow> string" where
  "chosen_iface input name =
     (case InterfaceName input of
        Some n \<Rightarrow> if n \<noteq> name then n else if name = '''' then WgInterfaceDefault else name
      | None \<Rightarrow> if name = '''' then WgInterfaceDefault else name)"

definition new_blacklist :: "ConfigInput \<Rightarrow> string list \<Rightarrow> string list" where
  "new_blacklist input bl =
     (let bl = (if bl = [] then defaultInterfaceBlacklist else bl)
      in bl @ filter (\<lambda>v. v \<notin> set bl) (ExtraIFaceBlackList input))"

definition applied :: "string \<Rightarrow> ConfigInput \<Rightarrow> Config \<Rightarrow> Config" where
  "applied key input c =
     c\<lparr>PrivateKey := (if PrivateKey c = '''' then key else PrivateKey c),
       WgPort := new_port input (WgPort c), WgIface := chosen_iface input (WgIface c),
       IFaceBlackList := new_blacklist input (IFaceBlackList c)\<rparr>"

definition complete :: "Config \<Rightarrow> bool" where
  "complete c \<longleftrightarrow> PrivateKey c \<noteq> '''' \<and> WgPort c \<noteq> 0 \<and> WgIface c \<noteq> '''' \<and> IFaceBlackList c \<noteq> []"

definition sensible :: "ConfigInput \<Rightarrow> bool" where
  "sensible input \<longleftrightarrow> WireguardPort input \<noteq> Some 0 \<and> InterfaceName input \<noteq> Some ''''"

lemma append_fold:
  "fold (\<lambda>iFace (_, config). (True, config\<lparr>IFaceBlackList := IFaceBlackList config @ [iFace]\<rparr>)) xs (updated, c)
     = (updated \<or> xs \<noteq> [], c\<lparr>IFaceBlackList := IFaceBlackList c @ xs\<rparr>)"
  by (induction xs arbitrary: updated c) simp_all

lemma default_blacklist_nonempty [simp]: "defaultInterfaceBlacklist \<noteq> []"
  by (simp add: defaultInterfaceBlacklist_def)

lemma apply_blacklist_eq:
  "apply_blacklist input (updated, c) =
     (updated \<or> new_blacklist input (IFaceBlackList c) \<noteq> IFaceBlackList c,
      c\<lparr>IFaceBlackList := new_blacklist input (IFaceBlackList c)\<rparr>)"
  by (auto simp: apply_blacklist_def new_blacklist_def append_fold SliceDiff_eq Let_def)

lemma apply_port_eq:
  "apply_port input (updated, c) = (updated \<or> new_port input (WgPort c) \<noteq> WgPort c,
     c\<lparr>WgPort := new_port input (WgPort c)\<rparr>)"
  by (auto simp: apply_port_def new_port_def DefaultWgPort_def split: option.splits)

lemma apply_iface_eq:
  "apply_iface input (updated, c) = (updated \<or> chosen_iface input (WgIface c) \<noteq> WgIface c,
     c\<lparr>WgIface := chosen_iface input (WgIface c)\<rparr>)"
  by (auto simp: apply_iface_def chosen_iface_def WgInterfaceDefault_def split: option.splits)

lemma Config_eq_iff_applied:
  "applied key input c = c \<longleftrightarrow>
     (PrivateKey c = '''' \<longrightarrow> key = '''') \<and> new_port input (WgPort c) = WgPort c
   \<and> chosen_iface input (WgIface c) = WgIface c \<and> new_blacklist input (IFaceBlackList c) = IFaceBlackList c"
  by (cases c) (auto simp: applied_def)

lemma config_apply_eq:
  assumes "key \<noteq> ''''"
  shows "config_apply (Inr key) input c = Inr (applied key input c \<noteq> c, applied key input c)"
  using assms
  by (auto simp: config_apply_def apply_key_def generateKey_def apply_port_eq apply_iface_eq
      apply_blacklist_eq Config_eq_iff_applied) (simp_all add: applied_def)

lemma applied_complete: "key \<noteq> '''' \<Longrightarrow> sensible input \<Longrightarrow> complete (applied key input c)"
  by (auto simp: applied_def complete_def new_port_def chosen_iface_def new_blacklist_def sensible_def
      DefaultWgPort_def WgInterfaceDefault_def Let_def split: option.splits if_splits)

lemma new_blacklist_idem: "new_blacklist input (new_blacklist input bl) = new_blacklist input bl"
  by (auto simp: new_blacklist_def Let_def)

lemma applied_again:
  assumes "key \<noteq> ''''" and "sensible input"
  shows "applied key' input (applied key input c) = applied key input c"
  using assms unfolding Config_eq_iff_applied
  by (auto simp: applied_def new_blacklist_idem sensible_def new_port_def chosen_iface_def
      DefaultWgPort_def WgInterfaceDefault_def split: option.splits)

lemma complete_unchanged: "complete c \<Longrightarrow> applied key zero_ConfigInput c = c"
  by (auto simp: Config_eq_iff_applied complete_def new_port_def chosen_iface_def new_blacklist_def
      zero_ConfigInput_def)

section \<open>Properties\<close>

text \<open>C22. Applying an input reports a change exactly when the configuration changed, gives a
  complete configuration with the port and interface that were asked for and every extra
  blacklist entry, keeps the existing key and blacklist, touches no other field, and is
  idempotent, provided the input does not itself ask for port 0 or an empty interface name.\<close>

theorem config_apply_contract:
  assumes "key \<noteq> ''''" and "sensible input"
  shows "\<exists>c'. config_apply (Inr key) input c = Inr (c' \<noteq> c, c')
       \<and> complete c'
       \<and> config_apply (Inr key') input c' = Inr (False, c')
       \<and> (\<forall>p. WireguardPort input = Some p \<longrightarrow> WgPort c' = p)
       \<and> (\<forall>n. InterfaceName input = Some n \<longrightarrow> WgIface c' = n)
       \<and> set (IFaceBlackList c) \<union> set (ExtraIFaceBlackList input) \<subseteq> set (IFaceBlackList c')
       \<and> (PrivateKey c \<noteq> '''' \<longrightarrow> PrivateKey c' = PrivateKey c)
       \<and> c\<lparr>PrivateKey := PrivateKey c', WgPort := WgPort c', WgIface := WgIface c',
           IFaceBlackList := IFaceBlackList c'\<rparr> = c'"
proof (intro exI conjI)
  let ?c = "applied key input c"
  show "config_apply (Inr key) input c = Inr (?c \<noteq> c, ?c)" using assms(1) by (rule config_apply_eq)
  show complete: "complete ?c" using assms by (rule applied_complete)
  have "PrivateKey ?c \<noteq> ''''" using complete by (simp add: complete_def)
  then have "config_apply (Inr key') input ?c = Inr (applied ''k'' input ?c \<noteq> ?c, applied ''k'' input ?c)"
    using config_apply_eq [of "''k''" input ?c] by (simp add: config_apply_def apply_key_def)
  then show "config_apply (Inr key') input ?c = Inr (False, ?c)" using applied_again [OF assms] by simp
  show "\<forall>p. WireguardPort input = Some p \<longrightarrow> WgPort ?c = p" "\<forall>n. InterfaceName input = Some n \<longrightarrow> WgIface ?c = n"
    using assms(2) by (auto simp: applied_def new_port_def chosen_iface_def sensible_def)
  show "set (IFaceBlackList c) \<union> set (ExtraIFaceBlackList input) \<subseteq> set (IFaceBlackList ?c)"
    by (auto simp: applied_def new_blacklist_def Let_def)
  show "PrivateKey c \<noteq> '''' \<longrightarrow> PrivateKey ?c = PrivateKey c"
    "c\<lparr>PrivateKey := PrivateKey ?c, WgPort := WgPort ?c, WgIface := WgIface ?c,
       IFaceBlackList := IFaceBlackList ?c\<rparr> = ?c"
    by (simp_all add: applied_def)
qed

theorem config_apply_contract_witness:
  "\<exists>c'. config_apply (Inr ''k'') (zero_ConfigInput\<lparr>WireguardPort := Some 51900\<rparr>) zero_Config = Inr (c' \<noteq> zero_Config, c')
     \<and> complete c' \<and> WgPort c' = 51900"
proof -
  have "sensible (zero_ConfigInput\<lparr>WireguardPort := Some 51900\<rparr>)" by (simp add: sensible_def zero_ConfigInput_def)
  from config_apply_contract [OF _ this, of "''k''" zero_Config "''k''"] show ?thesis by auto
qed

text \<open>A configuration that was created or updated stays: with a codec that reads back what it
  writes and a file system that answers, reading the configuration again returns the same one and
  writes nothing.\<close>

theorem config_survives_reading:
  assumes "\<And>c b. Config_MarshalIndent J c = Inr b \<Longrightarrow> Config_Unmarshal J b = Inr c"
    and "key \<noteq> ''''" and "sensible input" and "st (ConfigPath input) = None"
    and "\<And>i. CreateTemp (E i) \<noteq> Inr (ConfigPath input)"
    and "UpdateOrCreateConfig E J (Inr key) input st = (Inr c, st')"
    and "\<And>i. os_Stat (E' i) = None" and "\<And>i. os_Open (E' i) = None" and "\<And>i. ReadAll (E' i) = None"
    and "os_Stat (E 0) = None" and "os_Stat (E 1) = None"
  shows "ReadConfig E' J (Inr key') (ConfigPath input) st' = (Inr c, st') \<and> complete c"
proof -
  have new: "\<not> configFileIsExists (E 0) (ConfigPath input) st" "\<not> configFileIsExists (E 1) (ConfigPath input) st"
    using assms(4,10,11) by (simp_all add: configFileIsExists_def)
  obtain st1 where c: "c = applied key input zero_Config"
    and w: "WriteOutConfig (E 3) J (ConfigPath input) c st1 = (None, st')"
    using assms(6) new config_apply_eq [OF assms(2), of input zero_Config]
    by (auto simp: UpdateOrCreateConfig_def createNewConfig_def split: sum.splits option.splits prod.splits)
  have complete: "complete c" unfolding c using assms(2,3) by (rule applied_complete)
  obtain trace where trace: "WriteJson (E 3) (Config_MarshalIndent J) (ConfigPath input) c st1 = (None, trace)"
    and st': "st' = last trace" using w by (auto simp: WriteOutConfig_def split: prod.splits)
  from WriteJson_success [OF trace] obtain bs tmp where
    bs: "Config_MarshalIndent J c = Inr bs" "CreateTemp (E 3) = Inr tmp"
      "last trace = (st1(ConfigPath input \<mapsto> bs))(tmp := None)" by blast
  have stored: "st' (ConfigPath input) = Some bs" using st' bs(2,3) assms(5) [of 3] by auto
  have unchanged: "config_apply (Inr key') zero_ConfigInput c = Inr (False, c)"
  proof -
    have "PrivateKey c \<noteq> ''''" using complete by (simp add: complete_def)
    then have "config_apply (Inr key') zero_ConfigInput c = config_apply (Inr key) zero_ConfigInput c"
      by (simp add: config_apply_def apply_key_def)
    then show ?thesis by (simp add: config_apply_eq [OF assms(2)] complete_unchanged [OF complete])
  qed
  have "ReadJson (E' 1) (Config_Unmarshal J) (ConfigPath input) st' = Inr c"
    using stored assms(1) [OF bs(1)] assms(8,9) by (simp add: ReadJson_def)
  with stored unchanged assms(7) complete show ?thesis
    by (simp add: ReadConfig_def configFileIsExists_def)
qed

definition demo_input :: ConfigInput where
  "demo_input = zero_ConfigInput\<lparr>ConfigPath := ''config.json''\<rparr>"

definition one_config_json :: config_json where
  "one_config_json =
     \<lparr>Config_MarshalIndent = (\<lambda>c. if c = applied ''k'' demo_input zero_Config then Inr [1] else Inl EOF),
      Config_Unmarshal = (\<lambda>_. Inr (applied ''k'' demo_input zero_Config))\<rparr>"

lemma demo_write:
  "st ''.1c'' = None \<Longrightarrow>
   WriteOutConfig fs_ok one_config_json ''config.json'' (applied ''k'' demo_input zero_Config) st
     = (None, st(''config.json'' \<mapsto> [1]))"
  by (auto simp: WriteOutConfig_def WriteJson_def one_config_json_def fs_ok_def Let_def remove_temp_def
      prepareConfigFileDir_def filepath_Split_def)

lemma demo_sensible: "sensible demo_input" "ConfigPath demo_input = ''config.json''"
  by (simp_all add: demo_input_def zero_ConfigInput_def sensible_def)

lemma demo_create:
  "createNewConfig (\<lambda>_. fs_ok) one_config_json (Inr ''k'') demo_input Map.empty
     = (Inr (applied ''k'' demo_input zero_Config), [''config.json'' \<mapsto> [1]])"
  by (simp add: createNewConfig_def demo_sensible configFileIsExists_def config_apply_eq demo_write)
    (simp add: fs_ok_def)

theorem config_survives_reading_witness:
  "ReadConfig (\<lambda>_. fs_ok) one_config_json (Inr ''other'') ''config.json'' [''config.json'' \<mapsto> [1]]
     = (Inr (applied ''k'' demo_input zero_Config), [''config.json'' \<mapsto> [1]])"
proof -
  have "UpdateOrCreateConfig (\<lambda>_. fs_ok) one_config_json (Inr ''k'') demo_input Map.empty
      = (Inr (applied ''k'' demo_input zero_Config), [''config.json'' \<mapsto> [1]])"
    by (simp add: UpdateOrCreateConfig_def demo_create demo_sensible configFileIsExists_def demo_write)
      (simp add: fs_ok_def)
  note create = this
  have codec: "Config_Unmarshal one_config_json b = Inr c" if "Config_MarshalIndent one_config_json c = Inr b" for c b
    using that by (simp add: one_config_json_def split: if_splits)
  have "ReadConfig (\<lambda>_. fs_ok) one_config_json (Inr ''other'') (ConfigPath demo_input) [''config.json'' \<mapsto> [1]]
     = (Inr (applied ''k'' demo_input zero_Config), [''config.json'' \<mapsto> [1]])"
    by (rule config_survives_reading [OF codec _ demo_sensible(1) _ _ create, THEN conjunct1])
      (simp_all add: demo_sensible fs_ok_def)
  then show ?thesis by (simp add: demo_sensible)
qed

text \<open>A configuration that is to be created in memory only is written to disk: when there is no
  configuration file yet, \<^const>\<open>CreateInMemoryConfig\<close> leaves one with the new private key in it.\<close>

theorem in_memory_config_is_written:
  assumes "st (ConfigPath input) = None" and "os_Stat (E 0) = None" and "key \<noteq> ''''"
    and "CreateTemp (E 1) \<noteq> Inr (ConfigPath input)"
    and "CreateInMemoryConfig E J (Inr key) input st = (Inr c, st')"
  shows "PrivateKey c = key \<and> (\<exists>bs. Config_MarshalIndent J c = Inr bs \<and> st' (ConfigPath input) = Some bs)"
proof -
  have c: "c = applied key input zero_Config"
    and w: "WriteOutConfig (E 1) J (ConfigPath input) c st = (None, st')"
    using assms config_apply_eq [OF assms(3), of input zero_Config]
    by (auto simp: CreateInMemoryConfig_def createNewConfig_def configFileIsExists_def
        split: sum.splits option.splits prod.splits)
  obtain trace where "WriteJson (E 1) (Config_MarshalIndent J) (ConfigPath input) c st = (None, trace)"
    and "st' = last trace" using w by (auto simp: WriteOutConfig_def split: prod.splits)
  from WriteJson_success [OF this(1)] this(2) assms(4) show ?thesis
    by (auto simp: c applied_def zero_Config_def)
qed

theorem in_memory_config_is_written_witness:
  "\<exists>c st'. CreateInMemoryConfig (\<lambda>_. fs_ok) one_config_json (Inr ''k'') demo_input Map.empty = (Inr c, st')
     \<and> PrivateKey c = ''k'' \<and> st' ''config.json'' \<noteq> None"
proof -
  have "CreateInMemoryConfig (\<lambda>_. fs_ok) one_config_json (Inr ''k'') demo_input Map.empty
      = (Inr (applied ''k'' demo_input zero_Config), [''config.json'' \<mapsto> [1]])"
    by (simp add: CreateInMemoryConfig_def demo_create)
  with in_memory_config_is_written [OF _ _ _ _ this] show ?thesis
    by (auto simp: demo_sensible fs_ok_def)
qed

end
