(* ===== verification/Engine.thy ===== *)
theory Engine
  imports Peer_Conn Wg_Iface Wg_Proxy Client_Config
begin

text \<open>
  The engine (\<^verbatim>\<open>client/internal/engine.go\<close>) and the client that runs it
  (\<^verbatim>\<open>client/internal/connect.go\<close>).  Connections are shared between the engine's map and the
  goroutines that work on them, so they live in the list \<open>conns\<close> and everything else refers to them
  by their index; \<open>workers\<close> are the running \<^verbatim>\<open>connWorker\<close> goroutines.
\<close>

section \<open>Configuration and state\<close>

record EngineConfig =
  ec_WgPort :: int
  ec_WgIfaceName :: string
  ec_WgAddr :: string
  ec_WgPrivateKey :: string
  ec_IFaceBlackList :: "string list"
  ec_UDPMuxPort :: int
  ec_UDPMuxSrflxPort :: int

definition PeerConnectionTimeoutMax :: int where "PeerConnectionTimeoutMax = 45000"
definition PeerConnectionTimeoutMin :: int where "PeerConnectionTimeoutMin = 30000"

text \<open>\<open>ctx_done\<close> tells whether the engine's context is cancelled.\<close>

record ('t, 'c, 'u, 'm) Engine =
  engine_config :: EngineConfig
  STUNs :: "string list"
  TURNs :: "string list"
  ctx_done :: bool
  wgInterface :: "('t, 'c) WGIface option"
  wgProxyFactory :: "'m Factory option"
  udpMux :: "'u option"
  peerConns :: "(string, nat) gomap"
  conns :: "Conn list"
  workers :: "(nat \<times> string) list"

text \<open>
  The rest of the program and the system as the engine sees them.  \<open>Intn i\<close> is the random number
  drawn for the \<open>i\<close>-th connection and \<open>publicKey\<close> the key derivation of \<^verbatim>\<open>wgtypes\<close>.
\<close>

record ('t, 'c, 'u, 'm) engine_env =
  devices :: "'t tun_devices"
  tun_ops :: "('t, 'c, 'u) wgTunDevice"
  cfg_ops :: "'c wgConfigurer"
  ebpf_ops :: "'m Manager"
  ebpf_mgr :: 'm
  raw_socks :: sock_env
  listen_packet :: "string \<Rightarrow> error option"
  listen_udp :: "UDPAddr \<Rightarrow> error + nat"
  close_sock :: "nat \<Rightarrow> error option"
  resolve_udp :: "string \<Rightarrow> error + UDPAddr"
  publicKey :: "string \<Rightarrow> string"
  Intn :: "nat \<Rightarrow> int"

definition NewEngine :: "EngineConfig \<Rightarrow> ('t, 'c, 'u, 'm) Engine" where
  "NewEngine config =
     \<lparr>engine_config = config, STUNs = [], TURNs = [], ctx_done = False, wgInterface = None,
      wgProxyFactory = None, udpMux = None, peerConns = [], conns = [], workers = []\<rparr>"

section \<open>Starting and stopping\<close>

text \<open>\<^verbatim>\<open>newWgIface\<close>: a failure to create the transport net is logged and ignored.\<close>

definition newWgIface ::
  "('t, 'c, 'u, 'm) engine_env \<Rightarrow> ('t, 'c, 'u, 'm) Engine \<Rightarrow> error + ('t, 'c) WGIface" where
  "newWgIface V e =
     NewWGIFace (devices V) (ec_WgIfaceName (engine_config e)) (ec_WgAddr (engine_config e))
       (ec_WgPort (engine_config e)) (ec_WgPrivateKey (engine_config e)) DefaultMTU"

text \<open>\<^verbatim>\<open>close\<close>: both errors are logged only.\<close>

definition engine_close ::
  "('t, 'c, 'u, 'm) engine_env \<Rightarrow> ('t, 'c, 'u, 'm) Engine \<Rightarrow> ('t, 'c, 'u, 'm) Engine" where
  "engine_close V e =
     (let e = (case wgProxyFactory e of
                 None \<Rightarrow> e
               | Some f \<Rightarrow> e\<lparr>wgProxyFactory := Some (snd (factory_Free (ebpf_ops V) (close_sock V) f))\<rparr>)
      in case wgInterface e of
           None \<Rightarrow> e
         | Some w \<Rightarrow> e\<lparr>wgInterface := Some (snd (iface_Close (tun_ops V) w))\<rparr>)"

definition wgInterfaceCreate ::
  "('t, 'c, 'u, 'm) engine_env \<Rightarrow> ('t, 'c) WGIface \<Rightarrow> error option \<times> ('t, 'c) WGIface" where
  "wgInterfaceCreate V w = iface_Create (tun_ops V) w"

definition Start ::
  "('t, 'c, 'u, 'm) engine_env \<Rightarrow> ('t, 'c, 'u, 'm) Engine \<Rightarrow> error option \<times> ('t, 'c, 'u, 'm) Engine" where
  "Start V e =
     (case newWgIface V e of
        Inl err \<Rightarrow> (Some (Wrapf ''new wg interface'' err), e)
      | Inr w \<Rightarrow>
          let factory = NewFactory (ebpf_ops V) (ebpf_mgr V) (raw_socks V) (listen_packet V) (listen_udp V)
                          (close_sock V) (IsUserspaceBind w) (ec_WgPort (engine_config e));
              e = e\<lparr>wgProxyFactory := Some factory\<rparr>
          in case wgInterfaceCreate V w of
               (Some err, w) \<Rightarrow>
                 (Some (Wrapf ''create wg interface'' err), engine_close V (e\<lparr>wgInterface := Some w\<rparr>))
             | (None, w) \<Rightarrow>
                 (case iface_Up (tun_ops V) w of
                    (Inl err, w) \<Rightarrow>
                      (Some (Wrapf ''up wg interface'' err), engine_close V (e\<lparr>wgInterface := Some w\<rparr>))
                  | (Inr m, w) \<Rightarrow> (None, e\<lparr>wgInterface := Some w, udpMux := Some m\<rparr>)))"

definition Stop ::
  "('t, 'c, 'u, 'm) engine_env \<Rightarrow> ('t, 'c, 'u, 'm) Engine \<Rightarrow> error option \<times> ('t, 'c, 'u, 'm) Engine" where
  "Stop V e = (None, engine_close V e)"

text \<open>\<^verbatim>\<open>addrViaRoutes\<close>: no address is routed; the prefix is the zero value.\<close>

definition addrViaRoutes :: "IP \<Rightarrow> error + bool \<times> (IP \<times> nat) option" where
  "addrViaRoutes addr = Inr (False, None)"

text \<open>\<open>by_name\<close> is \<^verbatim>\<open>net.InterfaceByName\<close>, the flags of an interface; bit 0 is \<^verbatim>\<open>FlagUp\<close>.\<close>

definition IsWGIfaceUp ::
  "('t, 'c, 'u, 'm) engine_env \<Rightarrow> (string \<Rightarrow> error + nat) \<Rightarrow> ('t, 'c, 'u, 'm) Engine option \<Rightarrow> bool" where
  "IsWGIfaceUp V by_name e =
     (case e of
        None \<Rightarrow> False
      | Some e \<Rightarrow>
          (case wgInterface e of
             None \<Rightarrow> False
           | Some w \<Rightarrow>
               (case by_name (iface_Name (tun_ops V) w) of
                  Inl _ \<Rightarrow> False
                | Inr flags \<Rightarrow> odd flags)))"

section \<open>Peers\<close>

text \<open>\<^verbatim>\<open>createPeerConn\<close> dereferences the mux, which is nil before the interface is up.\<close>

definition createPeerConn ::
  "('t, 'c, 'u, 'm) engine_env \<Rightarrow> string \<Rightarrow> string \<Rightarrow> ('t, 'c, 'u, 'm) Engine \<Rightarrow> error + Conn" where
  "createPeerConn V pubKey allowedIPs e =
     (case udpMux e of
        None \<Rightarrow> Inl (Panic ''nil pointer dereference'')
      | Some _ \<Rightarrow>
          let timeout = (Intn V (length (conns e)) + PeerConnectionTimeoutMin) * 1000000
          in Inr (NewConn
               \<lparr>conn_Key = pubKey, conn_LocalKey = publicKey V (ec_WgPrivateKey (engine_config e)),
                conn_StunTurn = STUNs e @ TURNs e,
                conn_InterfaceBlackList = ec_IFaceBlackList (engine_config e),
                conn_DisableIPv6Discovery = True, conn_Timeout = timeout, conn_RemoteKey = pubKey,
                conn_WgListenPort = ec_WgPort (engine_config e), conn_AllowedIps = allowedIPs,
                conn_PreSharedKey = None, conn_LocalWgPort = ec_WgPort (engine_config e)\<rparr>))"

text \<open>One peer of the loop of \<^verbatim>\<open>addNewPeers\<close>: a new connection on the heap, the map entry, a goroutine.\<close>

definition add_peer ::
  "('t, 'c, 'u, 'm) engine_env \<Rightarrow> PeerInfo \<Rightarrow> ('t, 'c, 'u, 'm) Engine \<Rightarrow> error + ('t, 'c, 'u, 'm) Engine" where
  "add_peer V client e =
     (case createPeerConn V (info_WgPubKey client) (info_AllowedIP client @ ''/32'') e of
        Inl err \<Rightarrow> Inl err
      | Inr conn \<Rightarrow>
          let conn = OnRemoteAnswer \<lparr>ans_WgListenPort = info_Port client, ans_WgAddr = info_IP client\<rparr> conn;
              i = length (conns e)
          in Inr (e\<lparr>conns := conns e @ [conn],
                    peerConns := gm_put (info_WgPubKey client) i (peerConns e),
                    workers := workers e @ [(i, info_WgPubKey client)]\<rparr>))"

fun addNewPeers ::
  "('t, 'c, 'u, 'm) engine_env \<Rightarrow> PeerInfo list \<Rightarrow> ('t, 'c, 'u, 'm) Engine \<Rightarrow> error + ('t, 'c, 'u, 'm) Engine" where
  "addNewPeers V [] e = Inr e"
| "addNewPeers V (client # clientInfo) e =
     (case add_peer V client e of
        Inl err \<Rightarrow> Inl err
      | Inr e \<Rightarrow> addNewPeers V clientInfo e)"

definition peerExists :: "string \<Rightarrow> ('t, 'c, 'u, 'm) Engine \<Rightarrow> bool" where
  "peerExists peerKey e \<longleftrightarrow> gm_get (peerConns e) peerKey \<noteq> None"

text \<open>
  One round of \<^verbatim>\<open>receiveManagementEvents\<close>: an error is logged, and the peers returned beside it are
  added all the same.  A panic ends the program.
\<close>

definition poll ::
  "('t, 'c, 'u, 'm) engine_env \<Rightarrow> PeerInfo list \<times> error option \<Rightarrow> ('t, 'c, 'u, 'm) Engine
     \<Rightarrow> error + ('t, 'c, 'u, 'm) Engine" where
  "poll V answer e =
     (case answer of
        (_, Some (Panic m)) \<Rightarrow> Inl (Panic m)
      | (peerInfo, _) \<Rightarrow> addNewPeers V peerInfo e)"

fun polls ::
  "('t, 'c, 'u, 'm) engine_env \<Rightarrow> (PeerInfo list \<times> error option) list \<Rightarrow> ('t, 'c, 'u, 'm) Engine
     \<Rightarrow> error + ('t, 'c, 'u, 'm) Engine" where
  "polls V [] e = Inr e"
| "polls V (a # as) e = (case poll V a e of Inl err \<Rightarrow> Inl err | Inr e \<Rightarrow> polls V as e)"

text \<open>
  The environment of a connection of this engine: WireGuard is configured through the interface
  the engine created.
\<close>

definition conn_env_of :: "('t, 'c, 'u, 'm) engine_env \<Rightarrow> (('t, 'c) WGIface) conn_env" where
  "conn_env_of V =
     \<lparr>ResolveUDPAddr = resolve_udp V,
      UpdatePeer = (\<lambda>key ips keepAlive endpoint psk. iface_UpdatePeer (cfg_ops V) key ips keepAlive (Some endpoint) psk),
      agent_Close = (\<lambda>_. None), proxy_CloseConn = (\<lambda>_. None)\<rparr>"

datatype worker_result = Continue | Return | Stuck | Crash error

text \<open>
  One round of \<^verbatim>\<open>connWorker\<close> after its random delay, for the connection \<open>i\<close>; \<open>ev\<close> is what ends the
  \<^verbatim>\<open>select\<close> of \<^verbatim>\<open>Open\<close> when the connection is configured.
\<close>

definition connWorker_iter ::
  "('t, 'c, 'u, 'm) engine_env \<Rightarrow> open_event \<Rightarrow> nat \<times> string \<Rightarrow> ('t, 'c, 'u, 'm) Engine
     \<Rightarrow> worker_result \<times> ('t, 'c, 'u, 'm) Engine" where
  "connWorker_iter V ev = (\<lambda>(i, peerKey) e.
     if ctx_done e then (Return, e)
     else if \<not> peerExists peerKey e then (Return, e)
     else case wgInterface e of
            None \<Rightarrow> (Crash (Panic ''nil pointer dereference''), e)
          | Some w \<Rightarrow>
              (case Open_start (conn_env_of V) (conns e ! i) w of
                 Blocked \<Rightarrow> (Stuck, e)
               | Done (Inl err, c, w) \<Rightarrow>
                   (case err of Panic m \<Rightarrow> Crash err | Wrapf _ (Panic m) \<Rightarrow> Crash (Panic m) | _ \<Rightarrow> Continue,
                    e\<lparr>conns := (conns e)[i := c], wgInterface := Some w\<rparr>)
               | Done (Inr _, c, w) \<Rightarrow>
                   (case Open_wait ev c of
                      (ConnectionClosedError _, c) \<Rightarrow>
                        (Return, e\<lparr>conns := (conns e)[i := c], wgInterface := Some w\<rparr>)
                    | (_, c) \<Rightarrow>
                        (Continue, e\<lparr>conns := (conns e)[i := c], wgInterface := Some w\<rparr>))))"


text \<open>A worker that returns is gone; \<^verbatim>\<open>wgConnWorker\<close> counts the others.\<close>

definition run_worker ::
  "('t, 'c, 'u, 'm) engine_env \<Rightarrow> open_event \<Rightarrow> nat \<times> string \<Rightarrow> ('t, 'c, 'u, 'm) Engine
     \<Rightarrow> worker_result \<times> ('t, 'c, 'u, 'm) Engine" where
  "run_worker V ev wk e =
     (let (r, e) = connWorker_iter V ev wk e
      in (r, if r = Return then e\<lparr>workers := remove1 wk (workers e)\<rparr> else e))"

section \<open>The client\<close>

text \<open>\<open>Listen x\<close> is the error of binding the UDP port \<open>x\<close>.\<close>

function free_from :: "(int \<Rightarrow> error option) \<Rightarrow> int \<Rightarrow> error + int" where
  "free_from Listen x =
     (if x \<le> 65535
      then if Listen x \<noteq> None then free_from Listen (x + 1) else Inr x
      else Inl (Errorf ''no free ports''))"
  by auto
termination
  by (relation "measure (\<lambda>(_, x). nat (65536 - x))") auto

declare free_from.simps [simp del]

definition freePort :: "(int \<Rightarrow> error option) \<Rightarrow> int \<Rightarrow> error + int" where
  "freePort Listen start = free_from Listen (if start = 0 then DefaultWgPort else start)"

definition createEngineConfig ::
  "(int \<Rightarrow> error option) \<Rightarrow> string \<Rightarrow> string \<Rightarrow> Config \<Rightarrow> error + EngineConfig" where
  "createEngineConfig Listen localWgAddr key config =
     (case freePort Listen (WgPort config) of
        Inl err \<Rightarrow> Inl err
      | Inr port \<Rightarrow>
          Inr \<lparr>ec_WgPort = port, ec_WgIfaceName = WgIface config, ec_WgAddr = localWgAddr,
               ec_WgPrivateKey = key, ec_IFaceBlackList = [], ec_UDPMuxPort = 0, ec_UDPMuxSrflxPort = 0\<rparr>)"

text \<open>
  The retried operation of \<^verbatim>\<open>run\<close>: \<open>cancelled\<close> is the state of the client's context, \<open>session\<close> what
  becomes of the engine until its context is done.  The result is the error and the engine kept in
  \<^verbatim>\<open>c.engine\<close>.
\<close>

definition operation ::
  "('t, 'c, 'u, 'm) engine_env \<Rightarrow> (int \<Rightarrow> error option) \<Rightarrow> client_json \<Rightarrow> client_flags \<Rightarrow> client_socket \<Rightarrow> string
     \<Rightarrow> (('t, 'c, 'u, 'm) Engine \<Rightarrow> ('t, 'c, 'u, 'm) Engine) \<Rightarrow> string \<Rightarrow> Config \<Rightarrow> bool
     \<Rightarrow> ('t, 'c, 'u, 'm) Engine option \<Rightarrow> error option \<times> ('t, 'c, 'u, 'm) Engine option" where
  "operation V Listen J F K localWgAddr session myPrivateKey config cancelled engine =
     (if cancelled then (None, engine)
      else case createEngineConfig Listen localWgAddr myPrivateKey config of
        Inl err \<Rightarrow> (Some err, engine)
      | Inr engineConfig \<Rightarrow>
     (case ClientRegister J F K (ec_WgPort engineConfig) (publicKey V myPrivateKey) (ec_WgAddr engineConfig) of
        Inl err \<Rightarrow> (Some err, engine)
      | Inr _ \<Rightarrow>
     (case Start V (NewEngine engineConfig) of
        (Some err, e) \<Rightarrow> (Some err, Some e)
      | (None, e) \<Rightarrow> (let (err, e) = Stop V (session e) in (err, Some e)))))"

section \<open>Lemmas\<close>

lemma from_split:
  fixes x :: int
  shows "(\<forall>y. x \<le> y \<and> R y \<longrightarrow> Q y) \<longleftrightarrow> (R x \<longrightarrow> Q x) \<and> (\<forall>y. x + 1 \<le> y \<and> R y \<longrightarrow> Q y)"
proof -
  have "x \<le> y \<longleftrightarrow> y = x \<or> x + 1 \<le> y" for y by arith
  then show ?thesis by simp blast
qed

lemma free_from_first:
  "free_from Listen x = Inr port \<longleftrightarrow>
     x \<le> port \<and> port \<le> 65535 \<and> Listen port = None \<and> (\<forall>y. x \<le> y \<and> y < port \<longrightarrow> Listen y \<noteq> None)"
proof (induction Listen x rule: free_from.induct)
  case (1 Listen x)
  have first: "x \<le> port \<and> Listen port = None \<longleftrightarrow>
      (x = port \<or> x + 1 \<le> port) \<and> Listen port = None" by auto
  consider "65535 < x" | "x \<le> 65535" "Listen x = None" | err where "x \<le> 65535" "Listen x = Some err"
    by (cases "Listen x") fastforce+
  then show ?case
  proof cases
    case 1
    then show ?thesis by (subst free_from.simps) auto
  next
    case 2
    then show ?thesis by (subst free_from.simps) (auto simp: from_split [of x] intro: order.antisym leI)
  next
    case 3
    then have "free_from Listen x = free_from Listen (x + 1)"
      by (subst free_from.simps) simp
    with 3 "1.IH" first show ?thesis by (auto simp: from_split [of x])
  qed
qed

lemma free_from_none:
  "(\<exists>err. free_from Listen x = Inl err) \<longleftrightarrow> (\<forall>y. x \<le> y \<and> y \<le> 65535 \<longrightarrow> Listen y \<noteq> None)"
proof (induction Listen x rule: free_from.induct)
  case (1 Listen x)
  show ?case
    using 1 unfolding from_split [of x] by (subst free_from.simps) auto
qed

subsection \<open>Adding peers\<close>

lemma addNewPeers_append:
  "addNewPeers V (ps @ qs) e =
     (case addNewPeers V ps e of Inl err \<Rightarrow> Inl err | Inr e \<Rightarrow> addNewPeers V qs e)"
  by (induction ps arbitrary: e) (auto split: sum.splits)

lemma poll_adds: "\<nexists>m. snd a = Some (Panic m) \<Longrightarrow> poll V a e = addNewPeers V (fst a) e"
  by (auto simp: poll_def split: prod.splits option.splits error.splits)

lemma polls_add:
  "\<forall>a\<in>set as. \<nexists>m. snd a = Some (Panic m) \<Longrightarrow>
     polls V as e = addNewPeers V (concat (map fst as)) e"
  by (induction as arbitrary: e) (auto simp: poll_adds addNewPeers_append split: sum.splits)

text \<open>The connection made for a peer: what the peer announced, under its key.\<close>

definition conn_for :: "PeerInfo \<Rightarrow> Conn \<Rightarrow> bool" where
  "conn_for p c \<longleftrightarrow>
     conn_RemoteKey (conn_config c) = info_WgPubKey p
   \<and> conn_AllowedIps (conn_config c) = info_AllowedIP p @ ''/32'' \<and> conn_PreSharedKey (conn_config c) = None
   \<and> remoteAnswer c = \<lparr>ans_WgListenPort = info_Port p, ans_WgAddr = info_IP p\<rparr> \<and> \<not> mu c"

lemma add_peer_eq:
  assumes "udpMux e = Some u"
  shows "\<exists>c. conn_for p c \<and>
    add_peer V p e = Inr (e\<lparr>conns := conns e @ [c], peerConns := gm_put (info_WgPubKey p) (length (conns e)) (peerConns e),
       workers := workers e @ [(length (conns e), info_WgPubKey p)]\<rparr>)"
proof -
  obtain c where "createPeerConn V (info_WgPubKey p) (info_AllowedIP p @ ''/32'') e = Inr c"
    and "conn_RemoteKey (conn_config c) = info_WgPubKey p"
    and "conn_AllowedIps (conn_config c) = info_AllowedIP p @ ''/32''"
    and "conn_PreSharedKey (conn_config c) = None" and "\<not> mu c"
    using assms by (simp add: createPeerConn_def NewConn_def Let_def)
  then show ?thesis
    by (intro exI [of _ "OnRemoteAnswer \<lparr>ans_WgListenPort = info_Port p, ans_WgAddr = info_IP p\<rparr> c"])
      (simp add: add_peer_def conn_for_def OnRemoteAnswer_def Let_def)
qed

definition peers_added ::
  "PeerInfo list \<Rightarrow> ('t, 'c, 'u, 'm) Engine \<Rightarrow> ('t, 'c, 'u, 'm) Engine \<Rightarrow> bool" where
  "peers_added ps e e' \<longleftrightarrow>
     length (conns e') = length (conns e) + length ps
   \<and> take (length (conns e)) (conns e') = conns e
   \<and> workers e' = workers e @ map (\<lambda>j. (length (conns e) + j, info_WgPubKey (ps ! j))) [0..<length ps]
   \<and> fst ` set (peerConns e') = fst ` set (peerConns e) \<union> info_WgPubKey ` set ps
   \<and> (\<forall>j<length ps. conn_for (ps ! j) (conns e' ! (length (conns e) + j)))
   \<and> (\<forall>j<length ps. (\<forall>k. j < k \<and> k < length ps \<longrightarrow> info_WgPubKey (ps ! k) \<noteq> info_WgPubKey (ps ! j)) \<longrightarrow>
        gm_get (peerConns e') (info_WgPubKey (ps ! j)) = Some (length (conns e) + j))"

lemma peers_added_snoc:
  assumes "peers_added ps e e'" and "conn_for p c"
  shows "peers_added (ps @ [p]) e
    (e'\<lparr>conns := conns e' @ [c], peerConns := gm_put (info_WgPubKey p) (length (conns e')) (peerConns e'),
        workers := workers e' @ [(length (conns e'), info_WgPubKey p)]\<rparr>)"
proof -
  have len: "length (conns e') = length (conns e) + length ps" using assms(1) by (simp add: peers_added_def)
  have last_wins: "gm_get (gm_put (info_WgPubKey p) (length (conns e')) (peerConns e')) (info_WgPubKey ((ps @ [p]) ! j))
      = Some (length (conns e) + j)"
    if j: "j < Suc (length ps)"
      and later: "\<forall>k. j < k \<and> k < Suc (length ps) \<longrightarrow> info_WgPubKey ((ps @ [p]) ! k) \<noteq> info_WgPubKey ((ps @ [p]) ! j)"
    for j
  proof (cases "j = length ps")
    case True
    then show ?thesis by (simp add: len)
  next
    case False
    with j have "j < length ps" by simp
    moreover from this later have "info_WgPubKey p \<noteq> info_WgPubKey (ps ! j)"
      by (metis lessI nth_append nth_append_length)
    moreover have "info_WgPubKey (ps ! k) \<noteq> info_WgPubKey (ps ! j)" if "j < k" "k < length ps" for k
      using later that by (metis nth_append less_SucI less_trans)
    ultimately show ?thesis using assms(1) by (simp add: peers_added_def nth_append)
  qed
  show ?thesis
    using assms last_wins
    by (auto simp: peers_added_def gm_keys_put less_Suc_eq nth_append)
qed

lemma addNewPeers_adds:
  assumes "udpMux e = Some u"
  shows "\<exists>e'. addNewPeers V ps e = Inr e' \<and> peers_added ps e e' \<and> udpMux e' = Some u"
proof (induction ps rule: rev_induct)
  case Nil
  then show ?case using assms by (simp add: peers_added_def)
next
  case (snoc p ps)
  then obtain e' where e': "addNewPeers V ps e = Inr e'" "peers_added ps e e'" "udpMux e' = Some u" by blast
  obtain c where "conn_for p c" and add: "add_peer V p e' = Inr (e'\<lparr>conns := conns e' @ [c],
      peerConns := gm_put (info_WgPubKey p) (length (conns e')) (peerConns e'),
      workers := workers e' @ [(length (conns e'), info_WgPubKey p)]\<rparr>)"
    using add_peer_eq [OF e'(3)] by blast
  with peers_added_snoc [OF e'(2)] e' show ?case
    by (simp add: addNewPeers_append)
qed

lemma addNewPeers_ctx: "addNewPeers V ps e = Inr e' \<Longrightarrow> ctx_done e' = ctx_done e"
  by (induction ps arbitrary: e) (fastforce simp: add_peer_def Let_def split: sum.splits)+

lemma polled_ctx: "poll V answer e = Inr e' \<Longrightarrow> ctx_done e' = ctx_done e"
  by (auto simp: poll_def split: prod.splits option.splits error.splits dest: addNewPeers_ctx)

section \<open>Properties\<close>

text \<open>C27. Every poll adds a connection and a running worker for every peer in the answer, known or
  not.  The map keeps one entry per key, the latest; the earlier connections are no longer reachable
  from it, yet their workers run on, because each worker only asks whether its key is in the map.
  A poll that fails adds what was decoded before the failure, which is nothing
  unless the answer has a wrong type somewhere.\<close>

theorem polls_accumulate_workers:
  assumes "udpMux e = Some u"
    and "\<forall>a\<in>set answers. \<nexists>m. snd a = Some (Panic m)"
    and "ps = concat (map fst answers)"
  shows "\<exists>e'. polls V answers e = Inr e'
     \<and> length (workers e') = length (workers e) + length ps
     \<and> length (conns e') = length (conns e) + length ps
     \<and> (\<forall>j<length ps. (length (conns e) + j, info_WgPubKey (ps ! j)) \<in> set (workers e')
          \<and> peerExists (info_WgPubKey (ps ! j)) e'
          \<and> conn_for (ps ! j) (conns e' ! (length (conns e) + j)))
     \<and> (\<forall>key. peerExists key e' \<longleftrightarrow> peerExists key e \<or> key \<in> info_WgPubKey ` set ps)
     \<and> (\<forall>j<length ps. (\<forall>k. j < k \<and> k < length ps \<longrightarrow> info_WgPubKey (ps ! k) \<noteq> info_WgPubKey (ps ! j)) \<longrightarrow>
          gm_get (peerConns e') (info_WgPubKey (ps ! j)) = Some (length (conns e) + j))"
proof -
  obtain e' where run: "polls V answers e = Inr e'" and added: "peers_added ps e e'"
    using addNewPeers_adds [OF assms(1), of V ps] polls_add [OF assms(2), of V e] assms(3) by auto
  have ex: "peerExists key e' \<longleftrightarrow> peerExists key e \<or> key \<in> info_WgPubKey ` set ps" for key
    using added unfolding peers_added_def peerExists_def map_of_eq_None_iff by auto
  show ?thesis
    using run added ex by (auto simp: peers_added_def intro!: exI [of _ e'])
qed

definition demo_peer_info :: "string \<Rightarrow> PeerInfo" where
  "demo_peer_info key =
     \<lparr>info_ClientId = ''c'', info_IP = ''1.2.3.4'', info_Port = 51820, info_WgPubKey = key,
      info_AllowedIP = ''10.0.0.7'', info_LastKeepAliveAt = ''''\<rparr>"

definition demo_engine :: "(unit, unit, unit, unit) Engine" where
  "demo_engine = (NewEngine \<lparr>ec_WgPort = 51822, ec_WgIfaceName = ''wt0'', ec_WgAddr = ''10.0.0.1/24'',
     ec_WgPrivateKey = ''key'', ec_IFaceBlackList = [], ec_UDPMuxPort = 0, ec_UDPMuxSrflxPort = 0\<rparr>)
     \<lparr>udpMux := Some ()\<rparr>"

text \<open>One peer, seen in two polls around a failed one: two workers, one entry.\<close>

theorem polls_accumulate_workers_witness:
  "\<forall>V. \<exists>e'. polls V [([demo_peer_info ''k''], None), ([], Some EOF), ([demo_peer_info ''k''], None)] demo_engine = Inr e'
     \<and> length (workers e') = 2 \<and> gm_get (peerConns e') ''k'' = Some 1"
proof
  fix V
  let ?ps = "[demo_peer_info ''k'', demo_peer_info ''k'']"
  let ?as = "[([demo_peer_info ''k''], None), ([], Some EOF), ([demo_peer_info ''k''], None)]"
  have ps: "?ps = concat (map fst ?as)" by simp
  have key: "info_WgPubKey (?ps ! 1) = ''k''" by (simp add: demo_peer_info_def)
  from polls_accumulate_workers [OF _ _ ps, of demo_engine "()" V] show "\<exists>e'. polls V ?as demo_engine = Inr e'
     \<and> length (workers e') = 2 \<and> gm_get (peerConns e') ''k'' = Some 1"
    by (auto simp: demo_engine_def NewEngine_def key less_Suc_eq demo_peer_info_def)
qed

end
