(* ===== verification/Std_Net.thy ===== *)
theory Std_Net
  imports Wg_Address "HOL-Library.Monad_Syntax"
begin

text \<open>
  The network the ICE transport sees (\<^verbatim>\<open>client/internal/stdnet\<close>): the interfaces of the machine, or
  those a mobile platform describes in a text, filtered by name.  The interface objects are those of
  pion's transport package: the record \<open>transport\<close> and, as a locale, what the package promises.
\<close>

section \<open>Interfaces\<close>

record netInterface =
  nif_Name :: string
  nif_Index :: int
  nif_MTU :: int
  nif_Flags :: "64 word"

datatype netAddr = NetIPNet IPNet | NetOtherAddr string

text \<open>\<open>embedded\<close> is the \<^verbatim>\<open>net.Interface\<close> inside a \<^verbatim>\<open>transport.Interface\<close>.\<close>

record 'i transport =
  NewInterface :: "netInterface \<Rightarrow> 'i"
  AddAddress :: "netAddr \<Rightarrow> 'i \<Rightarrow> 'i"
  embedded :: "'i \<Rightarrow> netInterface"

record 'i Net =
  net_interfaces :: "'i list"
  net_interfaceFilter :: "(string \<Rightarrow> bool) option"

text \<open>
  \<open>wgNew\<close> is the error of opening a WireGuard control client, \<open>wgDevice\<close> that of asking it for a
  device.
\<close>

definition InterfaceFilter ::
  "string \<Rightarrow> error option \<Rightarrow> (string \<Rightarrow> error option) \<Rightarrow> string list \<Rightarrow> string \<Rightarrow> bool" where
  "InterfaceFilter GOOS wgNew wgDevice disallowList iFace =
     (if HasPrefix iFace ''lo'' then False
      else if list_ex (\<lambda>s. HasPrefix iFace s \<and> GOOS \<noteq> ''ios'') disallowList then False
      else case wgNew of
             Some _ \<Rightarrow> True
           | None \<Rightarrow> wgDevice iFace \<noteq> None)"

fun filter_loop :: "'i transport \<Rightarrow> (string \<Rightarrow> bool) \<Rightarrow> 'i list \<Rightarrow> 'i list \<Rightarrow> 'i list" where
  "filter_loop T allowed [] result = result"
| "filter_loop T allowed (iface # is) result =
     filter_loop T allowed is (if allowed (nif_Name (embedded T iface)) then result @ [iface] else result)"

definition filterInterfaces :: "'i transport \<Rightarrow> 'i Net \<Rightarrow> 'i list \<Rightarrow> 'i list" where
  "filterInterfaces T n is =
     (case net_interfaceFilter n of None \<Rightarrow> is | Some allowed \<Rightarrow> filter_loop T allowed is [])"

text \<open>\<open>discovered\<close> is what the discoverer returns when it is called.\<close>

definition UpdateInterfaces :: "'i transport \<Rightarrow> error + 'i list \<Rightarrow> 'i Net \<Rightarrow> error option \<times> 'i Net" where
  "UpdateInterfaces T discovered n =
     (case discovered of
        Inl err \<Rightarrow> (Some err, n)
      | Inr allIfaces \<Rightarrow> (None, n\<lparr>net_interfaces := filterInterfaces T n allIfaces\<rparr>))"

definition NewNet :: "'i transport \<Rightarrow> error + 'i list \<Rightarrow> (string \<Rightarrow> bool) \<Rightarrow> error option \<times> 'i Net" where
  "NewNet T discovered allowed =
     UpdateInterfaces T discovered \<lparr>net_interfaces = [], net_interfaceFilter = Some allowed\<rparr>"

definition net_Interfaces :: "'i Net \<Rightarrow> error + 'i list" where
  "net_Interfaces n = Inr (net_interfaces n)"

definition ErrInterfaceNotFound :: error where "ErrInterfaceNotFound = EnvErr ''interface not found''"

definition InterfaceByIndex :: "'i transport \<Rightarrow> int \<Rightarrow> 'i Net \<Rightarrow> error + 'i" where
  "InterfaceByIndex T index n =
     (case find (\<lambda>ifc. nif_Index (embedded T ifc) = index) (net_interfaces n) of
        Some ifc \<Rightarrow> Inr ifc
      | None \<Rightarrow> Inl (Wrapf (''index='' @ Itoa index) ErrInterfaceNotFound))"

definition InterfaceByName :: "'i transport \<Rightarrow> string \<Rightarrow> 'i Net \<Rightarrow> error + 'i" where
  "InterfaceByName T name n =
     (case find (\<lambda>ifc. nif_Name (embedded T ifc) = name) (net_interfaces n) of
        Some ifc \<Rightarrow> Inr ifc
      | None \<Rightarrow> Inl (Wrapf name ErrInterfaceNotFound))"

section \<open>Discovery on the machine\<close>

text \<open>\<open>oifs\<close> is the result of \<^verbatim>\<open>net.Interfaces\<close>, each interface with the result of its \<^verbatim>\<open>Addrs\<close>.\<close>

fun pion_loop ::
  "'i transport \<Rightarrow> (netInterface \<times> (error + netAddr list)) list \<Rightarrow> 'i list \<Rightarrow> error + 'i list" where
  "pion_loop T [] ifs = Inr ifs"
| "pion_loop T ((oif, addrs) # oifs) ifs =
     (case addrs of
        Inl err \<Rightarrow> Inl err
      | Inr as \<Rightarrow> pion_loop T oifs (ifs @ [fold (AddAddress T) as (NewInterface T oif)]))"

definition pion_iFaces ::
  "'i transport \<Rightarrow> error + (netInterface \<times> (error + netAddr list)) list \<Rightarrow> error + 'i list" where
  "pion_iFaces T oifs = (case oifs of Inl err \<Rightarrow> Inl err | Inr is \<Rightarrow> pion_loop T is [])"

section \<open>Discovery from a description\<close>

text \<open>
  The verbs of \<^verbatim>\<open>fmt.Sscanf\<close> the parser uses, on ASCII text without line ends: the value and what is
  left, or \<open>None\<close> for an error.  A space of the format wants a space or the end of the text.
\<close>

definition scan_space :: "string \<Rightarrow> string option" where
  "scan_space s = (if s \<noteq> [] \<and> \<not> is_space (hd s) then None else Some (dropWhile is_space s))"

definition scan_s :: "string \<Rightarrow> (string \<times> string) option" where
  "scan_s s =
     (let s = dropWhile is_space s
      in if s = [] then None else Some (takeWhile (\<lambda>c. \<not> is_space c) s, dropWhile (\<lambda>c. \<not> is_space c) s))"

definition scan_d :: "string \<Rightarrow> (int \<times> string) option" where
  "scan_d s =
     (let s = dropWhile is_space s;
          signed = (s \<noteq> [] \<and> hd s \<in> {CHR ''-'', CHR ''+''});
          ds = (if signed then tl s else s);
          digits = takeWhile is_digit ds;
          v = (if signed \<and> hd s = CHR ''-'' then - int (dec_val digits) else int (dec_val digits))
      in if digits = [] \<or> v < - (2 ^ 63) \<or> 2 ^ 63 \<le> v then None else Some (v, dropWhile is_digit ds))"

definition accept :: "string \<Rightarrow> string \<Rightarrow> bool \<times> string" where
  "accept ok s = (if s \<noteq> [] \<and> hd s \<in> set ok then (True, tl s) else (False, s))"

fun accept_all :: "string list \<Rightarrow> string \<Rightarrow> string option" where
  "accept_all [] s = Some s"
| "accept_all (ok # oks) s = (let (b, s) = accept ok s in if b then accept_all oks s else None)"

text \<open>
  A boolean: \<^verbatim>\<open>1\<close>, \<^verbatim>\<open>t\<close> or \<^verbatim>\<open>true\<close> in any case; \<^verbatim>\<open>0\<close>, \<^verbatim>\<open>f\<close>, \<^verbatim>\<open>false\<close> and every other character
  are false.
\<close>

definition scan_t :: "string \<Rightarrow> (bool \<times> string) option" where
  "scan_t s =
     (case dropWhile is_space s of
        [] \<Rightarrow> None
      | c # r \<Rightarrow>
          if c = CHR ''1'' then Some (True, r)
          else if c \<in> {CHR ''t'', CHR ''T''}
          then (let (b, r) = accept ''rR'' r
                in if b then map_option (Pair True) (accept_all [''uU'', ''eE''] r) else Some (True, r))
          else if c \<in> {CHR ''f'', CHR ''F''}
          then (let (b, r) = accept ''aA'' r
                in if b then map_option (Pair False) (accept_all [''lL'', ''sS'', ''eE''] r) else Some (False, r))
          else Some (False, r))"

definition scan_interface :: "string \<Rightarrow> (string \<times> int \<times> int \<times> bool \<times> bool \<times> bool \<times> bool \<times> bool) option" where
  "scan_interface s = do {
     (name, s) \<leftarrow> scan_s s; s \<leftarrow> scan_space s;
     (index, s) \<leftarrow> scan_d s; s \<leftarrow> scan_space s;
     (mtu, s) \<leftarrow> scan_d s; s \<leftarrow> scan_space s;
     (up, s) \<leftarrow> scan_t s; s \<leftarrow> scan_space s;
     (broadcast, s) \<leftarrow> scan_t s; s \<leftarrow> scan_space s;
     (loopback, s) \<leftarrow> scan_t s; s \<leftarrow> scan_space s;
     (pointToPoint, s) \<leftarrow> scan_t s; s \<leftarrow> scan_space s;
     (multicast, s) \<leftarrow> scan_t s;
     Some (name, index, mtu, up, broadcast, loopback, pointToPoint, multicast) }"

unbundle bit_operations_syntax

definition set_flag :: "bool \<Rightarrow> 64 word \<Rightarrow> 64 word \<Rightarrow> 64 word" where
  "set_flag b flag flags = (if b then flags OR flag else flags)"

definition iface_flags :: "bool \<Rightarrow> bool \<Rightarrow> bool \<Rightarrow> bool \<Rightarrow> bool \<Rightarrow> 64 word" where
  "iface_flags up broadcast loopback pointToPoint multicast =
     set_flag multicast 16 (set_flag pointToPoint 8 (set_flag loopback 4 (set_flag broadcast 2 (set_flag up 1 0))))"

definition Trim_space_nl :: "string \<Rightarrow> string" where
  "Trim_space_nl s =
     (let cut = (\<lambda>c. c = CHR '' '' \<or> c = NL) in rev (dropWhile cut (rev (dropWhile cut s))))"

fun addr_loop :: "'i transport \<Rightarrow> string list \<Rightarrow> 'i \<times> bool \<Rightarrow> 'i \<times> bool" where
  "addr_loop T [] st = st"
| "addr_loop T (addr # addrs) (ifc, foundAddress) =
     (if Contains addr ''%'' then addr_loop T addrs (ifc, foundAddress)
      else case ParseCIDR addr of
             Inl _ \<Rightarrow> addr_loop T addrs (ifc, foundAddress)
           | Inr (ip, ipNet) \<Rightarrow> addr_loop T addrs (AddAddress T (NetIPNet (ipNet\<lparr>net_IP := ip\<rparr>)) ifc, True))"

definition parse_line :: "'i transport \<Rightarrow> string \<Rightarrow> 'i option" where
  "parse_line T iface =
     (if TrimSpace iface = [] then None
      else let fields = Split (CHR ''|'') iface
           in if length fields \<noteq> 2 then None
              else case scan_interface (fields ! 0) of
                     None \<Rightarrow> None
                   | Some (name, index, mtu, up, broadcast, loopback, pointToPoint, multicast) \<Rightarrow>
                       let newIf = \<lparr>nif_Name = name, nif_Index = index, nif_MTU = mtu,
                             nif_Flags = iface_flags up broadcast loopback pointToPoint multicast\<rparr>;
                           (ifc, foundAddress) = addr_loop T (Split (CHR '' '') (Trim_space_nl (fields ! 1)))
                             (NewInterface T newIf, False)
                       in if foundAddress then Some ifc else None)"

fun parse_lines :: "'i transport \<Rightarrow> string list \<Rightarrow> 'i list \<Rightarrow> 'i list" where
  "parse_lines T [] ifs = ifs"
| "parse_lines T (iface # rest) ifs =
     parse_lines T rest (case parse_line T iface of None \<Rightarrow> ifs | Some ifc \<Rightarrow> ifs @ [ifc])"

definition parseInterfacesString :: "'i transport \<Rightarrow> string \<Rightarrow> 'i list" where
  "parseInterfacesString T text = parse_lines T (Split NL text) []"

definition mobile_iFaces :: "'i transport \<Rightarrow> error + string \<Rightarrow> error + 'i list" where
  "mobile_iFaces T text =
     (case text of Inl err \<Rightarrow> Inl err | Inr s \<Rightarrow> Inr (parseInterfacesString T s))"

definition NewNetWithDiscover ::
  "'i transport \<Rightarrow> error + string \<Rightarrow> (string \<Rightarrow> bool) \<Rightarrow> error option \<times> 'i Net" where
  "NewNetWithDiscover T text allowed =
     UpdateInterfaces T (mobile_iFaces T text) \<lparr>net_interfaces = [], net_interfaceFilter = Some allowed\<rparr>"

section \<open>The transport package\<close>

text \<open>An interface object keeps the \<^verbatim>\<open>net.Interface\<close> it was made from and collects addresses in order.\<close>

locale transport_package =
  fixes T :: "'i transport" and addrs :: "'i \<Rightarrow> netAddr list"
  assumes embedded_new: "embedded T (NewInterface T i) = i"
    and embedded_add: "embedded T (AddAddress T a x) = embedded T x"
    and addrs_new: "addrs (NewInterface T i) = []"
    and addrs_add: "addrs (AddAddress T a x) = addrs x @ [a]"
begin

lemma fold_AddAddress:
  "embedded T (fold (AddAddress T) as x) = embedded T x \<and> addrs (fold (AddAddress T) as x) = addrs x @ as"
  by (induction as arbitrary: x) (simp_all add: embedded_add addrs_add)

lemma pion_loop_exact:
  "list_all (\<lambda>(_, r). \<not> isl r) oifs \<Longrightarrow>
     \<exists>is. pion_loop T oifs ifs = Inr (ifs @ is)
        \<and> map (\<lambda>i. (embedded T i, addrs i)) is = map (\<lambda>(i, r). (i, projr r)) oifs"
proof (induction oifs arbitrary: ifs)
  case (Cons o' oifs)
  obtain oif as where o': "o' = (oif, Inr as)" using Cons.prems by (cases o', cases "snd o'") auto
  let ?i = "fold (AddAddress T) as (NewInterface T oif)"
  from Cons.IH [of "ifs @ [?i]"] Cons.prems obtain "is" where
    "pion_loop T oifs (ifs @ [?i]) = Inr ((ifs @ [?i]) @ is)"
    "map (\<lambda>i. (embedded T i, addrs i)) is = map (\<lambda>(i, r). (i, projr r)) oifs" by auto
  then show ?case using fold_AddAddress [of as "NewInterface T oif"]
    by (intro exI [of _ "?i # is"]) (simp add: o' embedded_new addrs_new)
qed simp

end

text \<open>Interface objects as pairs.\<close>

definition pair_transport :: "(netInterface \<times> netAddr list) transport" where
  "pair_transport = \<lparr>NewInterface = (\<lambda>i. (i, [])), AddAddress = (\<lambda>a (i, as). (i, as @ [a])), embedded = fst\<rparr>"

interpretation pair_package: transport_package pair_transport snd
  by unfold_locales (auto simp: pair_transport_def)

section \<open>Lemmas\<close>

lemma filter_loop_filter:
  "filter_loop T allowed is result = result @ filter (\<lambda>i. allowed (nif_Name (embedded T i))) is"
  by (induction T allowed "is" result rule: filter_loop.induct) simp_all

lemma parse_lines_map_filter: "parse_lines T ls ifs = ifs @ List.map_filter (parse_line T) ls"
  by (induction T ls ifs rule: parse_lines.induct) (simp_all add: map_filter_simps split: option.split)

text \<open>What a platform writes: the reference form of a description.\<close>

record ifaceDescription =
  d_if :: netInterface
  d_up :: bool
  d_broadcast :: bool
  d_loopback :: bool
  d_pointToPoint :: bool
  d_multicast :: bool
  d_addrs :: "WGAddress list"

definition print_bool :: "bool \<Rightarrow> string" where
  "print_bool b = (if b then ''true'' else ''false'')"

definition print_header :: "ifaceDescription \<Rightarrow> string" where
  "print_header d =
     nif_Name (d_if d) @ '' '' @ Itoa (nif_Index (d_if d)) @ '' '' @ Itoa (nif_MTU (d_if d)) @ '' ''
     @ print_bool (d_up d) @ '' '' @ print_bool (d_broadcast d) @ '' '' @ print_bool (d_loopback d) @ '' ''
     @ print_bool (d_pointToPoint d) @ '' '' @ print_bool (d_multicast d)"

definition print_interface :: "ifaceDescription \<Rightarrow> string" where
  "print_interface d = print_header d @ ''|'' @ Join '' '' (map WGAddress_String (d_addrs d))"

definition printable :: "ifaceDescription \<Rightarrow> bool" where
  "printable d \<longleftrightarrow>
     nif_Name (d_if d) \<noteq> [] \<and> list_all (\<lambda>c. \<not> is_space c \<and> c \<noteq> CHR ''|'') (nif_Name (d_if d))
   \<and> int64 (nif_Index (d_if d)) \<and> int64 (nif_MTU (d_if d))
   \<and> nif_Flags (d_if d) = of_bool (d_up d) + 2 * of_bool (d_broadcast d) + 4 * of_bool (d_loopback d)
        + 8 * of_bool (d_pointToPoint d) + 16 * of_bool (d_multicast d)
   \<and> d_addrs d \<noteq> [] \<and> (\<forall>a\<in>set (d_addrs d). cidr_address a \<and> \<not> mapped_v6 a)"

lemma iface_flags_sum:
  "iface_flags up broadcast loopback pointToPoint multicast = of_bool up + 2 * of_bool broadcast + 4 * of_bool loopback
     + 8 * of_bool pointToPoint + 16 * of_bool multicast"
  by (simp add: iface_flags_def set_flag_def)

lemma is_space_iff: "is_space c \<longleftrightarrow> c \<in> {CHR 0x09, CHR 0x0A, CHR 0x0B, CHR 0x0C, CHR 0x0D, CHR '' ''}"
  by (simp add: is_space_def)

lemma digit_not_space: "is_digit c \<Longrightarrow> \<not> is_space c \<and> c \<noteq> CHR ''|''"
  by (auto simp: is_space_iff)

lemma hex_not_space: "is_hex c \<Longrightarrow> \<not> is_space c \<and> c \<noteq> CHR ''|'' \<and> c \<noteq> CHR ''%''"
  by (auto simp: is_space_iff is_hex_def hex_digit_def)

lemma scan_space_word: "s \<noteq> [] \<Longrightarrow> \<not> is_space (hd s) \<Longrightarrow> scan_space (CHR '' '' # s) = Some s"
  by (cases s) (simp_all add: scan_space_def is_space_iff)

lemma scan_s_word:
  assumes "w \<noteq> []" and "list_all (\<lambda>c. \<not> is_space c) w"
  shows "scan_s (w @ CHR '' '' # r) = Some (w, CHR '' '' # r)"
proof -
  have "takeWhile (\<lambda>c. \<not> is_space c) (w @ CHR '' '' # r) = w" "dropWhile (\<lambda>c. \<not> is_space c) (w @ CHR '' '' # r) = CHR '' '' # r"
    using assms(2) by (auto simp: takeWhile_append dropWhile_append list_all_iff is_space_iff)
  moreover have "dropWhile is_space (w @ CHR '' '' # r) = w @ CHR '' '' # r"
    using assms by (cases w) auto
  ultimately show ?thesis by (simp add: scan_s_def Let_def)
qed

lemma scan_t_bool:
  "scan_t (print_bool b @ CHR '' '' # r) = Some (b, CHR '' '' # r)" "scan_t (print_bool b) = Some (b, [])"
  by (simp_all add: scan_t_def print_bool_def accept_def is_space_iff)

lemma scan_d_Itoa:
  assumes "int64 n"
  shows "scan_d (Itoa n @ CHR '' '' # r) = Some (n, CHR '' '' # r)"
proof -
  have cut: "takeWhile is_digit (decimal k @ CHR '' '' # r) = decimal k" "dropWhile is_digit (decimal k @ CHR '' '' # r) = CHR '' '' # r" for k
    using decimal_digits [of k] by (auto simp: takeWhile_append dropWhile_append)
  obtain c w where d: "decimal (nat \<bar>n\<bar>) = c # w" and c: "is_digit c"
    using decimal_digits [of "nat \<bar>n\<bar>"] decimal_nonempty [of "nat \<bar>n\<bar>"] by (cases "decimal (nat \<bar>n\<bar>)") auto
  show ?thesis
  proof (cases "n < 0")
    case True
    then show ?thesis using cut [of "nat \<bar>n\<bar>"] assms
      by (simp add: scan_d_def Itoa_def Let_def is_space_iff int64_def)
  next
    case False
    then have "decimal (nat n) = c # w" "Itoa n = decimal (nat n)" using d by (simp_all add: Itoa_def)
    moreover have "c \<noteq> CHR ''-''" "c \<noteq> CHR ''+''" "\<not> is_space c" using c digit_not_space by auto
    moreover have "dec_val (c # w) = nat n" using \<open>decimal (nat n) = c # w\<close> dec_val_decimal [of "nat n"] by simp
    ultimately show ?thesis using cut [of "nat n"] assms False
      by (simp add: scan_d_def Let_def int64_def)
  qed
qed

lemma hd_not_space:
  "print_bool b \<noteq> []" "\<not> is_space (hd (print_bool b @ s))" "Itoa n \<noteq> []" "\<not> is_space (hd (Itoa n @ s))"
proof -
  show "print_bool b \<noteq> []" "\<not> is_space (hd (print_bool b @ s))" by (auto simp: print_bool_def is_space_iff)
  have "\<not> is_space (hd (decimal k @ s))" for k
    using decimal_digits [of k] decimal_nonempty [of k] digit_not_space by (cases "decimal k") auto
  then show "Itoa n \<noteq> []" "\<not> is_space (hd (Itoa n @ s))" by (auto simp: Itoa_def is_space_iff)
qed

lemma scan_print_header:
  assumes "printable d"
  shows "scan_interface (print_header d) =
    Some (nif_Name (d_if d), nif_Index (d_if d), nif_MTU (d_if d), d_up d, d_broadcast d, d_loopback d, d_pointToPoint d, d_multicast d)"
proof -
  have name: "nif_Name (d_if d) \<noteq> []" "list_all (\<lambda>c. \<not> is_space c) (nif_Name (d_if d))"
    using assms by (auto simp: printable_def list_all_iff)
  have sp: "scan_space (CHR '' '' # print_bool b @ s) = Some (print_bool b @ s)"
    "scan_space (CHR '' '' # Itoa n @ s) = Some (Itoa n @ s)" for b n s
    by (rule scan_space_word, simp add: hd_not_space(1,3), rule hd_not_space)+
  note bare = sp(1) [of _ "[]", simplified]
  show ?thesis using assms
    by (simp add: scan_interface_def print_header_def printable_def scan_s_word [OF name] scan_d_Itoa scan_t_bool sp bare)
qed

lemma print_header_chars: "printable d \<Longrightarrow> c \<in> set (print_header d) \<Longrightarrow> c \<noteq> CHR ''|'' \<and> c \<noteq> NL"
proof -
  have it: "c \<in> set (Itoa n) \<Longrightarrow> c \<noteq> CHR ''|'' \<and> c \<noteq> NL" for n
    using decimal_digits digit_not_space by (fastforce simp: Itoa_def is_space_iff split: if_splits)
  have bo: "c \<in> set (print_bool b) \<Longrightarrow> c \<noteq> CHR ''|'' \<and> c \<noteq> NL" for b
    by (auto simp: print_bool_def split: if_splits)
  assume "printable d" "c \<in> set (print_header d)"
  then show ?thesis
    using it bo by (auto simp: print_header_def printable_def list_all_iff is_space_iff)
qed

lemma cidr_address_String:
  assumes "cidr_address a"
  obtains h k where "WGAddress_String a = h @ ''/'' @ decimal k" "(\<exists>b. length b = 4 \<and> h = dotted b) \<or> h = v6string (wga_IP a)"
proof -
  have len: "length (wga_IP a) = 16" using assms by (auto simp: cidr_address_def v4InV6Prefix_def)
  have "length b = 4" if "To4 (wga_IP a) = Some b" for b using that len by (auto simp: To4_def split: if_splits)
  then have "(\<exists>b. length b = 4 \<and> IP_String (wga_IP a) = dotted b) \<or> IP_String (wga_IP a) = v6string (wga_IP a)"
    using len by (auto simp: IP_String_def split: option.splits)
  then show ?thesis using that by (auto simp: WGAddress_String_def)
qed

lemma address_chars:
  assumes "cidr_address a" and "c \<in> set (WGAddress_String a)"
  shows "\<not> is_space c \<and> c \<noteq> CHR ''|'' \<and> c \<noteq> CHR ''%''"
proof -
  have digit: "c \<in> set (decimal k) \<Longrightarrow> is_hex c" for k
    using decimal_digits [of k] by (auto simp: is_hex_def hex_digit_def)
  have "c \<in> set (dotted b) \<Longrightarrow> c = CHR ''.'' \<or> is_hex c" if "length b = 4" for b
    using that by (auto simp: dotted_def length_Suc_conv numeral_eq_Suc dest: digit)
  then have "is_hex c \<or> c \<in> {CHR ''.'', CHR '':'', CHR ''/''}"
    using cidr_address_String [OF assms(1)] assms(2) digit v6string_chars by (metis Un_iff insertCI set_append list.set(1,2) singletonD)
  then show ?thesis using hex_not_space by (auto simp: is_space_iff)
qed

lemma address_nonempty: "cidr_address a \<Longrightarrow> WGAddress_String a \<noteq> []"
  by (erule cidr_address_String) simp

lemma Trim_space_nl_id:
  assumes "s \<noteq> []" and "\<not> is_space (hd s)" and "\<not> is_space (last s)"
  shows "Trim_space_nl s = s"
proof -
  let ?cut = "\<lambda>c. c = CHR '' '' \<or> c = NL"
  have no: "\<not> ?cut c" if "\<not> is_space c" for c using that by (auto simp: is_space_iff)
  have "dropWhile ?cut s = s" using assms(1) no [OF assms(2)] by (cases s) auto
  moreover have "dropWhile ?cut (rev s) = rev s" using assms(1) no [OF assms(3)] by (cases s rule: rev_cases) auto
  ultimately show ?thesis by (simp add: Trim_space_nl_def Let_def)
qed

lemma Join_ends:
  assumes "ws \<noteq> []" and "\<forall>w\<in>set ws. w \<noteq> []"
  shows "Join sep ws \<noteq> [] \<and> hd (Join sep ws) = hd (hd ws) \<and> last (Join sep ws) = last (last ws)"
  using assms
proof (induction ws)
  case (Cons w ws)
  then show ?case by (cases "ws = []") auto
qed simp

lemma TrimSpace_nonempty: "c \<in> set s \<Longrightarrow> \<not> is_space c \<Longrightarrow> TrimSpace s \<noteq> []"
proof -
  assume "c \<in> set s" "\<not> is_space c"
  then have "c \<in> set (dropWhile (\<lambda>c. c \<in> set space_chars) s)"
    unfolding is_space_def by (induction s) auto
  with \<open>\<not> is_space c\<close> show ?thesis
    unfolding TrimSpace_def is_space_def by (auto simp: dropWhile_eq_Nil_conv simp del: set_simps)
qed

definition described_addr :: "WGAddress \<Rightarrow> netAddr" where
  "described_addr a = NetIPNet ((wga_Network a)\<lparr>net_IP := wga_IP a\<rparr>)"

lemma Contains_absent: "x \<notin> set s \<Longrightarrow> \<not> Contains s [x]"
  by (induction s) auto

lemma addr_loop_addresses:
  "\<forall>a\<in>set as. cidr_address a \<and> \<not> mapped_v6 a \<Longrightarrow>
     addr_loop T (map WGAddress_String as) (x, found) =
       (fold (AddAddress T) (map described_addr as) x, found \<or> as \<noteq> [])"
proof (induction as arbitrary: x found)
  case (Cons a as)
  then have "\<not> Contains (WGAddress_String a) ''%''" using address_chars by (intro Contains_absent) auto
  with Cons show ?case by (simp add: ParseCIDR_WGAddress_String described_addr_def)
qed simp

lemma set_Join: "c \<in> set (Join sep ws) \<Longrightarrow> c \<in> set sep \<or> (\<exists>w\<in>set ws. c \<in> set w)"
  by (induction sep ws rule: Join.induct) auto

lemma joined_addresses:
  assumes "as \<noteq> []" and "\<forall>a\<in>set as. cidr_address a"
  defines "ws \<equiv> map WGAddress_String as"
  shows "Split (CHR '' '') (Trim_space_nl (Join '' '' ws)) = ws"
    and "c \<in> set (Join '' '' ws) \<Longrightarrow> c \<noteq> CHR ''|'' \<and> c \<noteq> NL"
proof -
  have chars: "\<not> is_space c \<and> c \<noteq> CHR ''|''" if "w \<in> set ws" "c \<in> set w" for w c
    using that assms(2) address_chars by (auto simp: ws_def)
  have ne: "ws \<noteq> []" "\<forall>w\<in>set ws. w \<noteq> []" using assms address_nonempty by auto
  have mem: "hd ws \<in> set ws" "last ws \<in> set ws" using ne(1) by (rule hd_in_set, rule last_in_set)
  then have "hd (hd ws) \<in> set (hd ws)" "last (last ws) \<in> set (last ws)" using ne(2) by (meson hd_in_set last_in_set)+
  then have "\<not> is_space (hd (hd ws))" "\<not> is_space (last (last ws))" using chars mem by blast+
  then have "Trim_space_nl (Join '' '' ws) = Join '' '' ws"
    using Join_ends [OF ne, of "'' ''"] by (metis Trim_space_nl_id)
  moreover have "is_space (CHR '' '')" by (simp add: is_space_iff)
  then have "Split (CHR '' '') (Join '' '' ws) = ws" using chars by (intro Split_Join ne(1)) blast
  ultimately show "Split (CHR '' '') (Trim_space_nl (Join '' '' ws)) = ws" by simp
  show "c \<noteq> CHR ''|'' \<and> c \<noteq> NL" if c: "c \<in> set (Join '' '' ws)"
    using set_Join [OF c] chars by (auto simp: is_space_iff)
qed

lemma parse_line_print:
  assumes "printable d"
  shows "parse_line T (print_interface d) =
    Some (fold (AddAddress T) (map described_addr (d_addrs d)) (NewInterface T (d_if d)))"
proof -
  let ?as = "map WGAddress_String (d_addrs d)"
  have as: "d_addrs d \<noteq> []" "\<forall>a\<in>set (d_addrs d). cidr_address a \<and> \<not> mapped_v6 a"
    using assms by (simp_all add: printable_def)
  have cidr: "\<forall>a\<in>set (d_addrs d). cidr_address a" using as(2) by blast
  have "CHR ''|'' \<notin> set (print_header d)" "CHR ''|'' \<notin> set (Join '' '' ?as)"
    using print_header_chars [OF assms] joined_addresses(2) [OF as(1) cidr] by blast+
  then have fields: "Split (CHR ''|'') (print_interface d) = [print_header d, Join '' '' ?as]"
    unfolding print_interface_def by (simp add: Split_append_sep Split_no_sep)
  have newIf: "\<lparr>nif_Name = nif_Name (d_if d), nif_Index = nif_Index (d_if d), nif_MTU = nif_MTU (d_if d),
      nif_Flags = iface_flags (d_up d) (d_broadcast d) (d_loopback d) (d_pointToPoint d) (d_multicast d)\<rparr> = d_if d"
    using assms unfolding printable_def iface_flags_sum by (cases "d_if d") simp
  have "TrimSpace (print_interface d) \<noteq> []"
  proof (rule TrimSpace_nonempty)
    show "hd (nif_Name (d_if d)) \<in> set (print_interface d)" "\<not> is_space (hd (nif_Name (d_if d)))"
      using assms by (simp_all add: printable_def print_interface_def print_header_def list_all_iff)
  qed
  then show ?thesis
    using addr_loop_addresses [OF as(2), of T _ False] scan_print_header [OF assms] as(1)
    by (simp add: parse_line_def fields newIf joined_addresses(1) [OF as(1) cidr] Let_def)
qed

section \<open>Properties\<close>


lemma InterfaceFilter_iff:
  assumes "GOOS \<noteq> ''ios''"
  shows "InterfaceFilter GOOS None wgDevice disallowList name \<longleftrightarrow>
    \<not> HasPrefix name ''lo'' \<and> \<not> list_ex (HasPrefix name) disallowList \<and> wgDevice name \<noteq> None"
  using assms by (simp add: InterfaceFilter_def)

text \<open>The network has exactly the discovered interfaces whose names neither start with \<^verbatim>\<open>lo\<close> nor
  with a disallowed prefix, and that are not WireGuard devices, in their order; a lookup by name
  finds one of them or fails, so never one that was filtered out; and when a later discovery fails
  the list stays.\<close>

theorem interfaces_are_filtered:
  assumes "NewNet T discovered (InterfaceFilter GOOS None wgDevice disallowList) = (None, n)" and "GOOS \<noteq> ''ios''"
  shows "(\<exists>is. discovered = Inr is \<and> net_Interfaces n = Inr (filter (\<lambda>i. let name = nif_Name (embedded T i) in
             \<not> HasPrefix name ''lo'' \<and> \<not> list_ex (HasPrefix name) disallowList \<and> wgDevice name \<noteq> None) is))
       \<and> (case InterfaceByName T name n of
            Inr i \<Rightarrow> nif_Name (embedded T i) = name \<and> \<not> HasPrefix name ''lo'' \<and> \<not> list_ex (HasPrefix name) disallowList
          | Inl _ \<Rightarrow> name \<notin> (nif_Name \<circ> embedded T) ` set (net_interfaces n))
       \<and> UpdateInterfaces T (Inl err) n = (Some err, n)"
proof (intro conjI)
  let ?ok = "\<lambda>i. let name = nif_Name (embedded T i) in
     \<not> HasPrefix name ''lo'' \<and> \<not> list_ex (HasPrefix name) disallowList \<and> wgDevice name \<noteq> None"
  obtain "is" where d: "discovered = Inr is" and n: "net_interfaces n = filter ?ok is"
    using assms(1) by (cases discovered) (auto simp: NewNet_def UpdateInterfaces_def filterInterfaces_def filter_loop_filter
        InterfaceFilter_iff [OF assms(2)] Let_def)
  then show "\<exists>is. discovered = Inr is \<and> net_Interfaces n = Inr (filter ?ok is)" by (simp add: net_Interfaces_def)
  show "case InterfaceByName T name n of
      Inr i \<Rightarrow> nif_Name (embedded T i) = name \<and> \<not> HasPrefix name ''lo'' \<and> \<not> list_ex (HasPrefix name) disallowList
    | Inl _ \<Rightarrow> name \<notin> (nif_Name \<circ> embedded T) ` set (net_interfaces n)"
  proof (cases "find (\<lambda>ifc. nif_Name (embedded T ifc) = name) (net_interfaces n)")
    case None
    moreover from this have "name \<notin> (nif_Name \<circ> embedded T) ` set (net_interfaces n)" by (auto simp: find_None_iff)
    ultimately show ?thesis by (simp add: InterfaceByName_def)
  next
    case (Some i)
    then have "i \<in> set (net_interfaces n)" "nif_Name (embedded T i) = name" by (auto simp: find_Some_iff)
    then show ?thesis using Some by (simp add: InterfaceByName_def n Let_def)
  qed
  show "UpdateInterfaces T (Inl err) n = (Some err, n)" by (simp add: UpdateInterfaces_def)
qed

section \<open>Witnesses\<close>

definition demo_if :: "string \<Rightarrow> netInterface" where
  "demo_if name = \<lparr>nif_Name = name, nif_Index = 2, nif_MTU = 1500, nif_Flags = iface_flags True True False False True\<rparr>"

definition demo_description :: ifaceDescription where
  "demo_description =
     \<lparr>d_if = demo_if ''wlan0'', d_up = True, d_broadcast = True, d_loopback = False, d_pointToPoint = False, d_multicast = True,
      d_addrs = [\<lparr>wga_IP = v4InV6Prefix @ [10, 0, 0, 7], wga_Network = \<lparr>net_IP = [10, 0, 0, 0], net_Mask = [255, 0, 0, 0]\<rparr>\<rparr>]\<rparr>"

lemma demo_printable: "printable demo_description"
proof -
  have m: "CIDRMask 8 4 = [255, 0, 0, 0]" by code_simp
  have "cidr_address \<lparr>wga_IP = v4InV6Prefix @ [10, 0, 0, 7], wga_Network = \<lparr>net_IP = [10, 0, 0, 0], net_Mask = [255, 0, 0, 0]\<rparr>\<rparr>"
    unfolding cidr_address_def
    by (intro disjI1 exI [of _ "[10, 0, 0, 7]"] exI [of _ 8]) (simp add: m IP_Mask_def v4InV6Prefix_def)
  then show ?thesis
    by (simp add: printable_def demo_description_def demo_if_def iface_flags_sum is_space_iff int64_def mapped_v6_def)
qed


theorem interfaces_are_filtered_witness:
  "let is = [(demo_if ''lo'', []), (demo_if ''docker0'', []), (demo_if ''wt0'', []), (demo_if ''eth0'', [])];
       n = snd (NewNet pair_transport (Inr is) (InterfaceFilter ''linux'' None
             (\<lambda>name. if name = ''wt0'' then None else Some EOF) [''docker'']))
   in net_Interfaces n = Inr [(demo_if ''eth0'', [])]"
proof -
  let ?is = "[(demo_if ''lo'', []), (demo_if ''docker0'', []), (demo_if ''wt0'', []), (demo_if ''eth0'', [])]"
  let ?f = "InterfaceFilter ''linux'' None (\<lambda>name. if name = ''wt0'' then None else Some EOF) [''docker'']"
  have "NewNet pair_transport (Inr ?is) ?f = (None, snd (NewNet pair_transport (Inr ?is) ?f))"
    by (simp add: NewNet_def UpdateInterfaces_def)
  from interfaces_are_filtered [OF this, of "''eth0''" EOF] show ?thesis
    by (simp add: pair_transport_def demo_if_def)
qed

end
