(* ===== verification/Connect_Client.thy ===== *)
theory Connect_Client
  imports Engine Std_Net
begin

text \<open>
  The client around the engine (\<^verbatim>\<open>ConnectClient\<close> of \<^verbatim>\<open>client/internal/connect.go\<close>) and the program that starts
  it (\<^verbatim>\<open>client/main.go\<close>).  The retry loop is \<^verbatim>\<open>backoff.Retry\<close> of a library, a parameter; what it is
  documented to do is the predicate \<open>retry_ok\<close>.
\<close>

section \<open>The standard net\<close>

text \<open>The transport net of the engine and of a connection: the interfaces discovered, less those on its black list.
  \<open>goos\<close>, \<open>wgNew\<close> and \<open>wgDevice\<close> are what the filter asks the system.\<close>

definition engine_newStdNet ::
  "'i transport \<Rightarrow> error + 'i list \<Rightarrow> string \<Rightarrow> error option \<Rightarrow> (string \<Rightarrow> error option) \<Rightarrow> ('t, 'c, 'u, 'm) Engine
     \<Rightarrow> error option \<times> 'i Net" where
  "engine_newStdNet T discovered goos wgNew wgDevice e =
     NewNet T discovered (InterfaceFilter goos wgNew wgDevice (ec_IFaceBlackList (engine_config e)))"

definition conn_newStdNet ::
  "'i transport \<Rightarrow> error + 'i list \<Rightarrow> string \<Rightarrow> error option \<Rightarrow> (string \<Rightarrow> error option) \<Rightarrow> Conn
     \<Rightarrow> error option \<times> 'i Net" where
  "conn_newStdNet T discovered goos wgNew wgDevice c =
     NewNet T discovered (InterfaceFilter goos wgNew wgDevice (conn_InterfaceBlackList (conn_config c)))"

section \<open>The client\<close>

record ('t, 'c, 'u, 'm) ConnectClient =
  cc_config :: Config
  cc_engine :: "('t, 'c, 'u, 'm) Engine option"

definition NewConnectClient :: "Config \<Rightarrow> ('t, 'c, 'u, 'm) ConnectClient" where
  "NewConnectClient config = \<lparr>cc_config = config, cc_engine = None\<rparr>"

text \<open>What one attempt meets: the system, the signal server, the context, and what becomes of a started engine.\<close>

record ('t, 'c, 'u, 'm) attempt =
  at_env :: "('t, 'c, 'u, 'm) engine_env"
  at_Listen :: "int \<Rightarrow> error option"
  at_socket :: client_socket
  at_session :: "('t, 'c, 'u, 'm) Engine \<Rightarrow> ('t, 'c, 'u, 'm) Engine"
  at_cancelled :: bool

definition attempt_operation ::
  "client_json \<Rightarrow> client_flags \<Rightarrow> string \<Rightarrow> string \<Rightarrow> Config \<Rightarrow> ('t, 'c, 'u, 'm) attempt
     \<Rightarrow> ('t, 'c, 'u, 'm) Engine option \<Rightarrow> error option \<times> ('t, 'c, 'u, 'm) Engine option" where
  "attempt_operation J F localWgAddr myPrivateKey config a =
     operation (at_env a) (at_Listen a) J F (at_socket a) localWgAddr (at_session a) myPrivateKey config (at_cancelled a)"

text \<open>The closure given to \<^verbatim>\<open>Retry\<close>: its state is the number of attempts and the engine.\<close>

definition operation_closure ::
  "client_json \<Rightarrow> client_flags \<Rightarrow> string \<Rightarrow> string \<Rightarrow> Config \<Rightarrow> (nat \<Rightarrow> ('t, 'c, 'u, 'm) attempt)
     \<Rightarrow> nat \<times> ('t, 'c, 'u, 'm) Engine option \<Rightarrow> error option \<times> nat \<times> ('t, 'c, 'u, 'm) Engine option" where
  "operation_closure J F localWgAddr key config A = (\<lambda>(n, e).
     let (r, e) = attempt_operation J F localWgAddr key config (A n) e in (r, Suc n, e))"

type_synonym 's retry = "('s \<Rightarrow> error option \<times> 's) \<Rightarrow> 's \<Rightarrow> error option \<times> 's"

text \<open>
  \<^verbatim>\<open>run\<close>: the deferred \<^verbatim>\<open>recover\<close> logs a panic and panics again.
\<close>

definition client_run ::
  "(nat \<times> ('t, 'c, 'u, 'm) Engine option) retry
     \<Rightarrow> (string \<Rightarrow> error + string) \<Rightarrow> client_json \<Rightarrow> client_flags \<Rightarrow> string \<Rightarrow> (nat \<Rightarrow> ('t, 'c, 'u, 'm) attempt)
     \<Rightarrow> ('t, 'c, 'u, 'm) ConnectClient \<Rightarrow> error option \<times> ('t, 'c, 'u, 'm) ConnectClient" where
  "client_run backoff_Retry ParseKey J F localWgAddr A c =
     (case ParseKey (PrivateKey (cc_config c)) of
        Inl err \<Rightarrow> (Some err, c)
      | Inr myPrivateKey \<Rightarrow>
          let (err, n, e) = backoff_Retry (operation_closure J F localWgAddr myPrivateKey (cc_config c) A) (0, cc_engine c)
          in (err, c\<lparr>cc_engine := e\<rparr>))"

definition Run ::
  "(nat \<times> ('t, 'c, 'u, 'm) Engine option) retry
     \<Rightarrow> (string \<Rightarrow> error + string) \<Rightarrow> client_json \<Rightarrow> client_flags \<Rightarrow> string \<Rightarrow> (nat \<Rightarrow> ('t, 'c, 'u, 'm) attempt)
     \<Rightarrow> ('t, 'c, 'u, 'm) ConnectClient \<Rightarrow> error option \<times> ('t, 'c, 'u, 'm) ConnectClient" where
  "Run = client_run"

section \<open>The program\<close>

definition main_input :: ConfigInput where
  "main_input =
     \<lparr>ManagementURL = '''', AdminURL = '''', ConfigPath = ''./config.json'', in_NATExternalIPs = [],
      in_CustomDNSAddress = [], InterfaceName = None, WireguardPort = Some 51822, ExtraIFaceBlackList = []\<rparr>"

text \<open>The log level that is set: \<open>None\<close> for the default.\<close>

definition main_log_level :: "(string \<Rightarrow> error + 'l) \<Rightarrow> 'l \<Rightarrow> string \<Rightarrow> 'l" where
  "main_log_level ParseLevel InfoLevel lvl = (case ParseLevel lvl of Inl _ \<Rightarrow> InfoLevel | Inr level \<Rightarrow> level)"

definition client_main ::
  "(nat \<Rightarrow> fs_env) \<Rightarrow> config_json \<Rightarrow> (error + string) \<Rightarrow> (nat \<times> ('t, 'c, 'u, 'm) Engine option) retry
     \<Rightarrow> (string \<Rightarrow> error + string) \<Rightarrow> client_json \<Rightarrow> client_flags \<Rightarrow> string \<Rightarrow> (nat \<Rightarrow> ('t, 'c, 'u, 'm) attempt)
     \<Rightarrow> fs \<Rightarrow> ('t, 'c, 'u, 'm) ConnectClient option \<times> fs" where
  "client_main E C G backoff_Retry ParseKey J F localWgAddr A st =
     (case CreateInMemoryConfig E C G main_input st of
        (Inl err, st) \<Rightarrow> (None, st)
      | (Inr config, st) \<Rightarrow>
          let (_, connectClient) = Run backoff_Retry ParseKey J F localWgAddr A (NewConnectClient config)
          in (Some connectClient, st))"

section \<open>The black list\<close>

text \<open>The black list of the configuration does not reach the engine, whose transport net filters with an empty one.\<close>

lemma engine_ignores_blacklist:
  assumes "createEngineConfig Listen addr key config = Inr cfg"
  shows "engine_newStdNet T discovered goos wgNew wgDevice (NewEngine cfg)
    = NewNet T discovered (InterfaceFilter goos wgNew wgDevice [])"
  using assms by (auto simp: createEngineConfig_def engine_newStdNet_def NewEngine_def split: sum.splits)

section \<open>Retrying\<close>

text \<open>
  What \<^verbatim>\<open>backoff.Retry\<close> documents: the operation is run until it succeeds, or an error is the last one
  because the policy stops; a panic is not caught.
\<close>

fun is_panic :: "error \<Rightarrow> bool" where
  "is_panic (Panic _) = True"
| "is_panic _ = False"

inductive retried :: "('s \<Rightarrow> error option \<times> 's) \<Rightarrow> 's \<Rightarrow> error option \<Rightarrow> 's \<Rightarrow> bool" for op where
  last_run: "op s = (r, s') \<Longrightarrow> retried op s r s'"
| run_again: "op s = (Some err, s') \<Longrightarrow> \<not> is_panic err \<Longrightarrow> retried op s' r s'' \<Longrightarrow> retried op s r s''"

definition retry_ok :: "'s retry \<Rightarrow> bool" where
  "retry_ok R \<longleftrightarrow> (\<forall>op s. retried op s (fst (R op s)) (snd (R op s)))"

text \<open>A run of attempts: \<open>es\<close> are the engines kept between them.\<close>

definition attempts_until ::
  "(('t, 'c, 'u, 'm) attempt \<Rightarrow> ('t, 'c, 'u, 'm) Engine option \<Rightarrow> error option \<times> ('t, 'c, 'u, 'm) Engine option)
     \<Rightarrow> (nat \<Rightarrow> ('t, 'c, 'u, 'm) attempt) \<Rightarrow> nat \<Rightarrow> nat \<Rightarrow> (nat \<Rightarrow> ('t, 'c, 'u, 'm) Engine option) \<Rightarrow> bool" where
  "attempts_until op A n k es \<longleftrightarrow>
     (\<forall>i<k. \<exists>err. \<not> is_panic err \<and> op (A (n + i)) (es i) = (Some err, es (Suc i)))"

lemma attempts_until_Cons:
  assumes "op (A n) e = (Some err, e')" and "\<not> is_panic err" and "attempts_until op A (Suc n) k es" and "es 0 = e'"
  shows "attempts_until op A n (Suc k) (\<lambda>i. case i of 0 \<Rightarrow> e | Suc i \<Rightarrow> es i)"
  using assms by (auto simp: attempts_until_def split: nat.split)

lemma retried_attempts:
  "retried (operation_closure J F addr key config A) s r s' \<Longrightarrow>
     \<exists>k es. es 0 = snd s \<and> attempts_until (attempt_operation J F addr key config) A (fst s) k es
       \<and> attempt_operation J F addr key config (A (fst s + k)) (es k) = (r, snd s')"
proof (induction rule: retried.induct)
  case (last_run s r s')
  then show ?case
    by (intro exI [of _ 0] exI [of _ "\<lambda>_. snd s"])
      (auto simp: attempts_until_def operation_closure_def case_prod_beta Let_def)
next
  case (run_again s err s' r s'')
  then obtain k es where k: "es 0 = snd s'"
    "attempts_until (attempt_operation J F addr key config) A (fst s') k es"
    "attempt_operation J F addr key config (A (fst s' + k)) (es k) = (r, snd s'')" by blast
  have s': "fst s' = Suc (fst s)" "attempt_operation J F addr key config (A (fst s)) (snd s) = (Some err, snd s')"
    using run_again(1) by (auto simp: operation_closure_def case_prod_beta Let_def prod_eq_iff)
  from attempts_until_Cons [OF s'(2) run_again(2) k(2) [unfolded s'(1)] k(1)] k(3) show ?case
    by (intro exI [of _ "Suc k"] exI [of _ "\<lambda>i. case i of 0 \<Rightarrow> snd s | Suc i \<Rightarrow> es i"]) (simp add: s'(1))
qed

text \<open>An attempt without an error: nothing was done because the context was cancelled, or an engine was started,
  lived as long as its context and was stopped.\<close>

definition session_over :: "string \<Rightarrow> string \<Rightarrow> Config \<Rightarrow> ('t, 'c, 'u, 'm) attempt \<Rightarrow> ('t, 'c, 'u, 'm) Engine option \<Rightarrow> bool" where
  "session_over localWgAddr key config a e' \<longleftrightarrow>
     (\<exists>cfg e. createEngineConfig (at_Listen a) localWgAddr key config = Inr cfg
        \<and> Start (at_env a) (NewEngine cfg) = (None, e)
        \<and> e' = Some (engine_close (at_env a) (at_session a e)))"

lemma attempt_succeeds:
  assumes "attempt_operation J F addr key config a e = (None, e')"
  shows "at_cancelled a \<and> e' = e \<or> \<not> at_cancelled a \<and> session_over addr key config a e'"
  using assms
  by (auto simp: attempt_operation_def operation_def session_over_def Stop_def split: if_splits sum.splits prod.splits option.splits)


definition try_twice :: "'s retry" where
  "try_twice op s = (case op s of (Some err, s') \<Rightarrow> if is_panic err then (Some err, s') else op s' | (None, s') \<Rightarrow> (None, s'))"

lemma try_twice_ok: "retry_ok try_twice"
  unfolding retry_ok_def
proof (intro allI)
  fix op :: "'s \<Rightarrow> error option \<times> 's" and s
  obtain r s' where r: "op s = (r, s')" by fastforce
  show "retried op s (fst (try_twice op s)) (snd (try_twice op s))"
  proof (cases "\<exists>err. r = Some err \<and> \<not> is_panic err")
    case True
    then obtain err where err: "op s = (Some err, s')" "\<not> is_panic err" using r by blast
    then have "try_twice op s = op s'" by (simp add: try_twice_def)
    then show ?thesis using run_again [OF err last_run [of op s']] by simp
  next
    case False
    then have "try_twice op s = op s" using r by (cases r) (auto simp: try_twice_def)
    then show ?thesis using last_run [of op s] by simp
  qed
qed

definition last_port :: Config where
  "last_port = zero_Config\<lparr>PrivateKey := ''key'', WgPort := 65535\<rparr>"

text \<open>No port is free at the first attempt, and the context is cancelled before the second.\<close>

definition busy_then_cancelled :: "('t, 'c, 'u, 'm) engine_env \<Rightarrow> client_socket \<Rightarrow> nat \<Rightarrow> ('t, 'c, 'u, 'm) attempt" where
  "busy_then_cancelled V K n =
     \<lparr>at_env = V, at_Listen = (\<lambda>_. Some EOF), at_socket = K, at_session = id, at_cancelled = (n = 1)\<rparr>"

lemma busy_then_cancelled_run:
  "client_run try_twice Inr J F addr (busy_then_cancelled V K) (NewConnectClient last_port) = (None, NewConnectClient last_port)"
proof -
  have "free_from (\<lambda>_. Some EOF) 65535 = Inl (Errorf ''no free ports'')"
    by (simp add: free_from.simps [of _ 65535] free_from.simps [of _ 65536])
  then show ?thesis
    by (simp add: client_run_def NewConnectClient_def try_twice_def operation_closure_def attempt_operation_def operation_def
        busy_then_cancelled_def createEngineConfig_def freePort_def last_port_def)
qed


end
