(* ===== verification/Shared_Sock.thy ===== *)
theory Shared_Sock
  imports Net_Addr
begin

text \<open>
  The raw socket that shares WireGuard's port (\<^verbatim>\<open>sharedsock/sock_linux.go\<close>) and the BPF program that
  lets only STUN packets through to it (\<^verbatim>\<open>sharedsock/stun_filter_linux.go\<close>).  The socket calls, the
  routing table and the packet codec of \<^verbatim>\<open>gopacket\<close> are parameters; BPF programs are lists of
  instructions, and \<open>bpf_exec\<close> is what the documentation of classic BPF says of the three
  instructions used.
\<close>

section \<open>The filter program\<close>

datatype bpf_instr =
    LoadAbsolute nat nat
  | JumpIfNotEqual u32 nat
  | RetConstant u32

text \<open>Big-endian integers, as BPF loads them.\<close>

definition be_nat :: "bytes \<Rightarrow> nat" where
  "be_nat bs = fold (\<lambda>b n. n * 256 + unat b) bs 0"

text \<open>
  A load outside the packet ends the program with 0.  A jump skips instructions, so a program
  always ends.
\<close>

fun bpf_exec :: "bpf_instr list \<Rightarrow> u32 \<Rightarrow> bytes \<Rightarrow> u32" where
  "bpf_exec [] a pkt = 0"
| "bpf_exec (LoadAbsolute off sz # prog) a pkt =
     (if off + sz \<le> length pkt then bpf_exec prog (word_of_nat (be_nat (subslice off (off + sz) pkt))) pkt else 0)"
| "bpf_exec (JumpIfNotEqual v skip # prog) a pkt =
     (if a \<noteq> v then bpf_exec (drop skip prog) a pkt else bpf_exec prog a pkt)"
| "bpf_exec (RetConstant v # prog) a pkt = v"

definition magicCookie :: u32 where "magicCookie = 0x2112A442"

definition instructions :: "nat \<Rightarrow> nat \<Rightarrow> u32 \<Rightarrow> bpf_instr list" where
  "instructions dstPortOff cookieOff dstPort =
     [LoadAbsolute dstPortOff 2,
      JumpIfNotEqual dstPort 3,
      LoadAbsolute cookieOff 4,
      JumpIfNotEqual magicCookie 1,
      RetConstant 0xffffffff,
      RetConstant 0]"

definition rawInstructions ::
  "(bpf_instr list \<Rightarrow> error + 'raw) \<Rightarrow> nat \<Rightarrow> nat \<Rightarrow> u32 \<Rightarrow> error + 'raw" where
  "rawInstructions Assemble dstPortOff cookieOff dstPort =
     Assemble (instructions dstPortOff cookieOff dstPort)"

definition GetInstructions ::
  "(bpf_instr list \<Rightarrow> error + 'raw) \<Rightarrow> u32 \<Rightarrow> error + 'raw \<times> 'raw" where
  "GetInstructions Assemble dstPort =
     (case rawInstructions Assemble 22 32 dstPort of
        Inl err \<Rightarrow> Inl err
      | Inr raw4 \<Rightarrow>
          (case rawInstructions Assemble 2 12 dstPort of
             Inl err \<Rightarrow> Inl err
           | Inr raw6 \<Rightarrow> Inr (raw4, raw6)))"

section \<open>The socket\<close>

datatype Sockaddr = SockaddrInet4 bytes | SockaddrInet6 bytes | SockaddrOther

record rcvdPacket =
  rcv_n :: int
  rcv_addr :: Sockaddr
  rcv_buf :: bytes
  rcv_err :: "error option"

text \<open>
  \<open>packetDemux\<close> are the packets offered on the channel, \<open>readers\<close> the sockets with a running read
  loop, \<open>ss_closed\<close> the sockets that were closed.
\<close>

record 'r SharedSocket =
  ss_done :: bool
  conn4 :: "nat option"
  conn6 :: "nat option"
  ss_port :: int
  ss_router :: "'r option"
  packetDemux :: "rcvdPacket list"
  readers :: "nat list"
  ss_closed :: "nat list"

record ('r, 'raw) raw_env =
  netroute_New :: "error + 'r"
  Socket4 :: "error + nat"
  SetSocketMark :: "nat \<Rightarrow> error option"
  Socket6 :: "error + nat"
  bpf_Assemble :: "bpf_instr list \<Rightarrow> error + 'raw"
  SetBPF :: "nat \<Rightarrow> 'raw \<Rightarrow> error option"
  raw_Close :: "nat \<Rightarrow> error option"

text \<open>
  \<^verbatim>\<open>Close\<close> closes both sockets in parallel and returns the error that comes first; \<open>six_first\<close> is the
  order when both fail.
\<close>

definition sharedsock_Close ::
  "(nat \<Rightarrow> error option) \<Rightarrow> bool \<Rightarrow> 'r SharedSocket \<Rightarrow> error option \<times> 'r SharedSocket" where
  "sharedsock_Close Close six_first s =
     (let err4 = (case conn4 s of None \<Rightarrow> None | Some c \<Rightarrow> Close c);
          err6 = (case conn6 s of None \<Rightarrow> None | Some c \<Rightarrow> Close c);
          first = (if six_first then err6 else err4);
          second = (if six_first then err4 else err6)
      in (if first \<noteq> None then first else second,
          s\<lparr>ss_done := True,
            ss_closed := ss_closed s @ (case conn4 s of None \<Rightarrow> [] | Some c \<Rightarrow> [c])
                           @ (case conn6 s of None \<Rightarrow> [] | Some c \<Rightarrow> [c])\<rparr>))"

text \<open>A failed step of \<^verbatim>\<open>Listen\<close>: the deferred function closes what there is and logs its error.\<close>

definition listen_fail ::
  "('r, 'raw) raw_env \<Rightarrow> error \<Rightarrow> 'r SharedSocket \<Rightarrow> error option \<times> 'r SharedSocket" where
  "listen_fail v err s = (Some err, snd (sharedsock_Close (raw_Close v) False s))"

text \<open>Other systems have neither the socket nor its filter.\<close>

definition Listen_nolinux :: "string \<Rightarrow> int \<Rightarrow> 'f option \<Rightarrow> error + 'r SharedSocket" where
  "Listen_nolinux goos port bpf =
     Inl (Errorf (''Not supported OS '' @ goos @ ''. SharedSocket is only supported on Linux''))"

definition NewIncomingSTUNFilter_nolinux :: "'f option" where "NewIncomingSTUNFilter_nolinux = None"

definition Listen :: "('r, 'raw) raw_env \<Rightarrow> int \<Rightarrow> error option \<times> 'r SharedSocket" where
  "Listen v port =
     (let s = \<lparr>ss_done = False, conn4 = None, conn6 = None, ss_port = port, ss_router = None,
               packetDemux = [], readers = [], ss_closed = []\<rparr>
      in case netroute_New v of
        Inl err \<Rightarrow> listen_fail v (Wrapf ''failed to create raw socket router'' err) s
      | Inr router \<Rightarrow>
     (let s = s\<lparr>ss_router := Some router\<rparr>
      in case Socket4 v of
        Inl err \<Rightarrow> listen_fail v (Wrapf ''failed to create ipv4 raw socket'' err) s
      | Inr c4 \<Rightarrow>
     (let s = s\<lparr>conn4 := Some c4\<rparr>
      in case SetSocketMark v c4 of
        Some err \<Rightarrow> listen_fail v (Wrapf ''failed to set SO_MARK on ipv4 socket'' err) s
      | None \<Rightarrow>
     (let (markErr, s) = (case Socket6 v of
                            Inl _ \<Rightarrow> (None, s)
                          | Inr c6 \<Rightarrow> (SetSocketMark v c6, s\<lparr>conn6 := Some c6\<rparr>))
      in case markErr of
        Some err \<Rightarrow> listen_fail v (Wrapf ''failed to set SO_MARK on ipv6 socket'' err) s
      | None \<Rightarrow>
     (case GetInstructions (bpf_Assemble v) (word_of_int port) of
        Inl err \<Rightarrow> listen_fail v (Wrapf ''getBPFInstructions failed with'' err) s
      | Inr (ipv4Instructions, ipv6Instructions) \<Rightarrow>
     (case SetBPF v c4 ipv4Instructions of
        Some err \<Rightarrow> listen_fail v (Wrapf ''socket4.SetBPF failed with'' err) s
      | None \<Rightarrow>
     (case (case conn6 s of None \<Rightarrow> None | Some c6 \<Rightarrow> SetBPF v c6 ipv6Instructions) of
        Some err \<Rightarrow> listen_fail v (Wrapf ''socket6.SetBPF failed with'' err) s
      | None \<Rightarrow>
          (None, s\<lparr>readers := c4 # (case conn6 s of None \<Rightarrow> [] | Some c6 \<Rightarrow> [c6])\<rparr>))))))))"

text \<open>One tick of \<^verbatim>\<open>updateRouter\<close>.\<close>

definition updateRouter_iter :: "(error + 'r) \<Rightarrow> 'r SharedSocket \<Rightarrow> 'r SharedSocket" where
  "updateRouter_iter New s =
     (if ss_done s then s else case New of Inl _ \<Rightarrow> s | Inr router \<Rightarrow> s\<lparr>ss_router := Some router\<rparr>)"

definition sharedsock_LocalAddr :: "'r SharedSocket \<Rightarrow> UDPAddr" where
  "sharedsock_LocalAddr s = \<lparr>IP = IPv4zero, Port = ss_port s, Zone = ''''\<rparr>"

text \<open>The three deadline setters differ in the call on the socket and the text of the error.\<close>

definition set_deadline ::
  "string \<Rightarrow> (nat \<Rightarrow> error option) \<Rightarrow> 'r SharedSocket \<Rightarrow> error option" where
  "set_deadline what set_on s =
     (case conn4 s of
        None \<Rightarrow> Some (Panic ''nil pointer dereference'')
      | Some c4 \<Rightarrow>
          (case set_on c4 of
             Some err \<Rightarrow> Some (Wrapf (''s.conn4.'' @ what @ '' error'') err)
           | None \<Rightarrow>
               (case conn6 s of
                  None \<Rightarrow> None
                | Some c6 \<Rightarrow> map_option (Wrapf (''s.conn6.'' @ what @ '' error'')) (set_on c6))))"

definition SetDeadline :: "(nat \<Rightarrow> error option) \<Rightarrow> 'r SharedSocket \<Rightarrow> error option" where
  "SetDeadline = set_deadline ''SetDeadline''"

definition SetReadDeadline :: "(nat \<Rightarrow> error option) \<Rightarrow> 'r SharedSocket \<Rightarrow> error option" where
  "SetReadDeadline = set_deadline ''SetReadDeadline''"

definition SetWriteDeadline :: "(nat \<Rightarrow> error option) \<Rightarrow> 'r SharedSocket \<Rightarrow> error option" where
  "SetWriteDeadline = set_deadline ''SetWriteDeadline''"

text \<open>
  One round of a read loop: \<open>res\<close> is what the receiver returned, with the content of the 1500-byte
  buffer.  The slice is taken before the \<^verbatim>\<open>select\<close>; once the context is done nothing is offered.
\<close>

definition read_iter ::
  "int \<times> Sockaddr \<times> error option \<times> bytes \<Rightarrow> 'r SharedSocket \<Rightarrow> error + 'r SharedSocket" where
  "read_iter res s =
     (case res of (n, addr, err, buf) \<Rightarrow>
        if n < 0 \<or> 1500 < n then Inl (Panic ''slice bounds out of range'')
        else if ss_done s then Inr s
        else Inr (s\<lparr>packetDemux := packetDemux s @
               [\<lparr>rcv_n = n, rcv_addr = addr, rcv_buf = take (nat n) buf, rcv_err = err\<rparr>]\<rparr>))"

text \<open>What \<^verbatim>\<open>gopacket\<close> decodes: an IPv4 packet or, for IPv6, a UDP datagram.\<close>

record udp_layer =
  udp_SrcPort :: u16
  udp_Length :: u16
  udp_payload :: bytes

record gopacket =
  DecodeIPv4 :: "bytes \<Rightarrow> error + udp_layer"
  DecodeUDP :: "bytes \<Rightarrow> error + udp_layer"

definition ErrSharedSockStopped :: error where "ErrSharedSockStopped = Errorf ''shared socked stopped''"

text \<open>
  \<^verbatim>\<open>ReadFrom\<close> of one packet from the channel into \<open>b\<close>: the count is the length field of the UDP
  header, the content of \<open>b\<close> and the sender.
\<close>

definition packet_ReadFrom :: "gopacket \<Rightarrow> rcvdPacket \<Rightarrow> bytes \<Rightarrow> error + int \<times> bytes \<times> UDPAddr" where
  "packet_ReadFrom G pkt b =
     (case rcv_err pkt of
        Some err \<Rightarrow> Inl err
      | None \<Rightarrow>
          (case (case rcv_addr pkt of
                   SockaddrInet4 a \<Rightarrow> Some (a, DecodeIPv4 G)
                 | SockaddrInet6 a \<Rightarrow> Some (a, DecodeUDP G)
                 | SockaddrOther \<Rightarrow> None) of
             None \<Rightarrow> Inl (Errorf ''received invalid address family'')
           | Some (ip, decode) \<Rightarrow>
               (case decode (rcv_buf pkt) of
                  Inl err \<Rightarrow> Inl err
                | Inr udp \<Rightarrow>
                    Inr (int (unat (udp_Length udp)), copy_at 0 (udp_payload udp) b,
                         \<lparr>IP = ip, Port = int (unat (udp_SrcPort udp)), Zone = ''''\<rparr>))))"

text \<open>
  With the context done and a packet offered, \<^verbatim>\<open>select\<close> takes either: \<open>pick_done\<close> is its choice.
  \<open>None\<close> is a call that still waits.
\<close>

definition sharedsock_ReadFrom ::
  "bool \<Rightarrow> gopacket \<Rightarrow> bytes \<Rightarrow> 'r SharedSocket \<Rightarrow> ((error + int \<times> bytes \<times> UDPAddr) \<times> 'r SharedSocket) option" where
  "sharedsock_ReadFrom pick_done G b s =
     (if ss_done s \<and> (pick_done \<or> packetDemux s = []) then Some (Inl ErrSharedSockStopped, s)
      else case packetDemux s of
             [] \<Rightarrow> None
           | pkt # pkts \<Rightarrow> Some (packet_ReadFrom G pkt b, s\<lparr>packetDemux := pkts\<rparr>))"

datatype netLayer = IPv6Layer IP IP | IPv4Layer IP IP

definition getWriterObjects :: "IP \<Rightarrow> IP \<Rightarrow> 'r SharedSocket \<Rightarrow> Sockaddr \<times> nat option \<times> netLayer" where
  "getWriterObjects src dest s =
     (case To4 dest of
        None \<Rightarrow> (SockaddrInet6 (copy_at 0 (case To16 dest of None \<Rightarrow> [] | Some d \<Rightarrow> d) (replicate 16 0)),
                 conn6 s, IPv6Layer src dest)
      | Some d \<Rightarrow> (SockaddrInet4 (copy_at 0 d (replicate 4 0)), conn4 s, IPv4Layer src dest))"

text \<open>
  \<open>serialize\<close> computes the datagram from the ports, the network layer and the payload, with the
  checksum and the lengths filled in; \<open>Sendto\<close> sends it.
\<close>

record ('r, 'w) write_env =
  Route :: "'r \<Rightarrow> IP \<Rightarrow> error + IP"
  serialize :: "u16 \<Rightarrow> u16 \<Rightarrow> netLayer \<Rightarrow> bytes \<Rightarrow> error + bytes"
  Sendto :: "nat \<Rightarrow> bytes \<Rightarrow> Sockaddr \<Rightarrow> 'w \<Rightarrow> error option \<times> 'w"

definition sharedsock_WriteTo ::
  "('r, 'w) write_env \<Rightarrow> bytes \<Rightarrow> Addr \<Rightarrow> 'r SharedSocket \<Rightarrow> 'w \<Rightarrow> (error + nat) \<times> 'w" where
  "sharedsock_WriteTo v buf rAddr s w =
     (case rAddr of
        OtherAddr _ \<Rightarrow> (Inl (Errorf ''invalid address type''), w)
      | UDP rUDPAddr \<Rightarrow>
     (case ss_router s of
        None \<Rightarrow> (Inl (Panic ''nil pointer dereference''), w)
      | Some router \<Rightarrow>
     (case Route v router (IP rUDPAddr) of
        Inl err \<Rightarrow> (Inl (Wrapf ''got an error while checking route, err'' err), w)
      | Inr src \<Rightarrow>
     (case getWriterObjects src (IP rUDPAddr) s of (rSockAddr, conn, nwLayer) \<Rightarrow>
     (case serialize v (word_of_int (ss_port s)) (word_of_int (Port rUDPAddr)) nwLayer buf of
        Inl err \<Rightarrow> (Inl (Wrapf ''failed serialize rcvdPacket'' err), w)
      | Inr bufser \<Rightarrow>
     (case conn of
        None \<Rightarrow> (Inl (Panic ''nil pointer dereference''), w)
      | Some c \<Rightarrow>
          (case Sendto v c bufser rSockAddr w of
             (Some err, w) \<Rightarrow> (Inl err, w)
           | (None, w) \<Rightarrow> (Inr 0, w))))))))"

section \<open>Lemmas\<close>

lemma be_nat_2: "be_nat [a, b] = unat a * 256 + unat b"
  by (simp add: be_nat_def)

lemma be_nat_4: "be_nat [a, b, c, d] = unat a * 16777216 + unat b * 65536 + unat c * 256 + unat d"
  by (simp add: be_nat_def)

lemma byte_bound: "unat (b :: byte) < 256"
  using unsigned_less [of b, where ?'a = nat] by simp

lemma base_256:
  assumes "y < 256" and "k < 256"
  shows "(x :: nat) * 256 + y = m * 256 + k \<longleftrightarrow> x = m \<and> y = k"
proof
  assume "x * 256 + y = m * 256 + k"
  then have "(x * 256 + y) div 256 = (m * 256 + k) div 256" "(x * 256 + y) mod 256 = (m * 256 + k) mod 256"
    by simp_all
  with assms show "x = m \<and> y = k" by simp
qed simp

lemma be_nat_cookie:
  "(word_of_nat (be_nat [a, b, c, d]) :: u32) = magicCookie \<longleftrightarrow> [a, b, c, d] = [0x21, 0x12, 0xA4, 0x42]"
proof -
  note bounds = byte_bound [of a] byte_bound [of b] byte_bound [of c] byte_bound [of d]
  define n where "n = be_nat [a, b, c, d]"
  have "n < 2 ^ 32" using bounds by (simp add: n_def be_nat_4)
  then have "(word_of_nat n :: u32) = magicCookie \<longleftrightarrow> n = 0x2112A442"
    by (simp add: magicCookie_def word_unat_eq_iff unat_of_nat take_bit_eq_mod)
  also have "\<dots> \<longleftrightarrow> ((unat a * 256 + unat b) * 256 + unat c) * 256 + unat d = ((0x21 * 256 + 0x12) * 256 + 0xA4) * 256 + 0x42"
    by (simp add: n_def be_nat_4 algebra_simps)
  also have "\<dots> \<longleftrightarrow> unat a = 0x21 \<and> unat b = 0x12 \<and> unat c = 0xA4 \<and> unat d = 0x42"
    using bounds by (subst base_256, simp, simp)+ simp
  also have "\<dots> \<longleftrightarrow> [a, b, c, d] = [0x21, 0x12, 0xA4, 0x42]"
    by (simp add: word_unat_eq_iff)
  finally show ?thesis by (simp only: n_def)
qed

lemma list_of_length_4: "length xs = 4 \<Longrightarrow> \<exists>a b c d. xs = [a, b, c, d]"
  by (auto simp: numeral_eq_Suc length_Suc_conv)

lemma instructions_exec:
  "bpf_exec (instructions p c port) acc pkt =
     (if p + 2 \<le> length pkt \<and> word_of_nat (be_nat (subslice p (p + 2) pkt)) = port
         \<and> c + 4 \<le> length pkt \<and> word_of_nat (be_nat (subslice c (c + 4) pkt)) = magicCookie
      then 0xffffffff else 0)"
  by (simp add: instructions_def)

text \<open>The program at an offset: the UDP header starts after \<open>hdr\<close>.\<close>

lemma instructions_exact:
  assumes "length hdr = off"
  shows "bpf_exec (instructions (off + 2) (off + 12) port) acc
           (hdr @ [s1, s2, d1, d2, l1, l2, c1, c2] @ payload) \<noteq> 0
     \<longleftrightarrow> word_of_nat (be_nat [d1, d2]) = port \<and> take 4 (drop 4 payload) = [0x21, 0x12, 0xA4, 0x42]"
    (is "bpf_exec _ _ ?pkt \<noteq> 0 \<longleftrightarrow> _ \<and> ?cookie = _")
proof -
  have dst: "subslice (off + 2) (off + 2 + 2) ?pkt = [d1, d2]"
    using assms by (simp add: subslice_def numeral_eq_Suc)
  have cookie: "subslice (off + 12) (off + 12 + 4) ?pkt = ?cookie"
    using assms by (simp add: subslice_def numeral_eq_Suc)
  have cookie_len: "?cookie = [0x21, 0x12, 0xA4, 0x42] \<longleftrightarrow>
      8 \<le> length payload \<and> (word_of_nat (be_nat ?cookie) :: u32) = magicCookie"
  proof (cases "8 \<le> length payload")
    case True
    then obtain a b c d where abcd: "?cookie = [a, b, c, d]"
      using list_of_length_4 [of ?cookie] by auto
    show ?thesis unfolding abcd be_nat_cookie using True by simp
  next
    case False
    then show ?thesis by (auto dest!: arg_cong [of _ _ length])
  qed
  have "off + 2 + 2 \<le> length ?pkt" and "off + 12 + 4 \<le> length ?pkt \<longleftrightarrow> 8 \<le> length payload"
    using assms by simp_all
  then show ?thesis
    unfolding instructions_exec dst cookie cookie_len by simp
qed

section \<open>Properties\<close>

text \<open>C30. The BPF programs accept exactly the STUN packets sent to the port: an IPv4 packet with a
  header of 20 bytes, or a UDP datagram over IPv6, is passed on if and only if its destination port
  is the port and the fifth to eighth byte of its payload are the STUN magic cookie; shorter payloads
  are never accepted.\<close>

theorem stun_filter_exact:
  assumes "\<And>prog raw pkt. Assemble prog = Inr raw \<Longrightarrow> run raw pkt = bpf_exec prog 0 pkt"
    and "GetInstructions Assemble port = Inr (raw4, raw6)" and "length ip_hdr = 20"
    and "udp = [s1, s2, d1, d2, l1, l2, c1, c2] @ payload"
  shows "(run raw4 (ip_hdr @ udp) \<noteq> 0 \<longleftrightarrow>
            word_of_nat (be_nat [d1, d2]) = port \<and> take 4 (drop 4 payload) = [0x21, 0x12, 0xA4, 0x42])
       \<and> (run raw6 udp \<noteq> 0 \<longleftrightarrow>
            word_of_nat (be_nat [d1, d2]) = port \<and> take 4 (drop 4 payload) = [0x21, 0x12, 0xA4, 0x42])"
proof -
  have "Assemble (instructions 22 32 port) = Inr raw4" and "Assemble (instructions 2 12 port) = Inr raw6"
    using assms(2) by (auto simp: GetInstructions_def rawInstructions_def split: sum.splits)
  note runs = this [THEN assms(1)]
  have offsets: "(20 :: nat) + 2 = 22" "(20 :: nat) + 12 = 32" "length ([] :: bytes) = 0" by simp_all
  show ?thesis
    unfolding runs assms(4)
    by (rule conjI [OF instructions_exact [OF assms(3), unfolded offsets]
                       instructions_exact [OF offsets(3), unfolded add_0 append_Nil]])
qed

definition demo_stun :: bytes where
  "demo_stun = [0, 1, 0, 0, 0x21, 0x12, 0xA4, 0x42]"

theorem stun_filter_exact_witness:
  "bpf_exec (instructions 2 12 51820) 0 ([1, 2, 0xca, 0x6c, 0, 16, 0, 0] @ demo_stun) \<noteq> 0
   \<and> bpf_exec (instructions 22 32 51820) 0 (replicate 20 0 @ [1, 2, 0xca, 0x6d, 0, 16, 0, 0] @ demo_stun) = 0"
proof -
  have g: "GetInstructions Inr 51820 = Inr (instructions 22 32 51820, instructions 2 12 51820)"
    by (simp add: GetInstructions_def rawInstructions_def)
  have run: "\<And>prog raw pkt. Inr prog = Inr raw \<Longrightarrow> bpf_exec raw 0 pkt = bpf_exec prog 0 pkt" by simp
  have len: "length (replicate 20 (0 :: byte)) = 20" by simp
  note exact = stun_filter_exact [of Inr "\<lambda>raw. bpf_exec raw 0", OF run g len refl]
  have c: "take 4 (drop 4 demo_stun) = [0x21, 0x12, 0xA4, 0x42]" by (simp add: demo_stun_def)
  show ?thesis
    using exact [of 1 2 "0xca" "0x6c" 0 16 0 0 demo_stun] exact [of 1 2 "0xca" "0x6d" 0 16 0 0 demo_stun]
    unfolding c by (simp only: be_nat_2) simp
qed

text \<open>Listening is all or nothing: whichever step fails, the sockets opened so far are closed, no
  reader runs and the socket is stopped; on success one reader runs on each socket, IPv4's at least,
  and nothing was closed.\<close>

theorem Listen_all_or_nothing:
  "case Listen v port of (err, s) \<Rightarrow>
     if err = None
     then ss_closed s = [] \<and> \<not> ss_done s \<and> conn4 s \<noteq> None
        \<and> set (readers s) = set_option (conn4 s) \<union> set_option (conn6 s)
        \<and> (conn6 s = None \<longleftrightarrow> isl (Socket6 v))
     else set (ss_closed s) = set_option (conn4 s) \<union> set_option (conn6 s) \<and> readers s = [] \<and> ss_done s"
  by (auto simp: Listen_def listen_fail_def sharedsock_Close_def Let_def split: sum.splits option.splits prod.splits if_splits)

end
