(* ===== verification/Netstack.thy ===== *)
theory Netstack
  imports Net_Addr
begin

text \<open>
  The network stack in user space (\<^verbatim>\<open>iface/netstack\<close>): its settings from the environment, its SOCKS
  proxy and the tunnel device.  The proxy serves from a goroutine of its own, so it is a step relation:
  the goroutine listens, accepts and returns, and \<^verbatim>\<open>Close\<close> may come between any two of its steps.
\<close>

section \<open>Settings\<close>

definition DefaultSocks5Port :: int where "DefaultSocks5Port = 1080"

definition IsEnabled :: "string \<Rightarrow> bool" where
  "IsEnabled use_netstack \<longleftrightarrow> use_netstack = ''true''"

definition listenAddr :: "int \<Rightarrow> string" where
  "listenAddr port = ''0.0.0.0:'' @ Itoa port"

definition ListenAddr :: "string \<Rightarrow> string" where
  "ListenAddr sPort =
     (case Atoi sPort of
        Inl _ \<Rightarrow> listenAddr DefaultSocks5Port
      | Inr port \<Rightarrow>
          if port < 1 \<or> 65535 < port then listenAddr DefaultSocks5Port else listenAddr port)"

section \<open>The dialer\<close>

text \<open>The dialer of the stack: an error is logged and returned.\<close>

record 'c NSDialer =
  nsd_net :: "string \<Rightarrow> string \<Rightarrow> error + 'c"

definition NewNSDialer :: "(string \<Rightarrow> string \<Rightarrow> error + 'c) \<Rightarrow> 'c NSDialer" where
  "NewNSDialer net = \<lparr>nsd_net = net\<rparr>"

definition NSDialer_Dial :: "'c NSDialer \<Rightarrow> string \<Rightarrow> string \<Rightarrow> error + 'c" where
  "NSDialer_Dial d network addr = nsd_net d network addr"

section \<open>The proxy\<close>

text \<open>
  Where the goroutine of \<^verbatim>\<open>ListenAndServe\<close> is: not started, about to listen, in the accept loop, or
  returned.  \<open>px_open\<close> are the listening sockets of the proxy that are open, \<open>px_served\<close> the
  connections handed to the server.
\<close>

datatype serving = NotServing | Starting string | Accepting nat | Returned "error option"

record SocksProxy =
  px_listener :: "nat option"
  px_closed :: bool
  px_serving :: serving
  px_open :: "nat list"
  px_served :: "nat list"

definition NewSocks5 :: "error + SocksProxy" where
  "NewSocks5 = Inr \<lparr>px_listener = None, px_closed = False, px_serving = NotServing, px_open = [], px_served = []\<rparr>"

definition go_serve :: "string \<Rightarrow> SocksProxy \<Rightarrow> SocksProxy" where
  "go_serve addr s = s\<lparr>px_serving := Starting addr\<rparr>"

text \<open>The first part of \<^verbatim>\<open>ListenAndServe\<close> with the result of \<^verbatim>\<open>net.Listen\<close>, and one round of its loop
  with the result of \<^verbatim>\<open>Accept\<close>.\<close>

definition ListenAndServe_listen :: "error + nat \<Rightarrow> SocksProxy \<Rightarrow> SocksProxy" where
  "ListenAndServe_listen r s =
     (case r of
        Inl err \<Rightarrow> s\<lparr>px_serving := Returned (Some err)\<rparr>
      | Inr l \<Rightarrow> s\<lparr>px_listener := Some l, px_serving := Accepting l, px_open := px_open s @ [l]\<rparr>)"

definition ListenAndServe_accept :: "error + nat \<Rightarrow> SocksProxy \<Rightarrow> SocksProxy" where
  "ListenAndServe_accept r s =
     (case r of
        Inl err \<Rightarrow> s\<lparr>px_serving := Returned (if px_closed s then None else Some err)\<rparr>
      | Inr conn \<Rightarrow> s\<lparr>px_served := px_served s @ [conn]\<rparr>)"

text \<open>\<open>lclose\<close> is the error of closing a listener.\<close>

definition proxy_Close :: "(nat \<Rightarrow> error option) \<Rightarrow> SocksProxy \<Rightarrow> error option \<times> SocksProxy" where
  "proxy_Close lclose s =
     (case px_listener s of
        None \<Rightarrow> (None, s)
      | Some l \<Rightarrow> (lclose l, s\<lparr>px_closed := True, px_open := removeAll l (px_open s)\<rparr>))"

text \<open>A listener that is closed accepts nothing.\<close>

inductive proxy_step :: "(nat \<Rightarrow> error option) \<Rightarrow> SocksProxy \<Rightarrow> SocksProxy \<Rightarrow> bool" for lclose where
  step_listen: "px_serving s = Starting addr \<Longrightarrow> proxy_step lclose s (ListenAndServe_listen r s)"
| step_accept: "px_serving s = Accepting l \<Longrightarrow> l \<in> set (px_open s) \<or> isl r \<Longrightarrow>
    proxy_step lclose s (ListenAndServe_accept r s)"
| step_close: "proxy_step lclose s (snd (proxy_Close lclose s))"

inductive_cases proxy_stepE: "proxy_step lclose s s'"

inductive proxy_reachable :: "(nat \<Rightarrow> error option) \<Rightarrow> string \<Rightarrow> SocksProxy \<Rightarrow> bool" for lclose addr where
  proxy_init: "NewSocks5 = Inr s \<Longrightarrow> proxy_reachable lclose addr (go_serve addr s)"
| proxy_next: "proxy_reachable lclose addr s \<Longrightarrow> proxy_step lclose s s' \<Longrightarrow> proxy_reachable lclose addr s'"

section \<open>The tunnel device\<close>

record NetStackTun =
  nst_address :: string
  nst_mtu :: int
  nst_listenAddress :: string
  nst_proxy :: "SocksProxy option"
  nst_tundev :: bool
  nst_tundev_closed :: bool

definition NewNetStackTun :: "string \<Rightarrow> string \<Rightarrow> int \<Rightarrow> NetStackTun" where
  "NewNetStackTun listenAddress address mtu =
     \<lparr>nst_address = address, nst_mtu = mtu, nst_listenAddress = listenAddress, nst_proxy = None,
      nst_tundev = False, nst_tundev_closed = False\<rparr>"

definition nst_Create :: "(netipAddr \<Rightarrow> int \<Rightarrow> error option) \<Rightarrow> NetStackTun \<Rightarrow> error option \<times> NetStackTun" where
  "nst_Create CreateNetTUN t =
     (case netip_ParseAddr (nst_address t) of
        Inl _ \<Rightarrow> (Some (Panic ''netip.MustParseAddr''), t)
      | Inr addr \<Rightarrow>
          (case CreateNetTUN addr (nst_mtu t) of
             Some err \<Rightarrow> (Some err, t)
           | None \<Rightarrow>
               let t = t\<lparr>nst_tundev := True\<rparr>
               in case NewSocks5 of
                    Inl err \<Rightarrow> (Some err, t\<lparr>nst_tundev_closed := True\<rparr>)
                  | Inr proxy \<Rightarrow> (None, t\<lparr>nst_proxy := Some (go_serve (nst_listenAddress t) proxy)\<rparr>)))"

definition nst_Close :: "(nat \<Rightarrow> error option) \<Rightarrow> error option \<Rightarrow> NetStackTun \<Rightarrow> error option \<times> NetStackTun" where
  "nst_Close lclose dclose t =
     (let (err, t) = (case nst_proxy t of
                        None \<Rightarrow> (None, t)
                      | Some s \<Rightarrow> (let (pErr, s) = proxy_Close lclose s in (pErr, t\<lparr>nst_proxy := Some s\<rparr>)))
      in if nst_tundev t then (if dclose = None then err else dclose, t\<lparr>nst_tundev_closed := True\<rparr>) else (err, t))"

section \<open>Lemmas\<close>

text \<open>The proxy knows every socket it has opened once it accepts, and closing it leaves none open.\<close>

definition socks_inv :: "SocksProxy \<Rightarrow> bool" where
  "socks_inv s \<longleftrightarrow>
     (case px_serving s of
        NotServing \<Rightarrow> False
      | Starting _ \<Rightarrow> px_listener s = None
      | Accepting l \<Rightarrow> px_listener s = Some l
      | Returned _ \<Rightarrow> True)
   \<and> (case px_listener s of
        None \<Rightarrow> \<not> px_closed s \<and> px_open s = []
      | Some l \<Rightarrow> px_open s = (if px_closed s then [] else [l]))"

lemma socks_inv_step:
  assumes "socks_inv s" and "proxy_step lclose s s'"
  shows "socks_inv s'"
  using assms(2)
proof cases
  case step_close
  then show ?thesis using assms(1)
    by (auto simp: socks_inv_def proxy_Close_def split: option.splits serving.splits if_splits)
qed (use assms(1) in \<open>auto simp: socks_inv_def ListenAndServe_listen_def ListenAndServe_accept_def
      split: sum.splits option.splits if_splits\<close>)

lemma proxy_reachable_inv: "proxy_reachable lclose addr s \<Longrightarrow> socks_inv s"
proof (induction rule: proxy_reachable.induct)
  case (proxy_init s)
  then show ?case by (auto simp: socks_inv_def go_serve_def NewSocks5_def)
qed (rule socks_inv_step)

section \<open>Properties\<close>

text \<open>The address the proxy listens on always has a port in range: the configured one when it is a
  number between 1 and 65535, and the default otherwise.\<close>

theorem ListenAddr_port_in_range:
  "\<exists>port. ListenAddr sPort = listenAddr port \<and> 1 \<le> port \<and> port \<le> 65535
     \<and> (port = 1080 \<or> Atoi sPort = Inr port)"
  by (auto simp: ListenAddr_def DefaultSocks5Port_def split: sum.split)

text \<open>In every state the proxy can reach, closing it while it accepts closes its only socket and
  makes the accept loop return without an error; but closing it before the goroutine has listened
  does nothing, and the goroutine then listens and serves connections with no one left to close it.\<close>

theorem close_before_listen_is_lost:
  assumes "proxy_reachable lclose addr s"
  shows "case px_serving s of
      Accepting l \<Rightarrow>
        px_open (snd (proxy_Close lclose s)) = []
      \<and> px_serving (ListenAndServe_accept (Inl err) (snd (proxy_Close lclose s))) = Returned None
    | Starting a \<Rightarrow>
        proxy_Close lclose s = (None, s)
      \<and> proxy_step lclose s (ListenAndServe_listen (Inr l) s)
      \<and> px_serving (ListenAndServe_listen (Inr l) s) = Accepting l
      \<and> px_open (ListenAndServe_listen (Inr l) s) = [l]
      \<and> px_served (ListenAndServe_accept (Inr c) (ListenAndServe_listen (Inr l) s)) = px_served s @ [c]
    | Returned _ \<Rightarrow> px_open (snd (proxy_Close lclose s)) = []
    | NotServing \<Rightarrow> False"
proof (cases "px_serving s")
  case (Starting a)
  then have "proxy_step lclose s (ListenAndServe_listen (Inr l) s)" by (rule step_listen)
  moreover have "px_listener s = None" "px_open s = []"
    using proxy_reachable_inv [OF assms] Starting by (auto simp: socks_inv_def)
  ultimately show ?thesis using Starting
    by (simp add: proxy_Close_def ListenAndServe_accept_def ListenAndServe_listen_def)
qed (use proxy_reachable_inv [OF assms] in \<open>auto simp: socks_inv_def proxy_Close_def ListenAndServe_accept_def
      split: option.splits if_splits\<close>)

theorem close_before_listen_is_lost_witness:
  "case NewSocks5 of
     Inl _ \<Rightarrow> False
   | Inr p \<Rightarrow>
       let s = go_serve (ListenAddr '''') p
       in proxy_Close (\<lambda>_. None) s = (None, s) \<and> px_open (ListenAndServe_listen (Inr 7) s) = [7]"
proof -
  obtain p where p: "NewSocks5 = Inr p" by (simp add: NewSocks5_def)
  from close_before_listen_is_lost [OF proxy_init [OF p], of "\<lambda>_. None" "ListenAddr ''''" 7]
  show ?thesis by (simp add: p go_serve_def)
qed

end
