(* ===== verification/Tun_Devices.thy ===== *)
theory Tun_Devices
  imports Wg_Iface Ice_Bind Shared_Sock Netstack
begin

text \<open>
  The tunnel devices behind the interface object on Linux: the kernel's WireGuard link
  (\<^verbatim>\<open>iface/tun_kernel_unix.go\<close> over \<^verbatim>\<open>iface/tun_link_linux.go\<close>), the user space device
  (\<^verbatim>\<open>iface/tun_usp_unix.go\<close>) and the one on a network stack of its own (\<^verbatim>\<open>iface/tun_netstack.go\<close>).
  Netlink and wireguard-go are parameters; the socket and the mux are the ones of the other theories.
\<close>

section \<open>The link\<close>

datatype link_lookup = LinkFound | LinkNotFound | LinkByNameError error

text \<open>The flag beside an error is \<^verbatim>\<open>os.IsExist\<close> of it.\<close>

record 'n netlink =
  LinkByName :: "string \<Rightarrow> 'n \<Rightarrow> link_lookup"
  LinkDel :: "string \<Rightarrow> 'n \<Rightarrow> error option \<times> 'n"
  LinkAdd :: "string \<Rightarrow> 'n \<Rightarrow> (error \<times> bool) option \<times> 'n"
  LinkSetMTU :: "string \<Rightarrow> int \<Rightarrow> 'n \<Rightarrow> error option \<times> 'n"
  LinkSetUp :: "string \<Rightarrow> 'n \<Rightarrow> error option \<times> 'n"
  AddrList :: "string \<Rightarrow> 'n \<Rightarrow> error + string list"
  AddrDel :: "string \<Rightarrow> string \<Rightarrow> 'n \<Rightarrow> error option \<times> 'n"
  ParseAddr :: "string \<Rightarrow> error + string"
  AddrAdd :: "string \<Rightarrow> string \<Rightarrow> 'n \<Rightarrow> (error \<times> bool) option \<times> 'n"

definition link_Close :: "'n netlink \<Rightarrow> string \<Rightarrow> 'n \<Rightarrow> error option \<times> 'n" where
  "link_Close N name = LinkDel N name"

definition recreate_add :: "'n netlink \<Rightarrow> string \<Rightarrow> 'n \<Rightarrow> error option \<times> 'n" where
  "recreate_add N name n =
     (case LinkAdd N name n of
        (None, n) \<Rightarrow> (None, n)
      | (Some (_, True), n) \<Rightarrow> (None, n)
      | (Some (err, False), n) \<Rightarrow> (Some (Wrapf ''link add'' err), n))"

definition recreate :: "'n netlink \<Rightarrow> string \<Rightarrow> 'n \<Rightarrow> error option \<times> 'n" where
  "recreate N name n =
     (case LinkByName N name n of
        LinkByNameError err \<Rightarrow> (Some (Wrapf ''link by name'' err), n)
      | LinkNotFound \<Rightarrow> recreate_add N name n
      | LinkFound \<Rightarrow>
          (case LinkDel N name n of
             (Some err, n) \<Rightarrow> (Some err, n)
           | (None, n) \<Rightarrow> recreate_add N name n))"

definition setMTU :: "'n netlink \<Rightarrow> string \<Rightarrow> int \<Rightarrow> 'n \<Rightarrow> error option \<times> 'n" where
  "setMTU N name mtu n = (let (err, n) = LinkSetMTU N name mtu n in (map_option (Wrapf ''link set mtu'') err, n))"

definition link_up :: "'n netlink \<Rightarrow> string \<Rightarrow> 'n \<Rightarrow> error option \<times> 'n" where
  "link_up N name n = (let (err, n) = LinkSetUp N name n in (map_option (Wrapf ''link setup'') err, n))"

fun del_addrs :: "'n netlink \<Rightarrow> string \<Rightarrow> string list \<Rightarrow> 'n \<Rightarrow> error option \<times> 'n" where
  "del_addrs N name [] n = (None, n)"
| "del_addrs N name (a # as) n =
     (case AddrDel N name a n of
        (Some err, n) \<Rightarrow> (Some (Wrapf ''del addr'' err), n)
      | (None, n) \<Rightarrow> del_addrs N name as n)"

definition assignAddr :: "'n netlink \<Rightarrow> string \<Rightarrow> WGAddress \<Rightarrow> 'n \<Rightarrow> error option \<times> 'n" where
  "assignAddr N name address n =
     (case AddrList N name n of
        Inl err \<Rightarrow> (Some (Wrapf ''list addr'' err), n)
      | Inr as \<Rightarrow>
     (case del_addrs N name as n of
        (Some err, n) \<Rightarrow> (Some err, n)
      | (None, n) \<Rightarrow>
     (case ParseAddr N (WGAddress_String address) of
        Inl err \<Rightarrow> (Some (Wrapf ''parse addr'' err), n)
      | Inr addr \<Rightarrow>
     (case AddrAdd N name addr n of
        (Some (err, False), n) \<Rightarrow> (Some (Wrapf ''add addr'' err), n)
      | (_, n) \<Rightarrow> link_up N name n))))"

section \<open>The kernel device\<close>

text \<open>The shared socket as the packet connection of the mux; \<open>w\<close> is the network behind it.\<close>

definition shared_PacketConn ::
  "('r, 'w) write_env \<Rightarrow> (nat \<Rightarrow> error option) \<Rightarrow> ('r SharedSocket \<times> 'w) PacketConn" where
  "shared_PacketConn E Close =
     \<lparr>pc_LocalAddr = (\<lambda>(s, w). UDP (sharedsock_LocalAddr s)),
      pc_WriteTo = (\<lambda>b a (s, w). let (r, w) = sharedsock_WriteTo E b a s w in (r, (s, w))),
      pc_Close = (\<lambda>(s, w). let (err, s) = sharedsock_Close Close False s in (err, (s, w)))\<rparr>"

text \<open>
  \<open>kd_link\<close> tells whether the link was created.  The mux connection is the socket inside the mux.
\<close>

record ('b, 's) tunKernelDevice =
  kd_name :: string
  kd_address :: WGAddress
  kd_wgPort :: int
  kd_key :: string
  kd_mtu :: int
  kd_cancelled :: bool
  kd_link :: bool
  kd_udpMux :: "('b, 's) UniversalUDPMuxDefault option"

text \<open>The surroundings of a kernel device.\<close>

record ('b, 'n, 'k, 'r, 'raw, 'w) kernel_env =
  ke_netlink :: "'n netlink"
  ke_ParseKey :: "string \<Rightarrow> error + bytes"
  ke_wgctrl :: "'k wgctrl"
  ke_fwmark :: int
  ke_raw :: "('r, 'raw) raw_env"
  ke_write :: "('r, 'w) write_env"
  ke_net :: 'w
  ke_ifaces :: "error + Interface list"
  ke_packetio :: "'b packetio"

definition kernel_newTunDevice ::
  "string \<Rightarrow> WGAddress \<Rightarrow> int \<Rightarrow> string \<Rightarrow> int \<Rightarrow> ('b, 's) tunKernelDevice" where
  "kernel_newTunDevice name address port key mtu =
     \<lparr>kd_name = name, kd_address = address, kd_wgPort = port, kd_key = key, kd_mtu = mtu,
      kd_cancelled = False, kd_link = False, kd_udpMux = None\<rparr>"

definition kernel_Create ::
  "('b, 'n, 'k, 'r, 'raw, 'w) kernel_env \<Rightarrow> ('b, 's) tunKernelDevice \<times> 'n \<times> 'k
     \<Rightarrow> (error + 'k) \<times> ('b, 's) tunKernelDevice \<times> 'n \<times> 'k" where
  "kernel_Create E = (\<lambda>(t, n, k).
     case recreate (ke_netlink E) (kd_name t) n of
       (Some err, n) \<Rightarrow> (Inl (Wrapf ''recreate'' err), t, n, k)
     | (None, n) \<Rightarrow>
     (let t = t\<lparr>kd_link := True\<rparr>
      in case assignAddr (ke_netlink E) (kd_name t) (kd_address t) n of
       (Some err, n) \<Rightarrow> (Inl (Wrapf ''assign addr'' err), t, n, k)
     | (None, n) \<Rightarrow>
     (case setMTU (ke_netlink E) (kd_name t) (kd_mtu t) n of
       (Some err, n) \<Rightarrow> (Inl (Wrapf ''set mtu'' err), t, n, k)
     | (None, n) \<Rightarrow>
     (case kernel_configureInterface (ke_ParseKey E) (ke_wgctrl E) (kd_name t) (ke_fwmark E) (kd_key t) (kd_wgPort t) k of
       (Some err, k) \<Rightarrow> (Inl err, t, n, k)
     | (None, k) \<Rightarrow> (Inr k, t, n, k)))))"

definition kernel_Up ::
  "('b, 'n, 'k, 'r, 'raw, 'w) kernel_env \<Rightarrow> ('b, 'r SharedSocket \<times> 'w) tunKernelDevice \<times> 'n \<times> 'k
     \<Rightarrow> (error + ('b, 'r SharedSocket \<times> 'w) UniversalUDPMuxDefault)
        \<times> ('b, 'r SharedSocket \<times> 'w) tunKernelDevice \<times> 'n \<times> 'k" where
  "kernel_Up E = (\<lambda>(t, n, k).
     case kd_udpMux t of
       Some m \<Rightarrow> (Inr m, t, n, k)
     | None \<Rightarrow>
     if \<not> kd_link t then (Inl (Errorf ''device is not ready yet''), t, n, k)
     else case link_up (ke_netlink E) (kd_name t) n of
       (Some err, n) \<Rightarrow> (Inl err, t, n, k)
     | (None, n) \<Rightarrow>
     (case Listen (ke_raw E) (kd_wgPort t) of
       (Some err, _) \<Rightarrow> (Inl err, t, n, k)
     | (None, rawSock) \<Rightarrow>
         let m = NewUniversalUDPMuxDefault (shared_PacketConn (ke_write E) (raw_Close (ke_raw E))) None
                   (rawSock, ke_net E) 0 (ke_ifaces E)
         in (Inr m, t\<lparr>kd_udpMux := Some m\<rparr>, n, k)))"

definition kernel_UpdateAddr ::
  "('b, 'n, 'k, 'r, 'raw, 'w) kernel_env \<Rightarrow> WGAddress \<Rightarrow> ('b, 's) tunKernelDevice \<times> 'n \<times> 'k
     \<Rightarrow> error option \<times> ('b, 's) tunKernelDevice \<times> 'n \<times> 'k" where
  "kernel_UpdateAddr E address = (\<lambda>(t, n, k).
     let t = t\<lparr>kd_address := address\<rparr>
     in if \<not> kd_link t then (Some (Panic ''nil pointer dereference''), t, n, k)
        else let (err, n) = assignAddr (ke_netlink E) (kd_name t) (kd_address t) n in (err, t, n, k))"

text \<open>\<^verbatim>\<open>Close\<close>: the last error wins.\<close>

definition later :: "error option \<Rightarrow> error option \<Rightarrow> error option" where
  "later e1 e2 = (if e2 = None then e1 else e2)"

definition kernel_Close ::
  "('b, 'n, 'k, 'r, 'raw, 'w) kernel_env \<Rightarrow> ('b, 'r SharedSocket \<times> 'w) tunKernelDevice \<times> 'n \<times> 'k
     \<Rightarrow> error option \<times> ('b, 'r SharedSocket \<times> 'w) tunKernelDevice \<times> 'n \<times> 'k" where
  "kernel_Close E = (\<lambda>(t, n, k).
     if \<not> kd_link t then (None, t, n, k)
     else let C = udpConn_PacketConn (shared_PacketConn (ke_write E) (raw_Close (ke_raw E))) None;
              t = t\<lparr>kd_cancelled := True\<rparr>;
              (closErr, n) = link_Close (ke_netlink E) (kd_name t) n
          in case kd_udpMux t of
               None \<Rightarrow> (closErr, t, n, k)
             | Some u \<Rightarrow>
                 let (err2, m) = mux_Close (ke_packetio E) C (mux u);
                     (err3, c) = pc_Close C (UDPConn m)
                 in (later (later closErr err2) err3,
                     t\<lparr>kd_udpMux := Some (u\<lparr>mux := m\<lparr>UDPConn := c\<rparr>\<rparr>)\<rparr>, n, k))"

definition kernel_tun ::
  "('b, 'n, 'k, 'r, 'raw, 'w) kernel_env
     \<Rightarrow> (('b, 'r SharedSocket \<times> 'w) tunKernelDevice \<times> 'n \<times> 'k, 'k, ('b, 'r SharedSocket \<times> 'w) UniversalUDPMuxDefault) wgTunDevice" where
  "kernel_tun E =
     \<lparr>tun_Create = kernel_Create E, tun_Up = kernel_Up E, tun_UpdateAddr = kernel_UpdateAddr E,
      tun_WgAddress = (\<lambda>(t, _). kd_address t), tun_DeviceName = (\<lambda>(t, _). kd_name t),
      tun_Close = kernel_Close E, tun_Wrapper = (\<lambda>_. None), tun_set_Wrapper = (\<lambda>_ t. t)\<rparr>"

section \<open>The user space devices\<close>

text \<open>
  wireguard-go's device is \<open>'d\<close>.  Bringing it up opens the bind, which creates the mux.  The
  configurer works on the same device; the state it is given here is the device at that moment, and
  closing does not depend on what is configured later.
\<close>

record ('b, 's, 'd) tunUSPDevice =
  ud_name :: string
  ud_address :: WGAddress
  ud_port :: int
  ud_key :: string
  ud_mtu :: int
  ud_iceBind :: "('b, 's) ICEBind"
  ud_device :: "'d option"
  ud_wrapper :: "DeviceWrapper option"
  ud_udpMux :: "('b, 's) UniversalUDPMuxDefault option"
  ud_configurer :: bool
  ud_configurer_closed :: bool

record ('b, 's, 'd) tunNetstackDevice = "('b, 's, 'd) tunUSPDevice" +
  nd_listenAddress :: string
  nd_nsTun :: "NetStackTun option"

record ('b, 's, 'd, 'n) usp_env =
  ue_netlink :: "'n netlink"
  ue_ParseKey :: "string \<Rightarrow> error + bytes"
  ue_ipc :: "'d wgDevice"
  ue_fwmark :: int
  CreateTUN :: "string \<Rightarrow> int \<Rightarrow> error option"
  CreateNetTUN :: "netipAddr \<Rightarrow> int \<Rightarrow> error option"
  NewDevice :: 'd
  device_Close :: "'d \<Rightarrow> 'd"
  device_Up :: "'d \<Rightarrow> ('b, 's) ICEBind \<Rightarrow> error option \<times> 'd \<times> ('b, 's) ICEBind"
  ue_packetio :: "'b packetio"
  ue_conn :: "'s PacketConn"

definition usp_newTunUSPDevice ::
  "FilterFn option \<Rightarrow> string \<Rightarrow> WGAddress \<Rightarrow> int \<Rightarrow> string \<Rightarrow> int \<Rightarrow> ('b, 's, 'd) tunUSPDevice" where
  "usp_newTunUSPDevice filterFn name address port key mtu =
     \<lparr>ud_name = name, ud_address = address, ud_port = port, ud_key = key, ud_mtu = mtu,
      ud_iceBind = NewICEBind filterFn, ud_device = None, ud_wrapper = None, ud_udpMux = None,
      ud_configurer = False, ud_configurer_closed = False\<rparr>"

definition netstack_newTunNetstackDevice ::
  "FilterFn option \<Rightarrow> string \<Rightarrow> string \<Rightarrow> WGAddress \<Rightarrow> int \<Rightarrow> string \<Rightarrow> int \<Rightarrow> ('b, 's, 'd) tunNetstackDevice" where
  "netstack_newTunNetstackDevice filterFn listenAddress name address port key mtu =
     \<lparr>ud_name = name, ud_address = address, ud_port = port, ud_key = key, ud_mtu = mtu,
      ud_iceBind = NewICEBind filterFn, ud_device = None, ud_wrapper = None, ud_udpMux = None,
      ud_configurer = False, ud_configurer_closed = False,
      nd_listenAddress = listenAddress, nd_nsTun = None\<rparr>"

definition usp_Create ::
  "('b, 's, 'd, 'n) usp_env \<Rightarrow> ('b, 's, 'd) tunUSPDevice \<times> 'n
     \<Rightarrow> (error + 'd) \<times> ('b, 's, 'd) tunUSPDevice \<times> 'n" where
  "usp_Create E = (\<lambda>(t, n).
     case CreateTUN E (ud_name t) (ud_mtu t) of
       Some err \<Rightarrow> (Inl err, t, n)
     | None \<Rightarrow>
     (let t = t\<lparr>ud_wrapper := Some newDeviceWrapper, ud_device := Some (NewDevice E)\<rparr>
      in case assignAddr (ue_netlink E) (ud_name t) (ud_address t) n of
       (Some err, n) \<Rightarrow> (Inl err, t\<lparr>ud_device := Some (device_Close E (NewDevice E))\<rparr>, n)
     | (None, n) \<Rightarrow>
     (let t = t\<lparr>ud_configurer := True\<rparr>
      in case usp_configureInterface (ue_ParseKey E) (ue_ipc E) (ue_fwmark E) (ud_key t) (ud_port t) (NewDevice E) of
       (Some err, d) \<Rightarrow>
         (Inl err, t\<lparr>ud_device := Some (device_Close E d), ud_configurer_closed := True\<rparr>, n)
     | (None, d) \<Rightarrow> (Inr d, t\<lparr>ud_device := Some d\<rparr>, n))))"

definition netstack_Create ::
  "('b, 's, 'd, 'n) usp_env \<Rightarrow> ('b, 's, 'd) tunNetstackDevice
     \<Rightarrow> (error + 'd) \<times> ('b, 's, 'd) tunNetstackDevice" where
  "netstack_Create E t =
     (case nst_Create (CreateNetTUN E)
             (NewNetStackTun (nd_listenAddress t) (IP_String (wga_IP (ud_address t))) (ud_mtu t)) of
       (Some err, ns) \<Rightarrow> (Inl err, t\<lparr>nd_nsTun := Some ns\<rparr>)
     | (None, ns) \<Rightarrow>
     (let t = t\<lparr>nd_nsTun := Some ns, ud_wrapper := Some newDeviceWrapper, ud_device := Some (NewDevice E), ud_configurer := True\<rparr>
      in case usp_configureInterface (ue_ParseKey E) (ue_ipc E) (ue_fwmark E) (ud_key t) (ud_port t) (NewDevice E) of
       (Some err, d) \<Rightarrow> (Inl err, t\<lparr>nd_nsTun := Some (ns\<lparr>nst_tundev_closed := True\<rparr>), ud_device := Some d\<rparr>)
     | (None, d) \<Rightarrow> (Inr d, t\<lparr>ud_device := Some d\<rparr>)))"

text \<open>\<^verbatim>\<open>Up\<close> and \<^verbatim>\<open>Close\<close> are the same code for both.\<close>

definition usp_Up ::
  "('b, 's, 'd, 'n) usp_env \<Rightarrow> ('b, 's, 'd, 'z) tunUSPDevice_scheme
     \<Rightarrow> (error + ('b, 's) UniversalUDPMuxDefault) \<times> ('b, 's, 'd, 'z) tunUSPDevice_scheme" where
  "usp_Up E t =
     (case ud_device t of
        None \<Rightarrow> (Inl (Errorf ''device is not ready yet''), t)
      | Some d \<Rightarrow>
          (case device_Up E d (ud_iceBind t) of
             (Some err, d, b) \<Rightarrow> (Inl err, t\<lparr>ud_device := Some d, ud_iceBind := b\<rparr>)
           | (None, d, b) \<Rightarrow>
               let t = t\<lparr>ud_device := Some d, ud_iceBind := b\<rparr>
               in case GetICEMux b of
                    Inl err \<Rightarrow> (Inl err, t)
                  | Inr m \<Rightarrow> (Inr m, t\<lparr>ud_udpMux := Some m\<rparr>)))"

definition usp_Close ::
  "('b, 's, 'd, 'n) usp_env \<Rightarrow> ('b, 's, 'd, 'z) tunUSPDevice_scheme
     \<Rightarrow> error option \<times> ('b, 's, 'd, 'z) tunUSPDevice_scheme" where
  "usp_Close E t =
     (let t = (if ud_configurer t then t\<lparr>ud_configurer_closed := True\<rparr> else t);
          t = (case ud_device t of None \<Rightarrow> t | Some d \<Rightarrow> t\<lparr>ud_device := Some (device_Close E d)\<rparr>)
      in case ud_udpMux t of
           None \<Rightarrow> (None, t)
         | Some u \<Rightarrow>
             let (err, m) = mux_Close (ue_packetio E) (udpConn_PacketConn (ue_conn E) (bind_filterFn (ud_iceBind t))) (mux u)
             in (err, t\<lparr>ud_udpMux := Some (u\<lparr>mux := m\<rparr>)\<rparr>))"

definition usp_UpdateAddr ::
  "('b, 's, 'd, 'n) usp_env \<Rightarrow> WGAddress \<Rightarrow> ('b, 's, 'd) tunUSPDevice \<times> 'n
     \<Rightarrow> error option \<times> ('b, 's, 'd) tunUSPDevice \<times> 'n" where
  "usp_UpdateAddr E address = (\<lambda>(t, n).
     let t = t\<lparr>ud_address := address\<rparr>;
         (err, n) = assignAddr (ue_netlink E) (ud_name t) (ud_address t) n
     in (err, t, n))"

text \<open>The network stack keeps its address whatever it is told.\<close>

definition netstack_UpdateAddr ::
  "WGAddress \<Rightarrow> ('b, 's, 'd) tunNetstackDevice \<Rightarrow> error option \<times> ('b, 's, 'd) tunNetstackDevice" where
  "netstack_UpdateAddr address t = (None, t)"

definition usp_tun ::
  "('b, 's, 'd, 'n) usp_env
     \<Rightarrow> (('b, 's, 'd) tunUSPDevice \<times> 'n, 'd, ('b, 's) UniversalUDPMuxDefault) wgTunDevice" where
  "usp_tun E =
     \<lparr>tun_Create = usp_Create E,
      tun_Up = (\<lambda>(t, n). let (r, t) = usp_Up E t in (r, t, n)),
      tun_UpdateAddr = usp_UpdateAddr E,
      tun_WgAddress = (\<lambda>(t, _). ud_address t), tun_DeviceName = (\<lambda>(t, _). ud_name t),
      tun_Close = (\<lambda>(t, n). let (r, t) = usp_Close E t in (r, t, n)),
      tun_Wrapper = (\<lambda>(t, _). ud_wrapper t), tun_set_Wrapper = (\<lambda>w (t, n). (t\<lparr>ud_wrapper := Some w\<rparr>, n))\<rparr>"

definition netstack_tun ::
  "('b, 's, 'd, 'n) usp_env
     \<Rightarrow> (('b, 's, 'd) tunNetstackDevice, 'd, ('b, 's) UniversalUDPMuxDefault) wgTunDevice" where
  "netstack_tun E =
     \<lparr>tun_Create = netstack_Create E, tun_Up = usp_Up E, tun_UpdateAddr = netstack_UpdateAddr,
      tun_WgAddress = ud_address, tun_DeviceName = ud_name, tun_Close = usp_Close E,
      tun_Wrapper = ud_wrapper, tun_set_Wrapper = (\<lambda>w t. t\<lparr>ud_wrapper := Some w\<rparr>)\<rparr>"

section \<open>What the interface object relies on\<close>

text \<open>
  The contract of \<^verbatim>\<open>wgTunDevice\<close>: a device keeps its name, cannot be brought up before it is
  created, and has been created only when creating it was tried.
\<close>

locale tun_contract =
  fixes T :: "('t, 'c, 'u) wgTunDevice" and fresh :: "'t \<Rightarrow> bool"
  assumes up_fresh: "fresh t \<Longrightarrow> \<exists>err. tun_Up T t = (Inl err, t)"
    and close_fresh: "fresh t \<Longrightarrow> tun_Close T t = (None, t)"
    and name_Create: "tun_DeviceName T (snd (tun_Create T t)) = tun_DeviceName T t"
    and name_Up: "tun_DeviceName T (snd (tun_Up T t)) = tun_DeviceName T t"
    and name_UpdateAddr: "tun_DeviceName T (snd (tun_UpdateAddr T a t)) = tun_DeviceName T t"
    and name_Close: "tun_DeviceName T (snd (tun_Close T t)) = tun_DeviceName T t"
    and name_Wrapper: "tun_DeviceName T (tun_set_Wrapper T wr t) = tun_DeviceName T t"
begin

lemma iface_before_Create:
  assumes "fresh (tun w)" and "configurer w = None"
  shows "isl (fst (iface_Up T w)) \<and> iface_Close T w = (None, w)
    \<and> (\<exists>m. iface_UpdatePeer C key ips ka ep psk w = (Some (Panic m), w))"
  using up_fresh [OF assms(1)] close_fresh [OF assms(1)] assms(2)
  by (auto simp: iface_Up_def iface_Close_def iface_UpdatePeer_def on_configurer_def)

lemma iface_keeps_name:
  "iface_Name T (snd (iface_Create T w)) = iface_Name T w"
  "iface_Name T (snd (iface_Up T w)) = iface_Name T w"
  "iface_Name T (snd (iface_UpdateAddr T addr w)) = iface_Name T w"
  "iface_Name T (snd (iface_Close T w)) = iface_Name T w"
  "iface_Name T (snd (iface_SetFilter T f w)) = iface_Name T w"
  "iface_Name T (snd (on_configurer g w)) = iface_Name T w"
  using name_Create [of "tun w"] name_Up [of "tun w"] name_UpdateAddr [of _ "tun w"] name_Close [of "tun w"] name_Wrapper
  by (auto simp: iface_Name_def iface_Create_def iface_Up_def iface_UpdateAddr_def iface_Close_def iface_SetFilter_def
        on_configurer_def split: prod.splits sum.splits option.splits) (metis snd_conv)+

end

interpretation kd: tun_contract "kernel_tun E" "\<lambda>(t, n, k). \<not> kd_link t \<and> kd_udpMux t = None" for E
  by unfold_locales
    (auto simp: kernel_tun_def kernel_Up_def kernel_Close_def kernel_Create_def kernel_UpdateAddr_def Let_def
       split: option.splits prod.splits)

interpretation ud: tun_contract "usp_tun E" "\<lambda>(t, n). ud_device t = None \<and> ud_udpMux t = None \<and> \<not> ud_configurer t" for E
  by unfold_locales
    (auto simp: usp_tun_def usp_Up_def usp_Close_def usp_Create_def usp_UpdateAddr_def Let_def
       split: option.splits prod.splits sum.splits)

interpretation nd: tun_contract "netstack_tun E" "\<lambda>t. ud_device t = None \<and> ud_udpMux t = None \<and> \<not> ud_configurer t" for E
  by unfold_locales
    (auto simp: netstack_tun_def usp_Up_def usp_Close_def netstack_Create_def netstack_UpdateAddr_def Let_def
       split: option.splits prod.splits sum.splits)

section \<open>The link as netlink keeps it\<close>

text \<open>
  What netlink documents of the calls that succeed, as an abstract table of links with their
  addresses and whether they are up: a lookup finds what is there, a deleted link is gone, an added
  one is new and empty, and \<^verbatim>\<open>EEXIST\<close> means that the link or address is there already.
\<close>

definition upd_link :: "(string list \<times> bool \<Rightarrow> string list \<times> bool) \<Rightarrow> string
    \<Rightarrow> (string \<rightharpoonup> string list \<times> bool) \<Rightarrow> (string \<rightharpoonup> string list \<times> bool)" where
  "upd_link f name ls = ls(name := map_option f (ls name))"

definition netlink_ok :: "'n netlink \<Rightarrow> ('n \<Rightarrow> (string \<rightharpoonup> string list \<times> bool)) \<Rightarrow> bool" where
  "netlink_ok N links \<longleftrightarrow>
     (\<forall>name n. (LinkByName N name n = LinkFound \<longrightarrow> links n name \<noteq> None)
             \<and> (LinkByName N name n = LinkNotFound \<longrightarrow> links n name = None))
   \<and> (\<forall>name n n'. LinkDel N name n = (None, n') \<longrightarrow> links n' = (links n)(name := None))
   \<and> (\<forall>name n n'. LinkAdd N name n = (None, n') \<longrightarrow> links n' = (links n)(name \<mapsto> ([], False)))
   \<and> (\<forall>name n n' e. LinkAdd N name n = (Some (e, True), n') \<longrightarrow> links n' = links n \<and> links n name \<noteq> None)
   \<and> (\<forall>name m n n'. LinkSetMTU N name m n = (None, n') \<longrightarrow> links n' = links n)
   \<and> (\<forall>name n n'. LinkSetUp N name n = (None, n') \<longrightarrow> links n' = upd_link (\<lambda>(l, _). (l, True)) name (links n))
   \<and> (\<forall>name n l. AddrList N name n = Inr l \<longrightarrow> (\<exists>u. links n name = Some (l, u)))
   \<and> (\<forall>name a n n'. AddrDel N name a n = (None, n') \<longrightarrow> links n' = upd_link (\<lambda>(l, u). (remove1 a l, u)) name (links n))
   \<and> (\<forall>name a n n'. AddrAdd N name a n = (None, n') \<longrightarrow> links n' = upd_link (\<lambda>(l, u). (l @ [a], u)) name (links n))
   \<and> (\<forall>name a n n' e. AddrAdd N name a n = (Some (e, True), n') \<longrightarrow>
        links n' = links n \<and> (\<exists>l u. links n name = Some (l, u) \<and> a \<in> set l))"

lemma netlink_okD:
  assumes "netlink_ok N links"
  shows "LinkByName N name n = LinkNotFound \<Longrightarrow> links n name = None"
    and "LinkDel N name n = (None, n') \<Longrightarrow> links n' = (links n)(name := None)"
    and "LinkAdd N name n = (None, n') \<Longrightarrow> links n' = (links n)(name \<mapsto> ([], False))"
    and "LinkAdd N name n = (Some (e, True), n') \<Longrightarrow> links n' = links n \<and> links n name \<noteq> None"
    and "LinkSetMTU N name m n = (None, n') \<Longrightarrow> links n' = links n"
    and "LinkSetUp N name n = (None, n') \<Longrightarrow> links n' = upd_link (\<lambda>(l, _). (l, True)) name (links n)"
    and "AddrList N name n = Inr l \<Longrightarrow> \<exists>u. links n name = Some (l, u)"
    and "AddrDel N name a n = (None, n') \<Longrightarrow> links n' = upd_link (\<lambda>(l, u). (remove1 a l, u)) name (links n)"
    and "AddrAdd N name a n = (None, n') \<Longrightarrow> links n' = upd_link (\<lambda>(l, u). (l @ [a], u)) name (links n)"
    and "AddrAdd N name a n = (Some (e, True), n') \<Longrightarrow>
       links n' = links n \<and> (\<exists>l u. links n name = Some (l, u) \<and> a \<in> set l)"
  using assms unfolding netlink_ok_def by (elim conjE, (metis | simp))+

lemma recreate_ok:
  assumes "netlink_ok N links" and "recreate N name n = (None, n')"
  shows "links n' = (links n)(name \<mapsto> ([], False))"
proof -
  have add: "links n2 = (links n1)(name \<mapsto> ([], False))"
    if "recreate_add N name n1 = (None, n2)" and "links n1 name = None" for n1 n2
    using that netlink_okD(3,4) [OF assms(1), of name n1]
    by (fastforce simp: recreate_add_def split: prod.splits option.splits bool.splits)
  show ?thesis
  proof (cases "LinkByName N name n")
    case LinkFound
    then obtain n1 where "LinkDel N name n = (None, n1)" and "recreate_add N name n1 = (None, n')"
      using assms(2) by (auto simp: recreate_def split: prod.splits option.splits)
    with add [of n1 n'] netlink_okD(2) [OF assms(1)] show ?thesis by fastforce
  next
    case LinkNotFound
    with assms(2) add [of n n'] netlink_okD(1) [OF assms(1)] show ?thesis by (simp add: recreate_def)
  next
    case (LinkByNameError err)
    with assms(2) show ?thesis by (simp add: recreate_def)
  qed
qed

lemma del_addrs_ok:
  assumes "netlink_ok N links"
  shows "del_addrs N name as n = (None, n') \<Longrightarrow> links n name = Some (as, u) \<Longrightarrow>
     links n' = (links n)(name \<mapsto> ([], u))"
proof (induction as arbitrary: n)
  case (Cons a as)
  then obtain n1 where n1: "AddrDel N name a n = (None, n1)" "del_addrs N name as n1 = (None, n')"
    by (auto split: prod.splits option.splits)
  have "links n1 = (links n)(name \<mapsto> (as, u))"
    using netlink_okD(8) [OF assms n1(1)] Cons.prems(2) by (simp add: upd_link_def)
  moreover from this have "links n' = (links n1)(name \<mapsto> ([], u))" by (intro Cons.IH [OF n1(2)]) simp
  ultimately show ?case by (simp only: fun_upd_upd)
qed (auto simp: fun_upd_idem)

lemma assignAddr_ok:
  assumes "netlink_ok N links" and "assignAddr N name address n = (None, n')"
  shows "\<exists>addr. ParseAddr N (WGAddress_String address) = Inr addr \<and> links n' = (links n)(name \<mapsto> ([addr], True))"
proof -
  obtain as n1 addr r n2 where as: "AddrList N name n = Inr as" and n1: "del_addrs N name as n = (None, n1)"
    and addr: "ParseAddr N (WGAddress_String address) = Inr addr"
    and n2: "AddrAdd N name addr n1 = (r, n2)" and r: "r = None \<or> (\<exists>e. r = Some (e, True))"
    and up: "LinkSetUp N name n2 = (None, n')"
    using assms(2)
    by (auto simp: assignAddr_def link_up_def split: sum.splits prod.splits option.splits bool.splits)
  obtain u where "links n name = Some (as, u)" using netlink_okD(7) [OF assms(1) as] by blast
  from del_addrs_ok [OF assms(1) n1 this] have n1': "links n1 = (links n)(name \<mapsto> ([], u))" .
  have "links n2 = (links n)(name \<mapsto> ([addr], u))"
    using r n2 netlink_okD(9) [OF assms(1), of name addr n1 n2] netlink_okD(10) [OF assms(1), of name addr n1 _ n2]
    by (auto simp: n1' upd_link_def)
  with netlink_okD(6) [OF assms(1) up] addr show ?thesis by (simp add: upd_link_def)
qed

lemma kernel_Create_ok:
  assumes "netlink_ok (ke_netlink E) links" and "kernel_Create E (t, n, k) = (Inr c, t', n', k')"
  shows "\<exists>addr. ParseAddr (ke_netlink E) (WGAddress_String (kd_address t)) = Inr addr
       \<and> links n' = (links n)(kd_name t \<mapsto> ([addr], True))
       \<and> t' = t\<lparr>kd_link := True\<rparr> \<and> c = k'
       \<and> kernel_configureInterface (ke_ParseKey E) (ke_wgctrl E) (kd_name t) (ke_fwmark E) (kd_key t) (kd_wgPort t) k
           = (None, k')"
proof -
  obtain n1 n2 where "recreate (ke_netlink E) (kd_name t) n = (None, n1)"
    and n2: "assignAddr (ke_netlink E) (kd_name t) (kd_address t) n1 = (None, n2)"
    and mtu: "LinkSetMTU (ke_netlink E) (kd_name t) (kd_mtu t) n2 = (None, n')"
    and rest: "t' = t\<lparr>kd_link := True\<rparr>" "c = k'"
      "kernel_configureInterface (ke_ParseKey E) (ke_wgctrl E) (kd_name t) (ke_fwmark E) (kd_key t) (kd_wgPort t) k
         = (None, k')"
    using assms(2)
    by (auto simp: kernel_Create_def setMTU_def Let_def split: prod.splits option.splits)
  then have n1: "links n1 = (links n)(kd_name t \<mapsto> ([], False))" using recreate_ok [OF assms(1)] by blast
  with assignAddr_ok [OF assms(1) n2] netlink_okD(5) [OF assms(1) mtu] rest show ?thesis by auto
qed

lemma kernel_Up_ok:
  assumes "kernel_Up E (t, n, k) = (Inr u, t1, n1, k1)" and "kd_udpMux t = None"
  shows "t1 = t\<lparr>kd_udpMux := Some u\<rparr>" and "kd_link t" and "k1 = k" and "LinkSetUp (ke_netlink E) (kd_name t) n = (None, n1)"
    and "\<not> mux_closed (mux u)"
proof -
  obtain s where u: "u = NewUniversalUDPMuxDefault (shared_PacketConn (ke_write E) (raw_Close (ke_raw E))) None
        (s, ke_net E) 0 (ke_ifaces E)"
    and t1: "t1 = t\<lparr>kd_udpMux := Some u\<rparr>" and rest: "kd_link t" "k1 = k" "LinkSetUp (ke_netlink E) (kd_name t) n = (None, n1)"
    using assms by (auto simp: kernel_Up_def link_up_def Let_def split: prod.splits option.splits if_splits)
  show "t1 = t\<lparr>kd_udpMux := Some u\<rparr>" "kd_link t" "k1 = k" "LinkSetUp (ke_netlink E) (kd_name t) n = (None, n1)"
    using t1 rest by simp_all
  show "\<not> mux_closed (mux u)" by (simp add: u NewUniversalUDPMuxDefault_def NewUDPMuxDefault_def Let_def)
qed

lemma kernel_Close_ok:
  assumes "kernel_Close E (t, n, k) = (err, t', n', k')" and "kd_link t" and "kd_udpMux t = Some u"
    and "\<not> mux_closed (mux u)"
  shows "n' = snd (LinkDel (ke_netlink E) (kd_name t) n) \<and> kd_cancelled t'
       \<and> (\<exists>u'. kd_udpMux t' = Some u' \<and> mux_closed (mux u') \<and> connsIPv4 (mux u') = [] \<and> connsIPv6 (mux u') = []
            \<and> ss_done (fst (inner (UDPConn (mux u')))))"
proof -
  have closed: "ss_done (fst (inner c))"
    if "pc_Close (udpConn_PacketConn (shared_PacketConn v cl) None) x = (e, c)" for v cl x e c
    using that by (auto simp: udpConn_PacketConn_def shared_PacketConn_def sharedsock_Close_def Let_def split: prod.splits)
  from assms show ?thesis
    by (auto simp: kernel_Close_def mux_Close_def link_Close_def Let_def split: prod.splits dest: closed)
qed

section \<open>Properties\<close>

text \<open>C31. Creating the kernel device leaves exactly the link it should, whatever was there before:
  with its own address alone and up, every other link untouched, and WireGuard configured with the
  device's key and port.\<close>

theorem kernel_Create_contract:
  assumes "netlink_ok (ke_netlink E) links" and "kernel_Create E (t, n, k) = (Inr c, t', n', k')"
  shows "\<exists>addr. ParseAddr (ke_netlink E) (WGAddress_String (kd_address t)) = Inr addr
       \<and> links n' = (links n)(kd_name t \<mapsto> ([addr], True))
       \<and> t' = t\<lparr>kd_link := True\<rparr> \<and> c = k'
       \<and> kernel_configureInterface (ke_ParseKey E) (ke_wgctrl E) (kd_name t) (ke_fwmark E) (kd_key t) (kd_wgPort t) k
           = (None, k')"
  using assms by (rule kernel_Create_ok)

text \<open>The life of the kernel device: bringing it up twice gives the same mux and changes nothing
  the second time; closing it deletes the link, closes the mux for good and stops its socket; but the
  device keeps the closed mux, and bringing it up again returns that one with no error.\<close>

theorem kernel_device_lifecycle:
  assumes "kernel_Up E (t, n, k) = (Inr u, t1, n1, k1)"
    and "kernel_Close E (t1, n1, k1) = (err, t2, n2, k2)" and "kd_udpMux t = None"
  shows "kernel_Up E (t1, n1, k1) = (Inr u, t1, n1, k1)
       \<and> n2 = snd (LinkDel (ke_netlink E) (kd_name t) n1) \<and> kd_cancelled t2
       \<and> (\<exists>u2. kd_udpMux t2 = Some u2 \<and> mux_closed (mux u2) \<and> connsIPv4 (mux u2) = [] \<and> connsIPv6 (mux u2) = []
            \<and> ss_done (fst (inner (UDPConn (mux u2))))
            \<and> kernel_Up E (t2, n2, k2) = (Inr u2, t2, n2, k2))"
proof -
  note up = kernel_Up_ok [OF assms(1,3)]
  have again: "kernel_Up E (t1, n1, k1) = (Inr u, t1, n1, k1)" by (simp add: kernel_Up_def up(1))
  have "kd_link t1" "kd_udpMux t1 = Some u" "kd_name t1 = kd_name t" using up(1,2) by simp_all
  with kernel_Close_ok [OF assms(2) _ _ up(5)] show ?thesis
    unfolding again by (auto simp: kernel_Up_def)
qed

text \<open>An interface object that has not been created is not ready, whichever of the three devices it
  has: bringing it up is an error and changes nothing, closing it is harmless, and updating a peer
  panics; and no operation ever changes its name.\<close>

theorem new_interface_is_not_ready:
  fixes E :: "('b, 'n, 'k, 'r, 'raw, 'w) kernel_env" and F :: "('b, 's, 'd, 'm) usp_env"
  shows "let kw = new_iface (kernel_newTunDevice name addr port key mtu, n, k) False;
             uw = new_iface (usp_newTunUSPDevice ff name addr port key mtu, m) True;
             nw = new_iface (netstack_newTunNetstackDevice ff la name addr port key mtu) True
     in isl (fst (iface_Up (kernel_tun E) kw)) \<and> iface_Close (kernel_tun E) kw = (None, kw)
       \<and> (\<exists>p. iface_UpdatePeer C pk ips ka ep psk kw = (Some (Panic p), kw))
       \<and> isl (fst (iface_Up (usp_tun F) uw)) \<and> iface_Close (usp_tun F) uw = (None, uw)
       \<and> (\<exists>p. iface_UpdatePeer C' pk ips ka ep psk uw = (Some (Panic p), uw))
       \<and> isl (fst (iface_Up (netstack_tun F) nw)) \<and> iface_Close (netstack_tun F) nw = (None, nw)
       \<and> (\<exists>p. iface_UpdatePeer C' pk ips ka ep psk nw = (Some (Panic p), nw))
       \<and> iface_Name (kernel_tun E) (snd (iface_Create (kernel_tun E) kw)) = name
       \<and> iface_Name (usp_tun F) (snd (iface_Create (usp_tun F) uw)) = name
       \<and> iface_Name (netstack_tun F) (snd (iface_Create (netstack_tun F) nw)) = name"
proof -
  define kw :: "(('b, 'r SharedSocket \<times> 'w) tunKernelDevice \<times> 'n \<times> 'k, 'k) WGIface" where "kw = new_iface (kernel_newTunDevice name addr port key mtu, n, k) False"
  define uw :: "(('b, 's, 'd) tunUSPDevice \<times> 'm, 'd) WGIface" where "uw = new_iface (usp_newTunUSPDevice ff name addr port key mtu, m) True"
  define nw :: "(('b, 's, 'd) tunNetstackDevice, 'd) WGIface" where "nw = new_iface (netstack_newTunNetstackDevice ff la name addr port key mtu) True"
  have "tun kw = (kernel_newTunDevice name addr port key mtu, n, k)" "configurer kw = None"
    "tun uw = (usp_newTunUSPDevice ff name addr port key mtu, m)" "configurer uw = None"
    "tun nw = netstack_newTunNetstackDevice ff la name addr port key mtu" "configurer nw = None"
    by (simp_all add: kw_def uw_def nw_def new_iface_def)
  then show ?thesis
    using kd.iface_before_Create [of kw E C pk ips ka ep psk] ud.iface_before_Create [of uw F C' pk ips ka ep psk]
      nd.iface_before_Create [of nw F C' pk ips ka ep psk]
      kd.iface_keeps_name(1) [of E kw] ud.iface_keeps_name(1) [of F uw] nd.iface_keeps_name(1) [of F nw]
    unfolding kw_def [symmetric] uw_def [symmetric] nw_def [symmetric] Let_def
    by (simp add: kernel_newTunDevice_def usp_newTunUSPDevice_def netstack_newTunNetstackDevice_def
          iface_Name_def kernel_tun_def usp_tun_def netstack_tun_def)
qed

subsection \<open>A concrete system\<close>

definition table_netlink :: "(string \<rightharpoonup> string list \<times> bool) netlink" where
  "table_netlink =
     \<lparr>LinkByName = (\<lambda>name n. if n name = None then LinkNotFound else LinkFound),
      LinkDel = (\<lambda>name n. (None, n(name := None))),
      LinkAdd = (\<lambda>name n. if n name = None then (None, n(name \<mapsto> ([], False))) else (Some (EnvErr ''EEXIST'', True), n)),
      LinkSetMTU = (\<lambda>_ _ n. (None, n)),
      LinkSetUp = (\<lambda>name n. (None, upd_link (\<lambda>(l, _). (l, True)) name n)),
      AddrList = (\<lambda>name n. case n name of None \<Rightarrow> Inl (EnvErr ''ENODEV'') | Some (l, _) \<Rightarrow> Inr l),
      AddrDel = (\<lambda>name a n. (None, upd_link (\<lambda>(l, u). (remove1 a l, u)) name n)),
      ParseAddr = Inr,
      AddrAdd = (\<lambda>name a n. (None, upd_link (\<lambda>(l, u). (l @ [a], u)) name n))\<rparr>"

lemma table_netlink_ok: "netlink_ok table_netlink id"
  by (auto simp: netlink_ok_def table_netlink_def split: option.splits)

definition table_env :: "(fifo, string \<rightharpoonup> string list \<times> bool, WgConf list, unit, bpf_instr list, unit) kernel_env" where
  "table_env =
     \<lparr>ke_netlink = table_netlink, ke_ParseKey = (\<lambda>_. Inr []),
      ke_wgctrl = \<lparr>wg_New = None, wg_Device = (\<lambda>_ _. Inr []), wg_ConfigureDevice = (\<lambda>_ c k. (None, k @ [c])),
                   Key_String = (\<lambda>_. [])\<rparr>,
      ke_fwmark = 0,
      ke_raw = \<lparr>netroute_New = Inr (), Socket4 = Inr 4, SetSocketMark = (\<lambda>_. None), Socket6 = Inl EOF,
                bpf_Assemble = Inr, SetBPF = (\<lambda>_ _. None), raw_Close = (\<lambda>_. None)\<rparr>,
      ke_write = \<lparr>Route = (\<lambda>_ _. Inr [127, 0, 0, 1]), serialize = (\<lambda>_ _ _. Inr), Sendto = (\<lambda>_ _ _ w. (None, w))\<rparr>,
      ke_net = (), ke_ifaces = Inr [], ke_packetio = fifo_io\<rparr>"

definition demo_wga :: WGAddress where
  "demo_wga = \<lparr>wga_IP = [10, 0, 0, 1], wga_Network = \<lparr>net_IP = [10, 0, 0, 0], net_Mask = [255, 255, 255, 0]\<rparr>\<rparr>"

definition demo_tun :: "(fifo, unit SharedSocket \<times> unit) tunKernelDevice" where
  "demo_tun = kernel_newTunDevice ''wt0'' demo_wga 51820 ''key'' 1280"

theorem kernel_Create_contract_witness:
  "\<exists>t' n' k'. kernel_Create table_env (demo_tun, [''wt0'' \<mapsto> ([''1.1.1.1/8'', ''2.2.2.2/8''], True), ''lo'' \<mapsto> ([], True)], [])
       = (Inr k', t', n', k')
     \<and> n' = [''wt0'' \<mapsto> ([WGAddress_String demo_wga], True), ''lo'' \<mapsto> ([], True)]"
proof -
  let ?n = "[''wt0'' \<mapsto> ([''1.1.1.1/8'', ''2.2.2.2/8''], True), ''lo'' \<mapsto> ([], True)]"
  obtain t' n' k' where run: "kernel_Create table_env (demo_tun, ?n, []) = (Inr k', t', n', k')"
    by (simp add: kernel_Create_def table_env_def demo_tun_def kernel_newTunDevice_def table_netlink_def recreate_def
          recreate_add_def assignAddr_def link_up_def setMTU_def upd_link_def kernel_configureInterface_def configure_def
          wrap_error_def Let_def)
  have ok: "netlink_ok (ke_netlink table_env) id" by (simp add: table_env_def table_netlink_ok)
  from kernel_Create_contract [OF ok run] run show ?thesis
    by (auto simp: table_env_def table_netlink_def demo_tun_def kernel_newTunDevice_def fun_upd_twist)
qed

theorem kernel_device_lifecycle_witness:
  "\<exists>u t2 k2 u2. kernel_Up table_env (demo_tun\<lparr>kd_link := True\<rparr>, Map.empty, []) = (Inr u, (demo_tun\<lparr>kd_link := True, kd_udpMux := Some u\<rparr>), Map.empty, [])
     \<and> kernel_Up table_env (t2, Map.empty, k2) = (Inr u2, t2, Map.empty, k2) \<and> mux_closed (mux u2)"
proof -
  let ?t = "demo_tun\<lparr>kd_link := True\<rparr>"
  obtain u where up: "kernel_Up table_env (?t, Map.empty, []) = (Inr u, ?t\<lparr>kd_udpMux := Some u\<rparr>, Map.empty, [])"
    by (simp add: kernel_Up_def table_env_def demo_tun_def kernel_newTunDevice_def table_netlink_def link_up_def
          upd_link_def Listen_def GetInstructions_def rawInstructions_def Let_def)
  obtain err t2 n2 k2 where close: "kernel_Close table_env (?t\<lparr>kd_udpMux := Some u\<rparr>, Map.empty, []) = (err, t2, n2, k2)"
    by (metis prod_cases4)
  have none: "kd_udpMux ?t = None" by (simp add: demo_tun_def kernel_newTunDevice_def)
  have del: "LinkDel (ke_netlink table_env) name Map.empty = (None, Map.empty)" for name
    by (simp add: table_env_def table_netlink_def)
  from kernel_device_lifecycle [OF up close none] up show ?thesis
    unfolding del by auto
qed

section \<open>The proxy of the network stack\<close>

lemma usp_Close_keeps_stack [simp]: "nd_nsTun (snd (usp_Close E t)) = nd_nsTun t"
  by (simp add: usp_Close_def Let_def case_prod_beta split: option.split)

text \<open>Closing a device on the network stack does not close the stack: whatever its SOCKS proxy has
  come to since the device was created, closing the device leaves it as it is, listening and
  serving.\<close>

theorem netstack_Close_leaves_proxy:
  assumes "netstack_Create E t = (Inr c, t1)"
  shows "\<exists>ns p0. nd_nsTun t1 = Some ns \<and> nst_proxy ns = Some p0 \<and> proxy_reachable lclose (nd_listenAddress t) p0
       \<and> (\<forall>p. nd_nsTun (snd (tun_Close (netstack_tun E) (t1\<lparr>nd_nsTun := Some (ns\<lparr>nst_proxy := Some p\<rparr>)\<rparr>)))
              = Some (ns\<lparr>nst_proxy := Some p\<rparr>))"
proof -
  obtain ns where ns: "nst_Create (CreateNetTUN E)
      (NewNetStackTun (nd_listenAddress t) (IP_String (wga_IP (ud_address t))) (ud_mtu t)) = (None, ns)"
    "nd_nsTun t1 = Some ns"
    using assms by (auto simp: netstack_Create_def Let_def split: prod.splits option.splits)
  then obtain p where p: "NewSocks5 = Inr p" "nst_proxy ns = Some (go_serve (nd_listenAddress t) p)"
    by (auto simp: nst_Create_def NewNetStackTun_def Let_def split: sum.splits option.splits)
  show ?thesis using ns(2) p proxy_init [OF p(1)] by (auto simp: netstack_tun_def)
qed

definition demo_usp :: "(fifo, unit SharedSocket \<times> unit, unit, string \<rightharpoonup> string list \<times> bool) usp_env" where
  "demo_usp =
     \<lparr>ue_netlink = table_netlink, ue_ParseKey = (\<lambda>_. Inr []), ue_ipc = \<lparr>IpcSet = (\<lambda>_ d. (None, d)), IpcGet = (\<lambda>_. Inr [])\<rparr>,
      ue_fwmark = 0, CreateTUN = (\<lambda>_ _. None), CreateNetTUN = (\<lambda>_ _. None), NewDevice = (), device_Close = id,
      device_Up = (\<lambda>d b. (None, d, b)), ue_packetio = ke_packetio table_env,
      ue_conn = shared_PacketConn (ke_write table_env) (\<lambda>_. None)\<rparr>"

theorem netstack_Close_leaves_proxy_witness:
  "\<exists>c t1 ns. netstack_Create demo_usp (netstack_newTunNetstackDevice None (ListenAddr '''') ''wt0'' demo_wga 51820 ''key'' 1280)
       = (Inr c, t1) \<and> nd_nsTun t1 = Some ns
     \<and> (\<forall>p. nd_nsTun (snd (tun_Close (netstack_tun demo_usp) (t1\<lparr>nd_nsTun := Some (ns\<lparr>nst_proxy := Some p\<rparr>)\<rparr>)))
            = Some (ns\<lparr>nst_proxy := Some p\<rparr>))"
proof -
  define t :: "(fifo, unit SharedSocket \<times> unit, unit) tunNetstackDevice"
    where "t = netstack_newTunNetstackDevice None (ListenAddr '''') ''wt0'' demo_wga 51820 ''key'' 1280"
  have "IP_String (wga_IP (ud_address t)) = dotted [10, 0, 0, 1]"
    by (simp add: t_def demo_wga_def IP_String_def To4_def netstack_newTunNetstackDevice_def)
  then have parse: "netip_ParseAddr (IP_String (wga_IP (ud_address t))) = Inr (Addr4 [10, 0, 0, 1])"
    using netip_ParseAddr_dotted [of "[10, 0, 0, 1]"] by simp
  obtain t1 where run: "netstack_Create demo_usp t = (Inr (), t1)"
    by (simp add: netstack_Create_def nst_Create_def NewNetStackTun_def parse NewSocks5_def demo_usp_def
        usp_configureInterface_def Let_def)
  from netstack_Close_leaves_proxy [OF run, of "\<lambda>_. None"] run show ?thesis unfolding t_def by blast
qed

end
