(* ===== verification/Uapi.thy ===== *)
theory Uapi
  imports Wg_Iface Std_Net
begin

text \<open>
  The UAPI listener of the user space configurer (\<^verbatim>\<open>startUAPI\<close> and \<^verbatim>\<open>close\<close> of
  \<^verbatim>\<open>iface/wg_configurer_usp.go\<close> with \<^verbatim>\<open>iface/uapi.go\<close> and \<^verbatim>\<open>iface/uapi_windows.go\<close>), the log level of the
  device (\<^verbatim>\<open>iface/wg_log.go\<close>), and the network interface behind the interface object.  The sockets of
  wireguard-go and the file system are operations on \<open>'o\<close>; \<open>goos\<close> is \<^verbatim>\<open>runtime.GOOS\<close>, which also selects
  the file that is compiled.
\<close>

section \<open>Opening\<close>

text \<open>\<open>Stat\<close> tells whether there is an entry; the error of \<open>os_Remove\<close> is dropped.\<close>

record 'o uapi_os =
  UAPIOpen :: "string \<Rightarrow> 'o \<Rightarrow> (error + nat) \<times> 'o"
  UAPIListen :: "string \<Rightarrow> nat \<Rightarrow> 'o \<Rightarrow> (error + nat) \<times> 'o"
  UAPIListen_windows :: "string \<Rightarrow> 'o \<Rightarrow> (error + nat) \<times> 'o"
  listener_Close :: "nat \<Rightarrow> 'o \<Rightarrow> error option \<times> 'o"
  Stat :: "string \<Rightarrow> 'o \<Rightarrow> bool"
  os_Remove :: "string \<Rightarrow> 'o \<Rightarrow> 'o"

definition openUAPI :: "'o uapi_os \<Rightarrow> string \<Rightarrow> 'o \<Rightarrow> (error + nat) \<times> 'o" where
  "openUAPI U deviceName os =
     (case UAPIOpen U deviceName os of
        (Inl err, os) \<Rightarrow> (Inl err, os)
      | (Inr uapiSock, os) \<Rightarrow> UAPIListen U deviceName uapiSock os)"

definition openUAPI_windows :: "'o uapi_os \<Rightarrow> string \<Rightarrow> 'o \<Rightarrow> (error + nat) \<times> 'o" where
  "openUAPI_windows U deviceName = UAPIListen_windows U deviceName"

section \<open>The configurer\<close>

text \<open>The device of the configurer is the one the commands are sent to; it is passed beside it.\<close>

record wgUSPConfigurer =
  wc_deviceName :: string
  wc_uapiListener :: "nat option"

definition startUAPI :: "string \<Rightarrow> 'o uapi_os \<Rightarrow> wgUSPConfigurer \<Rightarrow> 'o \<Rightarrow> wgUSPConfigurer \<times> 'o" where
  "startUAPI goos U t os =
     (case (if goos = ''windows'' then openUAPI_windows else openUAPI) U (wc_deviceName t) os of
        (Inl err, os) \<Rightarrow> (t\<lparr>wc_uapiListener := None\<rparr>, os)
      | (Inr l, os) \<Rightarrow> (t\<lparr>wc_uapiListener := Some l\<rparr>, os))"

text \<open>
  The goroutine of \<^verbatim>\<open>startUAPI\<close> on what \<^verbatim>\<open>Accept\<close> returns: the connections given to \<^verbatim>\<open>IpcHandle\<close>, and
  whether it still waits for more.
\<close>

fun uapi_accept_loop :: "(error + 'c) list \<Rightarrow> 'c list \<times> bool" where
  "uapi_accept_loop [] = ([], True)"
| "uapi_accept_loop (Inl uapiErr # rs) = ([], False)"
| "uapi_accept_loop (Inr uapiConn # rs) = (let (hs, waits) = uapi_accept_loop rs in (uapiConn # hs, waits))"

definition newWGUSPConfigurer :: "string \<Rightarrow> 'o uapi_os \<Rightarrow> string \<Rightarrow> 'o \<Rightarrow> wgUSPConfigurer \<times> 'o" where
  "newWGUSPConfigurer goos U deviceName os =
     startUAPI goos U \<lparr>wc_deviceName = deviceName, wc_uapiListener = None\<rparr> os"

definition sockPath :: "string \<Rightarrow> string" where
  "sockPath deviceName = ''/var/run/wireguard/'' @ deviceName @ ''.sock''"

definition usp_configurer_close :: "string \<Rightarrow> 'o uapi_os \<Rightarrow> wgUSPConfigurer \<Rightarrow> 'o \<Rightarrow> 'o" where
  "usp_configurer_close goos U t os =
     (let os = (case wc_uapiListener t of None \<Rightarrow> os | Some l \<Rightarrow> snd (listener_Close U l os))
      in if goos = ''linux'' \<and> Stat U (sockPath (wc_deviceName t)) os
         then os_Remove U (sockPath (wc_deviceName t)) os
         else os)"

section \<open>The log level and the network interface\<close>

text \<open>The levels of wireguard-go's \<^verbatim>\<open>device.NewLogger\<close>.\<close>

datatype LogLevel = LogLevelSilent | LogLevelError | LogLevelVerbose

definition wgLogLevel :: "string \<Rightarrow> LogLevel" where
  "wgLogLevel NB_WG_DEBUG = (if NB_WG_DEBUG = ''true'' then LogLevelVerbose else LogLevelSilent)"

text \<open>The zero value of \<^verbatim>\<open>net.Interface\<close> with a name stands in for one that is not found.\<close>

definition ToInterface ::
  "(string \<Rightarrow> error + netInterface) \<Rightarrow> ('t, 'c, 'u) wgTunDevice \<Rightarrow> ('t, 'c) WGIface \<Rightarrow> netInterface" where
  "ToInterface byName T w =
     (case byName (tun_DeviceName T (tun w)) of
        Inl _ \<Rightarrow> \<lparr>nif_Name = tun_DeviceName T (tun w), nif_Index = 0, nif_MTU = 0, nif_Flags = 0\<rparr>
      | Inr intf \<Rightarrow> intf)"

section \<open>Lemmas\<close>

text \<open>
  What is documented of the sockets and the file system: a listener that is opened is a new one, one that
  is closed without an error listens no longer, and an entry that is removed is gone.
\<close>

definition uapi_os_ok :: "'o uapi_os \<Rightarrow> ('o \<Rightarrow> nat set) \<Rightarrow> ('o \<Rightarrow> string set) \<Rightarrow> bool" where
  "uapi_os_ok U listening entries \<longleftrightarrow>
     (\<forall>n os r os'. UAPIOpen U n os = (r, os') \<longrightarrow> listening os' = listening os)
   \<and> (\<forall>n f os err os'. UAPIListen U n f os = (Inl err, os') \<longrightarrow> listening os' = listening os)
   \<and> (\<forall>n f os l os'. UAPIListen U n f os = (Inr l, os') \<longrightarrow> l \<notin> listening os \<and> listening os' = insert l (listening os))
   \<and> (\<forall>l os os'. listener_Close U l os = (None, os') \<longrightarrow> listening os' = listening os - {l})
   \<and> (\<forall>p os. Stat U p os \<longleftrightarrow> p \<in> entries os)
   \<and> (\<forall>p os. listening (os_Remove U p os) = listening os \<and> entries (os_Remove U p os) = entries os - {p})"

lemma uapi_os_okD:
  assumes "uapi_os_ok U listening entries"
  shows "UAPIOpen U n os = (r, os') \<Longrightarrow> listening os' = listening os"
    and "UAPIListen U n f os = (Inl err, os') \<Longrightarrow> listening os' = listening os"
    and "UAPIListen U n f os = (Inr l, os') \<Longrightarrow> l \<notin> listening os \<and> listening os' = insert l (listening os)"
    and "listener_Close U l os = (None, os') \<Longrightarrow> listening os' = listening os - {l}"
    and "Stat U p os \<longleftrightarrow> p \<in> entries os"
    and "listening (os_Remove U p os) = listening os" "entries (os_Remove U p os) = entries os - {p}"
  using assms unfolding uapi_os_ok_def by (elim conjE, (metis | simp))+

lemma openUAPI_listening:
  assumes "uapi_os_ok U listening entries" and "openUAPI U n os = (r, os')"
  shows "case r of Inl _ \<Rightarrow> listening os' = listening os
           | Inr l \<Rightarrow> l \<notin> listening os \<and> listening os' = insert l (listening os)"
proof -
  obtain r1 os1 where r1: "UAPIOpen U n os = (r1, os1)" by fastforce
  note os1 = uapi_os_okD(1) [OF assms(1) r1]
  show ?thesis
  proof (cases r1)
    case (Inl err)
    then show ?thesis using assms(2) os1 by (auto simp: openUAPI_def r1)
  next
    case (Inr f)
    then have "UAPIListen U n f os1 = (r, os')" using assms(2) by (simp add: openUAPI_def r1)
    then show ?thesis using uapi_os_okD(2,3) [OF assms(1)] os1 by (cases r) force+
  qed
qed

lemma uapi_accept_loop_prefix:
  "fst (uapi_accept_loop rs) = map projr (takeWhile (\<lambda>r. \<not> isl r) rs)"
  "snd (uapi_accept_loop rs) \<longleftrightarrow> list_all (\<lambda>r. \<not> isl r) rs"
  by (induction rs rule: uapi_accept_loop.induct) (auto simp: Let_def case_prod_beta)

section \<open>Properties\<close>

text \<open>A configurer that is made and closed leaves no listener behind: with an error on opening it has
  none and listens to nothing new; otherwise exactly one listener is open until it is closed.  On Linux
  no socket file of the device is left either.\<close>

theorem uapi_open_close:
  assumes "uapi_os_ok U listening entries" and "goos \<noteq> ''windows''"
    and "newWGUSPConfigurer goos U name os = (t, os1)"
    and "\<And>l os'. fst (listener_Close U l os') = None"
  shows "(case wc_uapiListener t of
            None \<Rightarrow> listening os1 = listening os
          | Some l \<Rightarrow> l \<notin> listening os \<and> listening os1 = insert l (listening os))
       \<and> listening (usp_configurer_close goos U t os1) = listening os
       \<and> (if goos = ''linux'' then sockPath name \<notin> entries (usp_configurer_close goos U t os1) else True)"
proof -
  obtain r where op: "openUAPI U name os = (r, os1)"
    and t: "t = \<lparr>wc_deviceName = name, wc_uapiListener = (case r of Inl _ \<Rightarrow> None | Inr l \<Rightarrow> Some l)\<rparr>"
    using assms(2,3)
    by (cases "openUAPI U name os") (auto simp: newWGUSPConfigurer_def startUAPI_def split: sum.splits)
  have closed: "listening (snd (listener_Close U l os1)) = listening os1 - {l}" for l
    using uapi_os_okD(4) [OF assms(1)] assms(4) by (metis prod.collapse)
  from openUAPI_listening [OF assms(1) op] show ?thesis
    using uapi_os_okD(5-7) [OF assms(1)]
    by (auto simp: t usp_configurer_close_def closed Let_def split: sum.splits)
qed

definition table_uapi :: "(nat list \<times> string list) uapi_os" where
  "table_uapi =
     \<lparr>UAPIOpen = (\<lambda>n os. (Inr 0, os)),
      UAPIListen = (\<lambda>n f (ls, es). let l = Suc (Max (insert 0 (set ls))) in (Inr l, (l # ls, sockPath n # es))),
      UAPIListen_windows = (\<lambda>n os. (Inl EOF, os)),
      listener_Close = (\<lambda>l (ls, es). (None, (removeAll l ls, es))),
      Stat = (\<lambda>p (ls, es). p \<in> set es),
      os_Remove = (\<lambda>p (ls, es). (ls, removeAll p es))\<rparr>"

lemma table_uapi_ok: "uapi_os_ok table_uapi (\<lambda>(ls, es). set ls) (\<lambda>(ls, es). set es)"
proof -
  have "Suc (Max (insert 0 (set ls))) \<notin> set ls" for ls :: "nat list"
    using Max_ge [of "insert 0 (set ls)"] by (meson List.finite_set finite_insert insertI2 not_less_eq_eq order_refl)
  then show ?thesis by (auto simp: uapi_os_ok_def table_uapi_def Let_def)
qed

theorem uapi_open_close_witness:
  "\<exists>t os1. newWGUSPConfigurer ''linux'' table_uapi ''wt0'' ([], []) = (t, os1)
     \<and> wc_uapiListener t = Some 1 \<and> set (fst (usp_configurer_close ''linux'' table_uapi t os1)) = {}
     \<and> sockPath ''wt0'' \<notin> set (snd (usp_configurer_close ''linux'' table_uapi t os1))"
proof -
  have new: "newWGUSPConfigurer ''linux'' table_uapi ''wt0'' ([], [])
      = (\<lparr>wc_deviceName = ''wt0'', wc_uapiListener = Some 1\<rparr>, ([1], [sockPath ''wt0'']))"
    by (simp add: newWGUSPConfigurer_def startUAPI_def openUAPI_def table_uapi_def Let_def)
  have "fst (listener_Close table_uapi l os') = None" for l os' by (simp add: table_uapi_def case_prod_beta)
  from uapi_open_close [OF table_uapi_ok _ new this] show ?thesis by (auto simp: new case_prod_beta)
qed

end
