(* ===== verification/Platform_Tun.thy ===== *)
theory Platform_Tun
  imports Tun_Devices Uapi
begin

text \<open>
  The tunnel devices of the other systems: macOS (\<^verbatim>\<open>iface/tun_darwin.go\<close>), Windows
  (\<^verbatim>\<open>iface/tun_windows.go\<close>), Android (\<^verbatim>\<open>iface/tun_android.go\<close>) and iOS (\<^verbatim>\<open>iface/tun_ios.go\<close>), with the
  constructors of the interface object on them.  wireguard-go, the commands and the calls of the systems
  are parameters that work on a state \<open>'o\<close> of the system.
\<close>

section \<open>What the devices share\<close>

record ('b, 's, 'd) platDevice =
  td_name :: string
  td_address :: WGAddress
  td_port :: int
  td_key :: string
  td_iceBind :: "('b, 's) ICEBind"
  td_device :: "'d option"
  td_wrapper :: "DeviceWrapper option"
  td_udpMux :: "('b, 's) UniversalUDPMuxDefault option"
  td_configurer :: "wgUSPConfigurer option"

record ('b, 's, 'd, 'o) plat_env =
  pe_ParseKey :: "string \<Rightarrow> error + bytes"
  pe_ipc :: "'d wgDevice"
  pe_fwmark :: int
  pe_uapi :: "'o uapi_os"
  pe_NewDevice :: 'd
  pe_device_Close :: "'d \<Rightarrow> 'o \<Rightarrow> 'd \<times> 'o"
  pe_device_Up :: "'d \<Rightarrow> ('b, 's) ICEBind \<Rightarrow> error option \<times> 'd \<times> ('b, 's) ICEBind"
  pe_packetio :: "'b packetio"
  pe_conn :: "'s PacketConn"

definition new_platDevice :: "FilterFn option \<Rightarrow> string \<Rightarrow> WGAddress \<Rightarrow> int \<Rightarrow> string \<Rightarrow> ('b, 's, 'd) platDevice" where
  "new_platDevice filterFn name address port key =
     \<lparr>td_name = name, td_address = address, td_port = port, td_key = key, td_iceBind = NewICEBind filterFn,
      td_device = None, td_wrapper = None, td_udpMux = None, td_configurer = None\<rparr>"

text \<open>The end of every \<^verbatim>\<open>Create\<close>: the configurer is made and the interface configured.\<close>

definition configure_device ::
  "string \<Rightarrow> ('b, 's, 'd, 'o, 'e) plat_env_scheme \<Rightarrow> ('b, 's, 'd, 'z) platDevice_scheme \<Rightarrow> 'd \<Rightarrow> 'o
     \<Rightarrow> (error + 'd) \<times> ('b, 's, 'd, 'z) platDevice_scheme \<times> 'o" where
  "configure_device goos E t d os =
     (let (c, os) = newWGUSPConfigurer goos (pe_uapi E) (td_name t) os;
          t = t\<lparr>td_configurer := Some c\<rparr>
      in case usp_configureInterface (pe_ParseKey E) (pe_ipc E) (pe_fwmark E) (td_key t) (td_port t) d of
           (Some err, d) \<Rightarrow>
             let (d, os) = pe_device_Close E d os; os = usp_configurer_close goos (pe_uapi E) c os
             in (Inl err, t\<lparr>td_device := Some d\<rparr>, os)
         | (None, d) \<Rightarrow> (Inr d, t\<lparr>td_device := Some d\<rparr>, os))"

text \<open>\<^verbatim>\<open>Up\<close> and \<^verbatim>\<open>Close\<close> have the same code everywhere; \<^verbatim>\<open>Up\<close> on a nil device panics.\<close>

definition platform_Up ::
  "('b, 's, 'd, 'o, 'e) plat_env_scheme \<Rightarrow> ('b, 's, 'd, 'z) platDevice_scheme \<times> 'o
     \<Rightarrow> (error + ('b, 's) UniversalUDPMuxDefault) \<times> ('b, 's, 'd, 'z) platDevice_scheme \<times> 'o" where
  "platform_Up E = (\<lambda>(t, os).
     case td_device t of
       None \<Rightarrow> (Inl (Panic ''nil pointer dereference''), t, os)
     | Some d \<Rightarrow>
         (case pe_device_Up E d (td_iceBind t) of
            (Some err, d, b) \<Rightarrow> (Inl err, t\<lparr>td_device := Some d, td_iceBind := b\<rparr>, os)
          | (None, d, b) \<Rightarrow>
              let t = t\<lparr>td_device := Some d, td_iceBind := b\<rparr>
              in case GetICEMux b of
                   Inl err \<Rightarrow> (Inl err, t, os)
                 | Inr m \<Rightarrow> (Inr m, t\<lparr>td_udpMux := Some m\<rparr>, os)))"

definition platform_Close ::
  "string \<Rightarrow> ('b, 's, 'd, 'o, 'e) plat_env_scheme \<Rightarrow> ('b, 's, 'd, 'z) platDevice_scheme \<times> 'o
     \<Rightarrow> error option \<times> ('b, 's, 'd, 'z) platDevice_scheme \<times> 'o" where
  "platform_Close goos E = (\<lambda>(t, os).
     let os = (case td_configurer t of None \<Rightarrow> os | Some c \<Rightarrow> usp_configurer_close goos (pe_uapi E) c os);
         os = (case td_device t of None \<Rightarrow> os | Some d \<Rightarrow> snd (pe_device_Close E d os));
         t = t\<lparr>td_device := None\<rparr>
     in case td_udpMux t of
          None \<Rightarrow> (None, t, os)
        | Some u \<Rightarrow>
            let (err, m) = mux_Close (pe_packetio E) (udpConn_PacketConn (pe_conn E) (bind_filterFn (td_iceBind t))) (mux u)
            in (err, t\<lparr>td_udpMux := Some (u\<lparr>mux := m\<rparr>)\<rparr>, os))"

text \<open>The device as the interface object sees it.\<close>

definition platform_tun ::
  "(('b, 's, 'd, 'z) platDevice_scheme \<times> 'o \<Rightarrow> (error + 'd) \<times> ('b, 's, 'd, 'z) platDevice_scheme \<times> 'o)
     \<Rightarrow> (('b, 's, 'd, 'z) platDevice_scheme \<times> 'o \<Rightarrow> (error + 'u) \<times> ('b, 's, 'd, 'z) platDevice_scheme \<times> 'o)
     \<Rightarrow> (WGAddress \<Rightarrow> ('b, 's, 'd, 'z) platDevice_scheme \<times> 'o \<Rightarrow> error option \<times> ('b, 's, 'd, 'z) platDevice_scheme \<times> 'o)
     \<Rightarrow> (('b, 's, 'd, 'z) platDevice_scheme \<times> 'o \<Rightarrow> error option \<times> ('b, 's, 'd, 'z) platDevice_scheme \<times> 'o)
     \<Rightarrow> (('b, 's, 'd, 'z) platDevice_scheme \<times> 'o, 'd, 'u) wgTunDevice" where
  "platform_tun create up update close =
     \<lparr>tun_Create = create, tun_Up = up, tun_UpdateAddr = update,
      tun_WgAddress = (\<lambda>(t, _). td_address t), tun_DeviceName = (\<lambda>(t, _). td_name t), tun_Close = close,
      tun_Wrapper = (\<lambda>(t, _). td_wrapper t), tun_set_Wrapper = (\<lambda>w (t, os). (t\<lparr>td_wrapper := Some w\<rparr>, os))\<rparr>"

section \<open>macOS\<close>

record ('b, 's, 'd) darwinDevice = "('b, 's, 'd) platDevice" +
  da_mtu :: int

text \<open>\<open>CombinedOutput\<close> is the error of running a command.\<close>

record ('b, 's, 'd, 'o) darwin_env = "('b, 's, 'd, 'o) plat_env" +
  da_CreateTUN :: "string \<Rightarrow> int \<Rightarrow> 'o \<Rightarrow> error option \<times> 'o"
  CombinedOutput :: "string list \<Rightarrow> 'o \<Rightarrow> error option \<times> 'o"

definition darwin_newTunDevice ::
  "FilterFn option \<Rightarrow> string \<Rightarrow> WGAddress \<Rightarrow> int \<Rightarrow> string \<Rightarrow> int \<Rightarrow> ('b, 's, 'd) darwinDevice" where
  "darwin_newTunDevice filterFn name address port key mtu =
     platDevice.extend (new_platDevice filterFn name address port key) (darwinDevice.fields mtu)"

definition darwin_assignAddr ::
  "('b, 's, 'd, 'o) darwin_env \<Rightarrow> ('b, 's, 'd) darwinDevice \<Rightarrow> 'o \<Rightarrow> error option \<times> 'o" where
  "darwin_assignAddr E t os =
     (let ip = IP_String (wga_IP (td_address t))
      in case CombinedOutput E [''ifconfig'', td_name t, ''inet'', ip, ip] os of
           (Some err, os) \<Rightarrow> (Some err, os)
         | (None, os) \<Rightarrow>
             let os = snd (CombinedOutput E [''ifconfig'', td_name t, ''inet6'', ''fe80::/64''] os)
             in CombinedOutput E [''route'', ''add'', ''-net'', IPNet_String (wga_Network (td_address t)), ''-interface'', td_name t] os)"

definition darwin_Create ::
  "('b, 's, 'd, 'o) darwin_env \<Rightarrow> ('b, 's, 'd) darwinDevice \<times> 'o
     \<Rightarrow> (error + 'd) \<times> ('b, 's, 'd) darwinDevice \<times> 'o" where
  "darwin_Create E = (\<lambda>(t, os).
     case da_CreateTUN E (td_name t) (da_mtu t) os of
       (Some err, os) \<Rightarrow> (Inl err, t, os)
     | (None, os) \<Rightarrow>
     (let t = t\<lparr>td_wrapper := Some newDeviceWrapper, td_device := Some (pe_NewDevice E)\<rparr>
      in case darwin_assignAddr E t os of
           (Some err, os) \<Rightarrow>
             let (d, os) = pe_device_Close E (pe_NewDevice E) os in (Inl err, t\<lparr>td_device := Some d\<rparr>, os)
         | (None, os) \<Rightarrow> configure_device ''darwin'' E t (pe_NewDevice E) os))"

definition darwin_Up ::
  "('b, 's, 'd, 'o) darwin_env \<Rightarrow> ('b, 's, 'd) darwinDevice \<times> 'o
     \<Rightarrow> (error + ('b, 's) UniversalUDPMuxDefault) \<times> ('b, 's, 'd) darwinDevice \<times> 'o" where
  "darwin_Up E = platform_Up E"

definition darwin_UpdateAddr ::
  "('b, 's, 'd, 'o) darwin_env \<Rightarrow> WGAddress \<Rightarrow> ('b, 's, 'd) darwinDevice \<times> 'o
     \<Rightarrow> error option \<times> ('b, 's, 'd) darwinDevice \<times> 'o" where
  "darwin_UpdateAddr E address = (\<lambda>(t, os).
     let t = t\<lparr>td_address := address\<rparr>; (err, os) = darwin_assignAddr E t os in (err, t, os))"

definition darwin_Close ::
  "('b, 's, 'd, 'o) darwin_env \<Rightarrow> ('b, 's, 'd) darwinDevice \<times> 'o
     \<Rightarrow> error option \<times> ('b, 's, 'd) darwinDevice \<times> 'o" where
  "darwin_Close E = platform_Close ''darwin'' E"

definition darwin_tun ::
  "('b, 's, 'd, 'o) darwin_env
     \<Rightarrow> (('b, 's, 'd) darwinDevice \<times> 'o, 'd, ('b, 's) UniversalUDPMuxDefault) wgTunDevice" where
  "darwin_tun E = platform_tun (darwin_Create E) (darwin_Up E) (darwin_UpdateAddr E) (darwin_Close E)"

section \<open>Windows\<close>

text \<open>\<^verbatim>\<open>netip.ParsePrefix\<close>: the address and the number of bits.\<close>

definition ParsePrefix :: "string \<Rightarrow> error + netipAddr \<times> nat" where
  "ParsePrefix s =
     (if CHR ''/'' \<notin> set s then Inl (Errorf ''no slash'')
      else
        let bitsStr = after_last (CHR ''/'') s; addr = take (length s - length bitsStr - 1) s
        in case netip_ParseAddr addr of
             Inl err \<Rightarrow> Inl err
           | Inr ip \<Rightarrow>
               if (case ip of Addr6 _ z \<Rightarrow> z \<noteq> '''' | Addr4 _ \<Rightarrow> False)
               then Inl (Errorf ''IPv6 zones cannot be present in a prefix'')
               else if 1 < length bitsStr \<and> \<not> (is_digit (hd bitsStr) \<and> hd bitsStr \<noteq> CHR ''0'')
               then Inl (Errorf ''bad bits after slash'')
               else case Atoi bitsStr of
                      Inl err \<Rightarrow> Inl (Errorf ''bad bits after slash'')
                    | Inr n \<Rightarrow>
                        let maxBits = (case ip of Addr6 _ _ \<Rightarrow> 128 | Addr4 _ \<Rightarrow> 32)
                        in if n < 0 \<or> maxBits < n then Inl (Errorf ''prefix length out of range'')
                           else Inr (ip, nat n))"

text \<open>The adapter of a \<^verbatim>\<open>tun.NativeTun\<close> is named by its LUID.\<close>

record ('b, 's, 'd) windowsDevice = "('b, 's, 'd) platDevice" +
  win_mtu :: int
  win_nativeTunDevice :: "nat option"

record ('b, 's, 'd, 'o) windows_env = "('b, 's, 'd, 'o) plat_env" +
  win_CreateTUN :: "string \<Rightarrow> int \<Rightarrow> 'o \<Rightarrow> (error + nat) \<times> 'o"
  IPInterface :: "nat \<Rightarrow> 'o \<Rightarrow> error option"
  SetNLMTU :: "nat \<Rightarrow> u32 \<Rightarrow> 'o \<Rightarrow> error option \<times> 'o"
  SetIPAddresses :: "nat \<Rightarrow> (netipAddr \<times> nat) list \<Rightarrow> 'o \<Rightarrow> error option \<times> 'o"
  GUID :: "nat \<Rightarrow> 'o \<Rightarrow> error + string"

definition windows_newTunDevice ::
  "FilterFn option \<Rightarrow> string \<Rightarrow> WGAddress \<Rightarrow> int \<Rightarrow> string \<Rightarrow> int \<Rightarrow> ('b, 's, 'd) windowsDevice" where
  "windows_newTunDevice filterFn name address port key mtu =
     platDevice.extend (new_platDevice filterFn name address port key) (windowsDevice.fields mtu None)"

definition windows_assignAddr ::
  "('b, 's, 'd, 'o) windows_env \<Rightarrow> ('b, 's, 'd) windowsDevice \<Rightarrow> 'o \<Rightarrow> error option \<times> 'o" where
  "windows_assignAddr E t os =
     (case win_nativeTunDevice t of
        None \<Rightarrow> (Some (Panic ''nil pointer dereference''), os)
      | Some luid \<Rightarrow>
          (case ParsePrefix (WGAddress_String (td_address t)) of
             Inl err \<Rightarrow> (Some (Panic ''netip.MustParsePrefix''), os)
           | Inr prefix \<Rightarrow> SetIPAddresses E luid [prefix] os))"

text \<open>Closing the device after an error; a panic does not come back to do it.\<close>

definition close_and_return ::
  "('b, 's, 'd, 'o, 'e) plat_env_scheme \<Rightarrow> error \<Rightarrow> error \<Rightarrow> ('b, 's, 'd, 'z) platDevice_scheme \<times> 'o
     \<Rightarrow> (error + 'd) \<times> ('b, 's, 'd, 'z) platDevice_scheme \<times> 'o" where
  "close_and_return E err err' = (\<lambda>(t, os).
     case err of
       Panic m \<Rightarrow> (Inl (Panic m), t, os)
     | _ \<Rightarrow> let (d, os) = pe_device_Close E (pe_NewDevice E) os in (Inl err', t\<lparr>td_device := Some d\<rparr>, os))"

definition windows_Create ::
  "('b, 's, 'd, 'o) windows_env \<Rightarrow> ('b, 's, 'd) windowsDevice \<times> 'o
     \<Rightarrow> (error + 'd) \<times> ('b, 's, 'd) windowsDevice \<times> 'o" where
  "windows_Create E = (\<lambda>(t, os).
     case win_CreateTUN E (td_name t) (win_mtu t) os of
       (Inl err, os) \<Rightarrow> (Inl err, t, os)
     | (Inr luid, os) \<Rightarrow>
     (let t = t\<lparr>win_nativeTunDevice := Some luid, td_wrapper := Some newDeviceWrapper, td_device := Some (pe_NewDevice E)\<rparr>
      in case IPInterface E luid os of
           Some err \<Rightarrow> close_and_return E err (Wrapf ''got error when getting ip interface'' err) (t, os)
         | None \<Rightarrow>
      (case SetNLMTU E luid (word_of_int (win_mtu t)) os of
           (Some err, os) \<Rightarrow> close_and_return E err (Wrapf ''got error when getting setting the interface mtu'' err) (t, os)
         | (None, os) \<Rightarrow>
      (case windows_assignAddr E t os of
           (Some err, os) \<Rightarrow> close_and_return E err err (t, os)
         | (None, os) \<Rightarrow> configure_device ''windows'' E t (pe_NewDevice E) os))))"

definition windows_Up ::
  "('b, 's, 'd, 'o) windows_env \<Rightarrow> ('b, 's, 'd) windowsDevice \<times> 'o
     \<Rightarrow> (error + ('b, 's) UniversalUDPMuxDefault) \<times> ('b, 's, 'd) windowsDevice \<times> 'o" where
  "windows_Up E = platform_Up E"

definition windows_UpdateAddr ::
  "('b, 's, 'd, 'o) windows_env \<Rightarrow> WGAddress \<Rightarrow> ('b, 's, 'd) windowsDevice \<times> 'o
     \<Rightarrow> error option \<times> ('b, 's, 'd) windowsDevice \<times> 'o" where
  "windows_UpdateAddr E address = (\<lambda>(t, os).
     let t = t\<lparr>td_address := address\<rparr>; (err, os) = windows_assignAddr E t os in (err, t, os))"

definition windows_Close ::
  "('b, 's, 'd, 'o) windows_env \<Rightarrow> ('b, 's, 'd) windowsDevice \<times> 'o
     \<Rightarrow> error option \<times> ('b, 's, 'd) windowsDevice \<times> 'o" where
  "windows_Close E = platform_Close ''windows'' E"

definition getInterfaceGUIDString ::
  "('b, 's, 'd, 'o) windows_env \<Rightarrow> ('b, 's, 'd) windowsDevice \<times> 'o \<Rightarrow> error + string" where
  "getInterfaceGUIDString E = (\<lambda>(t, os).
     case win_nativeTunDevice t of
       None \<Rightarrow> Inl (Errorf ''interface has not been initialized yet'')
     | Some luid \<Rightarrow> GUID E luid os)"

definition windows_tun ::
  "('b, 's, 'd, 'o) windows_env
     \<Rightarrow> (('b, 's, 'd) windowsDevice \<times> 'o, 'd, ('b, 's) UniversalUDPMuxDefault) wgTunDevice" where
  "windows_tun E = platform_tun (windows_Create E) (windows_Up E) (windows_UpdateAddr E) (windows_Close E)"

section \<open>Android\<close>

record 'o TunAdapter =
  ConfigureInterface :: "string \<Rightarrow> int \<Rightarrow> string \<Rightarrow> string \<Rightarrow> string \<Rightarrow> 'o \<Rightarrow> (error + int) \<times> 'o"
  adapter_UpdateAddr :: "string \<Rightarrow> 'o \<Rightarrow> error option \<times> 'o"
  ProtectSocket :: "32 word \<Rightarrow> 'o \<Rightarrow> bool \<times> 'o"

record 'o MobileIFaceArguments =
  mobile_TunAdapter :: "'o TunAdapter option"
  mobile_TunFd :: int

record ('b, 's, 'd, 'o) androidDevice = "('b, 's, 'd) platDevice" +
  an_mtu :: int
  an_tunAdapter :: "'o TunAdapter option"

record ('b, 's, 'd, 'o) mobile_env = "('b, 's, 'd, 'o) plat_env" +
  unix_Close :: "int \<Rightarrow> 'o \<Rightarrow> 'o"
  CreateUnmonitoredTUNFromFD :: "int \<Rightarrow> 'o \<Rightarrow> (error + string) \<times> 'o"
  Dup :: "int \<Rightarrow> 'o \<Rightarrow> (error + int) \<times> 'o"
  SetNonblock :: "int \<Rightarrow> bool \<Rightarrow> 'o \<Rightarrow> error option \<times> 'o"
  CreateTUNFromFile :: "int \<Rightarrow> int \<Rightarrow> 'o \<Rightarrow> error option \<times> 'o"

definition android_newTunDevice ::
  "FilterFn option \<Rightarrow> WGAddress \<Rightarrow> int \<Rightarrow> string \<Rightarrow> int \<Rightarrow> 'o TunAdapter option \<Rightarrow> ('b, 's, 'd, 'o) androidDevice" where
  "android_newTunDevice filterFn address port key mtu tunAdapter =
     platDevice.extend (new_platDevice filterFn '''' address port key) (androidDevice.fields mtu tunAdapter)"

definition routesToString :: "string list \<Rightarrow> string" where
  "routesToString routes = Join '';'' routes"

definition searchDomainsToString :: "string list \<Rightarrow> string" where
  "searchDomainsToString searchDomains = Join '';'' searchDomains"

definition android_Create ::
  "('b, 's, 'd, 'o) mobile_env \<Rightarrow> string list \<Rightarrow> string \<Rightarrow> string list \<Rightarrow> ('b, 's, 'd, 'o) androidDevice \<times> 'o
     \<Rightarrow> (error + 'd) \<times> ('b, 's, 'd, 'o) androidDevice \<times> 'o" where
  "android_Create E routes dns searchDomains = (\<lambda>(t, os).
     case an_tunAdapter t of
       None \<Rightarrow> (Inl (Panic ''nil pointer dereference''), t, os)
     | Some A \<Rightarrow>
     (case ConfigureInterface A (WGAddress_String (td_address t)) (an_mtu t) dns (searchDomainsToString searchDomains)
             (routesToString routes) os of
       (Inl err, os) \<Rightarrow> (Inl err, t, os)
     | (Inr fd, os) \<Rightarrow>
     (case CreateUnmonitoredTUNFromFD E fd os of
       (Inl err, os) \<Rightarrow> (Inl err, t, unix_Close E fd os)
     | (Inr name, os) \<Rightarrow>
         let t = t\<lparr>td_name := name, td_wrapper := Some newDeviceWrapper, td_device := Some (pe_NewDevice E)\<rparr>
         in configure_device ''android'' E t (pe_NewDevice E) os)))"

definition android_Up ::
  "('b, 's, 'd, 'o) mobile_env \<Rightarrow> ('b, 's, 'd, 'o) androidDevice \<times> 'o
     \<Rightarrow> (error + ('b, 's) UniversalUDPMuxDefault) \<times> ('b, 's, 'd, 'o) androidDevice \<times> 'o" where
  "android_Up E = platform_Up E"

definition android_UpdateAddr ::
  "WGAddress \<Rightarrow> ('b, 's, 'd, 'o) androidDevice \<times> 'o \<Rightarrow> error option \<times> ('b, 's, 'd, 'o) androidDevice \<times> 'o" where
  "android_UpdateAddr addr t = (None, t)"

definition android_Close ::
  "('b, 's, 'd, 'o) mobile_env \<Rightarrow> ('b, 's, 'd, 'o) androidDevice \<times> 'o
     \<Rightarrow> error option \<times> ('b, 's, 'd, 'o) androidDevice \<times> 'o" where
  "android_Close E = platform_Close ''android'' E"

text \<open>\<^verbatim>\<open>Create\<close> takes arguments on Android; here they are fixed beforehand.\<close>

definition android_tun ::
  "('b, 's, 'd, 'o) mobile_env \<Rightarrow> string list \<Rightarrow> string \<Rightarrow> string list
     \<Rightarrow> (('b, 's, 'd, 'o) androidDevice \<times> 'o, 'd, ('b, 's) UniversalUDPMuxDefault) wgTunDevice" where
  "android_tun E routes dns searchDomains =
     platform_tun (android_Create E routes dns searchDomains) (android_Up E) android_UpdateAddr (android_Close E)"

section \<open>iOS\<close>

record ('b, 's, 'd) iosDevice = "('b, 's, 'd) platDevice" +
  io_tunFd :: int

definition ios_newTunDevice ::
  "FilterFn option \<Rightarrow> string \<Rightarrow> WGAddress \<Rightarrow> int \<Rightarrow> string \<Rightarrow> int \<Rightarrow> ('b, 's, 'd) iosDevice" where
  "ios_newTunDevice filterFn name address port key tunFd =
     platDevice.extend (new_platDevice filterFn name address port key) (iosDevice.fields tunFd)"

definition ios_Create ::
  "('b, 's, 'd, 'o) mobile_env \<Rightarrow> ('b, 's, 'd) iosDevice \<times> 'o \<Rightarrow> (error + 'd) \<times> ('b, 's, 'd) iosDevice \<times> 'o" where
  "ios_Create E = (\<lambda>(t, os).
     case Dup E (io_tunFd t) os of
       (Inl err, os) \<Rightarrow> (Inl err, t, os)
     | (Inr dupTunFd, os) \<Rightarrow>
     (case SetNonblock E dupTunFd True os of
       (Some err, os) \<Rightarrow> (Inl err, t, unix_Close E dupTunFd os)
     | (None, os) \<Rightarrow>
     (case CreateTUNFromFile E dupTunFd 0 os of
       (Some err, os) \<Rightarrow> (Inl err, t, unix_Close E dupTunFd os)
     | (None, os) \<Rightarrow>
         let t = t\<lparr>td_wrapper := Some newDeviceWrapper, td_device := Some (pe_NewDevice E)\<rparr>
         in configure_device ''ios'' E t (pe_NewDevice E) os)))"

definition ios_Up ::
  "('b, 's, 'd, 'o) mobile_env \<Rightarrow> ('b, 's, 'd) iosDevice \<times> 'o
     \<Rightarrow> (error + ('b, 's) UniversalUDPMuxDefault) \<times> ('b, 's, 'd) iosDevice \<times> 'o" where
  "ios_Up E = platform_Up E"

definition ios_Close ::
  "('b, 's, 'd, 'o) mobile_env \<Rightarrow> ('b, 's, 'd) iosDevice \<times> 'o \<Rightarrow> error option \<times> ('b, 's, 'd) iosDevice \<times> 'o" where
  "ios_Close E = platform_Close ''ios'' E"

definition ios_UpdateAddr ::
  "WGAddress \<Rightarrow> ('b, 's, 'd) iosDevice \<times> 'o \<Rightarrow> error option \<times> ('b, 's, 'd) iosDevice \<times> 'o" where
  "ios_UpdateAddr addr t = (None, t)"

definition ios_tun ::
  "('b, 's, 'd, 'o) mobile_env \<Rightarrow> (('b, 's, 'd) iosDevice \<times> 'o, 'd, ('b, 's) UniversalUDPMuxDefault) wgTunDevice" where
  "ios_tun E = platform_tun (ios_Create E) (ios_Up E) ios_UpdateAddr (ios_Close E)"

section \<open>The interface object\<close>

text \<open>
  On macOS and Windows the device is the one on the network stack when the environment asks for it.  The
  state of the system goes with either.
\<close>

type_synonym ('b, 's, 'd, 't, 'o) either_device = "(('b, 's, 'd) tunNetstackDevice + 't) \<times> 'o"

definition either_tun ::
  "(('b, 's, 'd) tunNetstackDevice, 'd, 'u) wgTunDevice \<Rightarrow> ('t \<times> 'o, 'd, 'u) wgTunDevice
     \<Rightarrow> (('b, 's, 'd, 't, 'o) either_device, 'd, 'u) wgTunDevice" where
  "either_tun S T =
     \<lparr>tun_Create = (\<lambda>(x, os). case x of Inl t \<Rightarrow> (\<lambda>(r, t). (r, Inl t, os)) (tun_Create S t)
                                       | Inr t \<Rightarrow> (\<lambda>(r, t, os). (r, Inr t, os)) (tun_Create T (t, os))),
      tun_Up = (\<lambda>(x, os). case x of Inl t \<Rightarrow> (\<lambda>(r, t). (r, Inl t, os)) (tun_Up S t)
                                       | Inr t \<Rightarrow> (\<lambda>(r, t, os). (r, Inr t, os)) (tun_Up T (t, os))),
      tun_UpdateAddr = (\<lambda>a (x, os). case x of Inl t \<Rightarrow> (\<lambda>(r, t). (r, Inl t, os)) (tun_UpdateAddr S a t)
                                       | Inr t \<Rightarrow> (\<lambda>(r, t, os). (r, Inr t, os)) (tun_UpdateAddr T a (t, os))),
      tun_WgAddress = (\<lambda>(x, os). case x of Inl t \<Rightarrow> tun_WgAddress S t | Inr t \<Rightarrow> tun_WgAddress T (t, os)),
      tun_DeviceName = (\<lambda>(x, os). case x of Inl t \<Rightarrow> tun_DeviceName S t | Inr t \<Rightarrow> tun_DeviceName T (t, os)),
      tun_Close = (\<lambda>(x, os). case x of Inl t \<Rightarrow> (\<lambda>(r, t). (r, Inl t, os)) (tun_Close S t)
                                       | Inr t \<Rightarrow> (\<lambda>(r, t, os). (r, Inr t, os)) (tun_Close T (t, os))),
      tun_Wrapper = (\<lambda>(x, os). case x of Inl t \<Rightarrow> tun_Wrapper S t | Inr t \<Rightarrow> tun_Wrapper T (t, os)),
      tun_set_Wrapper = (\<lambda>w (x, os). case x of Inl t \<Rightarrow> (Inl (tun_set_Wrapper S w t), os)
                                       | Inr t \<Rightarrow> (\<lambda>(t, os). (Inr t, os)) (tun_set_Wrapper T w (t, os)))\<rparr>"

text \<open>\<open>use_netstack\<close> and \<open>sPort\<close> are the two variables of \<^verbatim>\<open>iface/netstack/env.go\<close>.\<close>

definition darwin_NewWGIFace ::
  "string \<Rightarrow> string \<Rightarrow> FilterFn option \<Rightarrow> 'o \<Rightarrow> string \<Rightarrow> string \<Rightarrow> int \<Rightarrow> string \<Rightarrow> int
     \<Rightarrow> error + (('b, 's, 'd, ('b, 's, 'd) darwinDevice, 'o) either_device, 'd) WGIface" where
  "darwin_NewWGIFace use_netstack sPort filterFn os iFaceName address wgPort wgPrivKey mtu =
     (case parseWGAddress address of
        Inl err \<Rightarrow> Inl err
      | Inr wgAddress \<Rightarrow>
          if IsEnabled use_netstack
          then Inr (new_iface (Inl (netstack_newTunNetstackDevice filterFn (ListenAddr sPort) iFaceName wgAddress wgPort wgPrivKey mtu), os) True)
          else Inr (new_iface (Inr (darwin_newTunDevice filterFn iFaceName wgAddress wgPort wgPrivKey mtu), os) True))"

definition windows_NewWGIFace ::
  "string \<Rightarrow> string \<Rightarrow> FilterFn option \<Rightarrow> 'o \<Rightarrow> string \<Rightarrow> string \<Rightarrow> int \<Rightarrow> string \<Rightarrow> int
     \<Rightarrow> error + (('b, 's, 'd, ('b, 's, 'd) windowsDevice, 'o) either_device, 'd) WGIface" where
  "windows_NewWGIFace use_netstack sPort filterFn os iFaceName address wgPort wgPrivKey mtu =
     (case parseWGAddress address of
        Inl err \<Rightarrow> Inl err
      | Inr wgAddress \<Rightarrow>
          if IsEnabled use_netstack
          then Inr (new_iface (Inl (netstack_newTunNetstackDevice filterFn (ListenAddr sPort) iFaceName wgAddress wgPort wgPrivKey mtu), os) True)
          else Inr (new_iface (Inr (windows_newTunDevice filterFn iFaceName wgAddress wgPort wgPrivKey mtu), os) True))"

definition android_NewWGIFace ::
  "FilterFn option \<Rightarrow> 'o \<Rightarrow> string \<Rightarrow> string \<Rightarrow> int \<Rightarrow> string \<Rightarrow> int \<Rightarrow> 'o MobileIFaceArguments option
     \<Rightarrow> error + (('b, 's, 'd, 'o) androidDevice \<times> 'o, 'd) WGIface" where
  "android_NewWGIFace filterFn os iFaceName address wgPort wgPrivKey mtu args =
     (case parseWGAddress address of
        Inl err \<Rightarrow> Inl err
      | Inr wgAddress \<Rightarrow>
          (case args of
             None \<Rightarrow> Inl (Panic ''nil pointer dereference'')
           | Some a \<Rightarrow>
               Inr (new_iface (android_newTunDevice filterFn wgAddress wgPort wgPrivKey mtu (mobile_TunAdapter a), os) True)))"

definition ios_NewWGIFace ::
  "FilterFn option \<Rightarrow> 'o \<Rightarrow> string \<Rightarrow> string \<Rightarrow> int \<Rightarrow> string \<Rightarrow> int \<Rightarrow> 'o MobileIFaceArguments option
     \<Rightarrow> error + (('b, 's, 'd) iosDevice \<times> 'o, 'd) WGIface" where
  "ios_NewWGIFace filterFn os iFaceName address wgPort wgPrivKey mtu args =
     (case parseWGAddress address of
        Inl err \<Rightarrow> Inl err
      | Inr wgAddress \<Rightarrow>
          (case args of
             None \<Rightarrow> Inl (Panic ''nil pointer dereference'')
           | Some a \<Rightarrow>
               Inr (new_iface (ios_newTunDevice filterFn iFaceName wgAddress wgPort wgPrivKey (mobile_TunFd a), os) True)))"

text \<open>\<^verbatim>\<open>CreateOnAndroid\<close> and, on Android itself, \<^verbatim>\<open>Create\<close>.\<close>

definition not_on_this_platform :: "string \<Rightarrow> ('t, 'c) WGIface \<Rightarrow> error option \<times> ('t, 'c) WGIface" where
  "not_on_this_platform msg w = (Some (Errorf (''this function has not implemented on '' @ msg)), w)"

definition darwin_CreateOnAndroid ::
  "string list \<Rightarrow> string \<Rightarrow> string list \<Rightarrow> ('t, 'c) WGIface \<Rightarrow> error option \<times> ('t, 'c) WGIface" where
  "darwin_CreateOnAndroid routes dns searchDomains = not_on_this_platform ''this platform''"

definition windows_CreateOnAndroid ::
  "string list \<Rightarrow> string \<Rightarrow> string list \<Rightarrow> ('t, 'c) WGIface \<Rightarrow> error option \<times> ('t, 'c) WGIface" where
  "windows_CreateOnAndroid routes dns searchDomains = not_on_this_platform ''non mobile''"

definition ios_CreateOnAndroid ::
  "string list \<Rightarrow> string \<Rightarrow> string list \<Rightarrow> ('t, 'c) WGIface \<Rightarrow> error option \<times> ('t, 'c) WGIface" where
  "ios_CreateOnAndroid routes dns searchDomains = not_on_this_platform ''this platform''"

definition android_iface_Create :: "('t, 'c) WGIface \<Rightarrow> error option \<times> ('t, 'c) WGIface" where
  "android_iface_Create = not_on_this_platform ''this platform''"

definition android_CreateOnAndroid ::
  "('b, 's, 'd, 'o) mobile_env \<Rightarrow> string list \<Rightarrow> string \<Rightarrow> string list
     \<Rightarrow> (('b, 's, 'd, 'o) androidDevice \<times> 'o, 'd) WGIface
     \<Rightarrow> error option \<times> (('b, 's, 'd, 'o) androidDevice \<times> 'o, 'd) WGIface" where
  "android_CreateOnAndroid E routes dns searchDomains w =
     (case android_Create E routes dns searchDomains (tun w) of
        (Inl err, t) \<Rightarrow> (Some err, w\<lparr>tun := t\<rparr>)
      | (Inr cfgr, t) \<Rightarrow> (None, w\<lparr>tun := t, configurer := Some cfgr\<rparr>))"

text \<open>\<^verbatim>\<open>w.tun.(*tunDevice)\<close> panics on a device of the network stack.\<close>

definition GetInterfaceGUIDString ::
  "('b, 's, 'd, 'o) windows_env \<Rightarrow> (('b, 's, 'd, ('b, 's, 'd) windowsDevice, 'o) either_device, 'd) WGIface \<Rightarrow> error + string" where
  "GetInterfaceGUIDString E w =
     (case tun w of
        (Inl _, os) \<Rightarrow> Inl (Panic ''interface conversion'')
      | (Inr t, os) \<Rightarrow> getInterfaceGUIDString E (t, os))"

section \<open>What the interface object relies on\<close>

lemmas platform_ops =
  darwin_Create_def darwin_UpdateAddr_def windows_Create_def windows_UpdateAddr_def android_Create_def
  android_UpdateAddr_def ios_Create_def ios_UpdateAddr_def close_and_return_def

lemmas platform_up_close =
  darwin_Up_def darwin_Close_def windows_Up_def windows_Close_def android_Up_def android_Close_def ios_Up_def ios_Close_def

lemmas platform_tuns = darwin_tun_def windows_tun_def android_tun_def ios_tun_def platform_tun_def

definition platform_fresh :: "('b, 's, 'd, 'z) platDevice_scheme \<times> 'o \<Rightarrow> bool" where
  "platform_fresh = (\<lambda>(t, os). td_device t = None \<and> td_udpMux t = None \<and> td_configurer t = None)"

lemma platform_Up_nil: "td_device t = None \<Longrightarrow> platform_Up E (t, os) = (Inl (Panic ''nil pointer dereference''), t, os)"
  by (simp add: platform_Up_def)

lemma platform_Close_nil: "td_device (fst (snd (platform_Close goos E t))) = None"
  by (cases t) (simp add: platform_Close_def Let_def case_prod_beta split: option.split)

lemma platform_Close_fresh: "platform_fresh t \<Longrightarrow> platform_Close goos E t = (None, t)"
  by (cases t) (simp add: platform_fresh_def platform_Close_def Let_def)

lemma platform_keeps_name [simp]:
  "td_name (fst (snd (platform_Up E t))) = td_name (fst t)"
  "td_name (fst (snd (platform_Close goos E t))) = td_name (fst t)"
  "td_name (fst (snd (configure_device goos E' t' d os))) = td_name t'"
  by (cases t; simp add: platform_Up_def platform_Close_def configure_device_def Let_def case_prod_beta
        split: option.split sum.split prod.split)+

text \<open>
  A device whose \<^verbatim>\<open>Close\<close> forgets the wireguard-go device and whose \<^verbatim>\<open>Up\<close> does not look whether there is
  one.
\<close>

locale forgetting_tun =
  fixes T :: "('t, 'c, 'u) wgTunDevice" and no_device :: "'t \<Rightarrow> bool"
  assumes up_nil: "no_device t \<Longrightarrow> \<exists>m. tun_Up T t = (Inl (Panic m), t)"
    and close_forgets: "no_device (snd (tun_Close T t))"
begin

lemma iface_Up_nil: "no_device (tun w) \<Longrightarrow> \<exists>m. iface_Up T w = (Inl (Panic m), w)"
  using up_nil [of "tun w"] by (auto simp: iface_Up_def)

lemma iface_Up_after_Close: "\<exists>m. iface_Up T (snd (iface_Close T w)) = (Inl (Panic m), snd (iface_Close T w))"
  using close_forgets [of "tun w"] by (intro iface_Up_nil) (simp add: iface_Close_def case_prod_beta)

end

interpretation df: forgetting_tun "darwin_tun E" "\<lambda>(t, os). td_device t = None" for E
  by unfold_locales (auto simp: platform_tuns platform_up_close platform_Up_nil platform_Close_nil case_prod_beta)

interpretation wf: forgetting_tun "windows_tun E" "\<lambda>(t, os). td_device t = None" for E
  by unfold_locales (auto simp: platform_tuns platform_up_close platform_Up_nil platform_Close_nil case_prod_beta)

interpretation af: forgetting_tun "android_tun E routes dns sd" "\<lambda>(t, os). td_device t = None" for E routes dns sd
  by unfold_locales (auto simp: platform_tuns platform_up_close platform_Up_nil platform_Close_nil case_prod_beta)

interpretation iof: forgetting_tun "ios_tun E" "\<lambda>(t, os). td_device t = None" for E
  by unfold_locales (auto simp: platform_tuns platform_up_close platform_Up_nil platform_Close_nil case_prod_beta)

text \<open>The contract of the Linux devices holds as well, but on Android, where creating the device names it.\<close>

lemma platform_tun_contract:
  assumes "\<And>t. td_name (fst (snd (create t))) = td_name (fst t)" and "\<And>a t. td_name (fst (snd (update a t))) = td_name (fst t)"
  shows "tun_contract (platform_tun create (platform_Up E) update (platform_Close goos E)) platform_fresh"
proof (unfold_locales, goal_cases)
  case (1 t)
  then show ?case by (cases t) (simp add: platform_tun_def platform_fresh_def platform_Up_nil)
qed (auto simp: platform_tun_def assms case_prod_beta platform_Close_fresh)

lemma darwin_names: "td_name (fst (snd (darwin_Create E t))) = td_name (fst t)"
    "td_name (fst (snd (darwin_UpdateAddr E a t))) = td_name (fst t)"
  by (cases t; simp add: platform_ops Let_def case_prod_beta split: option.split sum.split prod.split)+

lemma windows_names: "td_name (fst (snd (windows_Create E t))) = td_name (fst t)"
    "td_name (fst (snd (windows_UpdateAddr E a t))) = td_name (fst t)"
  by (cases t; simp add: platform_ops Let_def case_prod_beta split: option.split sum.split prod.split error.split)+

lemma ios_names: "td_name (fst (snd (ios_Create E t))) = td_name (fst t)"
    "td_name (fst (snd (ios_UpdateAddr a t))) = td_name (fst t)"
  by (cases t; simp add: platform_ops Let_def case_prod_beta split: option.split sum.split prod.split)+

interpretation dc: tun_contract "darwin_tun E" platform_fresh for E
  unfolding darwin_tun_def platform_up_close by (rule platform_tun_contract) (rule darwin_names)+

interpretation wc: tun_contract "windows_tun E" platform_fresh for E
  unfolding windows_tun_def platform_up_close by (rule platform_tun_contract) (rule windows_names)+

interpretation ic: tun_contract "ios_tun E" platform_fresh for E
  unfolding ios_tun_def platform_up_close by (rule platform_tun_contract) (rule ios_names)+

text \<open>A choice of two devices that keep the contract keeps it.\<close>

lemma either_tun_contract:
  assumes "tun_contract S fresh" and "tun_contract T fresh'"
  shows "tun_contract (either_tun S T) (\<lambda>(x, os). case x of Inl t \<Rightarrow> fresh t | Inr t \<Rightarrow> fresh' (t, os))"
proof -
  note S = tun_contract.name_Create [OF assms(1)] tun_contract.name_Up [OF assms(1)] tun_contract.name_UpdateAddr [OF assms(1)]
    tun_contract.name_Close [OF assms(1)] tun_contract.name_Wrapper [OF assms(1)]
  note T = tun_contract.name_Create [OF assms(2)] tun_contract.name_Up [OF assms(2)] tun_contract.name_UpdateAddr [OF assms(2)]
    tun_contract.name_Close [OF assms(2)] tun_contract.name_Wrapper [OF assms(2)]
  show ?thesis
  proof (unfold_locales, goal_cases)
    case (1 t)
    then show ?case using tun_contract.up_fresh [OF assms(1)] tun_contract.up_fresh [OF assms(2)]
      by (cases t; cases "fst t") (force simp: either_tun_def)+
  next
    case (2 t)
    then show ?case using tun_contract.close_fresh [OF assms(1)] tun_contract.close_fresh [OF assms(2)]
      by (cases t; cases "fst t") (force simp: either_tun_def)+
  qed (auto simp: either_tun_def case_prod_beta S T split: sum.split)
qed

interpretation de: tun_contract "either_tun (netstack_tun F) (darwin_tun E)"
    "\<lambda>(x, os). case x of Inl t \<Rightarrow> ud_device t = None \<and> ud_udpMux t = None \<and> \<not> ud_configurer t | Inr t \<Rightarrow> platform_fresh (t, os)"
  for F E
  by (rule either_tun_contract) unfold_locales

interpretation we: tun_contract "either_tun (netstack_tun F) (windows_tun E)"
    "\<lambda>(x, os). case x of Inl t \<Rightarrow> ud_device t = None \<and> ud_udpMux t = None \<and> \<not> ud_configurer t | Inr t \<Rightarrow> platform_fresh (t, os)"
  for F E
  by (rule either_tun_contract) unfold_locales

section \<open>Windows addresses\<close>

lemma after_last_append: "c \<notin> set y \<Longrightarrow> after_last c (x @ c # y) = y"
proof -
  assume "c \<notin> set y"
  then have "takeWhile (\<lambda>z. z \<noteq> c) (rev y @ c # rev x) = rev y" by (subst takeWhile_append2) auto
  then show ?thesis by (simp add: after_last_def)
qed

lemma Atoi_decimal:
  assumes "n < 2 ^ 63"
  shows "Atoi (decimal n) = Inr (int n)"
proof -
  obtain c r where d: "decimal n = c # r" using decimal_nonempty [of n] by (cases "decimal n") auto
  then have "is_digit c" using decimal_digits [of n] by simp
  then have "c \<noteq> CHR ''-''" "c \<noteq> CHR ''+''" by auto
  moreover have "list_all is_digit (decimal n)" using decimal_digits by (simp add: list_all_iff)
  moreover have "dec_val (c # r) = n" using dec_val_decimal [of n] by (simp only: d)
  ultimately show ?thesis using assms by (simp add: Atoi_def d Let_def)
qed

definition max_bits :: "netipAddr \<Rightarrow> nat" where
  "max_bits ip = (case ip of Addr6 _ _ \<Rightarrow> 128 | Addr4 _ \<Rightarrow> 32)"

lemma ParsePrefix_text:
  assumes "netip_ParseAddr x = Inr ip" and "case ip of Addr6 _ z \<Rightarrow> z = '''' | Addr4 _ \<Rightarrow> True" and "n \<le> 128"
  shows "ParsePrefix (x @ ''/'' @ decimal n)
    = (if n \<le> max_bits ip then Inr (ip, n) else Inl (Errorf ''prefix length out of range''))"
proof -
  have last: "after_last (CHR ''/'') (x @ CHR ''/'' # decimal n) = decimal n"
    by (rule after_last_append) (rule decimal_no_slash)
  have lead: "\<not> (1 < length (decimal n) \<and> \<not> (is_digit (hd (decimal n)) \<and> hd (decimal n) \<noteq> CHR ''0''))"
    using hd_decimal [of n] decimal_digits [of n] decimal_nonempty [of n]
    by (cases "n = 0") (auto simp: decimal_0)
  have "Atoi (decimal n) = Inr (int n)" using assms(3) by (intro Atoi_decimal) simp
  with lead assms show ?thesis
    by (cases ip) (auto simp: ParsePrefix_def last Let_def max_bits_def simp del: One_nat_def)
qed

lemma ParsePrefix_WGAddress:
  assumes "cidr_address a"
  obtains n where "simpleMaskLength (net_Mask (wga_Network a)) = Some n"
    and "ParsePrefix (WGAddress_String a)
      = (case To4 (wga_IP a) of
           Some b \<Rightarrow> if n \<le> 32 then Inr (Addr4 b, n) else Inl (Errorf ''prefix length out of range'')
         | None \<Rightarrow> Inr (Addr6 (wga_IP a) '''', n))"
    and "32 < n \<and> To4 (wga_IP a) \<noteq> None \<Longrightarrow> mapped_v6 a"
proof -
  obtain n where n: "simpleMaskLength (net_Mask (wga_Network a)) = Some n" "n \<le> 128"
    and len: "length (wga_IP a) = 16" and small: "n \<le> 32 \<or> length (net_Mask (wga_Network a)) = 16"
    using assms simpleMaskLength_CIDRMask [of _ 4] simpleMaskLength_CIDRMask [of _ 16]
    by (fastforce simp: cidr_address_def v4InV6Prefix_def)
  have str: "WGAddress_String a = IP_String (wga_IP a) @ ''/'' @ decimal n" by (simp add: WGAddress_String_def n)
  have "ParsePrefix (WGAddress_String a)
      = (case To4 (wga_IP a) of
           Some b \<Rightarrow> if n \<le> 32 then Inr (Addr4 b, n) else Inl (Errorf ''prefix length out of range'')
         | None \<Rightarrow> Inr (Addr6 (wga_IP a) '''', n))"
  proof (cases "To4 (wga_IP a)")
    case None
    then have "IP_String (wga_IP a) = v6string (wga_IP a)" using len by (auto simp: IP_String_def)
    then show ?thesis using ParsePrefix_text [OF netip_ParseAddr_v6string [OF len], of n] n(2) None
      by (simp add: str max_bits_def)
  next
    case (Some b)
    then have "length b = 4" using len by (auto simp: To4_def split: if_splits)
    moreover have "IP_String (wga_IP a) = dotted b" using Some len by (auto simp: IP_String_def)
    ultimately show ?thesis using ParsePrefix_text [OF netip_ParseAddr_dotted, of b n] n(2) Some
      by (simp add: str max_bits_def)
  qed
  with n(1) small show thesis by (intro that [of n]) (auto simp: mapped_v6_def)
qed

lemma parseWGAddress_cidr: "parseWGAddress s = Inr a \<Longrightarrow> cidr_address a"
  by (auto simp: parseWGAddress_def dest: ParseCIDR_cidr_address split: sum.splits)

section \<open>Descriptors\<close>

text \<open>
  What the calls document of the open descriptors: a failed call leaves them alone, a successful one that
  returns a descriptor has opened it, and closing one takes it away.
\<close>

definition fds_ok :: "('b, 's, 'd, 'o) mobile_env \<Rightarrow> 'o TunAdapter \<Rightarrow> ('o \<Rightarrow> int set) \<Rightarrow> bool" where
  "fds_ok E A fds \<longleftrightarrow>
     (\<forall>a m d s r os err os'. ConfigureInterface A a m d s r os = (Inl err, os') \<longrightarrow> fds os' = fds os)
   \<and> (\<forall>a m d s r os fd os'. ConfigureInterface A a m d s r os = (Inr fd, os') \<longrightarrow>
        fd \<notin> fds os \<and> fds os' = insert fd (fds os))
   \<and> (\<forall>fd os err os'. CreateUnmonitoredTUNFromFD E fd os = (Inl err, os') \<longrightarrow> fds os' = fds os)
   \<and> (\<forall>fd os err os'. Dup E fd os = (Inl err, os') \<longrightarrow> fds os' = fds os)
   \<and> (\<forall>fd os fd' os'. Dup E fd os = (Inr fd', os') \<longrightarrow> fd' \<notin> fds os \<and> fds os' = insert fd' (fds os))
   \<and> (\<forall>fd b os err os'. SetNonblock E fd b os = (err, os') \<longrightarrow> fds os' = fds os)
   \<and> (\<forall>fd m os err os'. CreateTUNFromFile E fd m os = (Some err, os') \<longrightarrow> fds os' = fds os)
   \<and> (\<forall>fd os. fds (unix_Close E fd os) = fds os - {fd})"

lemma fds_okD:
  assumes "fds_ok E A fds"
  shows "ConfigureInterface A a m d s r os = (Inl err, os') \<Longrightarrow> fds os' = fds os"
    and "ConfigureInterface A a m d s r os = (Inr fd, os') \<Longrightarrow> fd \<notin> fds os \<and> fds os' = insert fd (fds os)"
    and "CreateUnmonitoredTUNFromFD E fd os = (Inl err, os') \<Longrightarrow> fds os' = fds os"
    and "Dup E fd os = (Inl err, os') \<Longrightarrow> fds os' = fds os"
    and "Dup E fd os = (Inr fd', os') \<Longrightarrow> fd' \<notin> fds os \<and> fds os' = insert fd' (fds os)"
    and "SetNonblock E fd b os = (e, os') \<Longrightarrow> fds os' = fds os"
    and "CreateTUNFromFile E fd k os = (Some err, os') \<Longrightarrow> fds os' = fds os"
    and "fds (unix_Close E fd os) = fds os - {fd}"
  using assms unfolding fds_ok_def by (elim conjE, (metis | simp))+

text \<open>A device that could not be created is not there and nothing is left open, or it is closed.\<close>

definition released ::
  "('d \<Rightarrow> bool) \<Rightarrow> ('o \<Rightarrow> int set) \<Rightarrow> 'o \<Rightarrow> (error + 'd) \<times> ('b, 's, 'd, 'z) platDevice_scheme \<times> 'o \<Rightarrow> bool" where
  "released closed fds os = (\<lambda>(r, t, os').
     if isl r then (case td_device t of None \<Rightarrow> fds os' = fds os | Some d \<Rightarrow> closed d)
     else td_device t = Some (projr r))"

lemma released_nothing: "td_device t = None \<Longrightarrow> fds os' = fds os \<Longrightarrow> released closed fds os (Inl err, t, os')"
  by (simp add: released_def)

lemma configure_device_released:
  assumes "\<And>d os. closed (fst (pe_device_Close E d os))"
  shows "released closed fds os (configure_device goos E t d os')"
  using assms by (auto simp: released_def configure_device_def Let_def case_prod_beta split: prod.split option.split)

section \<open>Properties\<close>

text \<open>C38. Giving a Windows adapter the address of the interface: an address that was parsed is set as it is,
  the only one of the adapter.  The exception is an IPv4-mapped IPv6 address, which prints as an IPv4
  address: with a prefix of more than 32 bits the program panics, and with a shorter one the adapter gets
  that IPv4 prefix.\<close>

theorem windows_assigns_parsed_address:
  assumes "parseWGAddress s = Inr (td_address t)" and "win_nativeTunDevice t = Some luid"
  shows "\<exists>n. simpleMaskLength (net_Mask (wga_Network (td_address t))) = Some n
       \<and> windows_assignAddr E t os =
           (case To4 (wga_IP (td_address t)) of
              None \<Rightarrow> SetIPAddresses E luid [(Addr6 (wga_IP (td_address t)) '''', n)] os
            | Some b \<Rightarrow> if mapped_v6 (td_address t) \<and> 32 < n then (Some (Panic ''netip.MustParsePrefix''), os)
                        else SetIPAddresses E luid [(Addr4 b, n)] os)"
proof -
  have cidr: "cidr_address (td_address t)" using assms(1) by (rule parseWGAddress_cidr)
  show ?thesis
  proof (rule ParsePrefix_WGAddress [OF cidr])
    fix n assume "simpleMaskLength (net_Mask (wga_Network (td_address t))) = Some n"
      and p: "ParsePrefix (WGAddress_String (td_address t))
        = (case To4 (wga_IP (td_address t)) of
             Some b \<Rightarrow> if n \<le> 32 then Inr (Addr4 b, n) else Inl (Errorf ''prefix length out of range'')
           | None \<Rightarrow> Inr (Addr6 (wga_IP (td_address t)) '''', n))"
      and "32 < n \<and> To4 (wga_IP (td_address t)) \<noteq> None \<Longrightarrow> mapped_v6 (td_address t)"
    then show ?thesis
      by (intro exI [of _ n]) (auto simp: windows_assignAddr_def assms(2) p split: option.split)
  qed
qed

text \<open>On macOS, Windows, Android and iOS an interface that was closed cannot be brought up again, and
  neither can one that was never created: the program panics, whatever happened to the interface before,
  where the devices of Linux return an error or the old mux.\<close>

theorem closed_interface_panics:
  "(\<exists>m. fst (iface_Up (darwin_tun D) (snd (iface_Close (darwin_tun D) dw))) = Inl (Panic m))
   \<and> (\<exists>m. fst (iface_Up (windows_tun W) (snd (iface_Close (windows_tun W) ww))) = Inl (Panic m))
   \<and> (\<exists>m. fst (iface_Up (android_tun A r dns sd) (snd (iface_Close (android_tun A r dns sd) aw))) = Inl (Panic m))
   \<and> (\<exists>m. fst (iface_Up (ios_tun I) (snd (iface_Close (ios_tun I) iw))) = Inl (Panic m))
   \<and> (\<exists>m. fst (iface_Up (darwin_tun D) (new_iface (darwin_newTunDevice f name addr port key mtu, os) True)) = Inl (Panic m))
   \<and> (\<exists>m. fst (iface_Up (windows_tun W) (new_iface (windows_newTunDevice f name addr port key mtu, os') True)) = Inl (Panic m))"
  using df.iface_Up_after_Close [of D dw] wf.iface_Up_after_Close [of W ww]
    af.iface_Up_after_Close [of A r dns sd aw] iof.iface_Up_after_Close [of I iw]
    df.iface_Up_nil [of "new_iface (darwin_newTunDevice f name addr port key mtu, os) True" D]
    wf.iface_Up_nil [of "new_iface (windows_newTunDevice f name addr port key mtu, os') True" W]
  by (auto simp: new_iface_def darwin_newTunDevice_def windows_newTunDevice_def new_platDevice_def platDevice.defs)


subsection \<open>Concrete devices\<close>

definition mapped_demo :: WGAddress where
  "mapped_demo = \<lparr>wga_IP = v4InV6Prefix @ [10, 0, 0, 7],
     wga_Network = \<lparr>net_IP = the (IP_Mask (v4InV6Prefix @ [10, 0, 0, 7]) (CIDRMask 120 16)), net_Mask = CIDRMask 120 16\<rparr>\<rparr>"

definition windows_demo :: "(fifo, unit SharedSocket \<times> unit, bool) windowsDevice" where
  "windows_demo = (windows_newTunDevice None ''wt0'' mapped_demo 51820 ''key'' 1280)\<lparr>win_nativeTunDevice := Some 7\<rparr>"

lemma mapped_demo_parsed: "parseWGAddress (v6string (wga_IP mapped_demo) @ ''/'' @ decimal 120) = Inr mapped_demo"
  unfolding parseWGAddress_def ParseCIDR_def cut_at_slash [OF v6string_no_slash]
  using netip_ParseAddr_v6string [of "wga_IP mapped_demo"]
  by (simp add: dtoi_decimal mapped_demo_def v4InV6Prefix_def Let_def)

theorem windows_assigns_parsed_address_witness:
  "\<forall>E os. windows_assignAddr E windows_demo (os :: nat) = (Some (Panic ''netip.MustParsePrefix''), os)"
proof -
  have a: "td_address windows_demo = mapped_demo" and luid: "win_nativeTunDevice windows_demo = Some 7"
    by (simp_all add: windows_demo_def windows_newTunDevice_def new_platDevice_def platDevice.defs windowsDevice.defs)
  have n: "simpleMaskLength (net_Mask (wga_Network mapped_demo)) = Some 120"
    using simpleMaskLength_CIDRMask [of 120 16] by (simp add: mapped_demo_def)
  have b: "To4 (wga_IP mapped_demo) = Some [10, 0, 0, 7]" by (simp add: mapped_demo_def To4_def v4InV6Prefix_def)
  have m: "mapped_v6 mapped_demo" unfolding mapped_v6_def b by (simp add: mapped_demo_def)
  have "parseWGAddress (v6string (wga_IP mapped_demo) @ ''/'' @ decimal 120) = Inr (td_address windows_demo)"
    unfolding a by (rule mapped_demo_parsed)
  note W = windows_assigns_parsed_address [OF this luid]
  show ?thesis
  proof (intro allI)
    fix E and os :: nat
    from W [of E os] show "windows_assignAddr E windows_demo os = (Some (Panic ''netip.MustParsePrefix''), os)"
      by (simp add: a n b m)
  qed
qed

definition fd_table_env :: "(fifo, unit SharedSocket \<times> unit, bool, int list) mobile_env" where
  "fd_table_env =
     \<lparr>pe_ParseKey = (\<lambda>_. Inr []), pe_ipc = \<lparr>IpcSet = (\<lambda>_ d. (Some EOF, d)), IpcGet = (\<lambda>_. Inr [])\<rparr>, pe_fwmark = 0,
      pe_uapi = \<lparr>UAPIOpen = (\<lambda>_ os. (Inl EOF, os)), UAPIListen = (\<lambda>_ _ os. (Inl EOF, os)),
        UAPIListen_windows = (\<lambda>_ os. (Inl EOF, os)), listener_Close = (\<lambda>_ os. (None, os)), Stat = (\<lambda>_ _. False),
        os_Remove = (\<lambda>_ os. os)\<rparr>,
      pe_NewDevice = False, pe_device_Close = (\<lambda>_ os. (True, os)), pe_device_Up = (\<lambda>d b. (None, d, b)),
      pe_packetio = fifo_io, pe_conn = ue_conn demo_usp,
      unix_Close = removeAll,
      CreateUnmonitoredTUNFromFD = (\<lambda>fd os. if fd < 5 then (Inr ''tun0'', os) else (Inl EOF, os)),
      Dup = (\<lambda>fd os. let fd' = 1 + Max (set (0 # os)) in (Inr fd', fd' # os)),
      SetNonblock = (\<lambda>fd b os. (None, os)),
      CreateTUNFromFile = (\<lambda>fd m os. (Some EOF, os))\<rparr>"

definition fd_table_adapter :: "int list TunAdapter" where
  "fd_table_adapter =
     \<lparr>ConfigureInterface = (\<lambda>_ _ _ _ _ os. let fd = 1 + Max (set (0 # os)) in (Inr fd, fd # os)),
      adapter_UpdateAddr = (\<lambda>_ os. (None, os)), ProtectSocket = (\<lambda>_ os. (True, os))\<rparr>"

lemma fd_table_ok: "fds_ok fd_table_env fd_table_adapter set"
proof -
  have "1 + Max (set (0 # os)) \<notin> set os" for os :: "int list"
    using Max_ge [of "set (0 # os)" "1 + Max (set (0 # os))"] by fastforce
  then show ?thesis by (auto simp: fds_ok_def fd_table_env_def fd_table_adapter_def Let_def split: if_splits)
qed


section \<open>Lists for the adapter\<close>

text \<open>The service on Android gets back the routes and the search domains it was given, provided there are any and
  none has a semicolon.\<close>

lemma routes_split:
  "routes \<noteq> [] \<Longrightarrow> list_all (\<lambda>r. CHR '';'' \<notin> set r) routes \<Longrightarrow> Split (CHR '';'') (routesToString routes) = routes"
  "ds \<noteq> [] \<Longrightarrow> list_all (\<lambda>r. CHR '';'' \<notin> set r) ds \<Longrightarrow> Split (CHR '';'') (searchDomainsToString ds) = ds"
  by (simp_all add: routesToString_def searchDomainsToString_def Split_Join list_all_iff)

text \<open>The commands of macOS, in order: a failure of the second is ignored, one of the first ends it.\<close>

lemma darwin_commands:
  assumes "\<And>c os. trace (snd (CombinedOutput E c os)) = trace os @ [hd c]" and "darwin_assignAddr E t os = (err, os')"
  shows "trace os' = trace os @ [''ifconfig''] \<and> err \<noteq> None \<or> trace os' = trace os @ [''ifconfig'', ''ifconfig'', ''route'']"
proof -
  let ?c = "\<lambda>ip. [''ifconfig'', td_name t, ''inet'', ip, ip]"
  obtain e os1 where r: "CombinedOutput E (?c (IP_String (wga_IP (td_address t)))) os = (e, os1)" by fastforce
  then have "trace os1 = trace os @ [''ifconfig'']" using assms(1) [of "?c (IP_String (wga_IP (td_address t)))" os] by simp
  then show ?thesis using assms(2) assms(1)
    by (cases e) (auto simp: darwin_assignAddr_def Let_def r dest: arg_cong [of _ _ "\<lambda>p. trace (snd p)"])
qed

section \<open>Mobile arguments\<close>

text \<open>The engine makes its interface without mobile arguments, which panics on the systems that need them whenever the
  address is one.\<close>

lemma engine_without_mobile_args:
  assumes "parseWGAddress address = Inr a"
  shows "\<exists>m. android_NewWGIFace f os name address port key mtu None = Inl (Panic m)"
    and "\<exists>m. ios_NewWGIFace f os name address port key mtu None = Inl (Panic m)"
  by (simp_all add: android_NewWGIFace_def ios_NewWGIFace_def assms)

text \<open>An interface on the network stack has no GUID to ask for.\<close>

lemma GUID_on_netstack:
  assumes "windows_NewWGIFace ''true'' sPort f os name address port key mtu = Inr w"
  shows "\<exists>m. GetInterfaceGUIDString E w = Inl (Panic m)"
  using assms by (auto simp: windows_NewWGIFace_def GetInterfaceGUIDString_def IsEnabled_def new_iface_def split: sum.splits)

end
