(* ===== verification/Kernel_Modules.thy ===== *)
theory Kernel_Modules
  imports Punch_Prelude
begin

text \<open>
  Finding and loading the kernel modules (\<^verbatim>\<open>iface/module_linux.go\<close>).  The files of the system are
  given by their lines, the kernel by its state: \<open>proc_modules\<close> is what \<^verbatim>\<open>/proc/modules\<close> shows and
  \<open>Finit\<close> what loading a file does.
\<close>

section \<open>Names\<close>

text \<open>\<^verbatim>\<open>filepath.Base\<close> and \<^verbatim>\<open>filepath.Ext\<close>.\<close>

definition strip_right :: "char \<Rightarrow> string \<Rightarrow> string" where
  "strip_right c s = rev (dropWhile ((=) c) (rev s))"

definition Base :: "string \<Rightarrow> string" where
  "Base s =
     (if s = [] then ''.''
      else let s = strip_right (CHR ''/'') s;
               s = rev (takeWhile ((\<noteq>) (CHR ''/'')) (rev s))
           in if s = [] then ''/'' else s)"

definition Ext :: "string \<Rightarrow> string" where
  "Ext s =
     (let t = takeWhile (\<lambda>c. c \<noteq> CHR ''.'' \<and> c \<noteq> CHR ''/'') (rev s)
      in if length t < length s \<and> rev s ! length t = CHR ''.'' then CHR ''.'' # rev t else [])"

definition cleanName :: "string \<Rightarrow> string" where
  "cleanName s = map (\<lambda>c. if c = CHR ''-'' then CHR ''_'' else c) (TrimSpace s)"

text \<open>The loop of \<^verbatim>\<open>pathToName\<close> takes off one extension after the other.\<close>

lemma Ext_suffix: "Ext s \<noteq> [] \<Longrightarrow> \<exists>p. s = p @ Ext s"
proof -
  assume e: "Ext s \<noteq> []"
  let ?ok = "\<lambda>c. c \<noteq> CHR ''.'' \<and> c \<noteq> CHR ''/''"
  define t where "t = takeWhile ?ok (rev s)"
  from e have t: "length t < length s" "rev s ! length t = CHR ''.''" and x: "Ext s = CHR ''.'' # rev t"
    by (auto simp: Ext_def t_def Let_def split: if_splits)
  define u where "u = dropWhile ?ok (rev s)"
  have whole: "rev s = t @ u"
    unfolding t_def u_def by simp
  then have "u \<noteq> []" and "hd u = CHR ''.''"
    using t by (auto simp: hd_conv_nth nth_append dest: arg_cong [of _ _ length])
  then obtain v where "u = CHR ''.'' # v" by (cases u) simp_all
  with whole have "rev (rev s) = rev v @ CHR ''.'' # rev t" by (simp only: rev_append rev.simps append.assoc append_Cons append_Nil)
  then show ?thesis unfolding x rev_rev_ident by blast
qed

lemma Ext_shrinks: "Ext s \<noteq> [] \<Longrightarrow> length (TrimSuffix s (Ext s)) < length s"
  using Ext_suffix [of s] by (metis TrimSuffix_append length_append length_greater_0_conv less_add_same_cancel1)

function strip_exts :: "string \<Rightarrow> string" where
  "strip_exts s = (if Ext s = [] then s else strip_exts (TrimSuffix s (Ext s)))"
  by auto
termination
  by (relation "measure length") (auto intro: Ext_shrinks)

declare strip_exts.simps [simp del]

definition pathToName :: "string \<Rightarrow> string" where
  "pathToName s = cleanName (strip_exts (Base s))"

section \<open>The system\<close>

datatype status = unknown | unloaded | unloading | loading | live | inuse

primrec status_int :: "status \<Rightarrow> nat" where
  "status_int unknown = 1"
| "status_int unloaded = 2"
| "status_int unloading = 3"
| "status_int loading = 4"
| "status_int live = 5"
| "status_int inuse = 6"

instantiation status :: linorder
begin

definition less_eq_status :: "status \<Rightarrow> status \<Rightarrow> bool" where
  "a \<le> b \<longleftrightarrow> status_int a \<le> status_int b"

definition less_status :: "status \<Rightarrow> status \<Rightarrow> bool" where
  "a < b \<longleftrightarrow> status_int a < status_int b"

instance
proof
  fix a b :: status
  show "a \<le> b \<Longrightarrow> b \<le> a \<Longrightarrow> a = b"
    by (cases a; cases b) (simp_all add: less_eq_status_def)
qed (auto simp: less_eq_status_def less_status_def)

end

record module =
  mod_name :: string
  mod_path :: string

text \<open>
  A file read through a scanner: the error of opening it, or its lines and the error that ends the
  scan.  \<open>walk\<close> are the entries \<^verbatim>\<open>WalkDir\<close> visits under the module root, in its order, with a flag for
  broken and one for regular ones; \<open>mod_LinkAdd\<close> is the error of adding a WireGuard link with a name and an
  MTU.
\<close>

type_synonym scanned = "error + string list \<times> error option"

record 'k mod_env =
  moduleRoot :: string
  modules_builtin :: scanned
  modules_dep :: scanned
  walk :: "(string \<times> bool \<times> bool) list"
  stat_tun :: "error option"
  wg_kernel_disabled :: string
  mod_LinkAdd :: "string \<Rightarrow> int \<Rightarrow> error option"
  proc_modules :: "'k \<Rightarrow> scanned"
  mod_Open :: "string \<Rightarrow> error option"
  FinitModule :: "string \<Rightarrow> 'k \<Rightarrow> (error option \<times> bool) \<times> 'k"
  mod_ReadAll :: "string \<Rightarrow> error + bytes"
  InitModule :: "bytes \<Rightarrow> 'k \<Rightarrow> error option \<times> 'k"

text \<open>\<^verbatim>\<open>filepath.Join\<close> of the module root with a path that has no empty or dot segments inside.\<close>

definition join_root :: "string \<Rightarrow> string \<Rightarrow> string" where
  "join_root root p = root @ ''/'' @ dropWhile ((=) (CHR ''/'')) p"

text \<open>\<^verbatim>\<open>getModuleRoot\<close>: the release is the part of the field before its first zero byte.\<close>

definition getModuleRoot :: "error + bytes \<Rightarrow> error + string" where
  "getModuleRoot uname =
     (case uname of
        Inl err \<Rightarrow> Inl (Panic ''uname'')
      | Inr release \<Rightarrow>
          if 0 \<notin> set release then Inl (Panic ''index out of range'')
          else Inr (join_root ''/lib/modules'' (of_bytes (takeWhile ((\<noteq>) 0) release))))"

section \<open>Reading the module files\<close>

text \<open>A loop that breaks has not seen the scanner's error.\<close>

fun builtin_loop :: "string \<Rightarrow> string list \<Rightarrow> bool" where
  "builtin_loop name [] = False"
| "builtin_loop name (line # ls) = (pathToName line = name \<or> builtin_loop name ls)"

definition isBuiltinModule :: "'k mod_env \<Rightarrow> string \<Rightarrow> error + bool" where
  "isBuiltinModule v name =
     (case modules_builtin v of
        Inl err \<Rightarrow> Inl err
      | Inr (ls, scanErr) \<Rightarrow>
          if builtin_loop name ls then Inr True
          else (case scanErr of Some err \<Rightarrow> Inl err | None \<Rightarrow> Inr False))"

text \<open>\<open>None\<close> when no line is for the module.  Indexing a line with too few fields panics.\<close>

fun status_loop :: "string \<Rightarrow> string list \<Rightarrow> error + status option" where
  "status_loop name [] = Inr None"
| "status_loop name (line # ls) =
     (let fields = Fields line
      in if fields = [] then Inl (Panic ''index out of range'')
         else if fields ! 0 = name
         then if length fields < 3 then Inl (Panic ''index out of range'')
              else if fields ! 2 \<noteq> ''0'' then Inr (Some inuse)
              else if length fields < 5 then Inl (Panic ''index out of range'')
              else if fields ! 4 = ''Live'' then Inr (Some live)
              else if fields ! 4 = ''Loading'' then Inr (Some loading)
              else if fields ! 4 = ''Unloading'' then Inr (Some unloading)
              else Inr (Some unloaded)
         else status_loop name ls)"

definition moduleStatus :: "'k mod_env \<Rightarrow> string \<Rightarrow> 'k \<Rightarrow> error + status" where
  "moduleStatus v name k =
     (case proc_modules v k of
        Inl err \<Rightarrow> Inl err
      | Inr (ls, scanErr) \<Rightarrow>
          (case status_loop name ls of
             Inl err \<Rightarrow> Inl err
           | Inr (Some state) \<Rightarrow> Inr state
           | Inr None \<Rightarrow> (case scanErr of Some err \<Rightarrow> Inl err | None \<Rightarrow> Inr unloaded)))"

fun dep_loop :: "string \<Rightarrow> string list \<Rightarrow> error + string list" where
  "dep_loop name [] = Inr []"
| "dep_loop name (line # ls) =
     (let fields = Fields line
      in if fields = [] then Inl (Panic ''index out of range'')
         else if pathToName (TrimSuffix (fields ! 0) '':'') = name then Inr fields
         else dep_loop name ls)"

definition ErrModuleNotFound :: error where "ErrModuleNotFound = Errorf ''module not found''"

definition getModuleDependencies :: "'k mod_env \<Rightarrow> string \<Rightarrow> error + module list" where
  "getModuleDependencies v name =
     (case modules_dep v of
        Inl err \<Rightarrow> Inl err
      | Inr (ls, scanErr) \<Rightarrow>
          (case dep_loop name ls of
             Inl err \<Rightarrow> Inl err
           | Inr [] \<Rightarrow> (case scanErr of Some err \<Rightarrow> Inl err | None \<Rightarrow> Inl ErrModuleNotFound)
           | Inr (d # ds) \<Rightarrow>
               Inr (map (\<lambda>p. \<lparr>mod_name = pathToName p, mod_path = join_root (moduleRoot v) p\<rparr>)
                     (filter (\<lambda>p. pathToName p \<noteq> name) (TrimSuffix d '':'' # ds)))))"

fun walk_loop :: "string \<Rightarrow> (string \<times> bool \<times> bool) list \<Rightarrow> string" where
  "walk_loop name [] = []"
| "walk_loop name ((path, broken, regular) # es) =
     (if \<not> broken \<and> regular \<and> pathToName path = name then path else walk_loop name es)"

definition getModulePath :: "'k mod_env \<Rightarrow> string \<Rightarrow> string" where
  "getModulePath v name = walk_loop name (walk v)"

section \<open>Loading\<close>

definition loadModule :: "'k mod_env \<Rightarrow> string \<Rightarrow> string \<Rightarrow> 'k \<Rightarrow> error option \<times> 'k" where
  "loadModule v name path k =
     (case moduleStatus v name k of
        Inl err \<Rightarrow> (Some err, k)
      | Inr state \<Rightarrow>
          if loading \<le> state then (None, k)
          else case mod_Open v path of
            Some err \<Rightarrow> (Some err, k)
          | None \<Rightarrow>
              (case FinitModule v path k of
                 ((err, True), k) \<Rightarrow>
                   (case mod_ReadAll v path of
                      Inl err \<Rightarrow> (Some err, k)
                    | Inr buf \<Rightarrow> InitModule v buf k)
               | ((err, False), k) \<Rightarrow> (err, k)))"

fun load_deps :: "'k mod_env \<Rightarrow> string \<Rightarrow> module list \<Rightarrow> 'k \<Rightarrow> error option \<times> 'k" where
  "load_deps v name [] k = (None, k)"
| "load_deps v name (dep # deps) k =
     (case loadModule v (mod_name dep) (mod_path dep) k of
        (Some err, k) \<Rightarrow>
          (Some (annotate (\<lambda>_. Errorf (''couldn't load dependency module '' @ mod_name dep @ '' for '' @ name)) err), k)
      | (None, k) \<Rightarrow> load_deps v name deps k)"

definition loadModuleWithDependencies :: "'k mod_env \<Rightarrow> string \<Rightarrow> string \<Rightarrow> 'k \<Rightarrow> error option \<times> 'k" where
  "loadModuleWithDependencies v name path k =
     (case getModuleDependencies v name of
        Inl err \<Rightarrow>
          (Some (annotate (\<lambda>_. Errorf (''couldn't load list of module '' @ name @ '' dependencies'')) err), k)
      | Inr deps \<Rightarrow>
          (case load_deps v name deps k of
             (Some err, k) \<Rightarrow> (Some err, k)
           | (None, k) \<Rightarrow> loadModule v name path k))"

text \<open>The two checks of \<^verbatim>\<open>isModuleEnabled\<close>; a panic of the second one is not caught.\<close>

definition isModuleEnabled :: "'k mod_env \<Rightarrow> string \<Rightarrow> 'k \<Rightarrow> error + bool" where
  "isModuleEnabled v name k =
     (let builtin = (case isBuiltinModule v name of Inr b \<Rightarrow> b | Inl _ \<Rightarrow> False)
      in case moduleStatus v name k of
           Inl (Panic m) \<Rightarrow> Inl (Panic m)
         | Inl _ \<Rightarrow> Inr builtin
         | Inr state \<Rightarrow> Inr (builtin \<or> loading \<le> state))"

definition tryToLoadModule :: "'k mod_env \<Rightarrow> string \<Rightarrow> 'k \<Rightarrow> (error + bool) \<times> 'k" where
  "tryToLoadModule v moduleName k =
     (case isModuleEnabled v moduleName k of
        Inl err \<Rightarrow> (Inl err, k)
      | Inr True \<Rightarrow> (Inr True, k)
      | Inr False \<Rightarrow>
          if getModulePath v moduleName = [] then (Inr False, k)
          else case loadModuleWithDependencies v moduleName (getModulePath v moduleName) k of
                 (Some err, k) \<Rightarrow> (Inl (annotate (Wrapf (''couldn't load '' @ moduleName @ '' module'')) err), k)
               | (None, k) \<Rightarrow> (Inr True, k))"

text \<open>Errors are logged and count as not loaded.\<close>

definition loaded_or_not :: "(error + bool) \<times> 'k \<Rightarrow> (error + bool) \<times> 'k" where
  "loaded_or_not = (\<lambda>(r, k). (case r of Inl (Panic m) \<Rightarrow> Inl (Panic m) | _ \<Rightarrow> Inr (r = Inr True), k))"

definition tunModuleIsLoaded :: "'k mod_env \<Rightarrow> 'k \<Rightarrow> (error + bool) \<times> 'k" where
  "tunModuleIsLoaded v k =
     (if stat_tun v = None then (Inr True, k) else loaded_or_not (tryToLoadModule v ''tun'' k))"

text \<open>A link with the largest MTU is refused with \<^verbatim>\<open>EINVAL\<close> by a kernel that knows its kind.\<close>

definition EINVAL :: error where "EINVAL = EnvErr ''EINVAL''"

definition canCreateFakeWireGuardInterface :: "'k mod_env \<Rightarrow> bool" where
  "canCreateFakeWireGuardInterface v \<longleftrightarrow> mod_LinkAdd v ''mustnotexist'' (2 ^ 63 - 1) = Some EINVAL"

definition WireGuardModuleIsLoaded :: "'k mod_env \<Rightarrow> 'k \<Rightarrow> (error + bool) \<times> 'k" where
  "WireGuardModuleIsLoaded v k =
     (if wg_kernel_disabled v = ''true'' then (Inr False, k)
      else if canCreateFakeWireGuardInterface v then (Inr True, k)
      else loaded_or_not (tryToLoadModule v ''wireguard'' k))"

text \<open>On FreeBSD the kernel's WireGuard is not used and the tunnel module is taken for granted; on every other system
  there is no module.\<close>

definition freebsd_WireGuardModuleIsLoaded :: bool where "freebsd_WireGuardModuleIsLoaded \<longleftrightarrow> False"
definition freebsd_tunModuleIsLoaded :: bool where "freebsd_tunModuleIsLoaded \<longleftrightarrow> True"
definition other_WireGuardModuleIsLoaded :: bool where "other_WireGuardModuleIsLoaded \<longleftrightarrow> False"

section \<open>Lemmas\<close>

lemma Ext_last_dot:
  assumes "CHR ''.'' \<notin> set t" and "CHR ''/'' \<notin> set t"
  shows "Ext (p @ CHR ''.'' # t) = CHR ''.'' # t"
proof -
  have "takeWhile (\<lambda>c. c \<noteq> CHR ''.'' \<and> c \<noteq> CHR ''/'') (rev t @ CHR ''.'' # rev p) = rev t"
    using assms by (subst takeWhile_append2) auto
  then show ?thesis by (simp add: Ext_def Let_def nth_append)
qed

lemma Ext_no_dot:
  assumes "CHR ''.'' \<notin> set s"
  shows "Ext s = []"
proof -
  let ?t = "takeWhile (\<lambda>c. c \<noteq> CHR ''.'' \<and> c \<noteq> CHR ''/'') (rev s)"
  have "rev s ! length ?t \<noteq> CHR ''.''" if "length ?t < length s"
    using assms that by (metis length_rev nth_mem set_rev)
  then show ?thesis by (simp add: Ext_def Let_def)
qed

lemma strip_exts_cuts: "CHR ''/'' \<notin> set s \<Longrightarrow> strip_exts s = takeWhile ((\<noteq>) (CHR ''.'')) s"
proof (induction s rule: strip_exts.induct)
  case (1 s)
  show ?case
  proof (cases "CHR ''.'' \<in> set s")
    case False
    then have "strip_exts s = s" unfolding strip_exts.simps [of s] by (simp add: Ext_no_dot)
    moreover have "takeWhile ((\<noteq>) (CHR ''.'')) s = s" using False by (auto simp: takeWhile_eq_all_conv)
    ultimately show ?thesis by (simp only:)
  next
    case True
    then obtain p t where s: "s = p @ CHR ''.'' # t" "CHR ''.'' \<notin> set t"
      by (metis split_list_last)
    have ext: "Ext s = CHR ''.'' # t"
      using "1.prems" s by (simp add: Ext_last_dot)
    have trim: "TrimSuffix s (Ext s) = p" unfolding ext unfolding s(1) by (rule TrimSuffix_append)
    have "CHR ''/'' \<notin> set p" using "1.prems" s(1) by simp
    with "1.IH" have "strip_exts p = takeWhile ((\<noteq>) (CHR ''.'')) p"
      unfolding trim using ext by simp
    moreover have "takeWhile ((\<noteq>) (CHR ''.'')) p = takeWhile ((\<noteq>) (CHR ''.'')) s"
      unfolding s by (simp add: takeWhile_append)
    ultimately show ?thesis
      unfolding strip_exts.simps [of s] trim using ext by simp
  qed
qed

lemma Base_no_slash: "Base s \<noteq> ''/'' \<Longrightarrow> CHR ''/'' \<notin> set (Base s)"
  by (auto simp: Base_def Let_def dest: set_takeWhileD split: if_splits)

text \<open>The kernel has the module, or is loading it.\<close>

definition enabled :: "'k mod_env \<Rightarrow> string \<Rightarrow> 'k \<Rightarrow> bool" where
  "enabled v name k \<longleftrightarrow> (\<exists>state. moduleStatus v name k = Inr state \<and> loading \<le> state)"

text \<open>
  A kernel in which \<^verbatim>\<open>finit_module\<close> exists, loading the file of one of the modules \<open>ms\<close> makes the
  kernel list it, and no module goes away by loading another.
\<close>

definition kernel_loads :: "'k mod_env \<Rightarrow> module list \<Rightarrow> bool" where
  "kernel_loads v ms \<longleftrightarrow>
     (\<forall>path k. \<not> snd (fst (FinitModule v path k)))
   \<and> (\<forall>m k k'. m \<in> set ms \<longrightarrow> FinitModule v (mod_path m) k = ((None, False), k') \<longrightarrow> enabled v (mod_name m) k')
   \<and> (\<forall>path k r k' n. FinitModule v path k = (r, k') \<longrightarrow> enabled v n k \<longrightarrow> enabled v n k')"

lemma loadModule_keeps:
  assumes "kernel_loads v ms" and "loadModule v name path k = (err, k')" and "enabled v n k"
  shows "enabled v n k'"
proof -
  have "k' = k \<or> (\<exists>r. FinitModule v path k = (r, k'))"
    using assms(1,2) unfolding kernel_loads_def loadModule_def
    by (auto split: sum.splits if_splits option.splits prod.splits bool.splits) (metis fst_conv snd_conv)+
  with assms(1,3) show ?thesis unfolding kernel_loads_def by blast
qed

lemma loadModule_enables:
  assumes "kernel_loads v ms" and "m \<in> set ms" and "loadModule v (mod_name m) (mod_path m) k = (None, k')"
  shows "enabled v (mod_name m) k'"
proof -
  have "enabled v (mod_name m) k \<and> k' = k \<or> FinitModule v (mod_path m) k = ((None, False), k')"
    using assms(1,3) unfolding kernel_loads_def loadModule_def enabled_def
    by (auto split: sum.splits if_splits option.splits prod.splits bool.splits) (metis fst_conv snd_conv)+
  with assms(1,2) show ?thesis unfolding kernel_loads_def by blast
qed

lemma load_deps_enables:
  assumes "kernel_loads v ms" and "set deps \<subseteq> set ms" and "load_deps v name deps k = (None, k')"
  shows "(\<forall>d\<in>set deps. enabled v (mod_name d) k') \<and> (\<forall>n. enabled v n k \<longrightarrow> enabled v n k')"
  using assms(2,3)
proof (induction deps arbitrary: k)
  case (Cons d deps)
  then obtain k1 where k1: "loadModule v (mod_name d) (mod_path d) k = (None, k1)" "load_deps v name deps k1 = (None, k')"
    by (auto split: prod.splits option.splits)
  with Cons.IH [of k1] Cons.prems loadModule_enables [OF assms(1) _ k1(1)] loadModule_keeps [OF assms(1) k1(1)]
  show ?case by auto
qed simp

section \<open>Properties\<close>

text \<open>The name of a module is its file name up to the first dot, with dashes replaced: taking off
  one extension after the other is the same as cutting at the first dot, for every path.\<close>

theorem pathToName_cuts_at_dot: "pathToName s = cleanName (takeWhile ((\<noteq>) (CHR ''.'')) (Base s))"
proof (cases "Base s = ''/''")
  case True
  have "Ext ''/'' = []" by (simp add: Ext_no_dot)
  with True show ?thesis unfolding pathToName_def by (subst strip_exts.simps) simp
next
  case False
  then show ?thesis by (simp add: pathToName_def strip_exts_cuts Base_no_slash)
qed

text \<open>C32. When loading a module succeeds, it is there with everything it needs: either it was enabled
  already and nothing was loaded, or all its dependencies were enabled before its own file was
  loaded, and it and they are enabled at the end.\<close>

theorem tryToLoadModule_loads:
  assumes "getModuleDependencies v name = Inr deps"
    and "kernel_loads v (\<lparr>mod_name = name, mod_path = getModulePath v name\<rparr> # deps)"
    and "tryToLoadModule v name k = (Inr True, k')"
  shows "isModuleEnabled v name k = Inr True \<and> k' = k
       \<or> (\<exists>k1. (\<forall>d\<in>set deps. enabled v (mod_name d) k1)
             \<and> loadModule v name (getModulePath v name) k1 = (None, k')
             \<and> enabled v name k' \<and> (\<forall>d\<in>set deps. enabled v (mod_name d) k'))"
proof (cases "isModuleEnabled v name k = Inr True")
  case True
  with assms(3) show ?thesis by (simp add: tryToLoadModule_def)
next
  case False
  with assms(1,3) obtain k1 where
    deps: "load_deps v name deps k = (None, k1)" and own: "loadModule v name (getModulePath v name) k1 = (None, k')"
    unfolding tryToLoadModule_def loadModuleWithDependencies_def
    by (auto split: sum.splits bool.splits if_splits prod.splits option.splits)
  have before: "\<forall>d\<in>set deps. enabled v (mod_name d) k1"
    using load_deps_enables [OF assms(2) _ deps] by auto
  have "enabled v name k'"
    using loadModule_enables [OF assms(2), of "\<lparr>mod_name = name, mod_path = getModulePath v name\<rparr>"] own by simp
  with before own loadModule_keeps [OF assms(2) own] show ?thesis by blast
qed

text \<open>A kernel with \<^verbatim>\<open>wireguard\<close> and one dependency, both listed once anything has been loaded.\<close>

definition demo_kernel :: "bool mod_env" where
  "demo_kernel = \<lparr>moduleRoot = ''/m'', modules_builtin = Inr ([], None),
     modules_dep = Inr ([''w.ko: u.ko''], None), walk = [(''/m/w.ko'', False, True)], stat_tun = None,
     wg_kernel_disabled = [], mod_LinkAdd = (\<lambda>_ _. None),
     proc_modules = (\<lambda>k. Inr (if k then [''u 1 0 - Live 0'', ''w 1 0 - Live 0''] else [], None)),
     mod_Open = (\<lambda>_. None), FinitModule = (\<lambda>_ _. ((None, False), True)),
     mod_ReadAll = (\<lambda>_. Inr []), InitModule = (\<lambda>_ k. (None, k))\<rparr>"

lemma demo_names: "pathToName ''w.ko'' = ''w''" "pathToName ''u.ko'' = ''u''" "pathToName ''/m/w.ko'' = ''w''"
  by (simp_all add: pathToName_def strip_exts.simps Base_def Ext_def TrimSuffix_def cleanName_def TrimSpace_def
        strip_right_def is_space_def Let_def)

lemma demo_deps:
  "getModuleDependencies demo_kernel ''w'' = Inr [\<lparr>mod_name = ''u'', mod_path = ''/m/u.ko''\<rparr>]"
  "getModulePath demo_kernel ''w'' = ''/m/w.ko''"
  by (simp_all add: getModuleDependencies_def getModulePath_def demo_kernel_def Fields_def is_space_def Let_def
        TrimSuffix_def demo_names join_root_def)

lemma demo_moduleStatus:
  "moduleStatus demo_kernel ''u'' True = Inr live" "moduleStatus demo_kernel ''w'' True = Inr live"
  "moduleStatus demo_kernel n False = Inr unloaded"
  by (simp_all add: moduleStatus_def demo_kernel_def Fields_def is_space_def Let_def)

lemma demo_status:
  "enabled demo_kernel ''u'' True" "enabled demo_kernel ''w'' True" "\<not> enabled demo_kernel n False"
  by (simp_all add: enabled_def demo_moduleStatus less_eq_status_def)

lemma demo_load:
  "loadModule demo_kernel n path False = (None, True)" "loadModule demo_kernel ''w'' path True = (None, True)"
proof -
  have "mod_Open demo_kernel path = None" "FinitModule demo_kernel path k = ((None, False), True)" for path k
    by (simp_all add: demo_kernel_def)
  then show "loadModule demo_kernel n path False = (None, True)" "loadModule demo_kernel ''w'' path True = (None, True)"
    by (simp_all add: loadModule_def demo_moduleStatus less_eq_status_def)
qed

lemma demo_kernel_loads:
  "kernel_loads demo_kernel [\<lparr>mod_name = ''w'', mod_path = ''/m/w.ko''\<rparr>, \<lparr>mod_name = ''u'', mod_path = ''/m/u.ko''\<rparr>]"
proof -
  have fin: "FinitModule demo_kernel path k = ((None, False), True)" for path k
    by (simp add: demo_kernel_def)
  have "enabled demo_kernel n k \<Longrightarrow> enabled demo_kernel n True" for n k
    using demo_status(3) by (cases k) auto
  with demo_status(1,2) show ?thesis unfolding kernel_loads_def fin by auto
qed

theorem tryToLoadModule_loads_witness:
  "tryToLoadModule demo_kernel ''w'' False = (Inr True, True) \<and> enabled demo_kernel ''w'' True"
proof -
  have "isBuiltinModule demo_kernel ''w'' = Inr False" by (simp add: isBuiltinModule_def demo_kernel_def)
  then have "isModuleEnabled demo_kernel ''w'' False = Inr False"
    by (simp add: isModuleEnabled_def demo_moduleStatus less_eq_status_def)
  then have run: "tryToLoadModule demo_kernel ''w'' False = (Inr True, True)"
    by (simp add: tryToLoadModule_def loadModuleWithDependencies_def demo_deps demo_load)
  then show ?thesis
    using tryToLoadModule_loads [OF demo_deps(1), unfolded demo_deps(2), OF demo_kernel_loads run] by blast
qed

end
