(* ===== verification/Net_Hooks.thy ===== *)
theory Net_Hooks
  imports Udp_Mux
begin

text \<open>
  Dialers and listeners with hooks (\<^verbatim>\<open>util/net\<close>).  A hook is a number, and \<open>hook_err\<close> the error a call
  of it returns; the calls of hooks, and of the wrapped connection between them, are recorded in
  order, since what the hooks promise is when and how often they run.
\<close>

section \<open>Hooks\<close>

type_synonym ConnectionID = nat

datatype call =
    DialHook nat ConnectionID "IP list"
  | DialCloseHook nat ConnectionID
  | WriteHook nat ConnectionID IP bytes
  | ListenCloseHook nat ConnectionID
  | InnerDial string string
  | InnerWrite bytes Addr
  | InnerClose

text \<open>The global slices; \<open>dialerDialHooks\<close> is compared with nil, which is \<open>None\<close>.\<close>

record hooks =
  dialerDialHooks :: "nat list option"
  dialerCloseHooks :: "nat list"
  listenerWriteHooks :: "nat list"
  listenerCloseHooks :: "nat list"

definition AddDialerHook :: "nat \<Rightarrow> hooks \<Rightarrow> hooks" where
  "AddDialerHook h H =
     H\<lparr>dialerDialHooks := Some ((case dialerDialHooks H of None \<Rightarrow> [] | Some hs \<Rightarrow> hs) @ [h])\<rparr>"

definition AddDialerCloseHook :: "nat \<Rightarrow> hooks \<Rightarrow> hooks" where
  "AddDialerCloseHook h H = H\<lparr>dialerCloseHooks := dialerCloseHooks H @ [h]\<rparr>"

definition RemoveDialerHooks :: "hooks \<Rightarrow> hooks" where
  "RemoveDialerHooks H = H\<lparr>dialerDialHooks := None, dialerCloseHooks := []\<rparr>"

definition AddListenerWriteHook :: "nat \<Rightarrow> hooks \<Rightarrow> hooks" where
  "AddListenerWriteHook h H = H\<lparr>listenerWriteHooks := listenerWriteHooks H @ [h]\<rparr>"

definition AddListenerCloseHook :: "nat \<Rightarrow> hooks \<Rightarrow> hooks" where
  "AddListenerCloseHook h H = H\<lparr>listenerCloseHooks := listenerCloseHooks H @ [h]\<rparr>"

definition RemoveListenerHooks :: "hooks \<Rightarrow> hooks" where
  "RemoveListenerHooks H = H\<lparr>listenerWriteHooks := [], listenerCloseHooks := []\<rparr>"

text \<open>
  The system: the environment, the resolvers, dialling and listening.  A connection is a number, and
  \<open>conn_is\<close> tells its kind.
\<close>

datatype conn_kind = UDPKind | TCPKind | OtherKind

record hook_env =
  env_netstack :: string
  env_disable_routing :: string
  LookupIPAddr :: "string \<Rightarrow> error + IP list"
  ResolveIPAddr :: "string \<Rightarrow> error + IP"
  hook_err :: "call \<Rightarrow> error option"
  net_Dial :: "string \<Rightarrow> string \<Rightarrow> error + nat"
  net_Listen :: "string \<Rightarrow> string \<Rightarrow> error + nat"
  conn_is :: "nat \<Rightarrow> conn_kind"
  conn_closed_err :: "nat \<Rightarrow> error option"
  NewConnID :: ConnectionID

definition CustomRoutingDisabled :: "hook_env \<Rightarrow> bool" where
  "CustomRoutingDisabled v \<longleftrightarrow> env_netstack v = ''true'' \<or> env_disable_routing v = ''true''"

text \<open>\<open>setsockopt\<close> is the system call with the firewall mark.\<close>

definition SetSocketOpt :: "hook_env \<Rightarrow> error option \<Rightarrow> error option" where
  "SetSocketOpt v setsockopt = (if CustomRoutingDisabled v then None else setsockopt)"

definition SetRawSocketMark :: "hook_env \<Rightarrow> error option \<Rightarrow> error option \<Rightarrow> error option" where
  "SetRawSocketMark v control setsockopt =
     (case control of
        Some err \<Rightarrow> Some (Wrapf ''control'' err)
      | None \<Rightarrow> map_option (Wrapf ''set SO_MARK'') (SetSocketOpt v setsockopt))"

definition SetSocketMark :: "hook_env \<Rightarrow> error option \<Rightarrow> error option \<Rightarrow> error option \<Rightarrow> error option" where
  "SetSocketMark v syscallConn control setsockopt =
     (case syscallConn of
        Some err \<Rightarrow> Some (Wrapf ''get raw conn'' err)
      | None \<Rightarrow> SetRawSocketMark v control setsockopt)"

section \<open>Dialling\<close>

text \<open>
  \<^verbatim>\<open>callDialerHooks\<close> calls every hook, whatever the others return; its error is only logged.
\<close>

definition callDialerHooks :: "hook_env \<Rightarrow> hooks \<Rightarrow> ConnectionID \<Rightarrow> string \<Rightarrow> (error + error list) \<times> call list" where
  "callDialerHooks v H connID address =
     (case SplitHostPort address of
        Inl err \<Rightarrow> (Inl (Wrapf ''split host and port'' err), [])
      | Inr (host, _) \<Rightarrow>
          (case LookupIPAddr v host of
             Inl err \<Rightarrow> (Inl (Wrapf (''failed to resolve address '' @ address) err), [])
           | Inr ips \<Rightarrow>
               let calls = map (\<lambda>h. DialHook h connID ips) (case dialerDialHooks H of None \<Rightarrow> [] | Some hs \<Rightarrow> hs)
               in (Inr (map (Wrapf ''executing dial hook'') (List.map_filter (hook_err v) calls)), calls)))"

text \<open>The connection of a dialer: the plain one, or one wrapped with its identifier.\<close>

datatype dialed = PlainConn nat | WrappedConn nat ConnectionID

definition DialContext :: "hook_env \<Rightarrow> hooks \<Rightarrow> string \<Rightarrow> string \<Rightarrow> (error + dialed) \<times> call list" where
  "DialContext v H network address =
     (if CustomRoutingDisabled v
      then (case net_Dial v network address of Inl err \<Rightarrow> Inl err | Inr c \<Rightarrow> Inr (PlainConn c), [InnerDial network address])
      else let connID = NewConnID v;
               calls = (if dialerDialHooks H = None then [] else snd (callDialerHooks v H connID address))
           in (case net_Dial v network address of
                 Inl err \<Rightarrow> Inl (Wrapf ''dial'' err)
               | Inr c \<Rightarrow> Inr (WrappedConn c connID),
               calls @ [InnerDial network address]))"

definition Dial :: "hook_env \<Rightarrow> hooks \<Rightarrow> string \<Rightarrow> string \<Rightarrow> (error + dialed) \<times> call list" where
  "Dial v H network address = DialContext v H network address"

text \<open>Closing a connection: a plain one has no hooks.\<close>

definition dialed_Close :: "hook_env \<Rightarrow> hooks \<Rightarrow> dialed \<Rightarrow> error option \<times> call list" where
  "dialed_Close v H c =
     (case c of
        PlainConn n \<Rightarrow> (conn_closed_err v n, [InnerClose])
      | WrappedConn n connID \<Rightarrow>
          (conn_closed_err v n, InnerClose # map (\<lambda>h. DialCloseHook h connID) (dialerCloseHooks H)))"

text \<open>\<^verbatim>\<open>DialUDP\<close> and \<^verbatim>\<open>DialTCP\<close>: the caller gets the connection inside the wrapper.\<close>

definition dial_kind ::
  "conn_kind \<Rightarrow> string \<Rightarrow> hook_env \<Rightarrow> hooks \<Rightarrow> string \<Rightarrow> string \<Rightarrow> (error + dialed) \<times> call list" where
  "dial_kind kind name v H network raddr =
     (if CustomRoutingDisabled v
      then (case net_Dial v network raddr of Inl err \<Rightarrow> Inl err | Inr c \<Rightarrow> Inr (PlainConn c), [InnerDial network raddr])
      else case Dial v H network raddr of
             (Inl err, calls) \<Rightarrow> (Inl (Wrapf (''dialing '' @ name @ '' '' @ raddr) err), calls)
           | (Inr (PlainConn c), calls) \<Rightarrow> (Inl (Panic ''interface conversion''), calls)
           | (Inr (WrappedConn c connID), calls) \<Rightarrow>
               if conn_is v c = kind then (Inr (PlainConn c), calls)
               else (Inl (Errorf (''expected '' @ name @ '' connection, got different type'')),
                     calls @ snd (dialed_Close v H (WrappedConn c connID))))"

definition DialUDP :: "hook_env \<Rightarrow> hooks \<Rightarrow> string \<Rightarrow> string \<Rightarrow> (error + dialed) \<times> call list" where
  "DialUDP = dial_kind UDPKind ''UDP''"

definition DialTCP :: "hook_env \<Rightarrow> hooks \<Rightarrow> string \<Rightarrow> string \<Rightarrow> (error + dialed) \<times> call list" where
  "DialTCP = dial_kind TCPKind ''TCP''"

section \<open>Listening\<close>

record 's hookedConn =
  hc_inner :: 's
  hc_ID :: ConnectionID
  seenAddrs :: "string list"

definition wrap_listener :: "'s \<Rightarrow> ConnectionID \<Rightarrow> 's hookedConn" where
  "wrap_listener s connID = \<lparr>hc_inner = s, hc_ID = connID, seenAddrs = []\<rparr>"

text \<open>
  \<^verbatim>\<open>callWriteHooks\<close>: an address is remembered before it is resolved, so a failure is not tried again.
\<close>

definition callWriteHooks ::
  "hook_env \<Rightarrow> hooks \<Rightarrow> ConnectionID \<Rightarrow> bytes \<Rightarrow> Addr \<Rightarrow> string list \<Rightarrow> string list \<times> call list" where
  "callWriteHooks v H connID b addr seen =
     (if Addr_String addr \<in> set seen then (seen, [])
      else (Addr_String addr # seen,
            case SplitHostPort (Addr_String addr) of
              Inl _ \<Rightarrow> []
            | Inr (ipStr, _) \<Rightarrow>
                (case ResolveIPAddr v ipStr of
                   Inl _ \<Rightarrow> []
                 | Inr ip \<Rightarrow> map (\<lambda>h. WriteHook h connID ip b) (listenerWriteHooks H))))"

text \<open>\<^verbatim>\<open>PacketConn\<close> and \<^verbatim>\<open>UDPConn\<close> have the same methods around different connections.\<close>

definition hooked_WriteTo ::
  "hook_env \<Rightarrow> hooks \<Rightarrow> 's PacketConn \<Rightarrow> bytes \<Rightarrow> Addr \<Rightarrow> 's hookedConn
     \<Rightarrow> (error + nat) \<times> 's hookedConn \<times> call list" where
  "hooked_WriteTo v H C b addr c =
     (let (seen, calls) = callWriteHooks v H (hc_ID c) b addr (seenAddrs c);
          (r, s) = pc_WriteTo C b addr (hc_inner c)
      in (r, c\<lparr>hc_inner := s, seenAddrs := seen\<rparr>, calls @ [InnerWrite b addr]))"

definition closeConn :: "hooks \<Rightarrow> ConnectionID \<Rightarrow> 's PacketConn \<Rightarrow> 's \<Rightarrow> error option \<times> 's \<times> call list" where
  "closeConn H connID C s =
     (let (err, s) = pc_Close C s
      in (err, s, InnerClose # map (\<lambda>h. ListenCloseHook h connID) (listenerCloseHooks H)))"

definition hooked_Close ::
  "hooks \<Rightarrow> 's PacketConn \<Rightarrow> 's hookedConn \<Rightarrow> error option \<times> 's hookedConn \<times> call list" where
  "hooked_Close H C c =
     (let (err, s, calls) = closeConn H (hc_ID c) C (hc_inner c)
      in (err, c\<lparr>hc_inner := s, seenAddrs := []\<rparr>, calls))"

datatype listener = PlainListener nat | HookedListener "nat hookedConn"

definition hook_ListenPacket :: "hook_env \<Rightarrow> string \<Rightarrow> string \<Rightarrow> error + listener" where
  "hook_ListenPacket v network address =
     (case net_Listen v network address of
        Inl err \<Rightarrow> Inl (if CustomRoutingDisabled v then err else Wrapf ''listen packet'' err)
      | Inr c \<Rightarrow> Inr (if CustomRoutingDisabled v then PlainListener c else HookedListener (wrap_listener c (NewConnID v))))"

definition hook_ListenUDP ::
  "hook_env \<Rightarrow> hooks \<Rightarrow> nat PacketConn \<Rightarrow> string \<Rightarrow> string \<Rightarrow> (error + listener) \<times> call list" where
  "hook_ListenUDP v H C network laddr =
     (if CustomRoutingDisabled v
      then (case net_Listen v network laddr of Inl err \<Rightarrow> Inl err | Inr c \<Rightarrow> Inr (PlainListener c), [])
      else case hook_ListenPacket v network laddr of
             Inl err \<Rightarrow> (Inl (Wrapf ''listen UDP'' err), [])
           | Inr (PlainListener c) \<Rightarrow> (Inl (Panic ''interface conversion''), [])
           | Inr (HookedListener pc) \<Rightarrow>
               if conn_is v (hc_inner pc) = UDPKind
               then (Inr (HookedListener (wrap_listener (hc_inner pc) (hc_ID pc))), [])
               else (Inl (Errorf ''expected UDPConn, got different type''), snd (snd (hooked_Close H C pc))))"

section \<open>Properties\<close>

fun hooked_writes ::
  "hook_env \<Rightarrow> hooks \<Rightarrow> 's PacketConn \<Rightarrow> (bytes \<times> Addr) list \<Rightarrow> 's hookedConn \<Rightarrow> 's hookedConn \<times> call list" where
  "hooked_writes v H C [] c = (c, [])"
| "hooked_writes v H C ((b, a) # ws) c =
     (let (r, c, calls) = hooked_WriteTo v H C b a c; (c, rest) = hooked_writes v H C ws c in (c, calls @ rest))"

text \<open>The writes that are the first to their address, and the hook calls one of them makes.\<close>

fun first_writes :: "string list \<Rightarrow> (bytes \<times> Addr) list \<Rightarrow> (bytes \<times> Addr) list" where
  "first_writes seen [] = []"
| "first_writes seen (w # ws) =
     (if Addr_String (snd w) \<in> set seen then first_writes seen ws
      else w # first_writes (Addr_String (snd w) # seen) ws)"

definition hook_calls :: "hook_env \<Rightarrow> hooks \<Rightarrow> ConnectionID \<Rightarrow> bytes \<times> Addr \<Rightarrow> call list" where
  "hook_calls v H connID w = snd (callWriteHooks v H connID (fst w) (snd w) [])"

fun is_write_hook :: "call \<Rightarrow> bool" where
  "is_write_hook (WriteHook _ _ _ _) = True"
| "is_write_hook _ = False"

lemma callWriteHooks_calls:
  "snd (callWriteHooks v H connID b a seen) = (if Addr_String a \<in> set seen then [] else hook_calls v H connID (b, a))"
  "fst (callWriteHooks v H connID b a seen) = (if Addr_String a \<in> set seen then seen else Addr_String a # seen)"
  by (simp_all add: hook_calls_def callWriteHooks_def)

lemma hook_calls_are_hooks: "call \<in> set (hook_calls v H connID w) \<Longrightarrow> is_write_hook call"
  by (auto simp: hook_calls_def callWriteHooks_def split: sum.splits prod.splits)

lemma first_writes_addresses:
  "distinct (map (Addr_String \<circ> snd) (first_writes seen ws))
   \<and> (Addr_String \<circ> snd) ` set (first_writes seen ws) = (Addr_String \<circ> snd) ` set ws - set seen"
  by (induction seen ws rule: first_writes.induct) auto

lemma hooked_writes_eq:
  "hooked_writes v H C ws c = (c', calls) \<Longrightarrow>
     filter is_write_hook calls = concat (map (hook_calls v H (hc_ID c)) (first_writes (seenAddrs c) ws))
   \<and> filter (\<lambda>x. \<not> is_write_hook x) calls = map (\<lambda>(b, a). InnerWrite b a) ws
   \<and> hc_inner c' = fold (\<lambda>(b, a) s. snd (pc_WriteTo C b a s)) ws (hc_inner c)"
proof (induction ws arbitrary: c c' calls)
  case (Cons w ws)
  obtain b a where w: "w = (b, a)" by fastforce
  obtain r c1 calls1 where one: "hooked_WriteTo v H C b a c = (r, c1, calls1)" by (metis prod_cases3)
  obtain rest where rest: "hooked_writes v H C ws c1 = (c', rest)" and calls: "calls = calls1 @ rest"
    using Cons.prems by (auto simp: w one split: prod.splits)
  define new where "new = snd (callWriteHooks v H (hc_ID c) b a (seenAddrs c))"
  have c1: "hc_ID c1 = hc_ID c" "seenAddrs c1 = fst (callWriteHooks v H (hc_ID c) b a (seenAddrs c))"
    "hc_inner c1 = snd (pc_WriteTo C b a (hc_inner c))" and calls1: "calls1 = new @ [InnerWrite b a]"
    using one by (auto simp: hooked_WriteTo_def new_def Let_def split: prod.splits)
  have hooks: "filter is_write_hook new = new" "filter (\<lambda>x. \<not> is_write_hook x) new = []"
    unfolding new_def callWriteHooks_calls by (auto simp: filter_id_conv filter_empty_conv dest: hook_calls_are_hooks)
  from Cons.IH [OF rest] show ?case
    by (simp add: calls calls1 hooks w c1) (simp add: new_def callWriteHooks_calls)
qed simp

text \<open>The write hooks of a listening connection run once per address: whatever is written, the
  wrapped connection gets exactly the same writes, and the hooks are called for the first write to
  each address and for no other, all of them, with that packet.\<close>

theorem write_hooks_run_once:
  "case hooked_writes v H C ws (wrap_listener s connID) of (c', calls) \<Rightarrow>
     filter is_write_hook calls = concat (map (hook_calls v H connID) (first_writes [] ws))
   \<and> filter (\<lambda>x. \<not> is_write_hook x) calls = map (\<lambda>(b, a). InnerWrite b a) ws
   \<and> hc_inner c' = fold (\<lambda>(b, a) s. snd (pc_WriteTo C b a s)) ws s
   \<and> distinct (map (Addr_String \<circ> snd) (first_writes [] ws))
   \<and> (Addr_String \<circ> snd) ` set (first_writes [] ws) = (Addr_String \<circ> snd) ` set ws"
  using hooked_writes_eq [of v H C ws "wrap_listener s connID"] first_writes_addresses [of "[]" ws]
  by (auto simp: wrap_listener_def split: prod.splits)

text \<open>A dialled connection is announced and taken back under one identifier: every dial hook runs
  before the connection is made, and when it is closed every close hook runs after it.  For
  \<^const>\<open>DialUDP\<close> and \<^const>\<open>DialTCP\<close> the dial hooks run all the same, but the connection they return is
  the one inside, and closing it runs no hook.\<close>

theorem dial_hooks_without_close_hooks:
  assumes "\<not> CustomRoutingDisabled v" and "dialerDialHooks H = Some hs"
    and "SplitHostPort addr = Inr (host, p)" and "LookupIPAddr v host = Inr ips" and "net_Dial v nw addr = Inr n"
  shows "let calls = map (\<lambda>h. DialHook h (NewConnID v) ips) hs @ [InnerDial nw addr]
     in Dial v H nw addr = (Inr (WrappedConn n (NewConnID v)), calls)
      \<and> snd (dialed_Close v H (WrappedConn n (NewConnID v))) =
          InnerClose # map (\<lambda>h. DialCloseHook h (NewConnID v)) (dialerCloseHooks H)
      \<and> (if conn_is v n = UDPKind then DialUDP v H nw addr = (Inr (PlainConn n), calls) else isl (fst (DialUDP v H nw addr)))
      \<and> (if conn_is v n = TCPKind then DialTCP v H nw addr = (Inr (PlainConn n), calls) else isl (fst (DialTCP v H nw addr)))
      \<and> snd (dialed_Close v H (PlainConn n)) = [InnerClose]"
  using assms
  by (simp add: Dial_def DialContext_def callDialerHooks_def DialUDP_def DialTCP_def dial_kind_def dialed_Close_def Let_def)

definition demo_hook_env :: hook_env where
  "demo_hook_env = \<lparr>env_netstack = '''', env_disable_routing = '''', LookupIPAddr = (\<lambda>_. Inr [[1, 2, 3, 4]]),
     ResolveIPAddr = (\<lambda>_. Inr [1, 2, 3, 4]), hook_err = (\<lambda>_. None), net_Dial = (\<lambda>_ _. Inr 7),
     net_Listen = (\<lambda>_ _. Inr 8), conn_is = (\<lambda>_. UDPKind), conn_closed_err = (\<lambda>_. None), NewConnID = 5\<rparr>"

definition demo_hooks :: hooks where
  "demo_hooks = \<lparr>dialerDialHooks = Some [1], dialerCloseHooks = [2], listenerWriteHooks = [], listenerCloseHooks = []\<rparr>"

theorem dial_hooks_without_close_hooks_witness:
  "DialUDP demo_hook_env demo_hooks ''udp'' ''1.2.3.4:80'' =
     (Inr (PlainConn 7), [DialHook 1 5 [[1, 2, 3, 4]], InnerDial ''udp'' ''1.2.3.4:80''])"
proof -
  obtain host p where addr: "SplitHostPort ''1.2.3.4:80'' = Inr (host, p)"
    by (simp add: SplitHostPort_def after_last_def)
  have env: "\<not> CustomRoutingDisabled demo_hook_env" "dialerDialHooks demo_hooks = Some [1]"
    "LookupIPAddr demo_hook_env h = Inr [[1, 2, 3, 4]]" "net_Dial demo_hook_env nw a = Inr 7" for h nw a
    by (simp_all add: demo_hook_env_def demo_hooks_def CustomRoutingDisabled_def)
  from dial_hooks_without_close_hooks [OF env(1,2) addr env(3,4), of "''udp''"] show ?thesis
    by (simp add: demo_hook_env_def Let_def)
qed

end
