(* ===== verification/Net_Platform.thy ===== *)
theory Net_Platform
  imports Net_Hooks Std_Net
begin

text \<open>
  What the dialers and listeners of \<^verbatim>\<open>util/net\<close> do to a socket on each system before it is used: on Linux it
  gets the firewall mark (\<^verbatim>\<open>dialer_linux.go\<close>, \<^verbatim>\<open>listener_linux.go\<close>), on Android the service that owns the
  tunnel is asked to protect it (\<^verbatim>\<open>dialer_android.go\<close>, \<^verbatim>\<open>listener_android.go\<close>, \<^verbatim>\<open>protectsocket_android.go\<close>),
  elsewhere nothing.  Both keep the packets of the program itself out of the tunnel.  The last section has the
  iOS functions and the methods of the standard net on top of all of them.
\<close>

section \<open>Preparing a socket\<close>

text \<open>The service works on \<open>'o\<close>, the system; the function is global and nil at first.\<close>

type_synonym 'o protect_fn = "32 word \<Rightarrow> 'o \<Rightarrow> bool \<times> 'o"

definition SetAndroidProtectSocketFn :: "'o protect_fn option \<Rightarrow> 'o protect_fn option \<Rightarrow> 'o protect_fn option" where
  "SetAndroidProtectSocketFn f androidProtectSocket = f"

text \<open>
  The control functions that \<^verbatim>\<open>init\<close> installs.  \<open>control\<close> is the error of \<^verbatim>\<open>RawConn.Control\<close>, which then has
  not run its argument; \<open>fd\<close> is the descriptor it passes.
\<close>

definition protect_socket :: "'o protect_fn option \<Rightarrow> error option \<Rightarrow> nat \<Rightarrow> 'o \<Rightarrow> error option \<times> 'o" where
  "protect_socket androidProtectSocket control fd os =
     (case control of
        Some err \<Rightarrow> (Some err, os)
      | None \<Rightarrow>
          (case androidProtectSocket of
             None \<Rightarrow> (None, os)
           | Some f \<Rightarrow> (let (ok, os) = f (word_of_nat fd) os in (None, os))))"

text \<open>A dialer and a listener hold a control function; \<^verbatim>\<open>init\<close> installs one, and is empty on the systems that are
  neither Linux nor Android.  \<open>setsockopt\<close> is the system call on a descriptor.\<close>

type_synonym 'o control = "error option \<Rightarrow> nat \<Rightarrow> 'o \<Rightarrow> error option \<times> 'o"

record 'o Dialer = dialer_Control :: "'o control option"
record 'o ListenerConfig = listener_Control :: "'o control option"

definition mark_socket :: "hook_env \<Rightarrow> (nat \<Rightarrow> error option) \<Rightarrow> 'o control" where
  "mark_socket v setsockopt control fd os = (SetRawSocketMark v control (setsockopt fd), os)"

definition dialer_init_android :: "'o protect_fn option \<Rightarrow> 'o Dialer \<Rightarrow> 'o Dialer" where
  "dialer_init_android androidProtectSocket d = d\<lparr>dialer_Control := Some (protect_socket androidProtectSocket)\<rparr>"

definition listener_init_android :: "'o protect_fn option \<Rightarrow> 'o ListenerConfig \<Rightarrow> 'o ListenerConfig" where
  "listener_init_android androidProtectSocket l = l\<lparr>listener_Control := Some (protect_socket androidProtectSocket)\<rparr>"

definition dialer_init_linux :: "hook_env \<Rightarrow> (nat \<Rightarrow> error option) \<Rightarrow> 'o Dialer \<Rightarrow> 'o Dialer" where
  "dialer_init_linux v setsockopt d = d\<lparr>dialer_Control := Some (mark_socket v setsockopt)\<rparr>"

definition listener_init_linux :: "hook_env \<Rightarrow> (nat \<Rightarrow> error option) \<Rightarrow> 'o ListenerConfig \<Rightarrow> 'o ListenerConfig" where
  "listener_init_linux v setsockopt l = l\<lparr>listener_Control := Some (mark_socket v setsockopt)\<rparr>"

definition dialer_init_nonlinux :: "'o Dialer \<Rightarrow> 'o Dialer" where "dialer_init_nonlinux d = d"
definition listener_init_nonlinux :: "'o ListenerConfig \<Rightarrow> 'o ListenerConfig" where "listener_init_nonlinux l = l"

definition NewDialer :: "('o Dialer \<Rightarrow> 'o Dialer) \<Rightarrow> 'o Dialer" where
  "NewDialer init = init \<lparr>dialer_Control = None\<rparr>"

definition NewListener :: "('o ListenerConfig \<Rightarrow> 'o ListenerConfig) \<Rightarrow> 'o ListenerConfig" where
  "NewListener init = init \<lparr>listener_Control = None\<rparr>"

text \<open>Opening a socket with a control function, as \<^verbatim>\<open>net\<close> documents it: its error ends the dial.\<close>

definition controlled :: "'o control option \<Rightarrow> error option \<Rightarrow> nat \<Rightarrow> 'o \<Rightarrow> error + 'c \<Rightarrow> (error + 'c) \<times> 'o" where
  "controlled ctl control fd os dial =
     (case ctl of
        None \<Rightarrow> (dial, os)
      | Some f \<Rightarrow> (case f control fd os of (Some err, os) \<Rightarrow> (Inl err, os) | (None, os) \<Rightarrow> (dial, os)))"

section \<open>iOS and the standard net\<close>

definition DialUDP_ios :: "(string \<Rightarrow> 'a \<Rightarrow> 'a \<Rightarrow> error + 'c) \<Rightarrow> string \<Rightarrow> 'a \<Rightarrow> 'a \<Rightarrow> error + 'c" where
  "DialUDP_ios net_DialUDP network laddr raddr = net_DialUDP network laddr raddr"

definition DialTCP_ios :: "(string \<Rightarrow> 'a \<Rightarrow> 'a \<Rightarrow> error + 'c) \<Rightarrow> string \<Rightarrow> 'a \<Rightarrow> 'a \<Rightarrow> error + 'c" where
  "DialTCP_ios net_DialTCP network laddr raddr = net_DialTCP network laddr raddr"

definition ListenUDP_ios :: "(string \<Rightarrow> 'a \<Rightarrow> error + 'c) \<Rightarrow> string \<Rightarrow> 'a \<Rightarrow> error + 'c" where
  "ListenUDP_ios net_ListenUDP network laddr = net_ListenUDP network laddr"

definition stdnet_Dial :: "hook_env \<Rightarrow> hooks \<Rightarrow> string \<Rightarrow> string \<Rightarrow> (error + dialed) \<times> call list" where
  "stdnet_Dial v H network address = Dial v H network address"

definition stdnet_DialUDP :: "hook_env \<Rightarrow> hooks \<Rightarrow> string \<Rightarrow> string \<Rightarrow> (error + dialed) \<times> call list" where
  "stdnet_DialUDP v H network raddr = DialUDP v H network raddr"

definition stdnet_DialTCP :: "hook_env \<Rightarrow> hooks \<Rightarrow> string \<Rightarrow> string \<Rightarrow> (error + dialed) \<times> call list" where
  "stdnet_DialTCP v H network raddr = DialTCP v H network raddr"

definition stdnet_ListenPacket :: "hook_env \<Rightarrow> string \<Rightarrow> string \<Rightarrow> error + listener" where
  "stdnet_ListenPacket v network address = hook_ListenPacket v network address"

definition stdnet_ListenUDP ::
  "hook_env \<Rightarrow> hooks \<Rightarrow> nat PacketConn \<Rightarrow> string \<Rightarrow> string \<Rightarrow> (error + listener) \<times> call list" where
  "stdnet_ListenUDP v H C network locAddr = hook_ListenUDP v H C network locAddr"

section \<open>Properties\<close>

text \<open>Keeping the program's sockets out of its own tunnel is enforced on Linux only.  There a socket is dialled
  or listened on without the firewall mark only when custom routing is off; on Android it is used whether the
  service protected it or refused to, and whether there is a service at all; elsewhere nothing is done.\<close>

theorem socket_protection:
  fixes os :: 'o
  shows "(case controlled (dialer_Control (NewDialer (dialer_init_linux v setsockopt))) control fd os dial of
      (Inr c, os') \<Rightarrow> dial = Inr c \<and> os' = os \<and> control = None \<and> (setsockopt fd = None \<or> CustomRoutingDisabled v)
    | (Inl err, os') \<Rightarrow> dial = Inl err \<or> control \<noteq> None \<or> setsockopt fd \<noteq> None \<and> \<not> CustomRoutingDisabled v)
   \<and> controlled (listener_Control (NewListener (listener_init_linux v setsockopt))) control fd os dial
     = controlled (dialer_Control (NewDialer (dialer_init_linux v setsockopt))) control fd os dial
   \<and> controlled (dialer_Control (NewDialer (dialer_init_android P))) None fd os dial
     = (dial, case P of None \<Rightarrow> os | Some f \<Rightarrow> snd (f (word_of_nat fd) os))
   \<and> controlled (listener_Control (NewListener (listener_init_android P))) None fd os dial
     = (dial, case P of None \<Rightarrow> os | Some f \<Rightarrow> snd (f (word_of_nat fd) os))
   \<and> controlled (dialer_Control (NewDialer dialer_init_nonlinux)) control fd os dial = (dial, os)"
  by (auto simp: controlled_def NewDialer_def NewListener_def dialer_init_linux_def listener_init_linux_def mark_socket_def
      SetRawSocketMark_def SetSocketOpt_def dialer_init_android_def listener_init_android_def dialer_init_nonlinux_def
      protect_socket_def case_prod_beta Let_def split: option.splits sum.splits)

end
