(* ===== verification/Freebsd_Link.thy ===== *)
theory Freebsd_Link
  imports Wg_Address
begin

text \<open>
  Links on FreeBSD (\<^verbatim>\<open>iface/freebsd\<close>, \<^verbatim>\<open>iface/tun_link_freebsd.go\<close>): everything goes through the
  \<^verbatim>\<open>ifconfig\<close> command.  \<open>run\<close> takes its arguments and gives the error of the command, its output and
  the new state of the system.
\<close>

section \<open>Reading the output of ifconfig\<close>

record iface =
  if_Name :: string
  if_MTU :: int
  if_Group :: string
  if_IPAddrs :: "string list"

definition ErrDoesNotExist :: error where "ErrDoesNotExist = Errorf ''does not exist''"
definition ErrNameDoesNotMatch :: error where "ErrNameDoesNotMatch = Errorf ''name does not match''"

definition parseError :: "string \<Rightarrow> error option" where
  "parseError output = (if Contains output ''does not exist'' then Some ErrDoesNotExist else None)"

text \<open>The state of the scan: name, MTU text, group and addresses.\<close>

type_synonym scan_state = "string \<times> string \<times> string \<times> string list"

definition failed_line :: "string \<Rightarrow> error" where
  "failed_line line = Errorf (''failed to parse line: '' @ line)"

text \<open>The index of the first part that is \<^verbatim>\<open>mtu\<close>, and 0 when there is none.\<close>

fun index_of :: "string \<Rightarrow> nat \<Rightarrow> string list \<Rightarrow> nat" where
  "index_of w i [] = 0"
| "index_of w i (p # ps) = (if p = w then i else index_of w (Suc i) ps)"

definition scan_flags :: "string \<Rightarrow> scan_state \<Rightarrow> error + scan_state" where
  "scan_flags line = (\<lambda>(name, mtu, group, ips).
     if Contains line '': flags''
     then let parts = Fields line
          in if length parts < 4 then Inl (failed_line line)
             else let name = TrimSuffix (parts ! 0) '':'';
                      i = Suc (index_of ''mtu'' 0 parts)
                  in if \<not> Contains line ''mtu'' then Inr (name, mtu, group, ips)
                     else if length parts \<le> i then Inl (Panic ''index out of range'')
                     else Inr (name, parts ! i, group, ips)
     else Inr (name, mtu, group, ips))"

definition scan_groups :: "string \<Rightarrow> scan_state \<Rightarrow> error + scan_state" where
  "scan_groups line = (\<lambda>(name, mtu, group, ips).
     if Contains line ''groups:''
     then if length (Fields line) < 2 then Inl (failed_line line) else Inr (name, mtu, Fields line ! 1, ips)
     else Inr (name, mtu, group, ips))"

definition scan_inet :: "string \<Rightarrow> scan_state \<Rightarrow> error + scan_state" where
  "scan_inet line = (\<lambda>(name, mtu, group, ips).
     if Contains line ''inet ''
     then if length (Fields line) < 2 then Inl (failed_line line) else Inr (name, mtu, group, ips @ [Fields line ! 1])
     else Inr (name, mtu, group, ips))"

definition and_then :: "(error + 'a) \<Rightarrow> ('a \<Rightarrow> error + 'b) \<Rightarrow> error + 'b" where
  "and_then r f = (case r of Inl err \<Rightarrow> Inl err | Inr x \<Rightarrow> f x)"

fun scan_lines :: "string list \<Rightarrow> scan_state \<Rightarrow> error + scan_state" where
  "scan_lines [] st = Inr st"
| "scan_lines (line # ls) st =
     and_then (and_then (and_then (scan_flags line st) (scan_groups line)) (scan_inet line)) (scan_lines ls)"

text \<open>
  The lines of a text as \<^verbatim>\<open>bufio.Scanner\<close> gives them: an empty last one is not a line, and a carriage
  return at the end of a line is dropped.
\<close>

definition drop_cr :: "string \<Rightarrow> string" where
  "drop_cr l = (if l \<noteq> [] \<and> last l = CHR 0x0D then butlast l else l)"

definition scanner_lines :: "string \<Rightarrow> string list" where
  "scanner_lines s = (let ls = Split NL s in map drop_cr (if last ls = [] then butlast ls else ls))"

definition parseIfconfigOutput :: "string \<Rightarrow> error + iface" where
  "parseIfconfigOutput output =
     and_then (scan_lines (scanner_lines output) ([], [], [], [])) (\<lambda>(name, mtu, group, ips).
       if name = [] then Inl (Errorf ''interface name not found in ifconfig output'')
       else case Atoi mtu of
              Inl err \<Rightarrow> Inl (Wrapf ''failed to parse MTU'' err)
            | Inr mtuInt \<Rightarrow> Inr \<lparr>if_Name = name, if_MTU = mtuInt, if_Group = group, if_IPAddrs = ips\<rparr>)"

text \<open>A first line of blanks only has no field to take.\<close>

definition parseIFName :: "string \<Rightarrow> error + string" where
  "parseIFName output =
     (let line = hd (Split NL output); fields = Fields line
      in if line = [] then Inl (Errorf ''no output returned'')
         else if 1 < length fields then Inl (Errorf ''invalid output'')
         else if fields = [] then Inl (Panic ''index out of range'')
         else Inr (fields ! 0))"

section \<open>Links\<close>

record 'f ifconfig =
  run :: "string list \<Rightarrow> 'f \<Rightarrow> (error option \<times> string) \<times> 'f"

definition LinkByName :: "'f ifconfig \<Rightarrow> string \<Rightarrow> 'f \<Rightarrow> (error + string) \<times> 'f" where
  "LinkByName I name f =
     (case run I [name] f of
        ((Some err, out), f) \<Rightarrow>
          (Inl (case parseError out of Some pErr \<Rightarrow> pErr | None \<Rightarrow> Wrapf ''command run'' err), f)
      | ((None, out), f) \<Rightarrow>
          (case parseIfconfigOutput out of
             Inl err \<Rightarrow> Inl (annotate (Wrapf ''parse ifconfig output'') err)
           | Inr i \<Rightarrow> if if_Name i \<noteq> name then Inl ErrNameDoesNotMatch else Inr (if_Name i), f))"

definition isExist :: "'f ifconfig \<Rightarrow> string \<Rightarrow> 'f \<Rightarrow> (error + bool) \<times> 'f" where
  "isExist I name f =
     (case LinkByName I name f of
        (Inl err, f) \<Rightarrow> (if err = ErrDoesNotExist then Inr False else Inl (annotate (Wrapf ''link by name'') err), f)
      | (Inr _, f) \<Rightarrow> (Inr True, f))"

text \<open>A command of which only success matters.\<close>

definition command :: "'f ifconfig \<Rightarrow> string \<Rightarrow> string list \<Rightarrow> 'f \<Rightarrow> error option \<times> 'f" where
  "command I what as f = (case run I as f of ((err, _), f) \<Rightarrow> (map_option (Wrapf what) err, f))"

definition link_del :: "'f ifconfig \<Rightarrow> string \<Rightarrow> 'f \<Rightarrow> error option \<times> 'f" where
  "link_del I name = command I (''destroy '' @ name @ '' interface'') [name, ''destroy'']"

definition link_setMTU :: "'f ifconfig \<Rightarrow> string \<Rightarrow> int \<Rightarrow> 'f \<Rightarrow> error option \<times> 'f" where
  "link_setMTU I name mtu = command I ''set interface mtu'' [name, ''mtu'', Itoa mtu]"

definition link_setAddr :: "'f ifconfig \<Rightarrow> string \<Rightarrow> string \<Rightarrow> string \<Rightarrow> 'f \<Rightarrow> error option \<times> 'f" where
  "link_setAddr I name ip netmask = command I ''set interface addr'' [name, ''inet'', ip, ''netmask'', netmask]"

definition link_Up :: "'f ifconfig \<Rightarrow> string \<Rightarrow> 'f \<Rightarrow> error option \<times> 'f" where
  "link_Up I name = command I (''up '' @ name @ '' interface'') [name, ''up'']"

definition link_Down :: "'f ifconfig \<Rightarrow> string \<Rightarrow> 'f \<Rightarrow> error option \<times> 'f" where
  "link_Down I name = command I (''down '' @ name @ '' interface'') [name, ''down'']"

text \<open>A link is its name; the exported methods work on it.\<close>

definition NewLink :: "string \<Rightarrow> string" where "NewLink name = name"

definition link_Del :: "'f ifconfig \<Rightarrow> string \<Rightarrow> 'f \<Rightarrow> error option \<times> 'f" where
  "link_Del I l = link_del I l"

definition link_SetMTU :: "'f ifconfig \<Rightarrow> string \<Rightarrow> int \<Rightarrow> 'f \<Rightarrow> error option \<times> 'f" where
  "link_SetMTU I l mtu = link_setMTU I l mtu"

definition link_AssignAddr :: "'f ifconfig \<Rightarrow> string \<Rightarrow> string \<Rightarrow> string \<Rightarrow> 'f \<Rightarrow> error option \<times> 'f" where
  "link_AssignAddr I l ip netmask = link_setAddr I l ip netmask"

definition create :: "'f ifconfig \<Rightarrow> string \<Rightarrow> 'f \<Rightarrow> (error + string) \<times> 'f" where
  "create I groupName f =
     (case run I [groupName, ''create''] f of
        ((Some err, _), f) \<Rightarrow> (Inl (Wrapf (''create '' @ groupName @ '' interface'') err), f)
      | ((None, out), f) \<Rightarrow>
          (case parseIFName out of Inl err \<Rightarrow> Inl (annotate (Wrapf ''parse interface name'') err) | Inr n \<Rightarrow> Inr n, f))"

definition rename :: "'f ifconfig \<Rightarrow> string \<Rightarrow> string \<Rightarrow> 'f \<Rightarrow> (error + string) \<times> 'f" where
  "rename I oldName newName f =
     (case run I [oldName, ''name'', newName] f of
        ((Some err, _), f) \<Rightarrow> (Inl (Wrapf (''change name '' @ oldName @ '' -> '' @ newName) err), f)
      | ((None, out), f) \<Rightarrow>
          (case parseIFName out of Inl err \<Rightarrow> Inl (annotate (Wrapf ''parse new name'') err) | Inr n \<Rightarrow> Inr n, f))"

text \<open>
  \<^verbatim>\<open>Add\<close>: when renaming fails, \<^verbatim>\<open>parsedName\<close> has been assigned the empty name that \<^verbatim>\<open>rename\<close> returns with
  its error, and it is that name which is deleted.
\<close>

definition link_Add :: "'f ifconfig \<Rightarrow> string \<Rightarrow> 'f \<Rightarrow> error option \<times> 'f" where
  "link_Add I name f =
     (case create I ''wg'' f of
        (Inl err, f) \<Rightarrow> (Some (annotate (Wrapf ''create link'') err), f)
      | (Inr parsedName, f) \<Rightarrow>
          if parsedName = name then (None, f)
          else (case rename I parsedName name f of
                  (Inr _, f) \<Rightarrow> (None, f)
                | (Inl (Panic m), f) \<Rightarrow> (Some (Panic m), f)
                | (Inl err, f) \<Rightarrow>
                    let parsedName = []
                    in case link_del I parsedName f of
                         (Some errDel, f) \<Rightarrow> (Some (Wrapf ''del on rename link'' err), f)
                       | (None, f) \<Rightarrow> (Some (Wrapf ''rename link'' err), f)))"

definition Recreate :: "'f ifconfig \<Rightarrow> string \<Rightarrow> 'f \<Rightarrow> error option \<times> 'f" where
  "Recreate I name f =
     (case isExist I name f of
        (Inl err, f) \<Rightarrow> (Some (annotate (Wrapf ''is exist'') err), f)
      | (Inr True, f) \<Rightarrow>
          (case link_del I name f of
             (Some err, f) \<Rightarrow> (Some (Wrapf ''del'' err), f)
           | (None, f) \<Rightarrow> link_Add I name f)
      | (Inr False, f) \<Rightarrow> link_Add I name f)"

text \<open>The link of the kernel device.\<close>

definition wrapped :: "string \<Rightarrow> error option \<times> 'f \<Rightarrow> error option \<times> 'f" where
  "wrapped what = apfst (map_option (annotate (Wrapf what)))"

definition newWGLink :: "string \<Rightarrow> string" where "newWGLink name = NewLink name"

definition wglink_Type :: "string \<Rightarrow> string" where "wglink_Type l = ''wireguard''"

definition wglink_Close :: "'f ifconfig \<Rightarrow> string \<Rightarrow> 'f \<Rightarrow> error option \<times> 'f" where
  "wglink_Close I l = link_Del I l"

definition wglink_recreate :: "'f ifconfig \<Rightarrow> string \<Rightarrow> 'f \<Rightarrow> error option \<times> 'f" where
  "wglink_recreate I name f = wrapped ''recreate'' (Recreate I name f)"

definition wglink_setMTU :: "'f ifconfig \<Rightarrow> string \<Rightarrow> int \<Rightarrow> 'f \<Rightarrow> error option \<times> 'f" where
  "wglink_setMTU I name mtu f = wrapped ''set mtu'' (link_setMTU I name mtu f)"

definition wglink_up :: "'f ifconfig \<Rightarrow> string \<Rightarrow> 'f \<Rightarrow> error option \<times> 'f" where
  "wglink_up I name f = wrapped ''up'' (link_Up I name f)"

definition wglink_assignAddr :: "'f ifconfig \<Rightarrow> string \<Rightarrow> WGAddress \<Rightarrow> 'f \<Rightarrow> error option \<times> 'f" where
  "wglink_assignAddr I name address f =
     (case LinkByName I name f of
        (Inl err, f) \<Rightarrow> (Some (annotate (Wrapf ''link by name'') err), f)
      | (Inr link, f) \<Rightarrow>
          (case link_setAddr I link (IP_String (wga_IP address))
                  (''0x'' @ EncodeToString (net_Mask (wga_Network address))) f of
             (Some err, f) \<Rightarrow> (Some (Wrapf ''assign addr'' err), f)
           | (None, f) \<Rightarrow> wrapped ''up'' (link_Up I link f)))"

section \<open>Properties\<close>

text \<open>
  What \<^verbatim>\<open>ifconfig\<close> does to the set of interfaces: a command that fails changes nothing, creating adds
  the interface whose name it prints, renaming and destroying do what they say.
\<close>

definition ifconfig_ok :: "'f ifconfig \<Rightarrow> ('f \<Rightarrow> string set) \<Rightarrow> bool" where
  "ifconfig_ok I ifaces \<longleftrightarrow>
     (\<forall>as f e out f'. run I as f = ((Some e, out), f') \<longrightarrow> ifaces f' = ifaces f)
   \<and> (\<forall>name f out f'. run I [name] f = ((None, out), f') \<longrightarrow> ifaces f' = ifaces f)
   \<and> (\<forall>g f out f' p. run I [g, ''create''] f = ((None, out), f') \<longrightarrow> parseIFName out = Inr p \<longrightarrow>
        p \<noteq> [] \<and> p \<notin> ifaces f \<and> ifaces f' = insert p (ifaces f))
   \<and> (\<forall>old new f out f'. run I [old, ''name'', new] f = ((None, out), f') \<longrightarrow> ifaces f' = insert new (ifaces f - {old}))
   \<and> (\<forall>name f out f'. run I [name, ''destroy''] f = ((None, out), f') \<longrightarrow> ifaces f' = ifaces f - {name})"

lemma create_ok:
  assumes "ifconfig_ok I ifaces" and "create I g f = (Inr p, f')"
  shows "p \<noteq> [] \<and> p \<notin> ifaces f \<and> ifaces f' = insert p (ifaces f)"
  using assms unfolding ifconfig_ok_def create_def by (auto split: prod.splits option.splits sum.splits)

lemma rename_ok:
  assumes "ifconfig_ok I ifaces" and "rename I old new f = (Inr n, f')"
  shows "ifaces f' = insert new (ifaces f - {old})"
  using assms unfolding ifconfig_ok_def rename_def by (auto split: prod.splits option.splits sum.splits)

lemma link_del_ok:
  assumes "ifconfig_ok I ifaces" and "link_del I name f = (err, f')"
  shows "ifaces f' = (if err = None then ifaces f - {name} else ifaces f)"
proof -
  obtain e out where "run I [name, ''destroy''] f = ((e, out), f')" and "err = None \<longleftrightarrow> e = None"
    using assms(2) by (auto simp: link_del_def command_def split: prod.splits)
  with assms(1) show ?thesis unfolding ifconfig_ok_def by (cases e) auto
qed

text \<open>Adding a link gives the link its name or an error; but when it is created under another name
  and cannot be renamed, it stays: the code destroys the interface with the empty name instead, and
  every further attempt leaves one more.\<close>

theorem failed_rename_leaks_link:
  assumes "ifconfig_ok I ifaces"
  shows "(fst (link_Add I name f) = None \<longrightarrow> name \<in> ifaces (snd (link_Add I name f)))
       \<and> (\<forall>p f1 e out f2. create I ''wg'' f = (Inr p, f1) \<longrightarrow> p \<noteq> name \<longrightarrow>
            run I [p, ''name'', name] f1 = ((Some e, out), f2) \<longrightarrow>
            fst (link_Add I name f) \<noteq> None \<and> p \<notin> ifaces f \<and> p \<in> ifaces (snd (link_Add I name f)))"
proof (intro conjI allI impI)
  assume "fst (link_Add I name f) = None"
  then consider f1 where "create I ''wg'' f = (Inr name, f1)" "link_Add I name f = (None, f1)"
    | p f1 n f2 where "rename I p name f1 = (Inr n, f2)" "link_Add I name f = (None, f2)"
    by (auto simp: link_Add_def Let_def split: prod.splits sum.splits if_splits option.splits error.splits)
  then show "name \<in> ifaces (snd (link_Add I name f))"
    by cases (auto dest: create_ok [OF assms] rename_ok [OF assms])
next
  fix p f1 e out f2
  assume c: "create I ''wg'' f = (Inr p, f1)" and ne: "p \<noteq> name" and r: "run I [p, ''name'', name] f1 = ((Some e, out), f2)"
  have f2: "ifaces f2 = ifaces f1" using assms r unfolding ifconfig_ok_def by metis
  obtain err f3 where d: "link_del I [] f2 = (err, f3)" by fastforce
  have p: "p \<noteq> []" "p \<notin> ifaces f" "p \<in> ifaces f1" using create_ok [OF assms c] by auto
  have add: "snd (link_Add I name f) = f3" "fst (link_Add I name f) \<noteq> None"
    using c ne r d by (auto simp: link_Add_def rename_def Let_def split: option.splits)
  show "fst (link_Add I name f) \<noteq> None" by (rule add(2))
  show "p \<notin> ifaces f" by (rule p(2))
  show "p \<in> ifaces (snd (link_Add I name f))"
    using link_del_ok [OF assms d] p f2 by (simp add: add(1) split: if_splits)
qed

text \<open>A system on which interfaces get new names and renaming is refused.\<close>

definition new_name :: "string set \<Rightarrow> string" where
  "new_name A = replicate (Suc (Max (insert 0 (length ` A)))) (CHR ''w'')"

definition norename :: "(string list) ifconfig" where
  "norename =
     \<lparr>run = (\<lambda>as f. case as of
        [a, b] \<Rightarrow> if b = ''create'' then ((None, new_name (set f)), new_name (set f) # f)
                 else if b = ''destroy'' \<and> a \<in> set f then ((None, []), filter ((\<noteq>) a) f)
                 else ((Some EOF, []), f)
      | _ \<Rightarrow> ((Some EOF, []), f))\<rparr>"

lemma new_name_fresh: "finite A \<Longrightarrow> new_name A \<notin> A"
proof
  assume "finite A" and "new_name A \<in> A"
  then have "length (new_name A) \<le> Max (insert 0 (length ` A))" by (intro Max_ge) auto
  then show False by (simp add: new_name_def)
qed

lemma parse_new_name: "parseIFName (new_name A) = Inr (new_name A)"
proof -
  have "\<forall>c\<in>set (new_name A). c = CHR ''w''" "new_name A \<noteq> []" by (auto simp: new_name_def)
  moreover from this have "Fields (new_name A) = [new_name A]" by (intro Fields_word) (auto simp: is_space_def)
  moreover from calculation have "Split NL (new_name A) = [new_name A]" by (intro Split_no_sep) auto
  ultimately show ?thesis by (simp add: parseIFName_def Let_def)
qed

lemma norename_ok: "ifconfig_ok norename set"
  unfolding ifconfig_ok_def
  by (auto simp: norename_def parse_new_name new_name_fresh split: list.splits if_splits)
    (auto simp: new_name_def)

theorem failed_rename_leaks_link_witness:
  "let f = [''em0'']; r = link_Add norename ''wt0'' f
   in fst r \<noteq> None \<and> new_name (set f) \<notin> set f \<and> new_name (set f) \<in> set (snd r)"
proof -
  let ?p = "new_name (set [''em0''])"
  have p: "?p = ''wwww''" by (simp add: new_name_def numeral_eq_Suc)
  have c: "create norename ''wg'' [''em0''] = (Inr ?p, [?p, ''em0''])"
    by (simp add: create_def norename_def parse_new_name)
  have r: "run norename [?p, ''name'', ''wt0''] [?p, ''em0''] = ((Some EOF, []), [?p, ''em0''])"
    by (simp add: norename_def)
  have ne: "?p \<noteq> ''wt0''" unfolding p by simp
  from failed_rename_leaks_link [OF norename_ok, of "''wt0''" "[''em0'']"] c ne r show ?thesis
    unfolding Let_def by blast
qed

end
