(* ===== verification/Json_Duration.thy ===== *)
theory Json_Duration
  imports Net_Addr Complex_Main
begin

text \<open>
  The JSON form of durations (\<^verbatim>\<open>util/duration.go\<close>) with what it uses of \<^verbatim>\<open>time\<close>: printing a duration
  and parsing one.  A duration is a number of nanoseconds that fits 64 bits.  Fractions are scaled
  in floating point, so the rounding of \<^verbatim>\<open>float64\<close> is written out; the numbers that occur are far
  from the ends of its range.
\<close>

section \<open>Floating point\<close>

fun bits :: "nat \<Rightarrow> nat" where
  "bits n = (if n = 0 then 0 else Suc (bits (n div 2)))"

declare bits.simps [simp del]

text \<open>
  A positive number is rounded to 53 significant bits, halves to even: \<open>ulp\<close> is the exponent of the
  last of them.
\<close>

definition ulp :: "rat \<Rightarrow> int" where
  "ulp x = (if 1 \<le> x then int (bits (nat \<lfloor>x\<rfloor>)) - 53 else - int (bits (nat (\<lceil>1 / x\<rceil> - 1))) - 52)"

definition two_to :: "int \<Rightarrow> rat" where
  "two_to e = (if 0 \<le> e then 2 ^ nat e else 1 / 2 ^ nat (- e))"

definition half_even :: "rat \<Rightarrow> int" where
  "half_even x =
     (let n = \<lfloor>x\<rfloor>; r = x - of_int n
      in if r < 1 / 2 \<or> r = 1 / 2 \<and> even n then n else n + 1)"

definition float64 :: "rat \<Rightarrow> rat" where
  "float64 x = (if x = 0 then 0 else of_int (half_even (x / two_to (ulp x))) * two_to (ulp x))"

section \<open>Printing\<close>

abbreviation Microsecond :: nat where "Microsecond \<equiv> 1000"
abbreviation Millisecond :: nat where "Millisecond \<equiv> 1000000"
abbreviation Second :: nat where "Second \<equiv> 1000000000"

text \<open>The loop of \<^verbatim>\<open>fmtFrac\<close> over \<open>i\<close> further digits; trailing zeros are left out.\<close>

fun frac_loop :: "nat \<Rightarrow> nat \<Rightarrow> bool \<Rightarrow> string \<Rightarrow> bool \<times> string \<times> nat" where
  "frac_loop 0 v pr w = (pr, w, v)"
| "frac_loop (Suc i) v pr w =
     (let digit = v mod 10; pr = (pr \<or> digit \<noteq> 0)
      in frac_loop i (v div 10) pr (if pr then digit_char digit # w else w))"

definition fmtFrac :: "nat \<Rightarrow> nat \<Rightarrow> string \<times> nat" where
  "fmtFrac v prec =
     (let (pr, w, v) = frac_loop prec v False [] in (if pr then CHR ''.'' # w else w, v))"

abbreviation micro_s :: string where "micro_s \<equiv> [CHR 0xC2, CHR 0xB5, CHR ''s'']"

definition small_string :: "nat \<Rightarrow> string" where
  "small_string u =
     (if u = 0 then ''0s''
      else let (prec, suffix) = (if u < Microsecond then (0, ''ns'')
                                 else if u < Millisecond then (3, micro_s) else (6, ''ms''));
               (w, u) = fmtFrac u prec
           in decimal u @ w @ suffix)"

definition large_string :: "nat \<Rightarrow> string" where
  "large_string u =
     (let (w, u) = fmtFrac u 9;
          secs = decimal (u mod 60) @ w @ ''s'';
          u = u div 60
      in if u > 0
         then let mins = decimal (u mod 60) @ ''m'' @ secs; u = u div 60
              in if u > 0 then decimal u @ ''h'' @ mins else mins
         else secs)"

definition Duration_String :: "int \<Rightarrow> string" where
  "Duration_String d =
     (let u = nat \<bar>d\<bar>; s = (if u < Second then small_string u else large_string u)
      in if d < 0 then CHR ''-'' # s else s)"

section \<open>Parsing\<close>

definition invalid_duration :: "string \<Rightarrow> error" where
  "invalid_duration orig = Errorf (''time: invalid duration '' @ orig)"

definition unitMap :: "string \<Rightarrow> nat option" where
  "unitMap u =
     (if u = ''ns'' then Some 1
      else if u = ''us'' \<or> u = micro_s \<or> u = [CHR 0xCE, CHR 0xBC, CHR ''s''] then Some Microsecond
      else if u = ''ms'' then Some Millisecond
      else if u = ''s'' then Some Second
      else if u = ''m'' then Some (60 * Second)
      else if u = ''h'' then Some (3600 * Second)
      else None)"

fun leadingInt :: "nat \<Rightarrow> string \<Rightarrow> (nat \<times> string) option" where
  "leadingInt x [] = Some (x, [])"
| "leadingInt x (c # s) =
     (if \<not> is_digit c then Some (x, c # s)
      else if x > 2 ^ 63 div 10 then None
      else let x = x * 10 + char_digit c in if x > 2 ^ 63 then None else leadingInt x s)"

fun leadingFraction :: "nat \<Rightarrow> nat \<Rightarrow> bool \<Rightarrow> string \<Rightarrow> nat \<times> nat \<times> string" where
  "leadingFraction x scale overflow [] = (x, scale, [])"
| "leadingFraction x scale overflow (c # s) =
     (if \<not> is_digit c then (x, scale, c # s)
      else if overflow \<or> x > (2 ^ 63 - 1) div 10 then leadingFraction x scale True s
      else let y = x * 10 + char_digit c
           in if y > 2 ^ 63 then leadingFraction x scale True s else leadingFraction y (scale * 10) False s)"

text \<open>\<^verbatim>\<open>uint64(float64(f) * (float64(unit) / scale))\<close>.\<close>

definition scaled :: "nat \<Rightarrow> nat \<Rightarrow> nat \<Rightarrow> nat" where
  "scaled f unit scale =
     nat \<lfloor>float64 (float64 (of_nat f) * float64 (float64 (of_nat unit) / float64 (of_nat scale)))\<rfloor>"

text \<open>
  One round of the loop of \<^verbatim>\<open>ParseDuration\<close>: a number with a unit, as nanoseconds, and the rest.
\<close>

definition is_point :: "string \<Rightarrow> bool" where
  "is_point s \<longleftrightarrow> s \<noteq> [] \<and> hd s = CHR ''.''"

definition read_fraction :: "string \<Rightarrow> nat \<times> nat \<times> string" where
  "read_fraction s = (if is_point s then leadingFraction 0 1 False (tl s) else (0, 1, s))"

definition unit_char :: "char \<Rightarrow> bool" where
  "unit_char c \<longleftrightarrow> \<not> (c = CHR ''.'' \<or> is_digit c)"

definition parse_unit :: "string \<Rightarrow> string \<Rightarrow> error + nat \<times> string" where
  "parse_unit orig s =
     (if s = [] \<or> unit_char (hd s) then Inl (invalid_duration orig)
      else case leadingInt 0 s of
        None \<Rightarrow> Inl (invalid_duration orig)
      | Some (v, s1) \<Rightarrow>
     (let pre = (length s1 \<noteq> length s);
          (f, scale, s2) = read_fraction s1;
          post = (is_point s1 \<and> length s2 \<noteq> length (tl s1));
          u = takeWhile unit_char s2; rest = dropWhile unit_char s2
      in if \<not> pre \<and> \<not> post then Inl (invalid_duration orig)
         else if u = [] then Inl (Errorf (''time: missing unit in duration '' @ orig))
         else case unitMap u of
           None \<Rightarrow> Inl (Errorf (''time: unknown unit '' @ u @ '' in duration '' @ orig))
         | Some unit \<Rightarrow>
             if v > 2 ^ 63 div unit then Inl (invalid_duration orig)
             else let v = v * unit; v = (if f > 0 then v + scaled f unit scale else v)
                  in if f > 0 \<and> v > 2 ^ 63 then Inl (invalid_duration orig) else Inr (v, rest)))"

lemma leadingInt_length: "leadingInt x s = Some (v, r) \<Longrightarrow> length r \<le> length s"
  by (induction x s rule: leadingInt.induct) (auto simp: Let_def split: if_splits)

lemma leadingFraction_length: "leadingFraction x sc ov s = (f, sc', r) \<Longrightarrow> length r \<le> length s"
  by (induction x sc ov s rule: leadingFraction.induct) (auto simp: Let_def split: if_splits)

lemma read_fraction_length: "read_fraction s = (f, sc, r) \<Longrightarrow> length r \<le> length s"
  by (auto simp: read_fraction_def is_point_def dest!: leadingFraction_length split: if_splits)

lemma dropWhile_shrinks: "takeWhile P s \<noteq> [] \<Longrightarrow> length (dropWhile P s) < length s"
  by (cases s) (auto simp: length_dropWhile_le less_Suc_eq_le split: if_splits)

lemma parse_unit_shrinks:
  assumes "parse_unit orig s = Inr (v, rest)"
  shows "length rest < length s"
proof -
  obtain v0 s1 where s1: "leadingInt 0 s = Some (v0, s1)"
    using assms by (auto simp: parse_unit_def split: if_splits option.splits)
  obtain f sc s2 where s2: "read_fraction s1 = (f, sc, s2)" by (metis prod_cases3)
  have "takeWhile unit_char s2 \<noteq> []" and "rest = dropWhile unit_char s2"
    using assms by (auto simp: parse_unit_def s1 s2 Let_def split: if_splits option.splits)
  with dropWhile_shrinks [of unit_char s2] leadingInt_length [OF s1] read_fraction_length [OF s2]
  show ?thesis by auto
qed

function parse_loop :: "string \<Rightarrow> string \<Rightarrow> nat \<Rightarrow> error + nat" where
  "parse_loop orig s d =
     (if s = [] then Inr d
      else case parse_unit orig s of
             Inl err \<Rightarrow> Inl err
           | Inr (v, s') \<Rightarrow>
               let d = (d + v) mod 2 ^ 64
               in if d > 2 ^ 63 then Inl (invalid_duration orig) else parse_loop orig s' d)"
  by auto
termination
  by (relation "measure (\<lambda>(_, s, _). length s)") (auto dest: parse_unit_shrinks)

declare parse_loop.simps [simp del]

definition ParseDuration :: "string \<Rightarrow> error + int" where
  "ParseDuration orig =
     (let signed = (orig \<noteq> [] \<and> (hd orig = CHR ''-'' \<or> hd orig = CHR ''+''));
          neg = (signed \<and> hd orig = CHR ''-'');
          s = (if signed then tl orig else orig)
      in if s = ''0'' then Inr 0
         else if s = [] then Inl (invalid_duration orig)
         else case parse_loop orig s 0 of
                Inl err \<Rightarrow> Inl err
              | Inr d \<Rightarrow>
                  if neg then Inr (- int d)
                  else if d > 2 ^ 63 - 1 then Inl (invalid_duration orig)
                  else Inr (int d))"

section \<open>The JSON form\<close>

text \<open>
  What \<^verbatim>\<open>json.Unmarshal\<close> puts into an empty interface.  A number that does not fit 64 bits converts to
  whatever the machine makes of it: \<open>overflow\<close>.
\<close>

datatype json_any = JNull | JBool bool | JNumber rat | JString string | JArray | JObject

record duration_json =
  Marshal_string :: "string \<Rightarrow> error + bytes"
  Unmarshal_any :: "bytes \<Rightarrow> error + json_any"

definition truncate_rat :: "rat \<Rightarrow> int" where
  "truncate_rat x = (if x < 0 then \<lceil>x\<rceil> else \<lfloor>x\<rfloor>)"

definition Duration_of_float :: "(rat \<Rightarrow> int) \<Rightarrow> rat \<Rightarrow> int" where
  "Duration_of_float overflow x = (let v = truncate_rat x in if int64 v then v else overflow x)"

definition MarshalJSON :: "duration_json \<Rightarrow> int \<Rightarrow> error + bytes" where
  "MarshalJSON J d = Marshal_string J (Duration_String d)"

text \<open>The error and the duration afterwards; a failed parse has stored zero.\<close>

definition UnmarshalJSON ::
  "duration_json \<Rightarrow> (rat \<Rightarrow> int) \<Rightarrow> bytes \<Rightarrow> int \<Rightarrow> error option \<times> int" where
  "UnmarshalJSON J overflow b d =
     (case Unmarshal_any J b of
        Inl err \<Rightarrow> (Some err, d)
      | Inr (JNumber x) \<Rightarrow> (None, Duration_of_float overflow x)
      | Inr (JString s) \<Rightarrow>
          (case ParseDuration s of
             Inl err \<Rightarrow> (Some err, 0)
           | Inr v \<Rightarrow> (None, v))
      | Inr _ \<Rightarrow> (Some (Errorf ''invalid duration''), d))"

section \<open>Lemmas\<close>

lemma bits_le: "n < 2 ^ k \<Longrightarrow> bits n \<le> k"
proof (induction k arbitrary: n)
  case (Suc k)
  then show ?case by (cases "n = 0") (auto simp: bits.simps [of n] bits.simps [of 0])
qed (simp add: bits.simps)

lemma half_even_of_int: "half_even (of_int n) = n"
  by (simp add: half_even_def)

lemma float64_exact:
  assumes "n < 2 ^ 53"
  shows "float64 (of_nat n) = of_nat n"
proof (cases "n = 0")
  case False
  define k where "k = 53 - bits n"
  have "bits n \<le> 53" using assms by (rule bits_le)
  then have ulp: "ulp (of_nat n) = - int k" using False by (simp add: ulp_def k_def)
  have "two_to (- int k) = 1 / 2 ^ k" by (simp add: two_to_def)
  moreover have "half_even (of_nat n * 2 ^ k) = int n * 2 ^ k"
    using half_even_of_int [of "int n * 2 ^ k"] by simp
  ultimately show ?thesis using False by (simp add: float64_def ulp)
qed (simp add: float64_def)

lemma scaled_exact:
  assumes "unit = q * scale" and "0 < scale" and "unit < 2 ^ 53" and "f < 2 ^ 53" and "f * q < 2 ^ 53"
  shows "scaled f unit scale = f * q"
proof -
  have small: "scale < 2 ^ 53" "q < 2 ^ 53" if "0 < q"
    using assms(1,2,3) that by (auto intro: le_less_trans [rotated] simp: mult_le_mono)
  have "(of_nat unit :: rat) / of_nat scale = of_nat q" using assms(1,2) by simp
  then have "float64 (of_nat unit) / float64 (of_nat scale) = of_nat q" if "0 < q"
    using float64_exact [OF assms(3)] float64_exact [OF small(1) [OF that]] by simp
  moreover have "float64 (of_nat unit) / float64 (of_nat scale) = 0" if "q = 0"
    using assms(1) that by (simp add: float64_def)
  ultimately have "float64 (of_nat unit) / float64 (of_nat scale) = of_nat q" by (cases "q = 0") auto
  moreover have "float64 (of_nat q) = of_nat q" using float64_exact [of q] small(2) by (cases "q = 0") auto
  ultimately have q: "float64 (float64 (of_nat unit) / float64 (of_nat scale)) = of_nat q" by simp
  have "float64 (of_nat f * of_nat q) = of_nat (f * q)" using float64_exact [OF assms(5)] by simp
  then show ?thesis by (simp add: scaled_def q float64_exact [OF assms(4)] flip: of_nat_mult)
qed

section \<open>Digits\<close>

lemma dec_val_foldl: "foldl (\<lambda>a c. a * 10 + char_digit c) x ds = x * 10 ^ length ds + dec_val ds"
proof (induction ds rule: rev_induct)
  case (snoc c ds)
  then show ?case by (simp add: algebra_simps)
qed (simp add: dec_val_def)

lemma dec_val_Cons: "dec_val (c # ds) = char_digit c * 10 ^ length ds + dec_val ds"
  using dec_val_foldl [of "char_digit c" ds] by (simp add: dec_val_def)

lemma dec_val_less: "\<forall>c\<in>set ds. is_digit c \<Longrightarrow> dec_val ds < 10 ^ length ds"
proof (induction ds rule: rev_induct)
  case (snoc c ds)
  then have "char_digit c < 10" "dec_val ds < 10 ^ length ds" by (auto simp: char_digit_def)
  then show ?case by simp
qed (simp add: dec_val_def)

definition digits_end :: "string \<Rightarrow> bool" where
  "digits_end r \<longleftrightarrow> r = [] \<or> \<not> is_digit (hd r)"

lemma leadingInt_digits:
  "\<forall>c\<in>set ds. is_digit c \<Longrightarrow> digits_end r \<Longrightarrow> x * 10 ^ length ds + dec_val ds \<le> 2 ^ 63 \<Longrightarrow>
     leadingInt x (ds @ r) = Some (x * 10 ^ length ds + dec_val ds, r)"
proof (induction ds arbitrary: x)
  case Nil
  then show ?case by (cases r) (auto simp: digits_end_def dec_val_def)
next
  case (Cons c ds)
  have v: "x * 10 ^ length (c # ds) + dec_val (c # ds) = (x * 10 + char_digit c) * 10 ^ length ds + dec_val ds"
    by (simp add: dec_val_Cons algebra_simps)
  have le: "x * 10 + char_digit c \<le> (x * 10 + char_digit c) * 10 ^ length ds + dec_val ds"
    by (simp add: trans_le_add1)
  then have "x * 10 \<le> 2 ^ 63" "x * 10 + char_digit c \<le> 2 ^ 63" using Cons.prems(3) unfolding v by linarith+
  then have "\<not> 2 ^ 63 div 10 < x" "\<not> 2 ^ 63 < x * 10 + char_digit c" by auto
  with Cons.IH [of "x * 10 + char_digit c"] Cons.prems show ?case unfolding v by (simp add: Let_def)
qed

lemma leadingFraction_digits:
  "\<forall>c\<in>set ds. is_digit c \<Longrightarrow> digits_end r \<Longrightarrow> x * 10 ^ length ds + dec_val ds < 2 ^ 63 \<Longrightarrow>
     leadingFraction x scale False (ds @ r) = (x * 10 ^ length ds + dec_val ds, scale * 10 ^ length ds, r)"
proof (induction ds arbitrary: x scale)
  case Nil
  then show ?case by (cases r) (auto simp: digits_end_def dec_val_def)
next
  case (Cons c ds)
  have v: "x * 10 ^ length (c # ds) + dec_val (c # ds) = (x * 10 + char_digit c) * 10 ^ length ds + dec_val ds"
    by (simp add: dec_val_Cons algebra_simps)
  have le: "x * 10 + char_digit c \<le> (x * 10 + char_digit c) * 10 ^ length ds + dec_val ds"
    by (simp add: trans_le_add1)
  then have "x * 10 < 2 ^ 63" "x * 10 + char_digit c < 2 ^ 63" using Cons.prems(3) unfolding v by linarith+
  then have "\<not> (2 ^ 63 - 1) div 10 < x" "\<not> 2 ^ 63 < x * 10 + char_digit c" by auto
  with Cons.IH [of "x * 10 + char_digit c" "scale * 10"] Cons.prems show ?case unfolding v by (simp add: Let_def)
qed

text \<open>The digits \<^verbatim>\<open>fmtFrac\<close> prints.\<close>

lemma mod_Suc_digit: "(v div 10) mod 10 ^ i * 10 + v mod 10 = v mod (10 ^ Suc i :: nat)"
  by (simp add: mod_mult2_eq algebra_simps)

lemma frac_loop_printing:
  "\<exists>ds. frac_loop i v True w = (True, ds @ w, v div 10 ^ i) \<and> length ds = i \<and> (\<forall>c\<in>set ds. is_digit c)
     \<and> dec_val ds = v mod 10 ^ i"
proof (induction i arbitrary: v w)
  case (Suc i)
  from Suc [of "v div 10" "digit_char (v mod 10) # w"] obtain ds where
    "frac_loop i (v div 10) True (digit_char (v mod 10) # w) = (True, ds @ digit_char (v mod 10) # w, v div 10 div 10 ^ i)"
    "length ds = i" "\<forall>c\<in>set ds. is_digit c" "dec_val ds = v div 10 mod 10 ^ i" by blast
  then show ?case
    by (intro exI [of _ "ds @ [digit_char (v mod 10)]"])
      (simp add: Let_def div_mult2_eq mod_Suc_digit [simplified])
qed (simp add: dec_val_def)

lemma frac_loop_digits:
  "(frac_loop i v False [] = (False, [], v div 10 ^ i) \<and> v mod 10 ^ i = 0)
   \<or> (\<exists>ds. frac_loop i v False [] = (True, ds, v div 10 ^ i) \<and> ds \<noteq> [] \<and> length ds \<le> i \<and> (\<forall>c\<in>set ds. is_digit c)
        \<and> dec_val ds * 10 ^ (i - length ds) = v mod 10 ^ i)"
proof (induction i arbitrary: v)
  case (Suc i)
  show ?case
  proof (cases "v mod 10 = 0")
    case True
    then have m: "v mod 10 ^ Suc i = 10 * (v div 10 mod 10 ^ i)" using mod_Suc_digit [of v i] by simp
    show ?thesis using Suc [of "v div 10"] True m
      by (auto simp: Let_def div_mult2_eq Suc_diff_le)
  next
    case False
    from frac_loop_printing [of i "v div 10" "[digit_char (v mod 10)]"] obtain ds where
      "frac_loop i (v div 10) True [digit_char (v mod 10)] = (True, ds @ [digit_char (v mod 10)], v div 10 div 10 ^ i)"
      "length ds = i" "\<forall>c\<in>set ds. is_digit c" "dec_val ds = v div 10 mod 10 ^ i" by blast
    then show ?thesis using False mod_Suc_digit [of v i]
      by (intro disjI2 exI [of _ "ds @ [digit_char (v mod 10)]"]) (simp add: Let_def div_mult2_eq)
  qed
qed simp

section \<open>What is printed is parsed\<close>

text \<open>A unit as it follows a number: letters up to the next number or the end.\<close>

definition unit_follows :: "string \<Rightarrow> string \<Rightarrow> nat \<Rightarrow> bool" where
  "unit_follows u r unit \<longleftrightarrow>
     unitMap u = Some unit \<and> u \<noteq> [] \<and> list_all unit_char u \<and> (r = [] \<or> \<not> unit_char (hd r))"

lemma unit_followsD:
  assumes "unit_follows u r unit"
  shows "digits_end (u @ r)" "\<not> is_point (u @ r)" "takeWhile unit_char (u @ r) = u" "dropWhile unit_char (u @ r) = r"
    "unitMap u = Some unit" "u \<noteq> []"
proof -
  have u: "unitMap u = Some unit" "u \<noteq> []" "list_all unit_char u" "r = [] \<or> \<not> unit_char (hd r)"
    using assms by (simp_all add: unit_follows_def)
  then show "unitMap u = Some unit" "u \<noteq> []" by simp_all
  obtain c u' where "u = c # u'" "unit_char c" using u(2,3) by (cases u) auto
  then show "digits_end (u @ r)" "\<not> is_point (u @ r)" by (auto simp: digits_end_def is_point_def unit_char_def)
  have "takeWhile unit_char r = []" "dropWhile unit_char r = r" using u(4) by (cases r; simp)+
  then show "takeWhile unit_char (u @ r) = u" "dropWhile unit_char (u @ r) = r"
    using u(3) by (simp_all add: list_all_iff takeWhile_append dropWhile_append)
qed

lemma hd_decimal_digit: "\<not> unit_char (hd (decimal n @ s))"
  using decimal_digits [of n] decimal_nonempty [of n] by (cases "decimal n") (auto simp: unit_char_def)

lemma leadingInt_decimal: "n \<le> 2 ^ 63 \<Longrightarrow> digits_end r \<Longrightarrow> leadingInt 0 (decimal n @ r) = Some (n, r)"
  using leadingInt_digits [of "decimal n" r 0] decimal_digits by simp

lemma parse_unit_int:
  assumes "unit_follows u r unit" and "n * unit \<le> 2 ^ 63" and "0 < unit"
  shows "parse_unit orig (decimal n @ u @ r) = Inr (n * unit, r)"
proof -
  note u = unit_followsD [OF assms(1)]
  have n: "n \<le> 2 ^ 63 div unit" using assms(2,3) by (simp add: less_eq_div_iff_mult_less_eq)
  then have "n \<le> 2 ^ 63" using div_le_dividend le_trans by blast
  with u n show ?thesis using hd_decimal_digit [of n "u @ r"]
    by (simp add: parse_unit_def leadingInt_decimal read_fraction_def Let_def)
qed

lemma parse_unit_frac:
  assumes "unit_follows u r (10 ^ prec)" and "prec \<le> 9" and "\<forall>c\<in>set ds. is_digit c" and "ds \<noteq> []" and "length ds \<le> prec"
    and "n * 10 ^ prec + dec_val ds * 10 ^ (prec - length ds) \<le> 2 ^ 63"
  shows "parse_unit orig (decimal n @ CHR ''.'' # ds @ u @ r) = Inr (n * 10 ^ prec + dec_val ds * 10 ^ (prec - length ds), r)"
proof -
  note u = unit_followsD [OF assms(1)]
  let ?q = "10 ^ (prec - length ds) :: nat"
  have "n * 10 ^ prec \<le> 2 ^ 63" using assms(6) by linarith
  then have n: "n \<le> 2 ^ 63 div 10 ^ prec" by (simp add: less_eq_div_iff_mult_less_eq)
  then have "n \<le> 2 ^ 63" using div_le_dividend le_trans by blast
  then have int: "leadingInt 0 (decimal n @ CHR ''.'' # ds @ u @ r) = Some (n, CHR ''.'' # ds @ u @ r)"
    by (intro leadingInt_decimal) (auto simp: digits_end_def)
  have unit: "10 ^ prec = ?q * 10 ^ length ds" using assms(5) by (simp flip: power_add)
  have ten9: "(10 :: nat) ^ prec \<le> 10 ^ 9" using assms(2) by (intro power_increasing) auto
  have f: "dec_val ds < 10 ^ length ds" using assms(3) by (rule dec_val_less)
  then have fq: "dec_val ds * ?q < 10 ^ prec" unfolding unit by (simp add: mult.commute)
  have prec53: "(10 :: nat) ^ prec < 2 ^ 53" using ten9 by (rule le_less_trans) simp
  have fq53: "dec_val ds * ?q < 2 ^ 53" using fq prec53 by (rule less_trans)
  have "dec_val ds \<le> dec_val ds * ?q" by simp
  then have "dec_val ds < 2 ^ 53" using fq53 by (rule le_less_trans)
  note small = fq53 this prec53
  have "leadingFraction 0 1 False (ds @ u @ r) = (dec_val ds, 10 ^ length ds, u @ r)"
    using leadingFraction_digits [OF assms(3) u(1), of 0 1] small(2) by simp
  then have frac: "read_fraction (CHR ''.'' # ds @ u @ r) = (dec_val ds, 10 ^ length ds, u @ r)"
    by (simp add: read_fraction_def is_point_def)
  have scaled: "scaled (dec_val ds) (10 ^ prec) (10 ^ length ds) = dec_val ds * ?q"
    using small by (intro scaled_exact [OF unit]) simp_all
  show ?thesis
    using hd_decimal_digit [of n "CHR ''.'' # ds @ u @ r"] u(3-6) n assms(4,6)
    by (simp add: parse_unit_def int frac scaled is_point_def Let_def)
qed

lemma parse_unit_fmtFrac:
  assumes "unit_follows u r (10 ^ prec)" and "prec \<le> 9" and "n * 10 ^ prec + v mod 10 ^ prec \<le> 2 ^ 63"
  shows "parse_unit orig (decimal n @ fst (fmtFrac v prec) @ u @ r) = Inr (n * 10 ^ prec + v mod 10 ^ prec, r)"
  using frac_loop_digits [of prec v]
proof (elim disjE exE conjE)
  assume "frac_loop prec v False [] = (False, [], v div 10 ^ prec)" "v mod 10 ^ prec = 0"
  then show ?thesis using parse_unit_int [OF assms(1), of n orig] assms(3) by (simp add: fmtFrac_def)
next
  fix ds assume loop: "frac_loop prec v False [] = (True, ds, v div 10 ^ prec)"
    and ds: "ds \<noteq> []" "length ds \<le> prec" "\<forall>c\<in>set ds. is_digit c"
    and v: "dec_val ds * 10 ^ (prec - length ds) = v mod 10 ^ prec"
  show ?thesis using parse_unit_frac [OF assms(1,2) ds(3,1,2), of n orig] assms(3) unfolding v by (simp add: fmtFrac_def loop)
qed

lemma snd_fmtFrac: "snd (fmtFrac v prec) = v div 10 ^ prec"
  using frac_loop_digits [of prec v] by (auto simp: fmtFrac_def)

text \<open>The loop over the units.\<close>

lemma parse_loop_step:
  assumes "parse_unit orig s = Inr (v, r)" and "d + v \<le> 2 ^ 63"
  shows "parse_loop orig s d = parse_loop orig r (d + v)"
proof -
  have "s \<noteq> []" using assms(1) by (auto simp: parse_unit_def)
  with assms show ?thesis by (simp add: parse_loop.simps [of orig s d])
qed

lemma parse_loop_end [simp]: "parse_loop orig [] d = Inr d"
  by (simp add: parse_loop.simps)

lemma unit_follows_seconds: "unit_follows ''s'' [] (10 ^ 9)"
  by (simp add: unit_follows_def unitMap_def unit_char_def)

lemma unit_follows_minutes: "unit_follows ''m'' (decimal n @ r) (60 * Second)"
  using hd_decimal_digit [of n r] by (simp add: unit_follows_def unitMap_def unit_char_def)

lemma unit_follows_hours: "unit_follows ''h'' (decimal n @ r) (3600 * Second)"
  using hd_decimal_digit [of n r] by (simp add: unit_follows_def unitMap_def unit_char_def)

lemma parse_loop_small:
  assumes "0 < u" and "u < Second"
  shows "parse_loop orig (small_string u) 0 = Inr u"
proof -
  define prec where "prec = (if u < Microsecond then 0 else if u < Millisecond then 3 else 6 :: nat)"
  define suffix where "suffix = (if u < Microsecond then ''ns'' else if u < Millisecond then micro_s else ''ms'')"
  have "unit_follows suffix [] (10 ^ prec)"
    by (simp add: prec_def suffix_def unit_follows_def unitMap_def unit_char_def)
  moreover have "prec \<le> 9" by (simp add: prec_def)
  ultimately have "parse_unit orig (decimal (u div 10 ^ prec) @ fst (fmtFrac u prec) @ suffix @ []) = Inr (u, [])"
    using parse_unit_fmtFrac [of suffix "[]" prec "u div 10 ^ prec" u orig] assms(2)
    by (simp add: div_mult_mod_eq del: append_Nil2)
  moreover have "small_string u = decimal (u div 10 ^ prec) @ fst (fmtFrac u prec) @ suffix @ []"
    using assms(1) by (simp add: small_string_def prec_def suffix_def Let_def case_prod_beta snd_fmtFrac)
  ultimately show ?thesis using parse_loop_step [of orig "small_string u" u "[]" 0] assms(2) by simp
qed

lemma parse_loop_seconds:
  assumes "d + (n * Second + u mod Second) \<le> 2 ^ 63"
  shows "parse_loop orig (decimal n @ fst (fmtFrac u 9) @ ''s'') d = Inr (d + (n * Second + u mod Second))"
proof -
  have "parse_unit orig (decimal n @ fst (fmtFrac u 9) @ ''s'' @ []) = Inr (n * Second + u mod Second, [])"
    using parse_unit_fmtFrac [OF unit_follows_seconds, of n u orig] assms by simp
  with assms show ?thesis by (simp add: parse_loop_step)
qed

lemma parse_loop_minutes:
  assumes "d + m * (60 * Second) \<le> 2 ^ 63"
  shows "parse_loop orig (decimal m @ ''m'' @ decimal n @ r) d = parse_loop orig (decimal n @ r) (d + m * (60 * Second))"
  using parse_unit_int [OF unit_follows_minutes, of m orig n r] assms by (intro parse_loop_step) simp_all

lemma parse_loop_hours:
  assumes "d + h * (3600 * Second) \<le> 2 ^ 63"
  shows "parse_loop orig (decimal h @ ''h'' @ decimal n @ r) d = parse_loop orig (decimal n @ r) (d + h * (3600 * Second))"
  using parse_unit_int [OF unit_follows_hours, of h orig n r] assms by (intro parse_loop_step) simp_all

lemma sum_of_units:
  fixes u :: nat
  assumes "u = t * Second + r" and "t = h' * 60 + n" and "h' = h * 60 + m"
  shows "h * (3600 * Second) + m * (60 * Second) + (n * Second + r) = u"
  by (simp add: assms)

lemma hours_minutes_seconds:
  fixes u :: nat
  shows "u div Second div 60 div 60 * (3600 * Second) + u div Second div 60 mod 60 * (60 * Second)
      + (u div Second mod 60 * Second + u mod Second) = u"
  by (rule sum_of_units) (rule div_mult_mod_eq [symmetric])+

lemma parse_loop_large:
  assumes "u \<le> 2 ^ 63"
  shows "parse_loop orig (large_string u) 0 = Inr u"
proof -
  define t where "t = u div Second"
  define h m n where "h = t div 60 div 60" and "m = t div 60 mod 60" and "n = t mod 60"
  define secs where "secs = decimal n @ fst (fmtFrac u 9) @ ''s''"
  have u: "h * (3600 * Second) + m * (60 * Second) + (n * Second + u mod Second) = u"
    unfolding h_def m_def n_def t_def by (rule hours_minutes_seconds)
  have secs_at: "parse_loop orig secs (h * (3600 * Second) + m * (60 * Second)) = Inr u"
    using parse_loop_seconds [of "h * (3600 * Second) + m * (60 * Second)" n u orig] assms u by (simp add: secs_def)
  have mins_at: "parse_loop orig (decimal m @ ''m'' @ secs) (h * (3600 * Second)) = Inr u"
    using parse_loop_minutes [of "h * (3600 * Second)" m orig n] assms u secs_at by (simp add: secs_def)
  have hours_at: "parse_loop orig (decimal h @ ''h'' @ decimal m @ ''m'' @ secs) 0 = Inr u"
    using parse_loop_hours [of 0 h orig m] assms u mins_at by simp
  have s: "large_string u = (if t div 60 > 0
      then if h > 0 then decimal h @ ''h'' @ decimal m @ ''m'' @ secs else decimal m @ ''m'' @ secs else secs)"
    by (simp add: large_string_def case_prod_beta Let_def snd_fmtFrac secs_def h_def m_def n_def t_def)
  show ?thesis
  proof (cases "t div 60 > 0")
    case True
    then show ?thesis using hours_at mins_at by (cases "h = 0") (simp_all add: s)
  next
    case False
    then have "h = 0" "m = 0" by (simp_all add: h_def m_def)
    then show ?thesis using secs_at False by (simp add: s)
  qed
qed

text \<open>The printed form starts with a digit and is longer than a digit.\<close>

lemma small_string_shape: "\<exists>n w. small_string u = decimal n @ w @ ''s''"
proof (cases "u = 0")
  case True
  then have "small_string u = decimal 0 @ [] @ ''s''" by (simp add: small_string_def decimal_0)
  then show ?thesis by blast
next
  case False
  have "small_string u = decimal (snd (fmtFrac u 0)) @ (fst (fmtFrac u 0) @ ''n'') @ ''s''
      \<or> small_string u = decimal (snd (fmtFrac u 3)) @ (fst (fmtFrac u 3) @ [CHR 0xC2, CHR 0xB5]) @ ''s''
      \<or> small_string u = decimal (snd (fmtFrac u 6)) @ (fst (fmtFrac u 6) @ ''m'') @ ''s''"
    using False by (simp add: small_string_def Let_def case_prod_beta)
  then show ?thesis by blast
qed

lemma large_string_shape: "\<exists>n w. large_string u = decimal n @ w @ ''s''"
proof -
  define t w where "t = snd (fmtFrac u 9)" and "w = fst (fmtFrac u 9)"
  define mins where "mins = decimal (t div 60 mod 60) @ (''m'' @ decimal (t mod 60) @ w) @ ''s''"
  have "large_string u = decimal (t mod 60) @ w @ ''s'' \<or> large_string u = mins
      \<or> large_string u = decimal (t div 60 div 60) @ (''h'' @ decimal (t div 60 mod 60) @ ''m'' @ decimal (t mod 60) @ w) @ ''s''"
    by (simp add: large_string_def Let_def case_prod_beta t_def w_def mins_def)
  then show ?thesis unfolding mins_def by blast
qed

lemma printed_start:
  assumes "s = decimal n @ w @ ''s''"
  shows "s \<noteq> ''0''" "s \<noteq> []" "hd s \<noteq> CHR ''-''" "hd s \<noteq> CHR ''+''"
proof -
  have "last s = CHR ''s''" by (simp add: assms)
  then show "s \<noteq> ''0''" "s \<noteq> []" using assms by auto
  have "is_digit (hd s)"
    using decimal_digits [of n] decimal_nonempty [of n] by (cases "decimal n") (auto simp: assms)
  then show "hd s \<noteq> CHR ''-''" "hd s \<noteq> CHR ''+''" by auto
qed

definition unsigned_string :: "nat \<Rightarrow> string" where
  "unsigned_string u = (if u < Second then small_string u else large_string u)"

lemma unsigned_string_start:
  "unsigned_string u \<noteq> ''0''" "unsigned_string u \<noteq> []"
  "hd (unsigned_string u) \<noteq> CHR ''-''" "hd (unsigned_string u) \<noteq> CHR ''+''"
proof -
  obtain n w where "unsigned_string u = decimal n @ w @ ''s''"
    using small_string_shape [of u] large_string_shape [of u] by (metis unsigned_string_def)
  from printed_start [OF this] show "unsigned_string u \<noteq> ''0''" "unsigned_string u \<noteq> []"
    "hd (unsigned_string u) \<noteq> CHR ''-''" "hd (unsigned_string u) \<noteq> CHR ''+''" by blast+
qed

lemma parse_loop_zero: "parse_loop orig (small_string 0) 0 = Inr 0"
proof -
  have "parse_unit orig (decimal 0 @ ''s'' @ []) = Inr (0 * 10 ^ 9, [])"
    by (rule parse_unit_int [OF unit_follows_seconds]) simp_all
  then have "parse_unit orig (small_string 0) = Inr (0, [])" by (simp add: small_string_def decimal_0)
  from parse_loop_step [OF this, of 0] show ?thesis by simp
qed

lemma parse_loop_unsigned: "u \<le> 2 ^ 63 \<Longrightarrow> parse_loop orig (unsigned_string u) 0 = Inr u"
  using parse_loop_small [of u orig] parse_loop_large [of u orig] parse_loop_zero [of orig]
  by (cases "u = 0") (auto simp: unsigned_string_def)

lemma Duration_String_unsigned:
  "Duration_String d = (if d < 0 then CHR ''-'' # unsigned_string (nat \<bar>d\<bar>) else unsigned_string (nat \<bar>d\<bar>))"
  by (simp add: Duration_String_def unsigned_string_def Let_def)

lemma ParseDuration_String:
  assumes "int64 d"
  shows "ParseDuration (Duration_String d) = Inr d"
proof (cases "d < 0")
  case True
  then have "nat \<bar>d\<bar> \<le> 2 ^ 63" using assms by (simp add: int64_def)
  then show ?thesis using True unsigned_string_start [of "nat \<bar>d\<bar>"] parse_loop_unsigned
    by (simp add: ParseDuration_def Duration_String_unsigned)
next
  case False
  then have "nat \<bar>d\<bar> \<le> 2 ^ 63 - 1" using assms by (simp add: int64_def)
  then show ?thesis using False unsigned_string_start [of "nat \<bar>d\<bar>"] parse_loop_unsigned [of "nat \<bar>d\<bar>"]
    by (simp add: ParseDuration_def Duration_String_unsigned Let_def)
qed

section \<open>Every result fits\<close>

lemma parse_loop_bound: "parse_loop orig s d = Inr n \<Longrightarrow> d \<le> 2 ^ 63 \<Longrightarrow> n \<le> 2 ^ 63"
proof (induction orig s d rule: parse_loop.induct)
  case (1 orig s d)
  show ?case
  proof (cases "s = []")
    case False
    then obtain v r where u: "parse_unit orig s = Inr (v, r)"
      using "1.prems"(1) by (auto simp: parse_loop.simps [of orig s d] split: sum.splits)
    let ?d = "(d + v) mod 2 ^ 64"
    have "\<not> ?d > 2 ^ 63" "parse_loop orig r ?d = Inr n"
      using "1.prems"(1) False by (auto simp: parse_loop.simps [of orig s d] u Let_def split: if_splits)
    with "1.IH" [OF False u refl refl] show ?thesis by simp
  qed (use 1 in simp)
qed

lemma ParseDuration_int64:
  assumes "ParseDuration s = Inr v"
  shows "int64 v"
  using assms parse_loop_bound [of s _ 0]
  by (fastforce simp: ParseDuration_def int64_def Let_def split: if_splits sum.splits)

section \<open>Properties\<close>

text \<open>C36. A duration written to JSON is read back as the same duration, whatever the receiver held before:
  every 64-bit number of nanoseconds, negative ones and those with a fraction included, provided the JSON
  library gives back the text it was given.\<close>

theorem duration_roundtrip:
  assumes "int64 d"
    and "Marshal_string J (Duration_String d) = Inr b"
    and "Unmarshal_any J b = Inr (JString (Duration_String d))"
  shows "MarshalJSON J d = Inr b \<and> UnmarshalJSON J overflow b old = (None, d)"
  by (simp add: MarshalJSON_def UnmarshalJSON_def assms ParseDuration_String)

definition quoting :: duration_json where
  "quoting = \<lparr>Marshal_string = (\<lambda>s. Inr (to_bytes ([CHR 0x22] @ s @ [CHR 0x22]))),
     Unmarshal_any = (\<lambda>b. Inr (JString (butlast (tl (of_bytes b)))))\<rparr>"

lemma quoting_returns: "Marshal_string quoting s = Inr b \<Longrightarrow> Unmarshal_any quoting b = Inr (JString s)"
  by (auto simp: quoting_def)

theorem duration_roundtrip_witness:
  "UnmarshalJSON quoting (\<lambda>_. 0) (projr (MarshalJSON quoting (- 5400000000001))) 7 = (None, - 5400000000001)"
proof -
  obtain b where b: "Marshal_string quoting (Duration_String (- 5400000000001)) = Inr b" by (simp add: quoting_def)
  have "int64 (- 5400000000001)" by (simp add: int64_def)
  from duration_roundtrip [OF this b quoting_returns [OF b], of "\<lambda>_. 0" 7] show ?thesis by simp
qed



end
