(* ===== verification/Engine_Session.thy ===== *)
theory Engine_Session
  imports Tun_Devices Engine
begin

text \<open>
  The engine between \<^verbatim>\<open>Start\<close> and \<^verbatim>\<open>Stop\<close> (\<^verbatim>\<open>client/internal/engine.go\<close>): the goroutine of
  \<^verbatim>\<open>receiveManagementEvents\<close> and those of \<^verbatim>\<open>connWorker\<close> interleave as steps of a relation, and the engine
  is composed with the interface, the configurer and the kernel device it works on.
\<close>

section \<open>Steps of a session\<close>

text \<open>
  One poll, one round of a worker that is running, or the cancellation of the client's context.  A
  round waits inside \<^verbatim>\<open>Open\<close> with the mutex released and touches nothing else meanwhile.
\<close>

inductive session_step ::
  "('t, 'c, 'u, 'm) engine_env \<Rightarrow> ('t, 'c, 'u, 'm) Engine \<Rightarrow> ('t, 'c, 'u, 'm) Engine \<Rightarrow> bool"
  for V :: "('t, 'c, 'u, 'm) engine_env" where
  step_poll: "session_step V e e'" if "poll V answer e = Inr e'"
| step_worker: "session_step V e e'" if "wk \<in> set (workers e)" and "run_worker V ev wk e = (r, e')"
| step_cancel: "session_step V e (e\<lparr>ctx_done := True\<rparr>)"

abbreviation session_steps :: "('t, 'c, 'u, 'm) engine_env \<Rightarrow> ('t, 'c, 'u, 'm) Engine \<Rightarrow> ('t, 'c, 'u, 'm) Engine \<Rightarrow> bool" where
  "session_steps V \<equiv> (session_step V)\<^sup>*\<^sup>*"

section \<open>What a session keeps\<close>

text \<open>
  A session never takes anything away: connections keep what they were made with, no peer leaves the
  map, and of the interface only the state of the configurer changes.
\<close>

definition conn_kept :: "Conn \<Rightarrow> Conn \<Rightarrow> bool" where
  "conn_kept c c' \<longleftrightarrow> conn_config c' = conn_config c \<and> remoteAnswer c' = remoteAnswer c \<and> (mu c' \<longrightarrow> mu c)"

definition iface_kept :: "('t, 'c) WGIface \<Rightarrow> ('t, 'c) WGIface \<Rightarrow> bool" where
  "iface_kept w w' \<longleftrightarrow> w' = w\<lparr>configurer := configurer w'\<rparr> \<and> (configurer w' = None \<longleftrightarrow> configurer w = None)"

definition session_kept :: "('t, 'c, 'u, 'm) Engine \<Rightarrow> ('t, 'c, 'u, 'm) Engine \<Rightarrow> bool" where
  "session_kept e e' \<longleftrightarrow>
     udpMux e' = udpMux e \<and> wgProxyFactory e' = wgProxyFactory e
   \<and> rel_option iface_kept (wgInterface e) (wgInterface e')
   \<and> length (conns e) \<le> length (conns e') \<and> (\<forall>i<length (conns e). conn_kept (conns e ! i) (conns e' ! i))
   \<and> (\<forall>key. peerExists key e \<longrightarrow> peerExists key e')"

lemma conn_kept_refl [simp]: "conn_kept c c"
  by (simp add: conn_kept_def)

lemma iface_kept_refl [simp]: "iface_kept w w"
  by (simp add: iface_kept_def)

lemma iface_kept_trans: "iface_kept w w' \<Longrightarrow> iface_kept w' w'' \<Longrightarrow> iface_kept w w''"
  by (cases w; cases w'; cases w'') (simp add: iface_kept_def)

lemma iface_kept_tun: "iface_kept w w' \<Longrightarrow> tun w' = tun w \<and> (configurer w' = None \<longleftrightarrow> configurer w = None)"
  by (cases w; cases w') (simp add: iface_kept_def)

lemma iface_kept_configurer [simp]: "iface_kept w (w\<lparr>configurer := c\<rparr>) \<longleftrightarrow> (c = None \<longleftrightarrow> configurer w = None)"
  by (simp add: iface_kept_def)

lemma iface_option_refl [simp]: "rel_option iface_kept x x"
  by (cases x) simp_all

lemma conn_for_kept: "conn_kept c c' \<Longrightarrow> conn_for p c \<Longrightarrow> conn_for p c'"
  by (auto simp: conn_kept_def conn_for_def)

lemma session_kept_refl [simp]: "session_kept e e"
  by (auto simp: session_kept_def)

lemma session_kept_trans:
  assumes "session_kept e e'" and "session_kept e' e''"
  shows "session_kept e e''"
proof -
  have "rel_option iface_kept (wgInterface e) (wgInterface e'')"
    using assms unfolding session_kept_def
    by (elim conjE) (erule option.rel_cases; erule option.rel_cases; auto intro: iface_kept_trans)
  moreover have "conn_kept (conns e ! i) (conns e'' ! i)" if "i < length (conns e)" for i
  proof -
    have "i < length (conns e')" using assms(1) that by (simp add: session_kept_def)
    then have "conn_kept (conns e ! i) (conns e' ! i)" "conn_kept (conns e' ! i) (conns e'' ! i)"
      using assms that by (simp_all add: session_kept_def)
    then show ?thesis by (auto simp: conn_kept_def)
  qed
  ultimately show ?thesis using assms by (auto simp: session_kept_def)
qed

subsection \<open>Polls\<close>

lemma add_peer_kept: "add_peer V p e = Inr e' \<Longrightarrow> session_kept e e'"
  by (auto simp: add_peer_def session_kept_def peerExists_def nth_append Let_def
      split: sum.splits)

lemma addNewPeers_kept: "addNewPeers V ps e = Inr e' \<Longrightarrow> session_kept e e'"
  by (induction ps arbitrary: e) (auto split: sum.splits intro: session_kept_trans add_peer_kept)

lemma poll_kept: "poll V answer e = Inr e' \<Longrightarrow> session_kept e e'"
  by (auto simp: poll_def split: prod.splits option.splits error.splits intro: addNewPeers_kept)

subsection \<open>Workers\<close>

lemma on_configurer_kept: "iface_kept w (snd (on_configurer f w))"
  by (simp add: on_configurer_def case_prod_beta Let_def split: option.split)

lemma UpdatePeer_kept: "UpdatePeer (conn_env_of V) k ips ka ep psk w = (r, w') \<Longrightarrow> iface_kept w w'"
  using on_configurer_kept [of w] by (auto simp: conn_env_of_def iface_UpdatePeer_def dest: sym [of _ "(r, w')"]) (metis snd_conv)

lemma configureConnection_kept:
  assumes "configureConnection (conn_env_of V) ra rp c w = Done (r, c', w')"
  shows "conn_kept c c' \<and> \<not> mu c' \<and> iface_kept w w'"
  using assms
  by (auto simp: configureConnection_def conn_kept_def Lock_def Unlock_def Let_def dest: UpdatePeer_kept
      split: outcome.splits sum.splits prod.splits option.splits if_splits)

lemma Open_start_kept:
  assumes "Open_start (conn_env_of V) c w = Done (r, c', w')"
  shows "conn_kept c c' \<and> iface_kept w w'"
  using assms
  by (auto simp: Open_start_def conn_kept_def Lock_def Unlock_def Let_def dest!: configureConnection_kept
      split: outcome.splits sum.splits prod.splits if_splits)

lemma Open_wait_kept [simp]: "conn_kept c (snd (Open_wait ev c'')) \<longleftrightarrow> conn_kept c c''"
  by (cases ev) (simp_all add: Open_wait_def conn_kept_def)

lemma engine_update_kept:
  assumes "wgInterface e = Some w" and "conn_kept (conns e ! i) c'" and "iface_kept w w'"
  shows "session_kept e (e\<lparr>conns := (conns e)[i := c'], wgInterface := Some w'\<rparr>)"
proof -
  have "conn_kept (conns e ! j) ((conns e)[i := c'] ! j)" if "j < length (conns e)" for j
    using assms(2) that by (cases "j = i") simp_all
  then show ?thesis using assms(1,3) by (simp add: session_kept_def peerExists_def)
qed

lemma connWorker_iter_cases:
  assumes "connWorker_iter V ev (i, peerKey) e = (r, e')"
  obtains "e' = e"
    | w c' w' where "wgInterface e = Some w" and "conn_kept (conns e ! i) c'" and "iface_kept w w'"
      and "e' = e\<lparr>conns := (conns e)[i := c'], wgInterface := Some w'\<rparr>"
proof (cases "ctx_done e \<or> \<not> peerExists peerKey e")
  case True
  then show thesis using assms that(1) by (simp add: connWorker_iter_def split: if_splits)
next
  case live: False
  show thesis
  proof (cases "wgInterface e")
    case None
    then show thesis using assms live that(1) by (simp add: connWorker_iter_def)
  next
    case w: (Some w)
    show thesis
    proof (cases "Open_start (conn_env_of V) (conns e ! i) w")
      case Blocked
      then show thesis using assms live w that(1) by (simp add: connWorker_iter_def)
    next
      case (Done x)
      then obtain res c1 w1 where start: "Open_start (conn_env_of V) (conns e ! i) w = Done (res, c1, w1)" by (cases x) auto
      note kept = Open_start_kept [OF start]
      obtain ce c2 where wait: "Open_wait ev c1 = (ce, c2)" by fastforce
      then have "conn_kept (conns e ! i) c2" using kept Open_wait_kept [of "conns e ! i" ev c1] by simp
      then show thesis
        using assms live w start wait kept that(2)
        by (cases res) (auto simp: connWorker_iter_def split: conn_error.splits)
    qed
  qed
qed

lemma run_worker_kept: "run_worker V ev wk e = (r, e') \<Longrightarrow> session_kept e e'"
proof -
  assume run: "run_worker V ev wk e = (r, e')"
  obtain r1 e1 where iter: "connWorker_iter V ev wk e = (r1, e1)" by fastforce
  obtain i peerKey where wk: "wk = (i, peerKey)" by fastforce
  have "session_kept e e1"
    by (rule connWorker_iter_cases [OF iter [unfolded wk]]) (simp_all add: engine_update_kept)
  moreover have "session_kept e1 e'"
    using run iter by (auto simp: run_worker_def session_kept_def peerExists_def)
  ultimately show ?thesis by (rule session_kept_trans)
qed

lemma session_step_kept: "session_step V e e' \<Longrightarrow> session_kept e e'"
proof (induction rule: session_step.induct)
  case (step_cancel e)
  show ?case by (auto simp: session_kept_def peerExists_def)
qed (auto intro: poll_kept run_worker_kept)

lemma session_keeps: "session_steps V e e' \<Longrightarrow> session_kept e e'"
  by (induction rule: rtranclp_induct) (auto intro: session_kept_trans session_step_kept)

section \<open>Configuring a peer\<close>

text \<open>The address of an endpoint as the engine resolves it.\<close>

lemma IP_String_To4:
  assumes "To4 ip = Some ip4"
  shows "length ip4 = 4" and "IP_String ip = dotted ip4"
  using assms by (auto simp: IP_String_def To4_def split: if_splits)

lemma endpoint_text:
  assumes "To4 ip = Some ip4"
  shows "UDPAddr_String (server_addr (IP_String ip) port) = dotted ip4 @ '':'' @ Itoa port"
proof -
  note len = IP_String_To4(1) [OF assms] and str = IP_String_To4(2) [OF assms]
  have parse: "ParseIP (dotted ip4) = Some (v4InV6Prefix @ ip4)"
    using ParseIP_dotted [OF len] len by (simp add: To16_def)
  have again: "IP_String (v4InV6Prefix @ ip4) = dotted ip4"
    using len by (simp add: IP_String_def To4_def v4InV6Prefix_def)
  have "CHR '':'' \<notin> set (dotted ip4)"
    using len decimal_no_dot by (auto simp: dotted_def length_Suc_conv numeral_eq_Suc)
  then show ?thesis
    using len by (auto simp: str server_addr_def UDPAddr_String_def parse again JoinHostPort_def Let_def)
qed

text \<open>The \<^verbatim>\<open>/32\<close> the engine appends is a host only for IPv4: an IPv6 peer gets the network of its first 32 bits.\<close>

lemma ipv6_peer_routes_network:
  assumes "length ip = 16" and "To4 ip = None"
  shows "ParseCIDR (IP_String ip @ ''/32'') =
     Inr (ip, \<lparr>net_IP = the (IP_Mask ip (CIDRMask 32 16)), net_Mask = CIDRMask 32 16\<rparr>)"
proof -
  have "decimal 32 = ''32''" by (simp add: decimal.simps digit_char_def char_of_eq_iff)
  then have "''/32'' = ''/'' @ decimal 32" by simp
  moreover have "IP_String ip = v6string ip" using assms by (auto simp: IP_String_def)
  ultimately show ?thesis
    unfolding ParseCIDR_def
    by (simp only: cut_at_slash [OF v6string_no_slash]) (simp add: netip_ParseAddr_v6string [OF assms(1)] dtoi_decimal Let_def)
qed

context peer_configurer
begin

lemma worker_configures:
  assumes "cfg_ops V = C" and "wgInterface e = Some w" and "configurer w = Some c" and "\<not> ctx_done e"
    and "peerExists (info_WgPubKey p) e" and "conn_for p (conns e ! i)" and "i < length (conns e)"
    and "resolve_udp V (UDPAddr_String (server_addr (info_IP p) (info_Port p))) = Inr addr"
    and "ParseCIDR (info_AllowedIP p @ ''/32'') = Inr (ip, net)" and "ParseKey (info_WgPubKey p) = Inr key"
    and "send (peer_conf key net defaultWgKeepAlive (Some addr) None) c = (res, c')"
  shows "\<exists>r e'. run_worker V ev (i, info_WgPubKey p) e = (r, e') \<and> wgInterface e' = Some (w\<lparr>configurer := Some c'\<rparr>)
     \<and> punches (conns e' ! i) = punches (conns e ! i) @ [(info_IP p, info_Port p)]
     \<and> (res = None \<longrightarrow> r = (if ev = CloseReceived then Return else Continue))"
proof -
  let ?c = "conns e ! i"
  have conn: "conn_RemoteKey (conn_config ?c) = info_WgPubKey p" "conn_AllowedIps (conn_config ?c) = info_AllowedIP p @ ''/32''"
    "conn_PreSharedKey (conn_config ?c) = None" "remoteAnswer ?c = \<lparr>ans_WgListenPort = info_Port p, ans_WgAddr = info_IP p\<rparr>"
    "\<not> mu ?c" using assms(6) by (simp_all add: conn_for_def)
  have upd: "UpdatePeer (conn_env_of V) (info_WgPubKey p) (info_AllowedIP p @ ''/32'') defaultWgKeepAlive addr None w
      = (res, w\<lparr>configurer := Some c'\<rparr>)"
    using iface_UpdatePeer_sends [OF assms(9,10,3), of defaultWgKeepAlive "Some addr" None] assms(11)
    by (simp add: conn_env_of_def assms(1))
  have resolve: "ResolveUDPAddr (conn_env_of V) = resolve_udp V" by (simp add: conn_env_of_def)
  let ?c1 = "?c\<lparr>mu := False, punches := punches ?c @ [(info_IP p, info_Port p)]\<rparr>"
  have start: "Open_start (conn_env_of V) ?c w =
      (case res of
         Some err \<Rightarrow> Done (Inl (Wrapf ''update peer'' err), ?c1, w\<lparr>configurer := Some c'\<rparr>)
       | None \<Rightarrow> Done (Inr (server_addr (info_IP p) (info_Port p)), ?c1\<lparr>waiting := True\<rparr>, w\<lparr>configurer := Some c'\<rparr>))"
    using conn
    by (simp add: Open_start_def configureConnection_def Lock_def Unlock_def Let_def resolve assms(8) upd split: option.split)
  show ?thesis
    using assms(2,4,5,7)
    by (cases res; cases ev)
      (auto simp: run_worker_def connWorker_iter_def start Open_wait_def Let_def split: error.splits)
qed

lemma session_configures:
  assumes "cfg_ops V = C" and "wgInterface e = Some w" and "configurer w \<noteq> None" and "session_steps V e e'" and "\<not> ctx_done e'"
    and "peerExists (info_WgPubKey p) e" and "conn_for p (conns e ! i)" and "i < length (conns e)"
    and "resolve_udp V (UDPAddr_String (server_addr (info_IP p) (info_Port p))) = Inr addr"
    and "ParseCIDR (info_AllowedIP p @ ''/32'') = Inr (ip, net)" and "ParseKey (info_WgPubKey p) = Inr key"
  shows "\<exists>w' c. wgInterface e' = Some w' \<and> tun w' = tun w \<and> configurer w' = Some c
     \<and> (\<forall>res c' ev. send (peer_conf key net defaultWgKeepAlive (Some addr) None) c = (res, c') \<longrightarrow>
          (\<exists>r e2. run_worker V ev (i, info_WgPubKey p) e' = (r, e2) \<and> wgInterface e2 = Some (w'\<lparr>configurer := Some c'\<rparr>)
             \<and> punches (conns e2 ! i) = punches (conns e' ! i) @ [(info_IP p, info_Port p)]
             \<and> (res = None \<longrightarrow> r = (if ev = CloseReceived then Return else Continue))))"
proof -
  note kept = session_keeps [OF assms(4)]
  obtain w' where w': "wgInterface e' = Some w'" and "iface_kept w w'"
    using kept assms(2) by (auto simp: session_kept_def option_rel_Some1)
  then obtain c where c: "configurer w' = Some c" and tun: "tun w' = tun w"
    using assms(3) iface_kept_tun [of w w'] by auto
  have p: "peerExists (info_WgPubKey p) e'" "i < length (conns e')" "conn_for p (conns e' ! i)"
    using kept assms(6,7,8) conn_for_kept by (auto simp: session_kept_def)
  show ?thesis
    using worker_configures [OF assms(1) w' c assms(5) p(1) p(3) p(2) assms(9-11)] w' c tun by blast
qed

end

lemma poll_adds_peer:
  assumes "udpMux e = Some u" and "p \<in> set peers"
  shows "\<exists>e' i. poll V (peers, None) e = Inr e' \<and> (i, info_WgPubKey p) \<in> set (workers e')
     \<and> i < length (conns e') \<and> conn_for p (conns e' ! i) \<and> peerExists (info_WgPubKey p) e'"
proof -
  obtain e' where add: "addNewPeers V peers e = Inr e'" and added: "peers_added peers e e'"
    using addNewPeers_adds [OF assms(1)] by blast
  obtain j where j: "j < length peers" "peers ! j = p" using assms(2) by (auto simp: in_set_conv_nth)
  let ?i = "length (conns e) + j"
  have "(?i, info_WgPubKey p) \<in> set (workers e')" "?i < length (conns e')" "conn_for p (conns e' ! ?i)"
    using added j by (auto simp: peers_added_def image_iff intro!: bexI [of _ j])
  moreover have "info_WgPubKey p \<in> fst ` set (peerConns e')"
    using added assms(2) by (simp add: peers_added_def)
  then have "peerExists (info_WgPubKey p) e'" by (simp add: peerExists_def map_of_eq_None_iff)
  moreover have "poll V (peers, None) e = Inr e'" using add by (simp add: poll_def)
  ultimately show ?thesis by blast
qed

context peer_configurer
begin

lemma poll_then_configures:
  assumes "udpMux e = Some u" and "wgInterface e = Some w" and "configurer w \<noteq> None" and "p \<in> set peers"
    and "info_IP p = IP_String ip" and "To4 ip = Some ip4" and "info_AllowedIP p = IP_String vip" and "To4 vip = Some vpn"
    and "cfg_ops V = C" and "ParseKey (info_WgPubKey p) = Inr key"
    and "resolve_udp V (dotted ip4 @ '':'' @ Itoa (info_Port p)) = Inr addr"
  shows "\<exists>e1 i. poll V (peers, None) e = Inr e1 \<and> (i, info_WgPubKey p) \<in> set (workers e1)
     \<and> (\<forall>e2 ev. session_steps V e1 e2 \<and> \<not> ctx_done e2 \<longrightarrow>
          (\<exists>w2 c res c' r e3. wgInterface e2 = Some w2 \<and> tun w2 = tun w \<and> configurer w2 = Some c
             \<and> send (peer_conf key \<lparr>net_IP = vpn, net_Mask = CIDRMask 32 4\<rparr> 2000000000 (Some addr) None) c = (res, c')
             \<and> run_worker V ev (i, info_WgPubKey p) e2 = (r, e3)
             \<and> wgInterface e3 = Some (w2\<lparr>configurer := Some c'\<rparr>)
             \<and> punches (conns e3 ! i) = punches (conns e2 ! i) @ [(info_IP p, info_Port p)]
             \<and> (res = None \<longrightarrow> r = (if ev = CloseReceived then Return else Continue))))"
proof -
  obtain e1 i where e1: "poll V (peers, None) e = Inr e1" "(i, info_WgPubKey p) \<in> set (workers e1)"
      "i < length (conns e1)" "conn_for p (conns e1 ! i)" "peerExists (info_WgPubKey p) e1"
    using poll_adds_peer [OF assms(1,4)] by blast
  obtain w1 where w1: "wgInterface e1 = Some w1" "configurer w1 \<noteq> None" "tun w1 = tun w"
    using poll_kept [OF e1(1)] assms(2,3)
    by (auto simp: session_kept_def option_rel_Some1 dest: iface_kept_tun)
  obtain net where net: "ParseCIDR (info_AllowedIP p @ ''/32'') = Inr (net, \<lparr>net_IP = vpn, net_Mask = CIDRMask 32 4\<rparr>)"
    using ParseCIDR_host IP_String_To4 [OF assms(8)] assms(7) by auto
  have resolve: "resolve_udp V (UDPAddr_String (server_addr (info_IP p) (info_Port p))) = Inr addr"
    using endpoint_text [OF assms(6)] assms(5,11) by simp
  show ?thesis
  proof (intro exI [of _ e1] exI [of _ i] conjI e1(1,2) allI impI)
    fix e2 ev
    assume s: "session_steps V e1 e2 \<and> \<not> ctx_done e2"
    from session_configures [OF assms(9) w1(1,2) conjunct1 [OF s] conjunct2 [OF s] e1(5,4,3) resolve net assms(10), unfolded w1(3)]
    show "\<exists>w2 c res c' r e3. wgInterface e2 = Some w2 \<and> tun w2 = tun w \<and> configurer w2 = Some c
        \<and> send (peer_conf key \<lparr>net_IP = vpn, net_Mask = CIDRMask 32 4\<rparr> 2000000000 (Some addr) None) c = (res, c')
        \<and> run_worker V ev (i, info_WgPubKey p) e2 = (r, e3)
        \<and> wgInterface e3 = Some (w2\<lparr>configurer := Some c'\<rparr>)
        \<and> punches (conns e3 ! i) = punches (conns e2 ! i) @ [(info_IP p, info_Port p)]
        \<and> (res = None \<longrightarrow> r = (if ev = CloseReceived then Return else Continue))"
      unfolding defaultWgKeepAlive_def by simp (metis prod.exhaust)
  qed
qed

end

section \<open>Sessions on the kernel device\<close>

text \<open>The devices of a system whose kernel has WireGuard: \<open>n\<close> and \<open>k\<close> are netlink and \<^verbatim>\<open>wgctrl\<close> at the start.\<close>

definition kernel_devices ::
  "'n \<Rightarrow> 'k \<Rightarrow> (('b, 's) tunKernelDevice \<times> 'n \<times> 'k) tun_devices \<Rightarrow> bool" where
  "kernel_devices n k D \<longleftrightarrow> \<not> netstack_IsEnabled D \<and> WireGuardModuleIsLoaded D
   \<and> newTunDevice D = (\<lambda>name address port key mtu. (kernel_newTunDevice name address port key mtu, n, k))"

lemma Start_kernel:
  fixes E :: "('b, 'n, 'k, 'r, 'raw, 'w) kernel_env"
  assumes "tun_ops V = kernel_tun E" and "kernel_devices n k (devices V)" and "netlink_ok (ke_netlink E) links"
    and "Start V (NewEngine config) = (None, e)"
  shows "\<exists>w t n1 k1 u addr. wgInterface e = Some w \<and> tun w = (t, n1, k1) \<and> udpMux e = Some u \<and> configurer w \<noteq> None
    \<and> kd_name t = ec_WgIfaceName config \<and> kd_link t \<and> kd_udpMux t = Some u \<and> \<not> mux_closed (mux u)
    \<and> links n1 = (links n)(ec_WgIfaceName config \<mapsto> ([addr], True))"
proof -
  obtain a where a: "parseWGAddress (ec_WgAddr config) = Inr a"
    using assms(4) by (auto simp: Start_def newWgIface_def NewWGIFace_def NewEngine_def split: sum.splits)
  define t0 where "t0 = (kernel_newTunDevice (ec_WgIfaceName config) a (ec_WgPort config) (ec_WgPrivateKey config) DefaultMTU
    :: ('b, 'r SharedSocket \<times> 'w) tunKernelDevice)"
  have new: "newWgIface V (NewEngine config) = Inr (new_iface (t0, n, k) False)"
    using assms(2) a by (simp add: newWgIface_def NewWGIFace_def NewEngine_def kernel_devices_def t0_def)
  have t0: "kd_name t0 = ec_WgIfaceName config" "kd_udpMux t0 = None" by (simp_all add: t0_def kernel_newTunDevice_def)
  obtain c t1 n1 k1 where create: "kernel_Create E (t0, n, k) = (Inr c, t1, n1, k1)"
    and up: "(case kernel_Up E (t1, n1, k1) of (Inr u, t2, n2, k2) \<Rightarrow>
       udpMux e = Some u \<and> (\<exists>w. wgInterface e = Some w \<and> tun w = (t2, n2, k2) \<and> configurer w = Some c) | _ \<Rightarrow> False)"
    using assms(4) unfolding Start_def new
    by (auto simp: wgInterfaceCreate_def iface_Create_def iface_Up_def new_iface_def assms(1) kernel_tun_def Let_def
        split: prod.splits sum.splits)
  obtain addr where t1: "t1 = t0\<lparr>kd_link := True\<rparr>" and n1: "links n1 = (links n)(kd_name t0 \<mapsto> ([addr], True))"
    using kernel_Create_ok [OF assms(3) create] by blast
  obtain u t2 n2 k2 where u: "kernel_Up E (t1, n1, k1) = (Inr u, t2, n2, k2)"
    using up by (auto split: prod.splits sum.splits)
  have "kd_udpMux t1 = None" using t0 t1 by simp
  note ok = kernel_Up_ok [OF u this]
  have "links n2 = (links n)(ec_WgIfaceName config \<mapsto> ([addr], True))"
    using netlink_okD(6) [OF assms(3) ok(4)] n1 t0 t1 by (simp add: upd_link_def)
  with up u ok t0 t1 show ?thesis by auto
qed

lemma engine_close_kernel:
  assumes "tun_ops V = kernel_tun E" and "wgInterface e = Some w" and "tun w = (t, n, k)" and "kd_link t"
    and "kd_udpMux t = Some u" and "\<not> mux_closed (mux u)"
  shows "\<exists>w' t' k'. wgInterface (engine_close V e) = Some w'
    \<and> tun w' = (t', snd (LinkDel (ke_netlink E) (kd_name t) n), k') \<and> kd_cancelled t'
    \<and> (\<exists>u'. kd_udpMux t' = Some u' \<and> mux_closed (mux u') \<and> connsIPv4 (mux u') = [] \<and> connsIPv6 (mux u') = []
         \<and> ss_done (fst (inner (UDPConn (mux u')))))"
proof -
  obtain err t' n' k' where close: "kernel_Close E (t, n, k) = (err, t', n', k')" by (metis prod_cases4)
  have "wgInterface (engine_close V e) = Some (w\<lparr>tun := (t', n', k')\<rparr>)"
    using assms(2,3) close
    by (simp add: engine_close_def iface_Close_def assms(1) kernel_tun_def Let_def split: option.split)
  with kernel_Close_ok [OF close assms(4-6)] show ?thesis by auto
qed

text \<open>A start that fails closes what it had opened: a link that was created is deleted again.\<close>

lemma kernel_keeps_name:
  "kd_name (fst (snd (kernel_Create E (t, n, k)))) = kd_name t" "kd_name (fst (snd (kernel_Up E (t, n, k)))) = kd_name t"
  by (auto simp: kernel_Create_def kernel_Up_def Let_def split: prod.splits option.splits)

lemma kernel_Close_link:
  assumes "kernel_Close E (t, n, k) = (err, t', n', k')" and "kd_link t'"
  shows "n' = snd (LinkDel (ke_netlink E) (kd_name t) n)" and "kd_cancelled t'"
  using assms by (auto simp: kernel_Close_def Tun_Devices.link_Close_def Let_def split: prod.splits option.splits if_splits)

lemma failed_start_deletes_link:
  fixes E :: "('b, 'n, 'k, 'r, 'raw, 'w) kernel_env"
  assumes "tun_ops V = kernel_tun E" and "kernel_devices n k (devices V)" and "netlink_ok (ke_netlink E) links"
    and "Start V (NewEngine config) = (Some err, e)"
    and "wgInterface e = Some w" and "tun w = (t, n', k')" and "kd_link t"
  shows "\<exists>m r. LinkDel (ke_netlink E) (ec_WgIfaceName config) m = (r, n') \<and> kd_cancelled t
     \<and> (r = None \<longrightarrow> links n' (ec_WgIfaceName config) = None)"
proof -
  obtain t1 m k1 where name: "kd_name t1 = ec_WgIfaceName config"
    and close: "snd (kernel_Close E (t1, m, k1)) = (t, n', k')"
  proof -
    obtain a where a: "parseWGAddress (ec_WgAddr config) = Inr a"
      using assms(4,5) by (auto simp: Start_def newWgIface_def NewWGIFace_def NewEngine_def split: sum.splits)
    define t0 where "t0 = (kernel_newTunDevice (ec_WgIfaceName config) a (ec_WgPort config) (ec_WgPrivateKey config) DefaultMTU
      :: ('b, 'r SharedSocket \<times> 'w) tunKernelDevice)"
    have new: "newWgIface V (NewEngine config) = Inr (new_iface (t0, n, k) False)"
      using assms(2) a by (simp add: newWgIface_def NewWGIFace_def NewEngine_def kernel_devices_def t0_def)
    have t0: "kd_name t0 = ec_WgIfaceName config" by (simp add: t0_def kernel_newTunDevice_def)
    obtain c t1 n1 k1 where create: "kernel_Create E (t0, n, k) = (c, t1, n1, k1)" by (metis prod_cases4)
    obtain u t2 n2 k2 where up: "kernel_Up E (t1, n1, k1) = (u, t2, n2, k2)" by (metis prod_cases4)
    have names: "kd_name t1 = ec_WgIfaceName config" "kd_name t2 = ec_WgIfaceName config"
      using kernel_keeps_name(1) [of E t0 n k] kernel_keeps_name(2) [of E t1 n1 k1] t0 create up by simp_all
    from assms(4) consider "isl c" "wgInterface e = Some (snd (iface_Close (kernel_tun E) (new_iface (t1, n1, k1) False)))"
      | x where "c = Inr x" "wgInterface e = Some (snd (iface_Close (kernel_tun E) (new_iface (t2, n2, k2) False\<lparr>configurer := Some x\<rparr>)))"
      unfolding Start_def new
      by (cases c; cases u)
        (auto simp: wgInterfaceCreate_def iface_Create_def iface_Up_def new_iface_def assms(1) kernel_tun_def Let_def
          create up engine_close_def)
    then show thesis
    proof cases
      case 1
      with assms(5,6) have "snd (kernel_Close E (t1, n1, k1)) = (t, n', k')"
        by (auto simp: iface_Close_def new_iface_def kernel_tun_def Let_def split: prod.splits)
      with names(1) show thesis by (rule that)
    next
      case 2
      with assms(5,6) have "snd (kernel_Close E (t2, n2, k2)) = (t, n', k')"
        by (auto simp: iface_Close_def new_iface_def kernel_tun_def Let_def split: prod.splits)
      with names(2) show thesis by (rule that)
    qed
  qed
  obtain er where "kernel_Close E (t1, m, k1) = (er, t, n', k')" using close by (metis prod.collapse)
  note this = kernel_Close_link [OF this assms(7)]
  then obtain r where "LinkDel (ke_netlink E) (ec_WgIfaceName config) m = (r, n')" "kd_cancelled t"
    using name by (metis prod.collapse)
  then show ?thesis
    using netlink_okD(2) [OF assms(3), of "ec_WgIfaceName config" m n'] by (intro exI [of _ m] exI [of _ r]) auto
qed

section \<open>Properties\<close>


text \<open>The same on a kernel device, where the configuration goes to \<^verbatim>\<open>wgctrl\<close>.\<close>

lemma kernel_peer_becomes_reachable:
  assumes "udpMux e = Some u" and "wgInterface e = Some w" and "configurer w \<noteq> None" and "p \<in> set peers"
    and "info_IP p = IP_String ip" and "To4 ip = Some ip4" and "info_AllowedIP p = IP_String vip" and "To4 vip = Some vpn"
    and "cfg_ops V = kernel_configurer ParseKey W dev" and "ParseKey (info_WgPubKey p) = Inr key"
    and "resolve_udp V (dotted ip4 @ '':'' @ Itoa (info_Port p)) = Inr addr"
    and "wg_New W = None" and "\<And>k. wg_Device W dev k = Inr ps"
    and "\<And>k. wg_ConfigureDevice W dev (peer_conf key \<lparr>net_IP = vpn, net_Mask = CIDRMask 32 4\<rparr> 2000000000 (Some addr) None) k = (None, k' k)"
  shows "\<exists>e1 i. poll V (peers, None) e = Inr e1 \<and> (i, info_WgPubKey p) \<in> set (workers e1)
     \<and> (\<forall>e2 ev. (session_step V)\<^sup>*\<^sup>* e1 e2 \<and> \<not> ctx_done e2 \<longrightarrow>
          (\<exists>w2 k r e3. wgInterface e2 = Some w2 \<and> configurer w2 = Some k
             \<and> run_worker V ev (i, info_WgPubKey p) e2 = (if ev = CloseReceived then Return else Continue, e3)
             \<and> wgInterface e3 = Some (w2\<lparr>configurer := Some (k' k)\<rparr>)))"
proof -
  let ?conf = "peer_conf key \<lparr>net_IP = vpn, net_Mask = CIDRMask 32 4\<rparr> 2000000000 (Some addr) None"
  have sent: "wrap_error ''updating peer'' (configure W dev ?conf k) = (None, k' k)" for k
    using assms(12-14) by (simp add: wrap_error_def configure_def)
  show ?thesis
    using kernc.poll_then_configures [OF assms(1-11)] unfolding sent prod.inject by fast
qed

definition log_device :: "string list wgDevice" where
  "log_device = \<lparr>IpcSet = (\<lambda>s d. (None, d @ [s])), IpcGet = (\<lambda>d. Inr (concat d))\<rparr>"

definition running_engine :: "'t \<Rightarrow> ('t, string list, unit, unit) Engine" where
  "running_engine t = (NewEngine \<lparr>ec_WgPort = 51822, ec_WgIfaceName = ''wt0'', ec_WgAddr = ''10.0.0.1/24'',
     ec_WgPrivateKey = ''key'', ec_IFaceBlackList = [], ec_UDPMuxPort = 0, ec_UDPMuxSrflxPort = 0\<rparr>)
     \<lparr>udpMux := Some (), wgInterface := Some (new_iface t True\<lparr>configurer := Some []\<rparr>)\<rparr>"

lemma running_engine_fields:
  "udpMux (running_engine t) = Some ()" "wgInterface (running_engine t) = Some (new_iface t True\<lparr>configurer := Some []\<rparr>)"
  "ctx_done (running_engine t) = False"
  by (simp_all add: running_engine_def NewEngine_def)



definition table_devices ::
  "((fifo, unit SharedSocket \<times> unit) tunKernelDevice \<times> (string \<rightharpoonup> string list \<times> bool) \<times> WgConf list) tun_devices" where
  "table_devices =
     \<lparr>newTunNetstackDevice = (\<lambda>name a p k m. (kernel_newTunDevice name a p k m, [''lo'' \<mapsto> ([], True)], [])),
      newTunDevice = (\<lambda>name a p k m. (kernel_newTunDevice name a p k m, [''lo'' \<mapsto> ([], True)], [])),
      newTunUSPDevice = (\<lambda>name a p k m. (kernel_newTunDevice name a p k m, [''lo'' \<mapsto> ([], True)], [])),
      netstack_IsEnabled = False, WireGuardModuleIsLoaded = True, tunModuleIsLoaded = True\<rparr>"

lemma table_Create:
  "\<exists>t' n' k'. kernel_Create table_env (kernel_newTunDevice name a p key m, n, k) = (Inr k', t', n', k')"
proof -
  have del: "\<exists>n'. del_addrs table_netlink name as n = (None, n')" for as n
    by (induction as arbitrary: n) (auto simp: table_netlink_def)
  show ?thesis
    using del
    by (auto simp: kernel_Create_def table_env_def kernel_newTunDevice_def recreate_def recreate_add_def assignAddr_def
        link_up_def setMTU_def kernel_configureInterface_def configure_def wrap_error_def Let_def
        table_netlink_def upd_link_def)
qed

lemma table_Up:
  "\<exists>u. kernel_Up table_env (t\<lparr>kd_link := True\<rparr>, n, k) = (Inr u, snd (kernel_Up table_env (t\<lparr>kd_link := True\<rparr>, n, k)))"
  by (cases "kd_udpMux t") (simp_all add: kernel_Up_def table_env_def table_netlink_def link_up_def
      Listen_def GetInstructions_def rawInstructions_def Let_def)


end
