(* ===== verification/Spec2Isabelle.thy ===== *)
theory Spec2Isabelle
  imports Ice_Bind Signal_Server Connect_Client Platform_Tun Kernel_Modules Net_Platform Freebsd_Link Json_Duration Engine_Session
begin

text \<open>
  Punch is a peer-to-peer VPN client in Go with a small signal server.  A client registers with the
  signal server under a token, learns the public addresses and WireGuard keys of the other clients of
  that token, and configures WireGuard to talk to them.  One UDP port serves WireGuard and the STUN
  traffic of ICE at once; a mux sorts the packets.  This development models the program's own Go code,
  and the eBPF programs in C, component by component, and proves what makes each of them correct, or
  where it is not, exactly what it does instead.

  \<^bold>\<open>Conventions.\<close>  A struct is a \<open>record\<close>, an enumeration a \<open>datatype\<close>, a fixed-width integer a
  word, Go's 64-bit \<^verbatim>\<open>int\<close> an \<open>int\<close> with its range written out where the code depends on it.
  Strings and byte slices are lists.  Errors are values of \<open>error\<close>; a panic is the constructor
  \<open>Panic\<close>, so that an index out of range or a nil dereference is a branch like any other, and
  \<open>annotate\<close> wraps errors but not panics.  State is passed explicitly, and pointers shared between
  structures (connections of the mux, requests of the universal mux) are addresses into a store.
  Goroutines that interleave are steps of an inductive relation; \<^verbatim>\<open>select\<close> with two ready channels is
  a parameter.  Go maps are association lists with distinct keys, since some loops run over them.
  Third-party packages and the operating system are records of functions, and what the program relies
  on is a locale (\<open>packet_buffer\<close>, \<open>gorm_table\<close>, \<open>transport_package\<close>, \<open>tun_contract\<close>,
  \<open>forgetting_tun\<close>, \<open>peer_configurer\<close>, ...) or a named predicate (\<open>netlink_ok\<close>, \<open>ifconfig_ok\<close>, \<open>uapi_os_ok\<close>, \<open>fds_ok\<close>, \<open>retry_ok\<close>),
  each with an instance on which it holds.

  \<^bold>\<open>Theories.\<close>
  \<^item> \<open>Punch_Prelude\<close>: errors, bytes, slices and \<^verbatim>\<open>copy\<close>, big-endian integers, Go maps, and the functions
    of \<^verbatim>\<open>strings\<close> and \<^verbatim>\<open>strconv\<close> the program uses, with their shared lemmas.
  \<^item> \<open>Net_Addr\<close>: \<^verbatim>\<open>net.IP\<close>, its textual forms (RFC 5952 zero compression included) and their parsers,
    \<^verbatim>\<open>net.UDPAddr\<close>, \<^verbatim>\<open>SplitHostPort\<close>.
  \<^item> \<open>Wg_Address\<close>: CIDR notation and \<^verbatim>\<open>iface/address.go\<close>; printing and parsing are inverse.
  \<^item> \<open>Muxed_Conn\<close> (\<^verbatim>\<open>iface/bind/udp_muxed_conn.go\<close>): the connection a user of the mux holds, with the
    codec that stores a packet with its sender; whatever is written is read back.
  \<^item> \<open>Udp_Mux\<close> (\<^verbatim>\<open>iface/bind/udp_mux.go\<close>): connections by user fragment and by address, dispatch of STUN
    packets, removal and closing; the invariant of every reachable state and the exact delivery.
  \<^item> \<open>Universal_Mux\<close> (\<^verbatim>\<open>iface/bind/udp_mux_universal.go\<close>): the filtering socket with its cache, discovery
    of mapped addresses with their waiters and expiry, the reading loop.
  \<^item> \<open>Ice_Bind\<close> (\<^verbatim>\<open>iface/bind/bind.go\<close>): the receive function given to WireGuard.
  \<^item> \<open>Shared_Sock\<close> (\<^verbatim>\<open>sharedsock\<close>): the raw sockets that share WireGuard's port, with the BPF program
    and an interpreter for its instructions.
  \<^item> \<open>Ebpf_Manager\<close>, \<open>Wg_Proxy\<close> (\<^verbatim>\<open>client/internal/ebpf\<close>, \<^verbatim>\<open>client/internal/wgproxy\<close>): the XDP programs
    and the manager that refines a set of features; both proxies, the port allocation, the factory.
  \<^item> \<open>Wg_Configurer\<close>, \<open>Wg_Iface\<close>, \<open>Device_Wrapper\<close>, \<open>Tun_Devices\<close>, \<open>Netstack\<close>, \<open>Freebsd_Link\<close>,
    \<open>Kernel_Modules\<close> (\<^verbatim>\<open>iface\<close>): both configurers, the interface object, the packet filter, the kernel,
    user space and network stack devices with the Linux and FreeBSD links, the SOCKS proxy, and the
    probing and loading of kernel modules.
  \<^item> \<open>Uapi\<close> (\<^verbatim>\<open>iface/wg_configurer_usp.go\<close>, \<^verbatim>\<open>iface/uapi.go\<close>): the UAPI listener of the user space
    configurer.
  \<^item> \<open>Platform_Tun\<close> (\<^verbatim>\<open>iface/tun_darwin.go\<close>, \<^verbatim>\<open>tun_windows.go\<close>, \<^verbatim>\<open>tun_android.go\<close>, \<^verbatim>\<open>tun_ios.go\<close> and the
    \<^verbatim>\<open>iface_\<close> files beside them): the devices of the other systems and the interface object on them.  They
    keep the contract of the Linux devices, but closing forgets the device.
  \<^item> \<open>Net_Hooks\<close>, \<open>Net_Platform\<close> (\<^verbatim>\<open>util/net\<close>) and \<open>Std_Net\<close> (\<^verbatim>\<open>client/internal/stdnet\<close>): dialers and
    listeners with hooks, what each system does to their sockets, and the interfaces ICE may use, including the parser for the descriptions of mobile
    platforms with the verbs of \<^verbatim>\<open>fmt.Sscanf\<close> it needs.
  \<^item> \<open>Signal_Store\<close>, \<open>Signal_Server\<close> (\<^verbatim>\<open>signal\<close>) and \<open>Signal_Client\<close> (\<^verbatim>\<open>client/internal/exchange.go\<close>): the
    peer table as an upsert directory, the request handlers and the receive loop with its one shared
    buffer as a step relation, and the client's two exchanges.
  \<^item> \<open>Util_Files\<close>, \<open>Client_Config\<close>, \<open>Peer_Conn\<close>, \<open>Engine\<close> (\<^verbatim>\<open>util\<close>, \<^verbatim>\<open>client/internal\<close>): atomic JSON files
    and retries, the configuration file, a peer connection with its mutex, and the engine with its
    polls, workers and port search.
  \<^item> \<open>Engine_Session\<close>: the engine between start and stop as a relation of polls and worker rounds, composed
    with the interface, the configurers (locale \<open>peer_configurer\<close>) and the kernel device.
  \<^item> \<open>Connect_Client\<close> (\<^verbatim>\<open>client/internal/connect.go\<close>, \<^verbatim>\<open>client/main.go\<close>): the client that retries the engine,
    and the program.
  \<^item> \<open>Json_Duration\<close> (\<^verbatim>\<open>util/duration.go\<close>): durations in JSON, with the printer and the parser of \<^verbatim>\<open>time\<close> and
    the rounding of its floating-point scaling.
  \<^item> This theory: properties that span components.  \<open>shared_socket_overcounts\<close> composes the shared
    socket with the mux that reads from it; \<open>clients_find_each_other\<close> composes two clients with the
    server and its store; \<open>clients_connect\<close> goes on through the poll, the workers and the configurer of
    the second client to the text its WireGuard device receives.

  \<^bold>\<open>What the lemmas show.\<close>  Round trips: packet codec, IP and CIDR texts, configuration files,
  interface descriptions, durations.  Refinement: the eBPF manager to a set, the peer table to a directory.
  Invariants of reachable states: both muxes, the proxies, the server, the SOCKS proxy, the polls of
  the engine, whole sessions of it.  Compositions: a batch from the socket through the mux to the reader
  of a connection, a session of the engine over netlink, a registration that ends in a configured device.
  Equivalence: the BPF program and the packets it should accept.  Termination: the
  unbounded port search of the eBPF proxy.  Liveness and races: the self-deadlock of closing a peer
  connection, the shared receive buffer, closing a proxy before it listens.

  \<^bold>\<open>Bounds and termination.\<close>  \<open>leading_ones\<close> has fuel 8, the width of a byte.  \<open>parseIPv6_loop\<close> counts
  the eight groups of an address.  \<open>generatePort\<close>, the unbounded search of the eBPF proxy, is a
  \<open>partial_function\<close>, and \<open>AddTurnConn_allocates\<close> proves that it returns.  \<open>free_from\<close>, \<open>strip_exts\<close>,
  \<open>decimal\<close>, \<open>hexnum\<close> and \<open>parse_loop\<close> have termination proofs.  Loops that run until the process ends are
  modelled one round at a time, or over the list of results their blocking call returns.

  \<^bold>\<open>Not modelled.\<close>  Logging; the generated eBPF bindings; \<^verbatim>\<open>signal/main.go\<close>, which only calls the server;
  the example program of the shared socket.  Numbers in \<open>Json_Duration\<close> are rationals rounded to 53 bits, without
  the ends of the range of \<^verbatim>\<open>float64\<close>; a JSON number that does not fit 64 bits converts to an argument.
  Text is ASCII where Go looks at runes.  Times are integers that a caller
  supplies.  Data races on single fields (the route map of the engine, \<^verbatim>\<open>closed\<close> of the SOCKS proxy) are
  not given a semantics: every access is a step of its own.
\<close>

section \<open>The shared socket under the mux\<close>

text \<open>
  The kernel device gives the mux the shared socket to read from: a read of \<^verbatim>\<open>ReadFromConn\<close> is a
  \<^verbatim>\<open>ReadFrom\<close> of that socket.
\<close>

definition shared_read :: "gopacket \<Rightarrow> rcvdPacket \<Rightarrow> bytes \<Rightarrow> error + int \<times> bytes \<times> Addr" where
  "shared_read G pkt buf = map_sum id (\<lambda>(n, b, a). (n, b, UDP a)) (packet_ReadFrom G pkt buf)"

lemma packet_ReadFrom_decoded:
  assumes "rcv_err pkt = None"
    and "(rcv_addr pkt, decode) = (SockaddrInet4 ip, DecodeIPv4 G) \<or> (rcv_addr pkt, decode) = (SockaddrInet6 ip, DecodeUDP G)"
    and "decode (rcv_buf pkt) = Inr udp"
  shows "packet_ReadFrom G pkt buf = Inr (int (unat (udp_Length udp)), copy_at 0 (udp_payload udp) buf,
     \<lparr>IP = ip, Port = int (unat (udp_SrcPort udp)), Zone = ''''\<rparr>)"
  using assms by (auto simp: packet_ReadFrom_def)

text \<open>C9. The reading loop of the mux over the shared socket: the count the socket reports is the
  length field of the UDP header, which counts the header's eight bytes.  So a well-formed packet is
  handed to the STUN decoder followed by eight bytes that are still in the buffer from before, and a
  packet whose length field exceeds the 1500-byte buffer, whatever it really carries, panics the
  loop.\<close>

theorem shared_socket_overcounts:
  assumes "rcv_err pkt = None" and "length buf = 1500"
    and "(rcv_addr pkt, decode) = (SockaddrInet4 ip, DecodeIPv4 G) \<or> (rcv_addr pkt, decode) = (SockaddrInet6 ip, DecodeUDP G)"
    and "decode (rcv_buf pkt) = Inr udp"
  defines "n \<equiv> unat (udp_Length udp)" and "payload \<equiv> udp_payload udp"
    and "from \<equiv> UDP \<lparr>IP = ip, Port = int (unat (udp_SrcPort udp)), Zone = ''''\<rparr>"
  shows "(isl (ReadFromConn_iter P S pool (shared_read G pkt buf) u) \<longleftrightarrow> 1500 < n)
       \<and> (n = length payload + 8 \<and> n \<le> 1500 \<longrightarrow>
            ReadFromConn_iter P S pool (shared_read G pkt buf) u =
              (case stun_Decode S (payload @ take 8 (drop (length payload) buf)) of
                 Inl _ \<Rightarrow> Inr u
               | Inr msg \<Rightarrow> Inr (snd (universal_HandleSTUNMessage P S pool u msg from))))"
proof
  have read: "shared_read G pkt buf = Inr (int n, copy_at 0 payload buf, from)"
    using packet_ReadFrom_decoded [OF assms(1,3,4)] by (simp add: shared_read_def n_def payload_def from_def)
  show "isl (ReadFromConn_iter P S pool (shared_read G pkt buf) u) \<longleftrightarrow> 1500 < n"
    by (auto simp: ReadFromConn_iter_ok read_ok_def read assms(2))
  show "n = length payload + 8 \<and> n \<le> 1500 \<longrightarrow> ReadFromConn_iter P S pool (shared_read G pkt buf) u =
      (case stun_Decode S (payload @ take 8 (drop (length payload) buf)) of
         Inl _ \<Rightarrow> Inr u | Inr msg \<Rightarrow> Inr (snd (universal_HandleSTUNMessage P S pool u msg from)))"
  proof
    assume len: "n = length payload + 8 \<and> n \<le> 1500"
    then have "take n (copy_at 0 payload buf) = payload @ take 8 (drop (length payload) buf)"
      using assms(2) by (simp add: copy_at_def)
    moreover have "ReadFromConn_iter P S pool (shared_read G pkt buf) u =
      (case stun_Decode S (take n (copy_at 0 payload buf)) of
         Inl _ \<Rightarrow> Inr u | Inr msg \<Rightarrow> Inr (snd (universal_HandleSTUNMessage P S pool u msg from)))" if "n \<le> 1500"
      using that assms(2) by (simp add: ReadFromConn_iter_def read)
    ultimately show "ReadFromConn_iter P S pool (shared_read G pkt buf) u =
      (case stun_Decode S (payload @ take 8 (drop (length payload) buf)) of
         Inl _ \<Rightarrow> Inr u | Inr msg \<Rightarrow> Inr (snd (universal_HandleSTUNMessage P S pool u msg from)))"
      using len by metis
  qed
qed

definition lying_gopacket :: gopacket where
  "lying_gopacket =
     \<lparr>DecodeIPv4 = (\<lambda>b. Inr \<lparr>udp_SrcPort = 3478, udp_Length = 2000, udp_payload = drop 28 b\<rparr>), DecodeUDP = (\<lambda>_. Inl EOF)\<rparr>"

theorem shared_socket_overcounts_witness:
  "isl (ReadFromConn_iter fifo_io raw_stun (\<lambda>_. [])
     (shared_read lying_gopacket
        \<lparr>rcv_n = 48, rcv_addr = SockaddrInet4 [1, 2, 3, 4], rcv_buf = replicate 48 0, rcv_err = None\<rparr> (replicate 1500 0)) umux0)"
proof -
  let ?pkt = "\<lparr>rcv_n = 48, rcv_addr = SockaddrInet4 [1, 2, 3, 4], rcv_buf = replicate 48 0, rcv_err = None\<rparr>"
  have "rcv_err ?pkt = None" "length (replicate 1500 (0 :: byte)) = 1500"
    "(rcv_addr ?pkt, DecodeIPv4 lying_gopacket) = (SockaddrInet4 [1, 2, 3, 4], DecodeIPv4 lying_gopacket)
       \<or> (rcv_addr ?pkt, DecodeIPv4 lying_gopacket) = (SockaddrInet6 [1, 2, 3, 4], DecodeUDP lying_gopacket)"
    "DecodeIPv4 lying_gopacket (rcv_buf ?pkt) = Inr \<lparr>udp_SrcPort = 3478, udp_Length = 2000, udp_payload = drop 28 (replicate 48 0)\<rparr>"
    by (simp_all add: lying_gopacket_def)
  from shared_socket_overcounts [OF this, of fifo_io raw_stun "\<lambda>_. []" umux0] show ?thesis by simp
qed

section \<open>Two clients and the signal server\<close>

text \<open>
  Both ends of the signal protocol have their own types for the messages; they agree because the
  fields have the same JSON names.  The following say that one message gets through: what the server
  reads from the bytes the client made, and the other way round.
\<close>

definition carries_login ::
  "client_json \<Rightarrow> 'v server_json \<Rightarrow> string \<Rightarrow> LoginReq \<Rightarrow> bytes \<Rightarrow> bool" where
  "carries_login CJ SJ token req data \<longleftrightarrow>
     Marshal_ClientMessage CJ \<lparr>cm_Type = ClientLogin, cm_Token = token, cm_Body = LoginBody req\<rparr> = Inr data
   \<and> (\<exists>v b. Unmarshal_Message SJ data = Inr \<lparr>msg_Type = Login, msg_Token = token, msg_Body = v\<rparr>
        \<and> Marshal_Body SJ v = Inr b
        \<and> Unmarshal_PeerLoginReq SJ b = Inr \<lparr>loginreq_ClientID = lreq_ClientID req,
            loginreq_WgPubKey = lreq_WgPubKey req, loginreq_AllowedIP = lreq_AllowedIP req\<rparr>)"

definition carries_query ::
  "client_json \<Rightarrow> 'v server_json \<Rightarrow> string \<Rightarrow> string \<Rightarrow> bytes \<Rightarrow> bool" where
  "carries_query CJ SJ token client data \<longleftrightarrow>
     Marshal_ClientMessage CJ \<lparr>cm_Type = ClientQuery, cm_Token = token, cm_Body = QueryBody \<lparr>qreq_ClientID = client\<rparr>\<rparr> = Inr data
   \<and> (\<exists>v b. Unmarshal_Message SJ data = Inr \<lparr>msg_Type = Query, msg_Token = token, msg_Body = v\<rparr>
        \<and> Marshal_Body SJ v = Inr b \<and> Unmarshal_PeerQueryReq SJ b = Inr \<lparr>queryreq_ClientID = client\<rparr>)"

definition carries_response :: "client_json \<Rightarrow> 'v server_json \<Rightarrow> RegisterResponse \<Rightarrow> bool" where
  "carries_response CJ SJ r \<longleftrightarrow>
     (\<exists>b. Marshal_RegisterResponse SJ r = Inr b \<and> length b < 1024
        \<and> Unmarshal_PeerLoginRes CJ b = Inr \<lparr>res_IP = resp_IP r, res_Port = resp_Port r\<rparr>)"

definition info_of :: "PeerConfig \<Rightarrow> PeerInfo" where
  "info_of c = \<lparr>info_ClientId = conf_ClientID c, info_IP = conf_IP c, info_Port = conf_Port c,
     info_WgPubKey = conf_WgPubKey c, info_AllowedIP = conf_AllowedIP c, info_LastKeepAliveAt = conf_LastKeepAliveAt c\<rparr>"

definition carries_peers :: "client_json \<Rightarrow> 'v server_json \<Rightarrow> PeerConfig list \<Rightarrow> bool" where
  "carries_peers CJ SJ cs \<longleftrightarrow>
     (\<exists>b. Marshal_PeerConfigs SJ cs = Inr b \<and> length b < 1024 \<and> Unmarshal_PeerInfos CJ b = (map info_of cs, None))"

text \<open>A socket that reaches the server and gets one datagram back.\<close>

definition answered :: "client_socket \<Rightarrow> bytes \<Rightarrow> bool" where
  "answered K b \<longleftrightarrow> (\<forall>x y. sock_dial K x y = None) \<and> sock_write K = None \<and> sock_reads K = [Inr b]"

lemma ClientRegister_answered:
  assumes "GetSignalServer F = Inr (host, port)" and "answered K b" and "length b < 1024"
    and "ParseCIDR localIP = Inr (ip, net)"
    and "carries_login CJ SJ (flag_token F) \<lparr>lreq_ClientID = clientId F, lreq_WgPubKey = wgKey, lreq_AllowedIP = IP_String ip\<rparr> data"
  shows "ClientRegister CJ F K p wgKey localIP = Unmarshal_PeerLoginRes CJ b"
  using assms by (simp add: ClientRegister_def answered_def carries_login_def buffer_size_def Let_def)

lemma GetRemotePeers_answered:
  assumes "GetSignalServer F = Inr (host, port)" and "answered K b" and "length b < 1024"
    and "carries_query CJ SJ token client data" and "Unmarshal_PeerInfos CJ b = (peers, None)"
  shows "GetRemotePeers CJ F K client token = (peers, None)"
  using assms by (simp add: GetRemotePeers_def answered_def carries_query_def buffer_size_def Let_def)

lemma registered_peer_listed:
  assumes "gorm_table D rows" and "server_reachable SJ D s"
    and "GetSignalServer FA = Inr srv" and "GetSignalServer FB = Inr srv'" and "flag_token FB = flag_token FA"
    and "clientId FB \<noteq> clientId FA" and "wgKey \<noteq> ''''" and "Port a \<noteq> 0" and "ParseCIDR localIP = Inr (ip, net)"
    and "carries_login CJ SJ (flag_token FA)
           \<lparr>lreq_ClientID = clientId FA, lreq_WgPubKey = wgKey, lreq_AllowedIP = IP_String ip\<rparr> data"
    and "length data \<le> 1024" and "s1 = run_handler SJ D now (length data, a) (read_datagram data a s)"
    and "carries_response CJ SJ \<lparr>resp_IP = IP_String (IP a), resp_Port = Port a\<rparr>"
    and "answered KA (fst (last (srv_sent s1)))"
    and "carries_query CJ SJ (flag_token FB) (clientId FB) data'"
    and "carries_peers CJ SJ (GetClients D (clientId FB) (flag_token FB) (srv_db s1))"
    and "fst (handleConnection SJ D now' data' b (srv_db s1)) = Some (answer, b)" and "answered KB answer"
  shows "ClientRegister CJ FA KA p wgKey localIP = Inr \<lparr>res_IP = IP_String (IP a), res_Port = Port a\<rparr>
       \<and> (\<exists>peers peer. GetRemotePeers CJ FB KB (clientId FB) (flag_token FB) = (peers, None) \<and> peer \<in> set peers
            \<and> info_ClientId peer = clientId FA \<and> info_IP peer = IP_String (IP a) \<and> info_Port peer = Port a
            \<and> info_WgPubKey peer = wgKey
            \<and> info_AllowedIP peer = (case directory (rows (srv_db s)) (flag_token FA, clientId FA) of
                 None \<Rightarrow> IP_String ip | Some q \<Rightarrow> peer_AllowedIP q))"
proof
  obtain v body where login: "Unmarshal_Message SJ data = Inr \<lparr>msg_Type = Login, msg_Token = flag_token FA, msg_Body = v\<rparr>"
    "Marshal_Body SJ v = Inr body" "Unmarshal_PeerLoginReq SJ body =
       Inr \<lparr>loginreq_ClientID = clientId FA, loginreq_WgPubKey = wgKey, loginreq_AllowedIP = IP_String ip\<rparr>"
    using assms(10) by (auto simp: carries_login_def)
  have c: "clientId FB \<noteq> loginreq_ClientID \<lparr>loginreq_ClientID = clientId FA, loginreq_WgPubKey = wgKey, loginreq_AllowedIP = IP_String ip\<rparr>"
    using assms(6) by simp
  note visible = login_visible [OF assms(1,2) login(1) _ assms(11) _ login(3) assms(8) _ c assms(12), simplified, OF login(2) assms(7)]
  from assms(13) obtain r where r: "Marshal_RegisterResponse SJ \<lparr>resp_IP = IP_String (IP a), resp_Port = Port a\<rparr> = Inr r"
    "length r < 1024" "Unmarshal_PeerLoginRes CJ r = Inr \<lparr>res_IP = IP_String (IP a), res_Port = Port a\<rparr>"
    by (auto simp: carries_response_def)
  have "answered KA r" using assms(14) by (simp add: visible(1) r(1) ignore_error_def)
  with r assms(3,9,10) show "ClientRegister CJ FA KA p wgKey localIP = Inr \<lparr>res_IP = IP_String (IP a), res_Port = Port a\<rparr>"
    by (cases srv) (simp add: ClientRegister_answered)
  let ?cs = "GetClients D (clientId FB) (flag_token FB) (srv_db s1)"
  from assms(16) obtain ps where ps: "Marshal_PeerConfigs SJ ?cs = Inr ps" "length ps < 1024"
    "Unmarshal_PeerInfos CJ ps = (map info_of ?cs, None)" by (auto simp: carries_peers_def)
  have "answer = ps" using assms(15,17) ps(1)
    by (auto simp: carries_query_def handleConnection_def handleQueryRequest_def ignore_error_def)
  with ps assms(4,15,18) have get: "GetRemotePeers CJ FB KB (clientId FB) (flag_token FB) = (map info_of ?cs, None)"
    by (cases srv') (simp add: GetRemotePeers_answered)
  from visible(2) obtain conf where "conf \<in> set ?cs" "conf_ClientID conf = clientId FA" "conf_IP conf = IP_String (IP a)"
    "conf_Port conf = Port a" "conf_WgPubKey conf = wgKey"
    "conf_AllowedIP conf = (case directory (rows (srv_db s)) (flag_token FA, clientId FA) of
       None \<Rightarrow> IP_String ip | Some q \<Rightarrow> peer_AllowedIP q)" by (auto simp: assms(5) cong: option.case_cong)
  moreover from this have "info_of conf \<in> set (map info_of ?cs)" by (simp add: image_eqI)
  ultimately have "info_of conf \<in> set (map info_of ?cs)" "info_ClientId (info_of conf) = clientId FA"
    "info_IP (info_of conf) = IP_String (IP a)" "info_Port (info_of conf) = Port a" "info_WgPubKey (info_of conf) = wgKey"
    "info_AllowedIP (info_of conf) = (case directory (rows (srv_db s)) (flag_token FA, clientId FA) of
       None \<Rightarrow> IP_String ip | Some q \<Rightarrow> peer_AllowedIP q)"
    by (simp_all add: info_of_def)
  with get show "\<exists>peers peer. GetRemotePeers CJ FB KB (clientId FB) (flag_token FB) = (peers, None) \<and> peer \<in> set peers
      \<and> info_ClientId peer = clientId FA \<and> info_IP peer = IP_String (IP a) \<and> info_Port peer = Port a
      \<and> info_WgPubKey peer = wgKey
      \<and> info_AllowedIP peer = (case directory (rows (srv_db s)) (flag_token FA, clientId FA) of
           None \<Rightarrow> IP_String ip | Some q \<Rightarrow> peer_AllowedIP q)" by blast
qed

text \<open>C7. Two clients find each other through the signal server: once the server has handled the
  registration of one client, that client learns its public address as the server saw it, and
  another client of the same token that asks for its peers gets it among them, with that address,
  its port, its WireGuard key, and the VPN address it registered with the first time.\<close>

theorem clients_find_each_other:
  assumes "gorm_table D rows" and "server_reachable SJ D s"
    and "GetSignalServer FA = Inr srv" and "GetSignalServer FB = Inr srv'" and "flag_token FB = flag_token FA"
    and "clientId FB \<noteq> clientId FA" and "wgKey \<noteq> ''''" and "Port a \<noteq> 0" and "ParseCIDR localIP = Inr (ip, net)"
    and "carries_login CJ SJ (flag_token FA)
           \<lparr>lreq_ClientID = clientId FA, lreq_WgPubKey = wgKey, lreq_AllowedIP = IP_String ip\<rparr> data"
    and "length data \<le> 1024" and "s1 = run_handler SJ D now (length data, a) (read_datagram data a s)"
    and "carries_response CJ SJ \<lparr>resp_IP = IP_String (IP a), resp_Port = Port a\<rparr>"
    and "answered KA (fst (last (srv_sent s1)))"
    and "carries_query CJ SJ (flag_token FB) (clientId FB) data'"
    and "carries_peers CJ SJ (GetClients D (clientId FB) (flag_token FB) (srv_db s1))"
    and "fst (handleConnection SJ D now' data' b (srv_db s1)) = Some (answer, b)" and "answered KB answer"
  shows "ClientRegister CJ FA KA p wgKey localIP = Inr \<lparr>res_IP = IP_String (IP a), res_Port = Port a\<rparr>
       \<and> (\<exists>peers peer. GetRemotePeers CJ FB KB (clientId FB) (flag_token FB) = (peers, None) \<and> peer \<in> set peers
            \<and> info_ClientId peer = clientId FA \<and> info_IP peer = IP_String (IP a) \<and> info_Port peer = Port a
            \<and> info_WgPubKey peer = wgKey
            \<and> info_AllowedIP peer = (case directory (rows (srv_db s)) (flag_token FA, clientId FA) of
                 None \<Rightarrow> IP_String ip | Some q \<Rightarrow> peer_AllowedIP q))"
  by (rule registered_peer_listed [OF assms])

text \<open>C8. From a registration to WireGuard: once the server has handled the first registration of one
  client, the next poll of another client of the same token leaves a worker for it, and from then on,
  whatever the polls and workers do, as long as the context lives a round of that worker configures
  the user space device of that client with exactly the registered key, the VPN address the first
  client announced, and the public address the server saw, and punches towards that address.\<close>

theorem clients_connect:
  assumes "gorm_table D rows" and "server_reachable SJ D s"
    and "GetSignalServer FA = Inr srv" and "GetSignalServer FB = Inr srv'" and "flag_token FB = flag_token FA"
    and "clientId FB \<noteq> clientId FA" and "wgKey \<noteq> ''''" and "Port a \<noteq> 0" and "ParseCIDR localIP = Inr (ip, net)"
    and "carries_login CJ SJ (flag_token FA)
           \<lparr>lreq_ClientID = clientId FA, lreq_WgPubKey = wgKey, lreq_AllowedIP = IP_String ip\<rparr> data"
    and "length data \<le> 1024" and "s1 = run_handler SJ D now (length data, a) (read_datagram data a s)"
    and "carries_response CJ SJ \<lparr>resp_IP = IP_String (IP a), resp_Port = Port a\<rparr>"
    and "answered KA (fst (last (srv_sent s1)))"
    and "carries_query CJ SJ (flag_token FB) (clientId FB) data'"
    and "carries_peers CJ SJ (GetClients D (clientId FB) (flag_token FB) (srv_db s1))"
    and "fst (handleConnection SJ D now' data' b (srv_db s1)) = Some (answer, b)" and "answered KB answer"
    and "directory (rows (srv_db s)) (flag_token FA, clientId FA) = None"
    and "To4 (IP a) = Some ip4" and "To4 ip = Some vpn"
    and "Engine.udpMux e = Some u" and "wgInterface e = Some w" and "configurer w \<noteq> None"
    and "cfg_ops V = usp_configurer ParseKey Dev" and "ParseKey wgKey = Inr pubKey"
    and "resolve_udp V (dotted ip4 @ '':'' @ Itoa (Port a)) = Inr addr"
  shows "\<exists>e1 i. poll V (GetRemotePeers CJ FB KB (clientId FB) (flag_token FB)) e = Inr e1 \<and> (i, wgKey) \<in> set (workers e1)
     \<and> (\<forall>e2 ev. (session_step V)\<^sup>*\<^sup>* e1 e2 \<and> \<not> ctx_done e2 \<longrightarrow>
          (\<exists>w2 c res c' r e3. wgInterface e2 = Some w2 \<and> tun w2 = tun w \<and> configurer w2 = Some c
             \<and> IpcSet Dev (peer_text pubKey vpn addr) c = (res, c')
             \<and> run_worker V ev (i, wgKey) e2 = (r, e3)
             \<and> wgInterface e3 = Some (w2\<lparr>configurer := Some c'\<rparr>)
             \<and> punches (conns e3 ! i) = punches (conns e2 ! i) @ [(IP_String (IP a), Port a)]
             \<and> (res = None \<longrightarrow> r = (if ev = CloseReceived then Return else Continue))))"
proof -
  obtain peers p where get: "GetRemotePeers CJ FB KB (clientId FB) (flag_token FB) = (peers, None)" and p: "p \<in> set peers"
    "info_IP p = IP_String (IP a)" "info_Port p = Port a" "info_WgPubKey p = wgKey" "info_AllowedIP p = IP_String ip"
    using registered_peer_listed [OF assms(1-18), THEN conjunct2] assms(19) by auto
  have "ParseKey (info_WgPubKey p) = Inr pubKey" "resolve_udp V (dotted ip4 @ '':'' @ Itoa (info_Port p)) = Inr addr"
    using assms(26,27) p by simp_all
  from uspc.poll_then_configures [OF assms(22-24) p(1,2) assms(20) p(5) assms(21,25) this]
  show ?thesis unfolding get p(2-4) peer_conf_text [OF IP_String_To4(1) [OF assms(21)]] .
qed

text \<open>Client \<^verbatim>\<open>A\<close> registers, client \<^verbatim>\<open>B\<close> asks.\<close>

definition demo_registered :: "(int \<times> Peer list) server_state" where
  "demo_registered = run_handler demo_json list_db 5 (length [1 :: byte, 65], addr_a) (read_datagram [1, 65] addr_a Signal_Server.demo_server)"

definition demo_peers :: "PeerConfig list" where
  "demo_peers = GetClients list_db ''B'' ''t'' (srv_db demo_registered)"

definition demo_wire :: client_json where
  "demo_wire =
     \<lparr>Marshal_ClientMessage = (\<lambda>m. Inr (if cm_Type m = ClientLogin then [1, 65] else [3, 66])),
      Unmarshal_PeerLoginRes = (\<lambda>b. Inr \<lparr>res_IP = of_bytes b, res_Port = 51820\<rparr>),
      Unmarshal_PeerInfos = (\<lambda>_. (map info_of demo_peers, None))\<rparr>"

lemma addr_a_String: "IP_String [1, 2, 3, 4] = ''1.2.3.4''"
  by (simp add: IP_String_def To4_def dotted_def digit_char_def decimal.simps char_of_eq_iff)

lemma demo_peers_short: "length (concat (map conf_ClientID demo_peers)) < 1024"
proof -
  have "of_bytes [65] = ''A''" by (simp add: of_bytes_def char_of_byte_def char_of_eq_iff)
  then show ?thesis
    by (simp add: demo_peers_def demo_registered_def run_handler_def read_datagram_def demo_server_def server_start_def
        handleConnection_def handleLoginRequest_def demo_json_def list_db_def store_init_def Register_def GetClients_def
        copy_at_def addr_a_def peer_config_def Let_def)
qed

definition wg_a :: WGAddress where
  "wg_a = \<lparr>wga_IP = v4InV6Prefix @ [172, 16, 0, 1], wga_Network = \<lparr>net_IP = [172, 0, 0, 0], net_Mask = CIDRMask 8 4\<rparr>\<rparr>"

definition flags_b :: client_flags where
  "flags_b = demo_flags\<lparr>clientId := ''B''\<rparr>"

definition peers_answer :: bytes where
  "peers_answer = to_bytes (concat (map conf_ClientID demo_peers))"

lemma demo_bytes: "of_bytes [65] = ''A''" "of_bytes [66] = ''B''"
  by (simp_all add: of_bytes_def char_of_byte_def char_of_eq_iff)

lemma demo_flag_values:
  "clientId demo_flags = ''A''" "flag_token demo_flags = ''t''" "clientId flags_b = ''B''" "flag_token flags_b = ''t''"
  by (simp_all add: demo_flags_def flags_b_def)

lemma demo_servers: "\<exists>srv. GetSignalServer demo_flags = Inr srv \<and> GetSignalServer flags_b = Inr srv"
  using Signal_Client.demo_server by (auto simp: flags_b_def GetSignalServer_def)

lemma wg_a_cidr: "ParseCIDR (WGAddress_String wg_a) = Inr (wga_IP wg_a, wga_Network wg_a)"
proof (rule ParseCIDR_WGAddress_String)
  have "CIDRMask 8 4 = [255, 0, 0, 0]" by code_simp
  then show "cidr_address wg_a" unfolding cidr_address_def wg_a_def
    by (intro disjI1 exI [of _ "[172, 16, 0, 1]"] exI [of _ 8]) (simp add: IP_Mask_def v4InV6Prefix_def)
  show "\<not> mapped_v6 wg_a" by (simp add: mapped_v6_def wg_a_def)
qed

lemma demo_exchange:
  "carries_login demo_wire demo_json (flag_token demo_flags)
     \<lparr>lreq_ClientID = clientId demo_flags, lreq_WgPubKey = ''kA'', lreq_AllowedIP = IP_String (wga_IP wg_a)\<rparr> [1, 65]"
  "carries_response demo_wire demo_json \<lparr>resp_IP = IP_String (IP addr_a), resp_Port = Port addr_a\<rparr>"
  "answered (demo_socket b) b"
  "carries_query demo_wire demo_json (flag_token flags_b) (clientId flags_b) [3, 66]"
  "carries_peers demo_wire demo_json (GetClients list_db (clientId flags_b) (flag_token flags_b) (srv_db demo_registered))"
  "fst (handleConnection demo_json list_db 9 [3, 66] addr_b (srv_db demo_registered)) = Some (peers_answer, addr_b)"
proof -
  have ip: "IP_String (wga_IP wg_a) = ''172.16.0.1''"
    by (simp add: wg_a_def v4InV6Prefix_def IP_String_def To4_def dotted_def digit_char_def decimal.simps char_of_eq_iff)
  show "carries_login demo_wire demo_json (flag_token demo_flags)
     \<lparr>lreq_ClientID = clientId demo_flags, lreq_WgPubKey = ''kA'', lreq_AllowedIP = IP_String (wga_IP wg_a)\<rparr> [1, 65]"
    unfolding ip by (simp add: carries_login_def demo_wire_def demo_json_def demo_flag_values demo_bytes)
  show "carries_response demo_wire demo_json \<lparr>resp_IP = IP_String (IP addr_a), resp_Port = Port addr_a\<rparr>"
    using addr_a_String by (simp add: carries_response_def demo_wire_def demo_json_def addr_a_def)
  show "answered (demo_socket b) b" by (simp add: answered_def demo_socket_def)
  show "carries_query demo_wire demo_json (flag_token flags_b) (clientId flags_b) [3, 66]"
    by (simp add: carries_query_def demo_wire_def demo_json_def demo_flag_values demo_bytes)
  show "carries_peers demo_wire demo_json (GetClients list_db (clientId flags_b) (flag_token flags_b) (srv_db demo_registered))"
    using demo_peers_short
    by (simp add: carries_peers_def demo_wire_def demo_json_def demo_flag_values flip: demo_peers_def)
  show "fst (handleConnection demo_json list_db 9 [3, 66] addr_b (srv_db demo_registered)) = Some (peers_answer, addr_b)"
    by (simp add: handleConnection_def handleQueryRequest_def demo_json_def ignore_error_def demo_bytes demo_peers_def peers_answer_def)
qed

lemma demo_distinct:
  "flag_token flags_b = flag_token demo_flags" "clientId flags_b \<noteq> clientId demo_flags" "''kA'' \<noteq> ''''" "Port addr_a \<noteq> 0"
  "length [1 :: byte, 65] \<le> 1024"
  by (simp_all add: demo_flag_values addr_a_def)

theorem clients_find_each_other_witness:
  "\<exists>peers peer. GetRemotePeers demo_wire flags_b (demo_socket peers_answer) ''B'' ''t'' = (peers, None) \<and> peer \<in> set peers
     \<and> info_ClientId peer = ''A'' \<and> info_IP peer = IP_String [1, 2, 3, 4]
     \<and> info_Port peer = 51820 \<and> info_WgPubKey peer = ''kA''"
proof -
  obtain srv where srv: "GetSignalServer demo_flags = Inr srv" "GetSignalServer flags_b = Inr srv" using demo_servers by blast
  from clients_find_each_other [OF list_table.gorm_table_axioms demo_reachable srv demo_distinct(1-4) wg_a_cidr demo_exchange(1)
      demo_distinct(5) demo_registered_def demo_exchange(2,3,4,5,6) demo_exchange(3), THEN conjunct2]
  show ?thesis by (simp add: demo_flag_values addr_a_def) blast
qed

text \<open>Client \<^verbatim>\<open>B\<close> goes on to configure its device for \<^verbatim>\<open>A\<close>.\<close>

theorem clients_connect_witness:
  "\<forall>V :: (unit, string list, unit, unit) engine_env. \<exists>V' e1 i e3 w3.
     V' = V\<lparr>cfg_ops := usp_configurer (\<lambda>_. Inr [7]) log_device, resolve_udp := (\<lambda>_. Inr addr_a)\<rparr>
   \<and> poll V' (GetRemotePeers demo_wire flags_b (demo_socket peers_answer) ''B'' ''t'') (running_engine ()) = Inr e1
   \<and> run_worker V' CloseReceived (i, ''kA'') e1 = (Return, e3) \<and> wgInterface e3 = Some w3
   \<and> last (the (configurer w3)) = peer_text [7] [172, 16, 0, 1] addr_a"
proof
  fix V :: "(unit, string list, unit, unit) engine_env"
  let ?V = "V\<lparr>cfg_ops := usp_configurer (\<lambda>_. Inr [7]) log_device, resolve_udp := (\<lambda>_. Inr addr_a)\<rparr>"
  let ?w = "new_iface () True\<lparr>configurer := Some []\<rparr> :: (unit, string list) WGIface"
  let ?get = "GetRemotePeers demo_wire flags_b (demo_socket peers_answer) ''B'' ''t''"
  obtain srv where srv: "GetSignalServer demo_flags = Inr srv" "GetSignalServer flags_b = Inr srv" using demo_servers by blast
  have first: "directory (snd (srv_db Signal_Server.demo_server)) (flag_token demo_flags, clientId demo_flags) = None"
    by (simp add: Signal_Server.demo_server_def server_start_def list_db_def store_init_def directory_def)
  have addrs: "To4 (IP addr_a) = Some [1, 2, 3, 4]" "To4 (wga_IP wg_a) = Some [172, 16, 0, 1]"
    by (simp_all add: addr_a_def wg_a_def To4_def v4InV6Prefix_def)
  have dev: "configurer ?w \<noteq> None" "cfg_ops ?V = usp_configurer (\<lambda>_. Inr [7]) log_device" "(\<lambda>_. Inr [7]) ''kA'' = Inr [7]"
    "resolve_udp ?V (dotted [1, 2, 3, 4] @ '':'' @ Itoa (Port addr_a)) = Inr addr_a" by simp_all
  obtain e1 i where e1: "poll ?V ?get (running_engine ()) = Inr e1"
    and worker: "\<And>e2 ev. (session_step ?V)\<^sup>*\<^sup>* e1 e2 \<and> \<not> ctx_done e2 \<Longrightarrow>
      \<exists>w2 c res c' r e3. wgInterface e2 = Some w2 \<and> tun w2 = tun ?w \<and> configurer w2 = Some c
       \<and> IpcSet log_device (peer_text [7] [172, 16, 0, 1] addr_a) c = (res, c')
       \<and> run_worker ?V ev (i, ''kA'') e2 = (r, e3) \<and> wgInterface e3 = Some (w2\<lparr>configurer := Some c'\<rparr>)
       \<and> punches (conns e3 ! i) = punches (conns e2 ! i) @ [(IP_String (IP addr_a), Port addr_a)]
       \<and> (res = None \<longrightarrow> r = (if ev = CloseReceived then Return else Continue))"
    using clients_connect [OF list_table.gorm_table_axioms demo_reachable srv demo_distinct(1-4) wg_a_cidr demo_exchange(1)
      demo_distinct(5) demo_registered_def demo_exchange(2,3,4,5,6) demo_exchange(3) first addrs running_engine_fields(1)
      running_engine_fields(2) [of "()"] dev] unfolding demo_flag_values by blast
  have live: "\<not> ctx_done e1" using polled_ctx [OF e1] by (simp add: running_engine_fields)
  from worker [of e1 CloseReceived] live obtain w2 c e3 where
    "run_worker ?V CloseReceived (i, ''kA'') e1 = (Return, e3)"
    "wgInterface e3 = Some (w2\<lparr>configurer := Some (c @ [peer_text [7] [172, 16, 0, 1] addr_a])\<rparr>)"
    by (auto simp: log_device_def)
  with e1 show "\<exists>V' e1 i e3 w3. V' = ?V \<and> poll V' ?get (running_engine ()) = Inr e1
     \<and> run_worker V' CloseReceived (i, ''kA'') e1 = (Return, e3) \<and> wgInterface e3 = Some w3
     \<and> last (the (configurer w3)) = peer_text [7] [172, 16, 0, 1] addr_a"
    by (intro exI [of _ ?V] exI conjI) (rule refl, assumption+, simp)
qed

end
